(* ===== verification/Prelude.thy ===== *)
theory Prelude
  imports Main "HOL-Library.Signed_Division" "HOL-Library.Monad_Syntax"
begin

text \<open>
  Shared vocabulary of the development: JavaScript values that may be \<open>undefined\<close>
  (\<open>'a option\<close>, sequenced with the option monad), decimal strings as the code passes
  them between ethers and bignumber.js, truncating integer division, and the generic
  list facts the component theories use.
\<close>

named_theorems model_defs "definitions that component proofs unfold"

subsection \<open>Values that may be undefined\<close>

lemma bind_present [simp]: "v \<noteq> None \<Longrightarrow> Option.bind v f = f (the v)"
  by (cases v) auto

lemma the_Some_present: "v \<noteq> None \<Longrightarrow> Some (the v) = v"
  by simp

text \<open>Results that may be errors: \<open>Inl\<close> the message of an exception.\<close>

definition andThen :: "string + 'a \<Rightarrow> ('a \<Rightarrow> string + 'b) \<Rightarrow> string + 'b" where
  "andThen m f = (case m of Inl e \<Rightarrow> Inl e | Inr x \<Rightarrow> f x)"

lemma andThen_Inr [simp]: "andThen m f = Inr y \<longleftrightarrow> (\<exists>x. m = Inr x \<and> f x = Inr y)"
  by (cases m) (auto simp: andThen_def)

lemma andThen_run [simp]: "andThen (Inr x) f = f x" "andThen (Inl e) f = Inl e"
  by (simp_all add: andThen_def)

text \<open>A loop that stops at the first exception.\<close>

fun mapR :: "('a \<Rightarrow> string + 'b) \<Rightarrow> 'a list \<Rightarrow> string + 'b list" where
  "mapR f [] = Inr []"
| "mapR f (x # xs) = andThen (f x) (\<lambda>y. andThen (mapR f xs) (\<lambda>ys. Inr (y # ys)))"

lemma mapR_Inr: "mapR f xs = Inr ys \<longleftrightarrow> map f xs = map Inr ys"
  by (induction xs arbitrary: ys) (auto simp: Cons_eq_map_conv)

text \<open>Association lists stand for plain JavaScript objects with their key order:
  \<open>Object.entries(o)\<close> is the list itself, \<open>o[k]\<close> is \<open>map_of o k\<close>.\<close>

type_synonym 'v obj = "(string \<times> 'v) list"

definition obj_keys :: "'v obj \<Rightarrow> string list" where
  "obj_keys obj = map fst obj"

definition obj_values :: "'v obj \<Rightarrow> 'v list" where
  "obj_values obj = map snd obj"

text \<open>Assignment \<open>o[k] = v\<close> keeps the position of an existing key and appends a new one.\<close>

fun obj_set :: "'v obj \<Rightarrow> string \<Rightarrow> 'v \<Rightarrow> 'v obj" where
  "obj_set [] k v = [(k, v)]"
| "obj_set ((k', v') # rest) k v =
     (if k' = k then (k, v) # rest else (k', v') # obj_set rest k v)"

lemma map_of_obj_set: "map_of (obj_set obj k v) = (map_of obj)(k \<mapsto> v)"
  by (induction obj k v rule: obj_set.induct) auto

lemma obj_keys_obj_set:
  "obj_keys (obj_set obj k v) = (if k \<in> set (obj_keys obj) then obj_keys obj else obj_keys obj @ [k])"
  by (induction obj k v rule: obj_set.induct) (auto simp: obj_keys_def)

lemma distinct_obj_set: "distinct (obj_keys obj) \<Longrightarrow> distinct (obj_keys (obj_set obj k v))"
  by (simp add: obj_keys_obj_set)

text \<open>
  \<open>Object.keys(o).findIndex((v) => v === k)\<close> followed by \<open>Object.entries(o)[index]\<close>,
  the lookup idiom of the code base: index -1 reads \<open>undefined\<close>, and destructuring
  \<open>undefined\<close> throws, so a missing key is \<open>None\<close>.
\<close>

fun find_entry :: "'v obj \<Rightarrow> string \<Rightarrow> (string \<times> 'v) option" where
  "find_entry [] k = None"
| "find_entry ((k', v) # rest) k = (if k' = k then Some (k', v) else find_entry rest k)"

lemma find_entry_map_of: "find_entry obj k = map_option (Pair k) (map_of obj k)"
  by (induction obj k rule: find_entry.induct) auto

subsection \<open>Decimal strings\<close>

definition digit_char :: "int \<Rightarrow> char" where
  "digit_char d = (char_of (nat (48 + d)) :: char)"

function digits_of :: "int \<Rightarrow> string" where
  "digits_of n = (if n < 10 then [digit_char n] else digits_of (n div 10) @ [digit_char (n mod 10)])"
  by pat_completeness auto
termination
  by (relation "measure nat") auto

declare digits_of.simps [simp del]

definition decimal :: "int \<Rightarrow> string" where
  "decimal n = (if n < 0 then CHR ''-'' # digits_of (- n) else digits_of n)"

text \<open>Reading digits back, in base ten or sixteen (the \<open>'0x'\<close> form \<open>repay\<close> builds).\<close>

definition digit_value :: "int \<Rightarrow> char \<Rightarrow> int option" where
  "digit_value base c =
     (let code = int (of_char c);
          d = (if 48 \<le> code \<and> code \<le> 57 then code - 48
               else if 97 \<le> code \<and> code \<le> 102 then code - 87
               else if 65 \<le> code \<and> code \<le> 70 then code - 55 else base)
      in if d < base then Some d else None)"

fun read_digits :: "int \<Rightarrow> int \<Rightarrow> string \<Rightarrow> int option" where
  "read_digits base acc [] = Some acc"
| "read_digits base acc (c # cs) =
     (case digit_value base c of None \<Rightarrow> None | Some d \<Rightarrow> read_digits base (acc * base + d) cs)"

definition read_unsigned :: "string \<Rightarrow> int option" where
  "read_unsigned s =
     (if s = [] then None
      else if take 2 s = ''0x'' \<and> drop 2 s \<noteq> [] then read_digits 16 0 (drop 2 s)
      else read_digits 10 0 s)"

definition read_int :: "string \<Rightarrow> int option" where
  "read_int s =
     (case s of [] \<Rightarrow> None
      | c # cs \<Rightarrow> if c = CHR ''-'' then map_option uminus (read_unsigned cs) else read_unsigned s)"

lemma of_digit_char: "0 \<le> d \<Longrightarrow> d < 10 \<Longrightarrow> int (of_char (digit_char d)) = 48 + d"
  by (simp add: digit_char_def)

lemma digit_value_digit_char:
  "0 \<le> d \<Longrightarrow> d < 10 \<Longrightarrow> digit_value 10 (digit_char d) = Some d"
  by (simp add: digit_value_def Let_def of_digit_char)

lemma digit_char_not_sign: "0 \<le> d \<Longrightarrow> d < 10 \<Longrightarrow> digit_char d \<noteq> CHR ''-''"
proof
  assume "0 \<le> d" "d < 10" "digit_char d = CHR ''-''"
  then show False using of_digit_char [of d] by simp
qed

lemma digit_char_not_x: "0 \<le> d \<Longrightarrow> d < 10 \<Longrightarrow> digit_char d \<noteq> CHR ''x''"
proof
  assume "0 \<le> d" "d < 10" "digit_char d = CHR ''x''"
  then show False using of_digit_char [of d] by simp
qed

lemma read_digits_append:
  "read_digits base acc (xs @ ys) = Option.bind (read_digits base acc xs) (\<lambda>a. read_digits base a ys)"
  by (induction xs arbitrary: acc) (auto split: option.splits)

lemma read_digits_digits_of:
  "0 \<le> n \<Longrightarrow> \<exists>k. \<forall>acc. read_digits 10 acc (digits_of n) = Some (acc * 10 ^ k + n)"
proof (induction n rule: digits_of.induct)
  case (1 n)
  show ?case
  proof (cases "n < 10")
    case True
    with "1.prems" show ?thesis
      by (intro exI [of _ 1]) (subst digits_of.simps, simp add: digit_value_digit_char)
  next
    case False
    with "1.prems" "1.IH" obtain k
      where k: "\<forall>acc. read_digits 10 acc (digits_of (n div 10)) = Some (acc * 10 ^ k + n div 10)"
      by (metis linorder_not_less pos_imp_zdiv_nonneg_iff zero_less_numeral)
    have "read_digits 10 acc (digits_of n) = Some (acc * 10 ^ Suc k + n)" for acc
      using False "1.prems" k by (subst digits_of.simps)
        (simp add: read_digits_append digit_value_digit_char algebra_simps)
    then show ?thesis by blast
  qed
qed

lemma digits_of_chars:
  "0 \<le> n \<Longrightarrow> c \<in> set (digits_of n) \<Longrightarrow> \<exists>d. 0 \<le> d \<and> d < 10 \<and> c = digit_char d"
proof (induction n rule: digits_of.induct)
  case (1 n)
  show ?case
  proof (cases "n < 10")
    case True
    with "1.prems" show ?thesis by (subst (asm) digits_of.simps) auto
  next
    case False
    with "1.prems" have "c \<in> set (digits_of (n div 10)) \<or> c = digit_char (n mod 10)"
      by (subst (asm) digits_of.simps) auto
    then show ?thesis
    proof
      assume "c \<in> set (digits_of (n div 10))"
      with False "1.prems" "1.IH" show ?thesis by (simp add: pos_imp_zdiv_nonneg_iff)
    next
      assume "c = digit_char (n mod 10)"
      then show ?thesis by (intro exI [of _ "n mod 10"]) simp
    qed
  qed
qed

lemma digits_of_nonempty: "digits_of n \<noteq> []"
  by (subst digits_of.simps) simp

lemma read_unsigned_digits_of: "0 \<le> n \<Longrightarrow> read_unsigned (digits_of n) = Some n"
proof -
  assume n: "0 \<le> n"
  have "CHR ''x'' \<notin> set (digits_of n)"
  proof
    assume "CHR ''x'' \<in> set (digits_of n)"
    from digits_of_chars [OF n this] obtain d where "0 \<le> d" "d < 10" "CHR ''x'' = digit_char d"
      by (elim exE conjE)
    with digit_char_not_x show False by metis
  qed
  moreover have "CHR ''x'' \<in> set (take 2 (digits_of n))" if "take 2 (digits_of n) = ''0x''"
    using that by simp
  ultimately have "take 2 (digits_of n) \<noteq> ''0x''"
    by (blast dest: in_set_takeD)
  moreover obtain k where "\<forall>acc. read_digits 10 acc (digits_of n) = Some (acc * 10 ^ k + n)"
    using read_digits_digits_of [OF n] by blast
  ultimately show ?thesis by (simp add: read_unsigned_def digits_of_nonempty)
qed

text \<open>The decimal form of an integer reads back as that integer.\<close>

lemma read_int_decimal: "read_int (decimal n) = Some n"
proof (cases "n < 0")
  case True
  then show ?thesis by (simp add: decimal_def read_int_def read_unsigned_digits_of)
next
  case False
  then obtain c cs where cs: "digits_of n = c # cs" using digits_of_nonempty by (cases "digits_of n") auto
  with digits_of_chars [of n c] False digit_char_not_sign have "c \<noteq> CHR ''-''" by auto
  then have "read_int (digits_of n) = read_unsigned (digits_of n)"
    by (simp add: read_int_def cs)
  with False show ?thesis by (simp add: decimal_def read_unsigned_digits_of)
qed

lemma decimal_inject: "decimal m = decimal n \<longleftrightarrow> m = n"
  by (metis option.inject read_int_decimal)

text \<open>Printing a numeral, for evaluation by the simplifier.\<close>

lemma digit_char_eval:
  "digit_char 0 = CHR ''0''" "digit_char 1 = CHR ''1''" "digit_char 2 = CHR ''2''"
  "digit_char 3 = CHR ''3''" "digit_char 4 = CHR ''4''" "digit_char 5 = CHR ''5''"
  "digit_char 6 = CHR ''6''" "digit_char 7 = CHR ''7''" "digit_char 8 = CHR ''8''"
  "digit_char 9 = CHR ''9''"
  by code_simp+

lemma digits_of_leaf: "n < 10 \<Longrightarrow> digits_of n = [digit_char n]"
  by (simp add: digits_of.simps)

lemma digits_of_step: "\<not> n < 10 \<Longrightarrow> digits_of n = digits_of (n div 10) @ [digit_char (n mod 10)]"
  by (subst digits_of.simps) simp

lemmas decimal_eval = decimal_def digits_of_leaf digits_of_step digit_char_eval

text \<open>Long literals are recognised digit by digit, by Horner's rule instead of division.\<close>

definition horner :: "int \<Rightarrow> int list \<Rightarrow> int" where
  "horner = foldl (\<lambda>a d. 10 * a + d)"

lemma digits_of_horner:
  "0 < a \<Longrightarrow> (\<forall>d \<in> set ds. 0 \<le> d \<and> d < 10) \<Longrightarrow>
   digits_of (horner a ds) = digits_of a @ map digit_char ds"
proof (induction ds arbitrary: a)
  case Nil
  then show ?case by (simp add: horner_def)
next
  case (Cons d ds)
  have "digits_of (10 * a + d) = digits_of a @ [digit_char d]"
    using Cons.prems by (simp add: digits_of_step)
  with Cons.IH [of "10 * a + d"] Cons.prems show ?case by (simp add: horner_def)
qed

text \<open>Hexadecimal, as \<open>toString(16)\<close> prints it.\<close>

definition hex_char :: "int \<Rightarrow> char" where
  "hex_char d = (if d < 10 then digit_char d else (char_of (nat (87 + d)) :: char))"

function hex_string :: "int \<Rightarrow> string" where
  "hex_string n = (if n < 16 then [hex_char n] else hex_string (n div 16) @ [hex_char (n mod 16)])"
  by pat_completeness auto
termination
  by (relation "measure nat") auto

declare hex_string.simps [simp del]

lemma digit_value_hex_char:
  assumes "0 \<le> d" "d < 16" shows "digit_value 16 (hex_char d) = Some d"
proof (cases "d < 10")
  case True
  with assms show ?thesis by (simp add: hex_char_def digit_value_def Let_def of_digit_char)
next
  case False
  with assms have "int (of_char (hex_char d)) = 87 + d" by (simp add: hex_char_def)
  with False assms show ?thesis by (simp add: digit_value_def Let_def)
qed

lemma read_digits_hex_string:
  "0 \<le> n \<Longrightarrow> \<exists>k. \<forall>acc. read_digits 16 acc (hex_string n) = Some (acc * 16 ^ k + n)"
proof (induction n rule: hex_string.induct)
  case (1 n)
  show ?case
  proof (cases "n < 16")
    case True
    with "1.prems" show ?thesis
      by (intro exI [of _ 1]) (subst hex_string.simps, simp add: digit_value_hex_char)
  next
    case False
    with "1.prems" "1.IH" obtain k
      where k: "\<forall>acc. read_digits 16 acc (hex_string (n div 16)) = Some (acc * 16 ^ k + n div 16)"
      by (metis linorder_not_less pos_imp_zdiv_nonneg_iff zero_less_numeral)
    have "read_digits 16 acc (hex_string n) = Some (acc * 16 ^ Suc k + n)" for acc
      using False "1.prems" k by (subst hex_string.simps)
        (simp add: read_digits_append digit_value_hex_char algebra_simps)
    then show ?thesis by blast
  qed
qed

lemma hex_string_nonempty: "hex_string n \<noteq> []"
  by (subst hex_string.simps) simp

lemma read_int_hex_string: "0 \<le> n \<Longrightarrow> read_int (''0x'' @ hex_string n) = Some n"
  using read_digits_hex_string [of n]
  by (auto simp: read_int_def read_unsigned_def hex_string_nonempty numeral_2_eq_2)

subsection \<open>Truncating division\<close>

lemma sdiv_nonneg: "0 \<le> a \<Longrightarrow> 0 \<le> b \<Longrightarrow> (a::int) sdiv b = a div b"
  by (simp add: signed_divide_int_def sgn_if)

lemma sdiv_ge_0: "0 \<le> a \<Longrightarrow> 0 \<le> b \<Longrightarrow> 0 \<le> (a::int) sdiv b"
  by (simp add: sdiv_nonneg pos_imp_zdiv_nonneg_iff div_int_pos_iff)

end
