(* ===== verification/Types.thy ===== *)
theory Types
  imports Prelude
begin

text \<open>
  The types of \<open>helpers/types.ts\<close>: string enums, the interfaces of the market configuration as
  records, and the association lists that stand for its per-network and per-symbol objects.
  TypeScript string enums compile to objects from member names to strings; the enums the code
  branches on are datatypes with their string value, the error table is the object itself.
\<close>

type_synonym tEthereumAddress = string

subsection \<open>Networks, pools, interest rate modes\<close>

datatype eEthereumNetwork = Buidlerevm | Coverage | Hardhat | Tenderly

fun eEthereumNetwork_value :: "eEthereumNetwork \<Rightarrow> string" where
  "eEthereumNetwork_value Buidlerevm = ''buidlerevm''"
| "eEthereumNetwork_value Coverage = ''coverage''"
| "eEthereumNetwork_value Hardhat = ''hardhat''"
| "eEthereumNetwork_value Tenderly = ''tenderly''"

datatype eOasysNetwork = Oasys | Testnet

fun eOasysNetwork_value :: "eOasysNetwork \<Rightarrow> string" where
  "eOasysNetwork_value Oasys = ''oasys''"
| "eOasysNetwork_value Testnet = ''testnet''"

datatype PalmyPools = Proto

fun PalmyPools_value :: "PalmyPools \<Rightarrow> string" where
  "PalmyPools_value Proto = ''proto''"

datatype RateMode = RateNone | RateStable | RateVariable

fun RateMode_value :: "RateMode \<Rightarrow> string" where
  "RateMode_value RateNone = ''0''"
| "RateMode_value RateStable = ''1''"
| "RateMode_value RateVariable = ''2''"

lemma RateMode_value_inject: "RateMode_value m = RateMode_value n \<longleftrightarrow> m = n"
  by (cases m; cases n) simp_all

subsection \<open>Contract identifiers\<close>

text \<open>Every member of \<open>eContractid\<close> has its own name as its value.\<close>

definition eContractid :: "string list" where
  "eContractid =
   [''Example'', ''LendingPoolAddressesProvider'', ''MintableERC20'',
    ''MintableDelegationERC20'', ''LendingPoolAddressesProviderRegistry'',
    ''LendingPoolParametersProvider'', ''LendingPoolConfigurator'', ''ValidationLogic'',
    ''ReserveLogic'', ''GenericLogic'', ''LendingPool'', ''PriceOracle'', ''Proxy'',
    ''MockAggregator'', ''LendingRateOracle'', ''PalmyOracle'', ''PalmyFallbackOracle'',
    ''DefaultReserveInterestRateStrategy'', ''LendingPoolCollateralManager'',
    ''InitializableAdminUpgradeabilityProxy'', ''MockFlashLoanReceiver'',
    ''WalletBalanceProvider'', ''LToken'', ''MockLToken'', ''DelegationAwareLToken'',
    ''MockStableDebtToken'', ''MockVariableDebtToken'', ''PalmyProtocolDataProvider'',
    ''IERC20Detailed'', ''StableDebtToken'', ''VariableDebtToken'', ''FeeProvider'',
    ''StableAndVariableTokensHelper'', ''LTokensAndRatesHelper'', ''UiPoolDataProviderV2'',
    ''WETHGateway'', ''WETH'', ''WOASMocked'', ''SelfdestructTransferMock'',
    ''LendingPoolImpl'', ''LendingPoolTmpImpl'', ''LendingPoolV4Impl'',
    ''LendingPoolConfiguratorImpl'', ''LendingPoolCollateralManagerImpl'',
    ''PriceAggregatorAdapterChainsightImpl'', ''UiIncentiveDataProviderV2'', ''StakeUIHelper'',
    ''ChainsightOracle'']"

type_synonym contract_id = string

subsection \<open>Protocol error codes\<close>

definition ProtocolErrors :: "string obj" where
  "ProtocolErrors =
   [(''CALLER_NOT_POOL_ADMIN'', ''33''),
    (''VL_INVALID_AMOUNT'', ''1''),
    (''VL_NO_ACTIVE_RESERVE'', ''2''),
    (''VL_RESERVE_FROZEN'', ''3''),
    (''VL_CURRENT_AVAILABLE_LIQUIDITY_NOT_ENOUGH'', ''4''),
    (''VL_NOT_ENOUGH_AVAILABLE_USER_BALANCE'', ''5''),
    (''VL_TRANSFER_NOT_ALLOWED'', ''6''),
    (''VL_BORROWING_NOT_ENABLED'', ''7''),
    (''VL_INVALID_INTEREST_RATE_MODE_SELECTED'', ''8''),
    (''VL_COLLATERAL_BALANCE_IS_0'', ''9''),
    (''VL_HEALTH_FACTOR_LOWER_THAN_LIQUIDATION_THRESHOLD'', ''10''),
    (''VL_COLLATERAL_CANNOT_COVER_NEW_BORROW'', ''11''),
    (''VL_STABLE_BORROWING_NOT_ENABLED'', ''12''),
    (''VL_COLLATERAL_SAME_AS_BORROWING_CURRENCY'', ''13''),
    (''VL_AMOUNT_BIGGER_THAN_MAX_LOAN_SIZE_STABLE'', ''14''),
    (''VL_NO_DEBT_OF_SELECTED_TYPE'', ''15''),
    (''VL_NO_EXPLICIT_AMOUNT_TO_REPAY_ON_BEHALF'', ''16''),
    (''VL_NO_STABLE_RATE_LOAN_IN_RESERVE'', ''17''),
    (''VL_NO_VARIABLE_RATE_LOAN_IN_RESERVE'', ''18''),
    (''VL_UNDERLYING_BALANCE_NOT_GREATER_THAN_0'', ''19''),
    (''VL_DEPOSIT_ALREADY_IN_USE'', ''20''),
    (''LP_NOT_ENOUGH_STABLE_BORROW_BALANCE'', ''21''),
    (''LP_INTEREST_RATE_REBALANCE_CONDITIONS_NOT_MET'', ''22''),
    (''LP_LIQUIDATION_CALL_FAILED'', ''23''),
    (''LP_NOT_ENOUGH_LIQUIDITY_TO_BORROW'', ''24''),
    (''LP_REQUESTED_AMOUNT_TOO_SMALL'', ''25''),
    (''LP_INCONSISTENT_PROTOCOL_ACTUAL_BALANCE'', ''26''),
    (''LP_CALLER_NOT_LENDING_POOL_CONFIGURATOR'', ''27''),
    (''LP_INCONSISTENT_FLASHLOAN_PARAMS'', ''28''),
    (''CT_CALLER_MUST_BE_LENDING_POOL'', ''29''),
    (''CT_CANNOT_GIVE_ALLOWANCE_TO_HIMSELF'', ''30''),
    (''CT_TRANSFER_AMOUNT_NOT_GT_0'', ''31''),
    (''RL_RESERVE_ALREADY_INITIALIZED'', ''32''),
    (''LPC_RESERVE_LIQUIDITY_NOT_0'', ''34''),
    (''LPC_INVALID_LTOKEN_POOL_ADDRESS'', ''35''),
    (''LPC_INVALID_STABLE_DEBT_TOKEN_POOL_ADDRESS'', ''36''),
    (''LPC_INVALID_VARIABLE_DEBT_TOKEN_POOL_ADDRESS'', ''37''),
    (''LPC_INVALID_STABLE_DEBT_TOKEN_UNDERLYING_ADDRESS'', ''38''),
    (''LPC_INVALID_VARIABLE_DEBT_TOKEN_UNDERLYING_ADDRESS'', ''39''),
    (''LPC_INVALID_ADDRESSES_PROVIDER_ID'', ''40''),
    (''LPC_CALLER_NOT_EMERGENCY_ADMIN'', ''76''),
    (''LPAPR_PROVIDER_NOT_REGISTERED'', ''41''),
    (''LPCM_HEALTH_FACTOR_NOT_BELOW_THRESHOLD'', ''42''),
    (''LPCM_COLLATERAL_CANNOT_BE_LIQUIDATED'', ''43''),
    (''LPCM_SPECIFIED_CURRENCY_NOT_BORROWED_BY_USER'', ''44''),
    (''LPCM_NOT_ENOUGH_LIQUIDITY_TO_LIQUIDATE'', ''45''),
    (''LPCM_NO_ERRORS'', ''46''),
    (''LP_INVALID_FLASHLOAN_MODE'', ''47''),
    (''MATH_MULTIPLICATION_OVERFLOW'', ''48''),
    (''MATH_ADDITION_OVERFLOW'', ''49''),
    (''MATH_DIVISION_BY_ZERO'', ''50''),
    (''RL_LIQUIDITY_INDEX_OVERFLOW'', ''51''),
    (''RL_VARIABLE_BORROW_INDEX_OVERFLOW'', ''52''),
    (''RL_LIQUIDITY_RATE_OVERFLOW'', ''53''),
    (''RL_VARIABLE_BORROW_RATE_OVERFLOW'', ''54''),
    (''RL_STABLE_BORROW_RATE_OVERFLOW'', ''55''),
    (''CT_INVALID_MINT_AMOUNT'', ''56''),
    (''LP_FAILED_REPAY_WITH_COLLATERAL'', ''57''),
    (''CT_INVALID_BURN_AMOUNT'', ''58''),
    (''LP_BORROW_ALLOWANCE_NOT_ENOUGH'', ''59''),
    (''LP_FAILED_COLLATERAL_SWAP'', ''60''),
    (''LP_INVALID_EQUAL_ASSETS_TO_SWAP'', ''61''),
    (''LP_REENTRANCY_NOT_ALLOWED'', ''62''),
    (''LP_CALLER_MUST_BE_AN_LTOKEN'', ''63''),
    (''LP_IS_PAUSED'', ''64''),
    (''LP_NO_MORE_RESERVES_ALLOWED'', ''65''),
    (''LP_INVALID_FLASH_LOAN_EXECUTOR_RETURN'', ''66''),
    (''RC_INVALID_LTV'', ''67''),
    (''RC_INVALID_LIQ_THRESHOLD'', ''68''),
    (''RC_INVALID_LIQ_BONUS'', ''69''),
    (''RC_INVALID_DECIMALS'', ''70''),
    (''RC_INVALID_RESERVE_FACTOR'', ''71''),
    (''LPAPR_INVALID_ADDRESSES_PROVIDER_ID'', ''72''),
    (''INVALID_FROM_BALANCE_AFTER_TRANSFER'', ''Invalid from balance after transfer''),
    (''INVALID_TO_BALANCE_AFTER_TRANSFER'', ''Invalid from balance after transfer''),
    (''INVALID_OWNER_REVERT_MSG'', ''Ownable: caller is not the owner''),
    (''INVALID_HF'', ''Invalid health factor''),
    (''TRANSFER_AMOUNT_EXCEEDS_BALANCE'', ''ERC20: transfer amount exceeds balance''),
    (''SAFEERC20_LOWLEVEL_CALL'', ''SafeERC20: low-level call failed'')]"

definition error_code :: "string \<Rightarrow> string option" where
  "error_code name = map_of ProtocolErrors name"

subsection \<open>The market configuration\<close>

record IInterestRateStrategyParams =
  strategyName :: string
  optimalUtilizationRate :: string
  baseVariableBorrowRate :: string
  variableRateSlope1 :: string
  variableRateSlope2 :: string
  stableRateSlope1 :: string
  stableRateSlope2 :: string

record IReserveParams =
  strategy :: IInterestRateStrategyParams
  baseLTVAsCollateral :: string
  liquidationThreshold :: string
  liquidationBonus :: string
  borrowingEnabled :: bool
  stableBorrowRateEnabled :: bool
  reserveDecimals :: string
  lTokenImpl :: contract_id
  reserveFactor :: string

text \<open>\<open>iParamsPerNetwork<T>\<close>, \<open>iParamsPerPool<T>\<close> and \<open>SymbolMap<T>\<close> are objects with string keys.\<close>

type_synonym 'v iParamsPerNetwork = "'v obj"
type_synonym 'v iParamsPerPool = "'v obj"
type_synonym 'v SymbolMap = "'v obj"

record IProtocolGlobalConfig =
  MockUsdPriceInWei :: string
  UsdAddress :: tEthereumAddress
  NilAddress :: tEthereumAddress
  OneAddress :: tEthereumAddress
  PalmyReferral :: string

record IMarketRates =
  borrowRate :: string

record PoolConfiguration =
  MarketId :: string
  LTokenNamePrefix :: string
  StableDebtTokenNamePrefix :: string
  VariableDebtTokenNamePrefix :: string
  SymbolPrefix :: string
  ProviderId :: nat
  OracleQuoteCurrency :: string
  OracleQuoteUnit :: string
  ProtocolGlobalParams :: IProtocolGlobalConfig
  AllAssetsInitialPrices :: "string SymbolMap"
  LendingRateOracleRatesCommon :: "IMarketRates SymbolMap"
  PoolAdmin :: "tEthereumAddress option iParamsPerNetwork"
  PoolAdminIndex :: nat
  EmergencyAdmin :: "tEthereumAddress option iParamsPerNetwork"
  EmergencyAdminIndex :: nat
  ProviderRegistryOwner :: "tEthereumAddress iParamsPerNetwork"
  DIAAggregator :: "tEthereumAddress SymbolMap iParamsPerNetwork"
  ReserveAssets :: "tEthereumAddress SymbolMap iParamsPerNetwork"
  ReservesConfig :: "IReserveParams SymbolMap"
  LTokenDomainSeparator :: "string iParamsPerNetwork"
  WETH :: "tEthereumAddress iParamsPerNetwork"
  WrappedNativeToken :: "tEthereumAddress iParamsPerNetwork"
  ReserveFactorTreasuryAddress :: "tEthereumAddress iParamsPerNetwork"
  IncentivesController :: "tEthereumAddress iParamsPerNetwork"
  StakedOas :: "tEthereumAddress iParamsPerNetwork"
  OracleSenderAddress :: "tEthereumAddress iParamsPerNetwork"
  OraclePriceKey :: "string SymbolMap iParamsPerNetwork"
  LendingPoolConfigurator :: "tEthereumAddress iParamsPerNetwork"

end
