(* ===== verification/Constants.thy ===== *)
theory Constants
  imports Types
begin

text \<open>
  The constants of \<open>helpers/constants.ts\<close>.  Literals are copied; the ones the module computes at
  load time (\<open>Math.pow\<close>, exact bignumber.js products) are written with the same arithmetic on
  integers and printed with \<^const>\<open>decimal\<close>.
\<close>

subsection \<open>Fixed-point bases\<close>

definition PERCENTAGE_FACTOR :: string where "PERCENTAGE_FACTOR = ''10000''"
definition HALF_PERCENTAGE :: string where "HALF_PERCENTAGE = ''5000''"
definition WAD :: string where "WAD = decimal (10 ^ 18)"
definition HALF_WAD :: string where "HALF_WAD = decimal (10 ^ 18 div 2)"
definition RAY :: string where "RAY = decimal (10 ^ 27)"
definition HALF_RAY :: string where "HALF_RAY = decimal (10 ^ 27 div 2)"
definition WAD_RAY_RATIO :: string where "WAD_RAY_RATIO = decimal (10 ^ 9)"
definition oneEther :: int where "oneEther = 10 ^ 18"
definition oneUsd :: int where "oneUsd = 10 ^ 8"
definition oneRay :: int where "oneRay = 10 ^ 27"

definition MAX_UINT_AMOUNT :: string where
  "MAX_UINT_AMOUNT = ''115792089237316195423570985008687907853269984665640564039457584007913129639935''"

definition ONE_YEAR :: string where "ONE_YEAR = ''31536000''"

definition ZERO_ADDRESS :: string where
  "ZERO_ADDRESS = ''0x0000000000000000000000000000000000000000''"

definition ONE_ADDRESS :: string where
  "ONE_ADDRESS = ''0x0000000000000000000000000000000000000001''"

subsection \<open>Protocol parameters\<close>

definition OPTIMAL_UTILIZATION_RATE :: int where "OPTIMAL_UTILIZATION_RATE = 8 * 10 ^ 27 div 10"
definition EXCESS_UTILIZATION_RATE :: int where "EXCESS_UTILIZATION_RATE = 2 * 10 ^ 27 div 10"

definition APPROVAL_AMOUNT_LENDING_POOL :: string where
  "APPROVAL_AMOUNT_LENDING_POOL = ''1000000000000000000000000000''"

definition TOKEN_DISTRIBUTOR_PERCENTAGE_BASE :: string where
  "TOKEN_DISTRIBUTOR_PERCENTAGE_BASE = ''10000''"

definition MOCK_USD_PRICE_IN_WEI :: string where "MOCK_USD_PRICE_IN_WEI = ''5848466240000000''"

definition USD_ADDRESS :: string where
  "USD_ADDRESS = ''0x10F7Fc1F91Ba351f9C629c5947AD69bD03C05b96''"

definition OASYSLEND_REFERRAL :: string where "OASYSLEND_REFERRAL = ''0''"

subsection \<open>Price tables\<close>

text \<open>\<open>unit.multipliedBy('d.ddd').toFixed()\<close>: the factor is \<open>digits / 10^places\<close>; every product
  of the tables is an integer, so no rounding happens.\<close>

definition multiplied :: "int \<Rightarrow> int \<Rightarrow> nat \<Rightarrow> string" where
  "multiplied unit digits places = decimal (unit * digits div 10 ^ places)"

definition INITIAL_PRICES :: "string SymbolMap" where
  "INITIAL_PRICES =
   [(''USD'', decimal oneUsd),
    (''WETH'', multiplied oneUsd 255573492766 8),
    (''WOAS'', multiplied oneUsd 70356687 8),
    (''USDC'', multiplied oneUsd 98889786 8),
    (''USDT'', decimal oneUsd),
    (''WBTC'', multiplied oneUsd 3756151135465 8)]"

definition MOCK_PRICE_AGGREGATORS_PRICES :: "string SymbolMap" where
  "MOCK_PRICE_AGGREGATORS_PRICES =
   [(''WETH'', decimal oneEther),
    (''WOAS'', multiplied oneEther 3620948469 12),
    (''USD'', multiplied oneEther 369068412860 14),
    (''USDC'', multiplied oneEther 367714136416 14),
    (''USDT'', multiplied oneEther 369068412860 14),
    (''WBTC'', multiplied oneEther 47332685 6),
    (''MCHC'', multiplied oneEther 369068412860 14)]"

definition ALL_ASSETS_PRICES_FOR_TESTING :: "string SymbolMap" where
  "ALL_ASSETS_PRICES_FOR_TESTING =
   obj_set MOCK_PRICE_AGGREGATORS_PRICES ''DAI'' (multiplied oneEther 369068412860 14)"

subsection \<open>Per-network addresses\<close>

definition aggregatorProxy :: "tEthereumAddress obj" where
  "aggregatorProxy =
   [(''tenderly'', ''0x5f4eC3Df9cbd43714FE2740f5E3616155c5b8419''),
    (''oasys'', ''0x043C93fF4d52B2F76811852644549553A00309a8''),
    (''shiden'', ''0xBE38fe6439269d18190024DA4f2Cfc35323A8384''),
    (''shibuya'', ''0xA4865374f35536103e1671631996bbf4e92ba566'')]"

definition baseTokenAddress :: "tEthereumAddress obj" where
  "baseTokenAddress =
   [(''oasys'', ''0xAeaaf0e2c81Af264101B9129C00F4440cCF0F720''),
    (''shiden'', ''0x44a26AE046a01d99eBAbecc24B4d61B388656871''),
    (''shibuya'', ''0x8Fd43fea01125EcA2bEb0bB03509946ECA99eEf9'')]"

subsection \<open>The values the constants read as\<close>

lemma PERCENTAGE_FACTOR_decimal: "PERCENTAGE_FACTOR = decimal 10000"
  by (simp add: PERCENTAGE_FACTOR_def decimal_eval)

lemma HALF_PERCENTAGE_decimal: "HALF_PERCENTAGE = decimal 5000"
  by (simp add: HALF_PERCENTAGE_def decimal_eval)

lemma ONE_YEAR_decimal: "ONE_YEAR = decimal 31536000"
  by (simp add: ONE_YEAR_def decimal_eval)

definition max_uint_digits :: "int list" where
  "max_uint_digits =
   [1, 5, 7, 9, 2, 0, 8, 9, 2, 3, 7, 3, 1, 6, 1, 9, 5, 4, 2, 3, 5, 7, 0, 9, 8, 5, 0, 0, 8,
    6, 8, 7, 9, 0, 7, 8, 5, 3, 2, 6, 9, 9, 8, 4, 6, 6, 5, 6, 4, 0, 5, 6, 4, 0, 3, 9, 4, 5,
    7, 5, 8, 4, 0, 0, 7, 9, 1, 3, 1, 2, 9, 6, 3, 9, 9, 3, 5]"

lemma MAX_UINT_AMOUNT_decimal: "MAX_UINT_AMOUNT = decimal (2 ^ 256 - 1)"
proof -
  have "horner 1 max_uint_digits = 2 ^ 256 - 1"
    by (simp add: horner_def max_uint_digits_def)
  moreover have "digits_of (horner 1 max_uint_digits) = digits_of 1 @ map digit_char max_uint_digits"
    by (rule digits_of_horner) (simp_all add: max_uint_digits_def)
  moreover have "digits_of 1 @ map digit_char max_uint_digits = MAX_UINT_AMOUNT"
    by (simp add: max_uint_digits_def MAX_UINT_AMOUNT_def digits_of_leaf digit_char_eval)
  ultimately show ?thesis by (simp add: decimal_def)
qed

lemma zero_decimal: "''0'' = decimal 0"
  by (simp add: decimal_eval)

end
