(* ===== verification/BigNumber.thy ===== *)
theory BigNumber
  imports Constants
begin

text \<open>
  The interface of bignumber.js that the code uses.  The package is not part of the
  repository, so its operations are a parameter, a record \<open>B\<close> that every definition using
  \<open>BigNumber\<close> takes, and the locale states its documented behaviour on integer values under
  the configuration \<open>scenario.spec.ts\<close> sets (\<open>DECIMAL_PLACES: 0, ROUNDING_MODE: ROUND_DOWN\<close>):
  \<open>plus\<close>, \<open>minus\<close> and \<open>times\<close> are exact, \<open>div\<close> truncates toward zero, and division by zero
  leaves the integers (\<open>NaN\<close>, \<open>Infinity\<close>), so nothing is promised about it.
\<close>

subsection \<open>The interface\<close>

definition ray_unit :: int where "ray_unit = 10 ^ 27"
definition wad_unit :: int where "wad_unit = 10 ^ 18"

lemma ray_unit_pos [simp]: "0 < ray_unit" by (simp add: ray_unit_def)
lemma ray_unit_neq [simp]: "ray_unit \<noteq> 0" by (simp add: ray_unit_def)
lemma wad_unit_pos [simp]: "0 < wad_unit" by (simp add: wad_unit_def)
lemma wad_unit_neq [simp]: "wad_unit \<noteq> 0" by (simp add: wad_unit_def)

record 'b bignumber_api =
  bnOfString :: "string \<Rightarrow> 'b"      \<comment> \<open>\<open>new BigNumber(s)\<close>, also of a string argument\<close>
  bnOfNumber :: "int \<Rightarrow> 'b"         \<comment> \<open>\<open>new BigNumber(n)\<close>, also of a number argument\<close>
  bnPlus :: "'b \<Rightarrow> 'b \<Rightarrow> 'b"
  bnMinus :: "'b \<Rightarrow> 'b \<Rightarrow> 'b"
  bnTimes :: "'b \<Rightarrow> 'b \<Rightarrow> 'b"       \<comment> \<open>\<open>times\<close>, \<open>multipliedBy\<close>\<close>
  bnDiv :: "'b \<Rightarrow> 'b \<Rightarrow> 'b"         \<comment> \<open>\<open>div\<close>, \<open>dividedBy\<close>\<close>
  bnNegated :: "'b \<Rightarrow> 'b"
  bnAbs :: "'b \<Rightarrow> 'b"
  bnDecimalPlaces :: "'b \<Rightarrow> 'b"     \<comment> \<open>\<open>decimalPlaces(0, BigNumber.ROUND_DOWN)\<close>\<close>
  bnEq :: "'b \<Rightarrow> 'b \<Rightarrow> bool"
  bnGt :: "'b \<Rightarrow> 'b \<Rightarrow> bool"
  bnLt :: "'b \<Rightarrow> 'b \<Rightarrow> bool"
  bnToFixed :: "'b \<Rightarrow> string"       \<comment> \<open>\<open>toFixed()\<close>, and \<open>toFixed(0)\<close> of an integer\<close>
  bnToString :: "'b \<Rightarrow> string"      \<comment> \<open>\<open>toString()\<close>\<close>
  bnToHex :: "'b \<Rightarrow> string"         \<comment> \<open>\<open>toString(16)\<close>\<close>
  bnToNumber :: "'b \<Rightarrow> int"         \<comment> \<open>\<open>toNumber()\<close> of an integer\<close>

text \<open>\<open>ok\<close>: a finite integer value; \<open>ival\<close>: that integer.\<close>

locale bignumber =
  fixes B :: "'b bignumber_api"
    and ok :: "'b \<Rightarrow> bool"
    and ival :: "'b \<Rightarrow> int"
  assumes of_string: "ok (bnOfString B (decimal n)) \<and> ival (bnOfString B (decimal n)) = n"
    and of_number: "ok (bnOfNumber B n) \<and> ival (bnOfNumber B n) = n"
    and plus: "ok x \<Longrightarrow> ok y \<Longrightarrow> ok (bnPlus B x y) \<and> ival (bnPlus B x y) = ival x + ival y"
    and minus: "ok x \<Longrightarrow> ok y \<Longrightarrow> ok (bnMinus B x y) \<and> ival (bnMinus B x y) = ival x - ival y"
    and times: "ok x \<Longrightarrow> ok y \<Longrightarrow> ok (bnTimes B x y) \<and> ival (bnTimes B x y) = ival x * ival y"
    and div: "ok x \<Longrightarrow> ok y \<Longrightarrow> ival y \<noteq> 0 \<Longrightarrow>
      ok (bnDiv B x y) \<and> ival (bnDiv B x y) = ival x sdiv ival y"
    and negated: "ok x \<Longrightarrow> ok (bnNegated B x) \<and> ival (bnNegated B x) = - ival x"
    and abs: "ok x \<Longrightarrow> ok (bnAbs B x) \<and> ival (bnAbs B x) = \<bar>ival x\<bar>"
    and decimal_places: "ok x \<Longrightarrow> ok (bnDecimalPlaces B x) \<and> ival (bnDecimalPlaces B x) = ival x"
    and eq: "ok x \<Longrightarrow> ok y \<Longrightarrow> bnEq B x y \<longleftrightarrow> ival x = ival y"
    and gt: "ok x \<Longrightarrow> ok y \<Longrightarrow> bnGt B x y \<longleftrightarrow> ival x > ival y"
    and lt: "ok x \<Longrightarrow> ok y \<Longrightarrow> bnLt B x y \<longleftrightarrow> ival x < ival y"
    and to_fixed: "ok x \<Longrightarrow> ok (bnOfString B (bnToFixed B x)) \<and> ival (bnOfString B (bnToFixed B x)) = ival x"
    and to_hex: "ok x \<Longrightarrow> 0 \<le> ival x \<Longrightarrow>
      ok (bnOfString B (''0x'' @ bnToHex B x)) \<and> ival (bnOfString B (''0x'' @ bnToHex B x)) = ival x"
    and to_number: "ok x \<Longrightarrow> bnToNumber B x = ival x"
begin

lemmas ok_arith [simp] =
  of_string [THEN conjunct1] of_number [THEN conjunct1] plus [THEN conjunct1]
  minus [THEN conjunct1] times [THEN conjunct1] div [THEN conjunct1] negated [THEN conjunct1]
  abs [THEN conjunct1] decimal_places [THEN conjunct1] to_fixed [THEN conjunct1]

lemmas ival_arith [simp] =
  of_string [THEN conjunct2] of_number [THEN conjunct2] plus [THEN conjunct2]
  minus [THEN conjunct2] times [THEN conjunct2] div [THEN conjunct2] negated [THEN conjunct2]
  abs [THEN conjunct2] decimal_places [THEN conjunct2] to_fixed [THEN conjunct2]

lemmas compare [simp] = eq gt lt

lemma of_constants [simp]:
  "ok (bnOfString B RAY)" "ival (bnOfString B RAY) = ray_unit"
  "ok (bnOfString B WAD)" "ival (bnOfString B WAD) = wad_unit"
  "ok (bnOfString B HALF_RAY)" "ival (bnOfString B HALF_RAY) = ray_unit div 2"
  "ok (bnOfString B HALF_WAD)" "ival (bnOfString B HALF_WAD) = wad_unit div 2"
  "ok (bnOfString B WAD_RAY_RATIO)" "ival (bnOfString B WAD_RAY_RATIO) = 10 ^ 9"
  "ok (bnOfString B PERCENTAGE_FACTOR)" "ival (bnOfString B PERCENTAGE_FACTOR) = 10000"
  "ok (bnOfString B HALF_PERCENTAGE)" "ival (bnOfString B HALF_PERCENTAGE) = 5000"
  "ok (bnOfString B ONE_YEAR)" "ival (bnOfString B ONE_YEAR) = 31536000"
  "ok (bnOfString B MAX_UINT_AMOUNT)" "ival (bnOfString B MAX_UINT_AMOUNT) = 2 ^ 256 - 1"
  "ok (bnOfString B ''0'')" "ival (bnOfString B ''0'') = 0"
  by (simp_all only: RAY_def WAD_def HALF_RAY_def HALF_WAD_def WAD_RAY_RATIO_def
      PERCENTAGE_FACTOR_decimal HALF_PERCENTAGE_decimal ONE_YEAR_decimal MAX_UINT_AMOUNT_decimal
      zero_decimal of_string ray_unit_def wad_unit_def)

end

subsection \<open>A reference instance\<close>

text \<open>Integers with the special values of bignumber.js; used to run the model on concrete inputs.\<close>

datatype bnval = Fin int | NaN | PosInf | NegInf

fun bn_ok :: "bnval \<Rightarrow> bool" where
  "bn_ok (Fin n) = True"
| "bn_ok v = False"

fun bn_int :: "bnval \<Rightarrow> int" where
  "bn_int (Fin n) = n"
| "bn_int v = 0"

fun bn_negated :: "bnval \<Rightarrow> bnval" where
  "bn_negated (Fin n) = Fin (- n)"
| "bn_negated NaN = NaN"
| "bn_negated PosInf = NegInf"
| "bn_negated NegInf = PosInf"

definition bn_of_sign :: "int \<Rightarrow> bnval" where
  "bn_of_sign s = (if s = 0 then NaN else if 0 < s then PosInf else NegInf)"

fun bn_plus :: "bnval \<Rightarrow> bnval \<Rightarrow> bnval" where
  "bn_plus (Fin m) (Fin n) = Fin (m + n)"
| "bn_plus NaN v = NaN"
| "bn_plus v NaN = NaN"
| "bn_plus PosInf NegInf = NaN"
| "bn_plus NegInf PosInf = NaN"
| "bn_plus PosInf v = PosInf"
| "bn_plus NegInf v = NegInf"
| "bn_plus v w = w"

fun bn_sign :: "bnval \<Rightarrow> int" where
  "bn_sign (Fin n) = sgn n"
| "bn_sign NaN = 0"
| "bn_sign PosInf = 1"
| "bn_sign NegInf = -1"

fun bn_times :: "bnval \<Rightarrow> bnval \<Rightarrow> bnval" where
  "bn_times (Fin m) (Fin n) = Fin (m * n)"
| "bn_times v w = bn_of_sign (bn_sign v * bn_sign w)"

fun bn_div :: "bnval \<Rightarrow> bnval \<Rightarrow> bnval" where
  "bn_div (Fin m) (Fin n) = (if n = 0 then bn_of_sign (sgn m) else Fin (m sdiv n))"
| "bn_div NaN v = NaN"
| "bn_div v NaN = NaN"
| "bn_div (Fin m) v = Fin 0"
| "bn_div v (Fin n) = bn_of_sign (bn_sign v * (if n < 0 then -1 else 1))"
| "bn_div v w = NaN"

fun bn_less :: "bnval \<Rightarrow> bnval \<Rightarrow> bool" where
  "bn_less (Fin m) (Fin n) = (m < n)"
| "bn_less NaN v = False"
| "bn_less v NaN = False"
| "bn_less v NegInf = False"
| "bn_less PosInf v = False"
| "bn_less v w = True"

definition bn_eq :: "bnval \<Rightarrow> bnval \<Rightarrow> bool" where
  "bn_eq v w = (v \<noteq> NaN \<and> v = w)"

definition bn_of_string :: "string \<Rightarrow> bnval" where
  "bn_of_string s = (case read_int s of Some n \<Rightarrow> Fin n | None \<Rightarrow> NaN)"

fun bn_to_fixed :: "bnval \<Rightarrow> string" where
  "bn_to_fixed (Fin n) = decimal n"
| "bn_to_fixed NaN = ''NaN''"
| "bn_to_fixed PosInf = ''Infinity''"
| "bn_to_fixed NegInf = ''-Infinity''"

definition bn_reference :: "bnval bignumber_api" where
  "bn_reference =
   \<lparr>bnOfString = bn_of_string, bnOfNumber = Fin, bnPlus = bn_plus,
    bnMinus = (\<lambda>v w. bn_plus v (bn_negated w)), bnTimes = bn_times, bnDiv = bn_div,
    bnNegated = bn_negated, bnAbs = (\<lambda>v. if bn_less v (Fin 0) then bn_negated v else v),
    bnDecimalPlaces = (\<lambda>v. v), bnEq = bn_eq, bnGt = (\<lambda>v w. bn_less w v), bnLt = bn_less,
    bnToFixed = bn_to_fixed, bnToString = bn_to_fixed,
    bnToHex = (\<lambda>v. hex_string (bn_int v)), bnToNumber = bn_int\<rparr>"

lemma bn_ok_Fin: "bn_ok v \<longleftrightarrow> (\<exists>n. v = Fin n)"
  by (cases v) simp_all

lemma bn_of_string_decimal [simp]: "bn_of_string (decimal n) = Fin n"
  by (simp add: bn_of_string_def read_int_decimal)

lemma bn_of_string_hex [simp]:
  "0 \<le> n \<Longrightarrow> bn_of_string (CHR ''0'' # CHR ''x'' # hex_string n) = Fin n"
  using read_int_hex_string [of n] by (simp add: bn_of_string_def)

interpretation bn: bignumber bn_reference bn_ok bn_int
  by unfold_locales (auto simp: bn_reference_def bn_ok_Fin bn_eq_def)

lemma bn_reference_laws: "bignumber bn_reference bn_ok bn_int"
  by (rule bn.bignumber_axioms)

end
