(* ===== verification/RayMath.thy ===== *)
theory RayMath
  imports BigNumber
begin

text \<open>
  The fixed-point operations \<open>test-suites/test-palmy/helpers/utils/math.ts\<close> adds to
  \<open>BigNumber.prototype\<close>, one definition per method with the receiver as first argument, and
  the integer functions they compute: half-up rounding of \<open>a * b / 10^27\<close> and \<open>a * 10^27 / b\<close>
  (and the wad and percentage versions).
\<close>

subsection \<open>The methods\<close>

definition ray :: "'b bignumber_api \<Rightarrow> 'b" where
  "ray B = bnDecimalPlaces B (bnOfString B RAY)"

definition wad :: "'b bignumber_api \<Rightarrow> 'b" where
  "wad B = bnDecimalPlaces B (bnOfString B WAD)"

definition halfRay :: "'b bignumber_api \<Rightarrow> 'b" where
  "halfRay B = bnDecimalPlaces B (bnOfString B HALF_RAY)"

definition halfWad :: "'b bignumber_api \<Rightarrow> 'b" where
  "halfWad B = bnDecimalPlaces B (bnOfString B HALF_WAD)"

definition wadMul :: "'b bignumber_api \<Rightarrow> 'b \<Rightarrow> 'b \<Rightarrow> 'b" where
  "wadMul B this b =
     bnDecimalPlaces B (bnDiv B (bnPlus B (halfWad B) (bnTimes B this b)) (bnOfString B WAD))"

definition wadDiv :: "'b bignumber_api \<Rightarrow> 'b \<Rightarrow> 'b \<Rightarrow> 'b" where
  "wadDiv B this a =
     (let halfA = bnDecimalPlaces B (bnDiv B a (bnOfNumber B 2))
      in bnDecimalPlaces B (bnDiv B (bnPlus B halfA (bnTimes B this (bnOfString B WAD))) a))"

definition rayMul :: "'b bignumber_api \<Rightarrow> 'b \<Rightarrow> 'b \<Rightarrow> 'b" where
  "rayMul B this a =
     bnDecimalPlaces B (bnDiv B (bnPlus B (halfRay B) (bnTimes B this a)) (bnOfString B RAY))"

definition rayDiv :: "'b bignumber_api \<Rightarrow> 'b \<Rightarrow> 'b \<Rightarrow> 'b" where
  "rayDiv B this a =
     (let halfA = bnDecimalPlaces B (bnDiv B a (bnOfNumber B 2))
      in bnDecimalPlaces B
           (bnDiv B (bnDecimalPlaces B (bnPlus B halfA (bnTimes B this (bnOfString B RAY)))) a))"

definition rayToWad :: "'b bignumber_api \<Rightarrow> 'b \<Rightarrow> 'b" where
  "rayToWad B this =
     (let halfRatio = bnDiv B (bnOfString B WAD_RAY_RATIO) (bnOfNumber B 2)
      in bnDecimalPlaces B (bnDiv B (bnPlus B halfRatio this) (bnOfString B WAD_RAY_RATIO)))"

definition wadToRay :: "'b bignumber_api \<Rightarrow> 'b \<Rightarrow> 'b" where
  "wadToRay B this = bnDecimalPlaces B (bnTimes B this (bnOfString B WAD_RAY_RATIO))"

definition halfPercentage :: "'b bignumber_api \<Rightarrow> 'b" where
  "halfPercentage B = bnDecimalPlaces B (bnOfString B HALF_PERCENTAGE)"

definition percentMul :: "'b bignumber_api \<Rightarrow> 'b \<Rightarrow> 'b \<Rightarrow> 'b" where
  "percentMul B this b =
     bnDecimalPlaces B
       (bnDiv B (bnPlus B (halfPercentage B) (bnTimes B this b)) (bnOfString B PERCENTAGE_FACTOR))"

definition percentDiv :: "'b bignumber_api \<Rightarrow> 'b \<Rightarrow> 'b \<Rightarrow> 'b" where
  "percentDiv B this a =
     (let halfA = bnDecimalPlaces B (bnDiv B a (bnOfNumber B 2))
      in bnDecimalPlaces B
           (bnDiv B (bnPlus B halfA (bnTimes B this (bnOfString B PERCENTAGE_FACTOR))) a))"

subsection \<open>The integer functions they compute\<close>

definition fixed_mul :: "int \<Rightarrow> int \<Rightarrow> int \<Rightarrow> int" where
  "fixed_mul unit a b = (unit div 2 + a * b) sdiv unit"

definition fixed_div :: "int \<Rightarrow> int \<Rightarrow> int \<Rightarrow> int" where
  "fixed_div unit a b = (b sdiv 2 + a * unit) sdiv b"

definition ray_mul :: "int \<Rightarrow> int \<Rightarrow> int" where "ray_mul = fixed_mul ray_unit"
definition ray_div :: "int \<Rightarrow> int \<Rightarrow> int" where "ray_div = fixed_div ray_unit"
definition wad_mul :: "int \<Rightarrow> int \<Rightarrow> int" where "wad_mul = fixed_mul wad_unit"
definition wad_div :: "int \<Rightarrow> int \<Rightarrow> int" where "wad_div = fixed_div wad_unit"
definition percent_mul :: "int \<Rightarrow> int \<Rightarrow> int" where "percent_mul = fixed_mul 10000"
definition percent_div :: "int \<Rightarrow> int \<Rightarrow> int" where "percent_div = fixed_div 10000"
definition wad_to_ray :: "int \<Rightarrow> int" where "wad_to_ray a = a * 10 ^ 9"
definition ray_to_wad :: "int \<Rightarrow> int" where "ray_to_wad a = (10 ^ 9 div 2 + a) sdiv 10 ^ 9"

context bignumber
begin

lemma rayMul_spec [simp]:
  assumes "ok x" "ok y"
  shows "ok (rayMul B x y)" "ival (rayMul B x y) = ray_mul (ival x) (ival y)"
  using assms by (simp_all add: rayMul_def halfRay_def ray_mul_def fixed_mul_def)

lemma rayDiv_spec [simp]:
  assumes "ok x" "ok y" "ival y \<noteq> 0"
  shows "ok (rayDiv B x y)" "ival (rayDiv B x y) = ray_div (ival x) (ival y)"
  using assms by (simp_all add: rayDiv_def ray_div_def fixed_div_def)

lemma wadMul_spec [simp]:
  assumes "ok x" "ok y"
  shows "ok (wadMul B x y)" "ival (wadMul B x y) = wad_mul (ival x) (ival y)"
  using assms by (simp_all add: wadMul_def halfWad_def wad_mul_def fixed_mul_def)

lemma wadDiv_spec [simp]:
  assumes "ok x" "ok y" "ival y \<noteq> 0"
  shows "ok (wadDiv B x y)" "ival (wadDiv B x y) = wad_div (ival x) (ival y)"
  using assms by (simp_all add: wadDiv_def wad_div_def fixed_div_def)

lemma percentMul_spec [simp]:
  assumes "ok x" "ok y"
  shows "ok (percentMul B x y)" "ival (percentMul B x y) = percent_mul (ival x) (ival y)"
  using assms by (simp_all add: percentMul_def halfPercentage_def percent_mul_def fixed_mul_def)

lemma percentDiv_spec [simp]:
  assumes "ok x" "ok y" "ival y \<noteq> 0"
  shows "ok (percentDiv B x y)" "ival (percentDiv B x y) = percent_div (ival x) (ival y)"
  using assms by (simp_all add: percentDiv_def percent_div_def fixed_div_def)

lemma wadToRay_spec [simp]:
  assumes "ok x"
  shows "ok (wadToRay B x)" "ival (wadToRay B x) = wad_to_ray (ival x)"
  using assms by (simp_all add: wadToRay_def wad_to_ray_def)

lemma rayToWad_spec [simp]:
  assumes "ok x"
  shows "ok (rayToWad B x)" "ival (rayToWad B x) = ray_to_wad (ival x)"
  using assms by (simp_all add: rayToWad_def ray_to_wad_def)

lemma units_spec [simp]:
  "ok (ray B)" "ival (ray B) = ray_unit" "ok (wad B)" "ival (wad B) = wad_unit"
  by (simp_all add: ray_def wad_def)

end

subsection \<open>Rounding facts\<close>

lemma ray_unit_even: "2 * (ray_unit div 2) = ray_unit" by (simp add: ray_unit_def)

lemma fixed_mul_nonneg: "0 < unit \<Longrightarrow> 0 \<le> a \<Longrightarrow> 0 \<le> b \<Longrightarrow> 0 \<le> fixed_mul unit a b"
  by (simp add: fixed_mul_def sdiv_ge_0)

lemma fixed_div_nonneg: "0 < unit \<Longrightarrow> 0 \<le> a \<Longrightarrow> 0 < b \<Longrightarrow> 0 \<le> fixed_div unit a b"
  by (simp add: fixed_div_def sdiv_nonneg pos_imp_zdiv_nonneg_iff)

text \<open>Half-up rounding: twice the error is at most the unit.\<close>

lemma fixed_mul_bounds:
  assumes "0 < unit" "0 \<le> a" "0 \<le> b"
  shows "2 * unit * fixed_mul unit a b \<le> unit + 2 * (a * b)"
    and "2 * (a * b) < 2 * unit * fixed_mul unit a b + unit + 1"
proof -
  define q where "q = fixed_mul unit a b"
  have q: "q = (unit div 2 + a * b) div unit"
    using assms by (simp add: q_def fixed_mul_def sdiv_nonneg)
  have m: "unit * q + (unit div 2 + a * b) mod unit = unit div 2 + a * b"
    by (simp add: q)
  have r: "0 \<le> (unit div 2 + a * b) mod unit" "(unit div 2 + a * b) mod unit < unit"
    using assms by simp_all
  from m r assms(1) have "2 * (unit * q) \<le> unit + 2 * (a * b)" "2 * (a * b) < 2 * (unit * q) + unit + 1"
    by linarith+
  then show "2 * unit * fixed_mul unit a b \<le> unit + 2 * (a * b)"
    and "2 * (a * b) < 2 * unit * fixed_mul unit a b + unit + 1"
    unfolding q_def [symmetric] by (simp_all only: mult.assoc)
qed

lemma fixed_div_bounds:
  assumes "0 < unit" "0 \<le> a" "0 < b"
  shows "2 * b * fixed_div unit a b \<le> b + 2 * (a * unit)"
    and "2 * (a * unit) < 2 * b * fixed_div unit a b + b + 1"
proof -
  define q where "q = fixed_div unit a b"
  have q: "q = (b div 2 + a * unit) div b"
    using assms by (simp add: q_def fixed_div_def sdiv_nonneg)
  have m: "b * q + (b div 2 + a * unit) mod b = b div 2 + a * unit"
    by (simp add: q)
  have r: "0 \<le> (b div 2 + a * unit) mod b" "(b div 2 + a * unit) mod b < b"
    using assms by simp_all
  from m r assms(3) have "2 * (b * q) \<le> b + 2 * (a * unit)" "2 * (a * unit) < 2 * (b * q) + b + 1"
    by linarith+
  then show "2 * b * fixed_div unit a b \<le> b + 2 * (a * unit)"
    and "2 * (a * unit) < 2 * b * fixed_div unit a b + b + 1"
    unfolding q_def [symmetric] by (simp_all only: mult.assoc)
qed

lemma fixed_mul_mono:
  "0 < unit \<Longrightarrow> 0 \<le> a \<Longrightarrow> 0 \<le> b \<Longrightarrow> a \<le> a' \<Longrightarrow> b \<le> b' \<Longrightarrow> fixed_mul unit a b \<le> fixed_mul unit a' b'"
  by (simp add: fixed_mul_def sdiv_nonneg zdiv_mono1 mult_mono)

lemma fixed_mul_unit_right: "even unit \<Longrightarrow> 0 < unit \<Longrightarrow> 0 \<le> a \<Longrightarrow> fixed_mul unit a unit = a"
  by (simp add: fixed_mul_def sdiv_nonneg)

lemma fixed_mul_commute: "fixed_mul unit a b = fixed_mul unit b a"
  by (simp add: fixed_mul_def mult.commute)

lemma fixed_mul_0 [simp]: "0 < unit \<Longrightarrow> fixed_mul unit 0 b = 0" "0 < unit \<Longrightarrow> fixed_mul unit a 0 = 0"
  by (simp_all add: fixed_mul_def sdiv_nonneg)

lemma ray_unit_is_even [simp]: "even ray_unit" by (simp add: ray_unit_def)

lemma ray_mul_nonneg [simp]: "0 \<le> a \<Longrightarrow> 0 \<le> b \<Longrightarrow> 0 \<le> ray_mul a b"
  by (simp add: ray_mul_def fixed_mul_nonneg)

lemma ray_div_nonneg [simp]: "0 \<le> a \<Longrightarrow> 0 < b \<Longrightarrow> 0 \<le> ray_div a b"
  by (simp add: ray_div_def fixed_div_nonneg)

lemma ray_mul_unit [simp]: "0 \<le> a \<Longrightarrow> ray_mul a ray_unit = a" "0 \<le> a \<Longrightarrow> ray_mul ray_unit a = a"
  by (simp_all add: ray_mul_def fixed_mul_unit_right fixed_mul_commute [of _ ray_unit])

lemma ray_mul_0 [simp]: "ray_mul 0 b = 0" "ray_mul a 0 = 0"
  by (simp_all add: ray_mul_def)

lemma ray_mul_ge:
  "0 \<le> a \<Longrightarrow> ray_unit \<le> b \<Longrightarrow> a \<le> ray_mul a b"
  using fixed_mul_mono [of ray_unit a ray_unit a b]
  by (simp add: ray_mul_def fixed_mul_unit_right order_trans [OF less_imp_le [OF ray_unit_pos]])

lemma ray_div_zero [simp]: "0 \<le> b \<Longrightarrow> ray_div 0 b = 0"
  by (cases "b = 0") (simp_all add: ray_div_def fixed_div_def sdiv_nonneg zdiv_eq_0_iff)

end
