(* ===== verification/Calculations.thy ===== *)
theory Calculations
  imports RayMath
begin

text \<open>
  The building blocks of the lending oracle, \<open>utils/calculations.ts\<close> from
  \<open>calcExpectedScaledLTokenBalance\<close> on: interest accrual, indices, token balances, average
  rates and the interest rate model.  \<open>ReserveData\<close> and \<open>UserReserveData\<close> are records of
  optional fields: \<open>None\<close> is \<open>undefined\<close>, and a computation that reads an undefined field
  for its arithmetic, or passes it on as an argument, has no result.  Fields that both interfaces declare carry the suffix \<open>_u\<close> in the user record.
\<close>

subsection \<open>Reserve and user data\<close>

record 'b ReserveData =
  address :: "string option"
  symbol :: "string option"
  decimals :: "'b option"
  totalLiquidity :: "'b option"
  availableLiquidity :: "'b option"
  totalStableDebt :: "'b option"
  totalVariableDebt :: "'b option"
  principalStableDebt :: "'b option"
  scaledVariableDebt :: "'b option"
  averageStableBorrowRate :: "'b option"
  variableBorrowRate :: "'b option"
  stableBorrowRate :: "'b option"
  utilizationRate :: "'b option"
  liquidityIndex :: "'b option"
  variableBorrowIndex :: "'b option"
  lTokenAddress :: "string option"
  marketStableRate :: "'b option"
  lastUpdateTimestamp :: "'b option"
  totalStableDebtLastUpdated :: "'b option"
  liquidityRate :: "'b option"

text \<open>\<open>variableBorrowIndex_u\<close> and \<open>principalVariableDebt\<close> are not declared in the interface; the
  code writes them through its index signature.\<close>

record 'b UserReserveData =
  scaledLTokenBalance :: "'b option"
  currentLTokenBalance :: "'b option"
  currentStableDebt :: "'b option"
  currentVariableDebt :: "'b option"
  principalStableDebt_u :: "'b option"
  scaledVariableDebt_u :: "'b option"
  liquidityRate_u :: "'b option"
  stableBorrowRate_u :: "'b option"
  stableRateLastUpdated :: "'b option"
  usageAsCollateralEnabled :: "bool option"
  walletBalance :: "'b option"
  variableBorrowIndex_u :: "'b option"
  principalVariableDebt :: "'b option"

text \<open>The empty objects \<open><ReserveData>{}\<close> and \<open><UserReserveData>{}\<close>.\<close>

definition empty_reserve :: "'b ReserveData" where
  "empty_reserve =
   \<lparr>address = None, symbol = None, decimals = None, totalLiquidity = None,
    availableLiquidity = None, totalStableDebt = None, totalVariableDebt = None,
    principalStableDebt = None, scaledVariableDebt = None, averageStableBorrowRate = None,
    variableBorrowRate = None, stableBorrowRate = None, utilizationRate = None,
    liquidityIndex = None, variableBorrowIndex = None, lTokenAddress = None,
    marketStableRate = None, lastUpdateTimestamp = None, totalStableDebtLastUpdated = None,
    liquidityRate = None\<rparr>"

definition empty_user :: "'b UserReserveData" where
  "empty_user =
   \<lparr>scaledLTokenBalance = None, currentLTokenBalance = None, currentStableDebt = None,
    currentVariableDebt = None, principalStableDebt_u = None, scaledVariableDebt_u = None,
    liquidityRate_u = None, stableBorrowRate_u = None, stableRateLastUpdated = None,
    usageAsCollateralEnabled = None, walletBalance = None, variableBorrowIndex_u = None,
    principalVariableDebt = None\<rparr>"

subsection \<open>Interest accrual\<close>

definition strToBN :: "'b bignumber_api \<Rightarrow> string \<Rightarrow> 'b" where
  "strToBN B amount = bnOfString B amount"

definition calcLinearInterest :: "'b bignumber_api \<Rightarrow> 'b \<Rightarrow> 'b \<Rightarrow> 'b \<Rightarrow> 'b" where
  "calcLinearInterest B rate currentTimestamp lastUpdate =
     (let timeDifference = bnMinus B currentTimestamp lastUpdate;
          cumulatedInterest =
            bnPlus B (bnDiv B (bnTimes B rate timeDifference) (bnOfString B ONE_YEAR))
              (bnOfString B RAY)
      in cumulatedInterest)"

definition calcCompoundedInterest :: "'b bignumber_api \<Rightarrow> 'b \<Rightarrow> 'b \<Rightarrow> 'b \<Rightarrow> 'b" where
  "calcCompoundedInterest B rate currentTimestamp lastUpdate =
     (let timeDifference = bnMinus B currentTimestamp lastUpdate
      in if bnEq B timeDifference (bnOfNumber B 0) then bnOfString B RAY
         else
          (let expMinusOne = bnMinus B timeDifference (bnOfNumber B 1);
               expMinusTwo =
                 (if bnGt B timeDifference (bnOfNumber B 2)
                  then bnMinus B timeDifference (bnOfNumber B 2) else bnOfNumber B 0);
               ratePerSecond = bnDiv B rate (bnOfString B ONE_YEAR);
               basePowerTwo = rayMul B ratePerSecond ratePerSecond;
               basePowerThree = rayMul B basePowerTwo ratePerSecond;
               secondTerm =
                 bnDiv B (bnTimes B (bnTimes B timeDifference expMinusOne) basePowerTwo)
                   (bnOfNumber B 2);
               thirdTerm =
                 bnDiv B
                   (bnTimes B (bnTimes B (bnTimes B timeDifference expMinusOne) expMinusTwo)
                     basePowerThree)
                   (bnOfNumber B 6)
           in bnPlus B
                (bnPlus B (bnPlus B (bnOfString B RAY) (bnTimes B ratePerSecond timeDifference))
                  secondTerm)
                thirdTerm))"

definition calcExpectedReserveNormalizedIncome ::
  "'b bignumber_api \<Rightarrow> 'b ReserveData \<Rightarrow> 'b \<Rightarrow> 'b option" where
  "calcExpectedReserveNormalizedIncome B reserveData currentTimestamp =
     do {
       rate \<leftarrow> liquidityRate reserveData;
       index \<leftarrow> liquidityIndex reserveData;
       if bnEq B rate (bnOfString B ''0'') then Some index
       else do {
         lastUpdate \<leftarrow> lastUpdateTimestamp reserveData;
         Some (rayMul B (calcLinearInterest B rate currentTimestamp lastUpdate) index)
       }
     }"

definition calcExpectedReserveNormalizedDebt ::
  "'b bignumber_api \<Rightarrow> 'b \<Rightarrow> 'b \<Rightarrow> 'b \<Rightarrow> 'b \<Rightarrow> 'b" where
  "calcExpectedReserveNormalizedDebt B rate index lastUpdate currentTimestamp =
     (if bnEq B rate (bnOfString B ''0'') then index
      else rayMul B (calcCompoundedInterest B rate currentTimestamp lastUpdate) index)"

definition calcExpectedLiquidityIndex ::
  "'b bignumber_api \<Rightarrow> 'b ReserveData \<Rightarrow> 'b \<Rightarrow> 'b option" where
  "calcExpectedLiquidityIndex B reserveData timestamp =
     do {
       utilization \<leftarrow> utilizationRate reserveData;
       if bnEq B utilization (bnOfString B ''0'') then liquidityIndex reserveData
       else do {
         rate \<leftarrow> liquidityRate reserveData;
         lastUpdate \<leftarrow> lastUpdateTimestamp reserveData;
         index \<leftarrow> liquidityIndex reserveData;
         Some (rayMul B (calcLinearInterest B rate timestamp lastUpdate) index)
       }
     }"

definition calcExpectedVariableBorrowIndex ::
  "'b bignumber_api \<Rightarrow> 'b ReserveData \<Rightarrow> 'b \<Rightarrow> 'b option" where
  "calcExpectedVariableBorrowIndex B reserveData timestamp =
     do {
       debt \<leftarrow> totalVariableDebt reserveData;
       if bnEq B debt (bnOfString B ''0'') then variableBorrowIndex reserveData
       else do {
         rate \<leftarrow> variableBorrowRate reserveData;
         lastUpdate \<leftarrow> lastUpdateTimestamp reserveData;
         index \<leftarrow> variableBorrowIndex reserveData;
         Some (rayMul B (calcCompoundedInterest B rate timestamp lastUpdate) index)
       }
     }"

subsection \<open>Token balances and debts\<close>

definition calcExpectedScaledLTokenBalance ::
  "'b bignumber_api \<Rightarrow> 'b UserReserveData \<Rightarrow> 'b \<Rightarrow> 'b \<Rightarrow> 'b \<Rightarrow> 'b option" where
  "calcExpectedScaledLTokenBalance B userDataBeforeAction index amountAdded amountTaken =
     do {
       scaled \<leftarrow> scaledLTokenBalance userDataBeforeAction;
       Some (bnMinus B (bnPlus B scaled (rayDiv B amountAdded index)) (rayDiv B amountTaken index))
     }"

definition calcExpectedLTokenBalance ::
  "'b bignumber_api \<Rightarrow> 'b ReserveData \<Rightarrow> 'b UserReserveData \<Rightarrow> 'b \<Rightarrow> 'b option" where
  "calcExpectedLTokenBalance B reserveData userData currentTimestamp =
     do {
       index \<leftarrow> calcExpectedReserveNormalizedIncome B reserveData currentTimestamp;
       scaledBalanceBeforeAction \<leftarrow> scaledLTokenBalance userData;
       Some (rayMul B scaledBalanceBeforeAction index)
     }"

definition calcExpectedVariableDebtTokenBalance ::
  "'b bignumber_api \<Rightarrow> 'b ReserveData \<Rightarrow> 'b UserReserveData \<Rightarrow> 'b \<Rightarrow> 'b option" where
  "calcExpectedVariableDebtTokenBalance B reserveData userData currentTimestamp =
     do {
       rate \<leftarrow> variableBorrowRate reserveData;
       index \<leftarrow> variableBorrowIndex reserveData;
       lastUpdate \<leftarrow> lastUpdateTimestamp reserveData;
       scaled \<leftarrow> scaledVariableDebt_u userData;
       Some (rayMul B scaled
              (calcExpectedReserveNormalizedDebt B rate index lastUpdate currentTimestamp))
     }"

definition calcExpectedStableDebtTokenBalance ::
  "'b bignumber_api \<Rightarrow> 'b \<Rightarrow> 'b \<Rightarrow> 'b \<Rightarrow> 'b \<Rightarrow> 'b" where
  "calcExpectedStableDebtTokenBalance B principalDebt rate rateLastUpdated currentTimestamp =
     (if bnEq B rate (bnOfNumber B 0) \<or> bnEq B currentTimestamp rateLastUpdated \<or>
         bnEq B rateLastUpdated (bnOfNumber B 0)
      then principalDebt
      else rayMul B principalDebt (calcCompoundedInterest B rate currentTimestamp rateLastUpdated))"

definition calcExpectedTotalStableDebt ::
  "'b bignumber_api \<Rightarrow> 'b \<Rightarrow> 'b \<Rightarrow> 'b \<Rightarrow> 'b \<Rightarrow> 'b" where
  "calcExpectedTotalStableDebt B principalDebt rate lastUpdate currentTimestamp =
     rayMul B (calcCompoundedInterest B rate currentTimestamp lastUpdate) principalDebt"

definition calcExpectedTotalVariableDebt ::
  "'b bignumber_api \<Rightarrow> 'b ReserveData \<Rightarrow> 'b \<Rightarrow> 'b option" where
  "calcExpectedTotalVariableDebt B reserveData expectedVariableDebtIndex =
     do {
       scaled \<leftarrow> scaledVariableDebt reserveData;
       Some (rayMul B scaled expectedVariableDebtIndex)
     }"

subsection \<open>Average rates\<close>

definition calcExpectedAverageStableBorrowRate ::
  "'b bignumber_api \<Rightarrow> 'b \<Rightarrow> 'b \<Rightarrow> 'b \<Rightarrow> 'b \<Rightarrow> 'b" where
  "calcExpectedAverageStableBorrowRate B avgBefore totalBefore amountChanged rate =
     (let weightedTotalBorrows = bnTimes B avgBefore totalBefore;
          weightedAmountBorrowed = bnTimes B rate amountChanged;
          totalBorrowedStable = bnPlus B totalBefore amountChanged
      in if bnEq B totalBorrowedStable (bnOfNumber B 0) then bnOfString B ''0''
         else bnDecimalPlaces B
                (bnDiv B (bnPlus B weightedTotalBorrows weightedAmountBorrowed) totalBorrowedStable))"

definition calcExpectedAverageStableBorrowRateRebalance ::
  "'b bignumber_api \<Rightarrow> 'b \<Rightarrow> 'b \<Rightarrow> 'b \<Rightarrow> 'b \<Rightarrow> 'b" where
  "calcExpectedAverageStableBorrowRateRebalance B avgBefore totalBefore amountChanged rate =
     (let weightedTotalBorrows = rayMul B avgBefore totalBefore;
          weightedAmountBorrowed = rayMul B rate (wadToRay B amountChanged);
          totalBorrowedStable = bnPlus B totalBefore (wadToRay B amountChanged)
      in if bnEq B totalBorrowedStable (bnOfNumber B 0) then bnOfString B ''0''
         else bnDecimalPlaces B
                (rayDiv B (bnPlus B weightedTotalBorrows weightedAmountBorrowed) totalBorrowedStable))"

definition calcExpectedUserStableRate ::
  "'b bignumber_api \<Rightarrow> 'b \<Rightarrow> 'b \<Rightarrow> 'b \<Rightarrow> 'b \<Rightarrow> 'b" where
  "calcExpectedUserStableRate B balanceBefore rateBefore amount rateNew =
     bnDiv B (bnPlus B (bnTimes B balanceBefore rateBefore) (bnTimes B amount rateNew))
       (bnPlus B balanceBefore amount)"

subsection \<open>Utilization and interest rates\<close>

definition calcExpectedOverallBorrowRate ::
  "'b bignumber_api \<Rightarrow> 'b \<Rightarrow> 'b \<Rightarrow> 'b \<Rightarrow> 'b \<Rightarrow> 'b" where
  "calcExpectedOverallBorrowRate B stableDebt variableDebt currentVariableBorrowRate
       currentAverageStableBorrowRate =
     (let totalBorrows = bnPlus B stableDebt variableDebt
      in if bnEq B totalBorrows (bnOfNumber B 0) then strToBN B ''0''
         else
          (let weightedVariableRate = rayMul B (wadToRay B variableDebt) currentVariableBorrowRate;
               weightedStableRate = rayMul B (wadToRay B stableDebt) currentAverageStableBorrowRate
           in rayDiv B (bnPlus B weightedVariableRate weightedStableRate) (wadToRay B totalBorrows)))"

definition calcExpectedUtilizationRate ::
  "'b bignumber_api \<Rightarrow> 'b \<Rightarrow> 'b \<Rightarrow> 'b \<Rightarrow> 'b" where
  "calcExpectedUtilizationRate B stableDebt variableDebt liquidity =
     (if bnEq B stableDebt (bnOfString B ''0'') \<and> bnEq B variableDebt (bnOfString B ''0'')
      then strToBN B ''0''
      else rayDiv B (bnPlus B stableDebt variableDebt) liquidity)"

text \<open>The configured strategy is looked up by the reserve's symbol in
  \<open>configuration.reservesParams\<close>, the parameter \<open>reservesParams\<close>; an unknown symbol throws.\<close>

definition calcExpectedInterestRates ::
  "'b bignumber_api \<Rightarrow> IReserveParams obj \<Rightarrow> string \<Rightarrow> 'b \<Rightarrow> 'b \<Rightarrow> 'b \<Rightarrow> 'b \<Rightarrow> 'b \<Rightarrow> 'b list option"
where
  "calcExpectedInterestRates B reservesParams reserveSymbol marketRate utilization
       stableDebt variableDebt averageStableRate =
     do {
       (_, reserveConfiguration) \<leftarrow> find_entry reservesParams reserveSymbol;
       let params = strategy reserveConfiguration;
       let base = bnOfString B (baseVariableBorrowRate params);
       let optimalRate = bnOfString B (optimalUtilizationRate params);
       let excessRate = bnMinus B (bnOfString B RAY) optimalRate;
       let (stableRate, variableRate) =
         (if bnGt B utilization optimalRate then
            (let excessUtilizationRateRatio =
                   rayDiv B (bnMinus B utilization (bnOfString B (optimalUtilizationRate params)))
                     excessRate
             in (bnPlus B (bnPlus B marketRate (bnOfString B (stableRateSlope1 params)))
                   (rayMul B (bnOfString B (stableRateSlope2 params)) excessUtilizationRateRatio),
                 bnPlus B (bnPlus B base (bnOfString B (variableRateSlope1 params)))
                   (rayMul B (bnOfString B (variableRateSlope2 params)) excessUtilizationRateRatio)))
          else
            (bnPlus B marketRate
               (rayMul B (bnOfString B (stableRateSlope1 params)) (rayDiv B utilization optimalRate)),
             bnPlus B base
               (rayMul B (rayDiv B utilization optimalRate)
                 (bnOfString B (variableRateSlope1 params)))));
       let expectedOverallRate =
         calcExpectedOverallBorrowRate B stableDebt variableDebt variableRate averageStableRate;
       let liqRate =
         percentMul B (rayMul B expectedOverallRate utilization)
           (bnMinus B (bnOfString B PERCENTAGE_FACTOR)
             (bnOfString B (reserveFactor reserveConfiguration)));
       Some [liqRate, stableRate, variableRate]
     }"

end
