(* ===== verification/RateModel.thy ===== *)
theory RateModel
  imports Calculations
begin

text \<open>
  The integer functions the building blocks of \<^theory_text>\<open>Calculations\<close> compute when their
  operands are finite integers, and the lemmas, inside the bignumber interface, that they do.
  The later theories reason about these functions only.
\<close>

subsection \<open>Integer functions\<close>

definition linear_interest :: "int \<Rightarrow> int \<Rightarrow> int" where
  "linear_interest rate dt = (rate * dt) sdiv 31536000 + ray_unit"

definition compounded_interest :: "int \<Rightarrow> int \<Rightarrow> int" where
  "compounded_interest rate dt =
     (if dt = 0 then ray_unit
      else
       (let em1 = dt - 1;
            em2 = (if dt > 2 then dt - 2 else 0);
            rps = rate sdiv 31536000;
            bp2 = ray_mul rps rps;
            bp3 = ray_mul bp2 rps
        in ray_unit + rps * dt + (dt * em1 * bp2) sdiv 2 + (dt * em1 * em2 * bp3) sdiv 6))"

definition normalized_debt :: "int \<Rightarrow> int \<Rightarrow> int \<Rightarrow> int" where
  "normalized_debt rate index dt =
     (if rate = 0 then index else ray_mul (compounded_interest rate dt) index)"

definition normalized_income :: "int \<Rightarrow> int \<Rightarrow> int \<Rightarrow> int" where
  "normalized_income rate index dt =
     (if rate = 0 then index else ray_mul (linear_interest rate dt) index)"

definition stable_balance :: "int \<Rightarrow> int \<Rightarrow> int \<Rightarrow> int \<Rightarrow> int" where
  "stable_balance principalDebt rate upd now =
     (if rate = 0 \<or> now = upd \<or> upd = 0 then principalDebt
      else ray_mul principalDebt (compounded_interest rate (now - upd)))"

definition total_stable :: "int \<Rightarrow> int \<Rightarrow> int \<Rightarrow> int" where
  "total_stable principalDebt rate dt = ray_mul (compounded_interest rate dt) principalDebt"

definition average_rate :: "int \<Rightarrow> int \<Rightarrow> int \<Rightarrow> int \<Rightarrow> int" where
  "average_rate avg debt amount rate =
     (if debt + amount = 0 then 0 else (avg * debt + rate * amount) sdiv (debt + amount))"

definition rebalance_rate :: "int \<Rightarrow> int \<Rightarrow> int \<Rightarrow> int \<Rightarrow> int" where
  "rebalance_rate avg debt amount rate =
     (if debt + wad_to_ray amount = 0 then 0
      else ray_div (ray_mul avg debt + ray_mul rate (wad_to_ray amount)) (debt + wad_to_ray amount))"

definition user_stable_rate :: "int \<Rightarrow> int \<Rightarrow> int \<Rightarrow> int \<Rightarrow> int" where
  "user_stable_rate balance rate amount rateNew =
     (balance * rate + amount * rateNew) sdiv (balance + amount)"

definition overall_rate :: "int \<Rightarrow> int \<Rightarrow> int \<Rightarrow> int \<Rightarrow> int" where
  "overall_rate sdebt vdebt variableRate averageRate =
     (if sdebt + vdebt = 0 then 0
      else ray_div (ray_mul (wad_to_ray vdebt) variableRate + ray_mul (wad_to_ray sdebt) averageRate)
             (wad_to_ray (sdebt + vdebt)))"

definition utilization :: "int \<Rightarrow> int \<Rightarrow> int \<Rightarrow> int" where
  "utilization sdebt vdebt liquidity =
     (if sdebt = 0 \<and> vdebt = 0 then 0 else ray_div (sdebt + vdebt) liquidity)"

text \<open>The interest rate curve of one strategy: kink at \<open>optimal\<close>.\<close>

definition stable_curve :: "int \<Rightarrow> int \<Rightarrow> int \<Rightarrow> int \<Rightarrow> int \<Rightarrow> int" where
  "stable_curve optimal slope1 slope2 market util =
     (if util > optimal
      then market + slope1 + ray_mul slope2 (ray_div (util - optimal) (ray_unit - optimal))
      else market + ray_mul slope1 (ray_div util optimal))"

definition variable_curve :: "int \<Rightarrow> int \<Rightarrow> int \<Rightarrow> int \<Rightarrow> int \<Rightarrow> int" where
  "variable_curve optimal slope1 slope2 base util =
     (if util > optimal
      then base + slope1 + ray_mul slope2 (ray_div (util - optimal) (ray_unit - optimal))
      else base + ray_mul (ray_div util optimal) slope1)"

subsection \<open>Bounds on accrued interest\<close>

lemma linear_interest_ge: "0 \<le> rate \<Longrightarrow> 0 \<le> dt \<Longrightarrow> ray_unit \<le> linear_interest rate dt"
  by (simp add: linear_interest_def sdiv_ge_0)

lemma compounded_interest_ge:
  assumes "0 \<le> rate" "0 \<le> dt" shows "ray_unit \<le> compounded_interest rate dt"
proof (cases "dt = 0")
  case False
  define rps where "rps = rate sdiv 31536000"
  define bp2 where "bp2 = ray_mul rps rps"
  define bp3 where "bp3 = ray_mul bp2 rps"
  have nn: "0 \<le> rps" "0 \<le> bp2" "0 \<le> bp3"
    using assms by (simp_all add: rps_def bp2_def bp3_def sdiv_ge_0)
  have "0 \<le> rps * dt" "0 \<le> (dt * (dt - 1) * bp2) sdiv 2"
    "0 \<le> (dt * (dt - 1) * (if dt > 2 then dt - 2 else 0) * bp3) sdiv 6"
    using nn assms False by (auto intro!: sdiv_ge_0 mult_nonneg_nonneg)
  with False show ?thesis
    by (simp add: compounded_interest_def rps_def [symmetric] bp2_def [symmetric] bp3_def [symmetric] Let_def
        split: if_splits)
qed (simp add: compounded_interest_def)

lemma compounded_interest_0 [simp]: "compounded_interest rate 0 = ray_unit"
  by (simp add: compounded_interest_def)

lemma linear_interest_0 [simp]: "linear_interest rate 0 = ray_unit"
  by (simp add: linear_interest_def)

lemma ray_unit_nonneg [simp]: "0 \<le> ray_unit" by (rule less_imp_le) simp

lemma ray_mul_ge_right: "ray_unit \<le> a \<Longrightarrow> 0 \<le> b \<Longrightarrow> b \<le> ray_mul a b"
  using ray_mul_ge [of b a] by (simp add: ray_mul_def fixed_mul_commute)

lemma normalized_debt_ge:
  "0 \<le> rate \<Longrightarrow> 0 \<le> dt \<Longrightarrow> 0 \<le> index \<Longrightarrow> index \<le> normalized_debt rate index dt"
  by (simp add: normalized_debt_def ray_mul_ge_right compounded_interest_ge)

lemma normalized_income_ge:
  "0 \<le> rate \<Longrightarrow> 0 \<le> dt \<Longrightarrow> 0 \<le> index \<Longrightarrow> index \<le> normalized_income rate index dt"
  by (simp add: normalized_income_def ray_mul_ge_right linear_interest_ge)

lemma total_stable_ge:
  "0 \<le> rate \<Longrightarrow> 0 \<le> dt \<Longrightarrow> 0 \<le> p \<Longrightarrow> p \<le> total_stable p rate dt"
  by (simp add: total_stable_def ray_mul_ge_right compounded_interest_ge)

lemma stable_balance_ge:
  "0 \<le> rate \<Longrightarrow> upd \<le> now \<Longrightarrow> 0 \<le> p \<Longrightarrow> p \<le> stable_balance p rate upd now"
  by (simp add: stable_balance_def ray_mul_ge compounded_interest_ge)

subsection \<open>The building blocks compute them\<close>

definition present :: "('b \<Rightarrow> bool) \<Rightarrow> 'b option \<Rightarrow> bool" where
  "present ok v = (case v of None \<Rightarrow> False | Some x \<Rightarrow> ok x)"

definition value_of :: "('b \<Rightarrow> int) \<Rightarrow> 'b option \<Rightarrow> int" where
  "value_of ival v = ival (the v)"

lemma present_Some [simp]: "present ok (Some x) = ok x" "\<not> present ok None"
  by (simp_all add: present_def)

lemma value_of_Some [simp]: "value_of ival (Some x) = ival x"
  by (simp add: value_of_def)

lemma presentE: "present ok v \<Longrightarrow> (\<And>x. v = Some x \<Longrightarrow> ok x \<Longrightarrow> P) \<Longrightarrow> P"
  by (auto simp: present_def split: option.splits)

lemma present_iff: "present ok v \<longleftrightarrow> (\<exists>x. v = Some x \<and> ok x)"
  by (auto simp: present_def split: option.splits)

context bignumber
begin

lemma strToBN_0 [simp]: "ok (strToBN B ''0'')" "ival (strToBN B ''0'') = 0"
  by (simp_all add: strToBN_def)

lemma linear_spec [simp]:
  assumes "ok rate" "ok now" "ok upd"
  shows "ok (calcLinearInterest B rate now upd)"
    "ival (calcLinearInterest B rate now upd) = linear_interest (ival rate) (ival now - ival upd)"
  using assms by (simp_all add: calcLinearInterest_def linear_interest_def)

lemma compounded_spec [simp]:
  assumes "ok rate" "ok now" "ok upd"
  shows "ok (calcCompoundedInterest B rate now upd)"
    "ival (calcCompoundedInterest B rate now upd) =
      compounded_interest (ival rate) (ival now - ival upd)"
  using assms
  by (simp_all add: calcCompoundedInterest_def compounded_interest_def Let_def)

lemma normalized_debt_spec [simp]:
  assumes "ok rate" "ok index" "ok upd" "ok now"
  shows "ok (calcExpectedReserveNormalizedDebt B rate index upd now)"
    "ival (calcExpectedReserveNormalizedDebt B rate index upd now) =
      normalized_debt (ival rate) (ival index) (ival now - ival upd)"
  using assms by (simp_all add: calcExpectedReserveNormalizedDebt_def normalized_debt_def)

lemma stable_balance_spec [simp]:
  assumes "ok p" "ok rate" "ok upd" "ok now"
  shows "ok (calcExpectedStableDebtTokenBalance B p rate upd now)"
    "ival (calcExpectedStableDebtTokenBalance B p rate upd now) =
      stable_balance (ival p) (ival rate) (ival upd) (ival now)"
  using assms by (simp_all add: calcExpectedStableDebtTokenBalance_def stable_balance_def)

lemma total_stable_spec [simp]:
  assumes "ok p" "ok rate" "ok upd" "ok now"
  shows "ok (calcExpectedTotalStableDebt B p rate upd now)"
    "ival (calcExpectedTotalStableDebt B p rate upd now) =
      total_stable (ival p) (ival rate) (ival now - ival upd)"
  using assms by (simp_all add: calcExpectedTotalStableDebt_def total_stable_def)

lemma average_rate_spec [simp]:
  assumes "ok avg" "ok debt" "ok amount" "ok rate"
  shows "ok (calcExpectedAverageStableBorrowRate B avg debt amount rate)"
    "ival (calcExpectedAverageStableBorrowRate B avg debt amount rate) =
      average_rate (ival avg) (ival debt) (ival amount) (ival rate)"
  using assms by (simp_all add: calcExpectedAverageStableBorrowRate_def average_rate_def Let_def)

lemma rebalance_rate_spec [simp]:
  assumes "ok avg" "ok debt" "ok amount" "ok rate"
  shows "ok (calcExpectedAverageStableBorrowRateRebalance B avg debt amount rate)"
    "ival (calcExpectedAverageStableBorrowRateRebalance B avg debt amount rate) =
      rebalance_rate (ival avg) (ival debt) (ival amount) (ival rate)"
  using assms
  by (simp_all add: calcExpectedAverageStableBorrowRateRebalance_def rebalance_rate_def Let_def)

lemma user_stable_rate_spec [simp]:
  assumes "ok balance" "ok rate" "ok amount" "ok rateNew" "ival balance + ival amount \<noteq> 0"
  shows "ok (calcExpectedUserStableRate B balance rate amount rateNew)"
    "ival (calcExpectedUserStableRate B balance rate amount rateNew) =
      user_stable_rate (ival balance) (ival rate) (ival amount) (ival rateNew)"
  using assms by (simp_all add: calcExpectedUserStableRate_def user_stable_rate_def)

lemma overall_rate_spec [simp]:
  assumes "ok s" "ok v" "ok vr" "ok ar"
  shows "ok (calcExpectedOverallBorrowRate B s v vr ar)"
    "ival (calcExpectedOverallBorrowRate B s v vr ar) =
      overall_rate (ival s) (ival v) (ival vr) (ival ar)"
proof -
  have "wad_to_ray (ival s + ival v) \<noteq> 0" if "ival s + ival v \<noteq> 0"
    using that by (simp add: wad_to_ray_def)
  with assms show "ok (calcExpectedOverallBorrowRate B s v vr ar)"
    "ival (calcExpectedOverallBorrowRate B s v vr ar) =
      overall_rate (ival s) (ival v) (ival vr) (ival ar)"
    by (simp_all add: calcExpectedOverallBorrowRate_def overall_rate_def Let_def)
qed

lemma utilization_spec [simp]:
  assumes "ok s" "ok v" "ok l" "ival l \<noteq> 0 \<or> ival s = 0 \<and> ival v = 0"
  shows "ok (calcExpectedUtilizationRate B s v l)"
    "ival (calcExpectedUtilizationRate B s v l) = utilization (ival s) (ival v) (ival l)"
  using assms by (auto simp: calcExpectedUtilizationRate_def utilization_def)

end

end
