(* ===== verification/SolidityMath.thy ===== *)
theory SolidityMath
  imports RateModel "HOL-Library.Word"
begin

text \<open>
  The contracts' arithmetic: \<open>SafeMath.sol\<close>, \<open>WadRayMath.sol\<close>, \<open>PercentageMath.sol\<close> and
  \<open>MathUtils.sol\<close>.  A \<open>uint256\<close> is a 256-bit word, whose operators wrap; a \<open>require\<close> that fails
  is the left value with its message.  The lemmas say that a call that does not revert returns
  the exact integer result.
\<close>

type_synonym uint256 = "256 word"

definition require :: "bool \<Rightarrow> string \<Rightarrow> string + 'a \<Rightarrow> string + 'a" where
  "require c message k = (if c then k else Inl message)"

definition max_uint :: uint256 where "max_uint = - 1"

subsection \<open>Libraries\<close>

definition sol_add :: "uint256 \<Rightarrow> uint256 \<Rightarrow> string + uint256" where
  "sol_add a b = (let c = a + b in require (c \<ge> a) ''SafeMath: addition overflow'' (Inr c))"

definition sol_sub :: "uint256 \<Rightarrow> uint256 \<Rightarrow> string + uint256" where
  "sol_sub a b = require (b \<le> a) ''SafeMath: subtraction overflow'' (Inr (a - b))"

definition sol_mul :: "uint256 \<Rightarrow> uint256 \<Rightarrow> string + uint256" where
  "sol_mul a b =
     (if a = 0 then Inr 0
      else let c = a * b in require (c div a = b) ''SafeMath: multiplication overflow'' (Inr c))"

definition sol_RAY :: uint256 where "sol_RAY = 1000000000000000000000000000"
definition sol_halfRAY :: uint256 where "sol_halfRAY = sol_RAY div 2"
definition sol_WAD :: uint256 where "sol_WAD = 1000000000000000000"
definition sol_halfWAD :: uint256 where "sol_halfWAD = sol_WAD div 2"
definition sol_WAD_RAY_RATIO :: uint256 where "sol_WAD_RAY_RATIO = 1000000000"
definition sol_PERCENTAGE_FACTOR :: uint256 where "sol_PERCENTAGE_FACTOR = 10000"
definition sol_HALF_PERCENT :: uint256 where "sol_HALF_PERCENT = sol_PERCENTAGE_FACTOR div 2"
definition sol_SECONDS_PER_YEAR :: uint256 where "sol_SECONDS_PER_YEAR = 31536000"

definition sol_wadMul :: "uint256 \<Rightarrow> uint256 \<Rightarrow> string + uint256" where
  "sol_wadMul a b =
     (if a = 0 \<or> b = 0 then Inr 0
      else require (a \<le> (max_uint - sol_halfWAD) div b) ''48'' (Inr ((a * b + sol_halfWAD) div sol_WAD)))"

definition sol_wadDiv :: "uint256 \<Rightarrow> uint256 \<Rightarrow> string + uint256" where
  "sol_wadDiv a b =
     require (b \<noteq> 0) ''50''
       (let halfB = b div 2
        in require (a \<le> (max_uint - halfB) div sol_WAD) ''48'' (Inr ((a * sol_WAD + halfB) div b)))"

definition sol_rayMul :: "uint256 \<Rightarrow> uint256 \<Rightarrow> string + uint256" where
  "sol_rayMul a b =
     (if a = 0 \<or> b = 0 then Inr 0
      else require (a \<le> (max_uint - sol_halfRAY) div b) ''48'' (Inr ((a * b + sol_halfRAY) div sol_RAY)))"

definition sol_rayDiv :: "uint256 \<Rightarrow> uint256 \<Rightarrow> string + uint256" where
  "sol_rayDiv a b =
     require (b \<noteq> 0) ''50''
       (let halfB = b div 2
        in require (a \<le> (max_uint - halfB) div sol_RAY) ''48'' (Inr ((a * sol_RAY + halfB) div b)))"

definition sol_rayToWad :: "uint256 \<Rightarrow> string + uint256" where
  "sol_rayToWad a =
     (let halfRatio = sol_WAD_RAY_RATIO div 2; result = halfRatio + a
      in require (result \<ge> halfRatio) ''49'' (Inr (result div sol_WAD_RAY_RATIO)))"

definition sol_wadToRay :: "uint256 \<Rightarrow> string + uint256" where
  "sol_wadToRay a =
     (let result = a * sol_WAD_RAY_RATIO
      in require (result div sol_WAD_RAY_RATIO = a) ''48'' (Inr result))"

definition sol_percentMul :: "uint256 \<Rightarrow> uint256 \<Rightarrow> string + uint256" where
  "sol_percentMul value percentage =
     (if value = 0 \<or> percentage = 0 then Inr 0
      else require (value \<le> (max_uint - sol_HALF_PERCENT) div percentage) ''48''
             (Inr ((value * percentage + sol_HALF_PERCENT) div sol_PERCENTAGE_FACTOR)))"

definition sol_percentDiv :: "uint256 \<Rightarrow> uint256 \<Rightarrow> string + uint256" where
  "sol_percentDiv value percentage =
     require (percentage \<noteq> 0) ''50''
       (let halfPercentage = percentage div 2
        in require (value \<le> (max_uint - halfPercentage) div sol_PERCENTAGE_FACTOR) ''48''
             (Inr ((value * sol_PERCENTAGE_FACTOR + halfPercentage) div percentage)))"

definition sol_calculateLinearInterest :: "uint256 \<Rightarrow> uint256 \<Rightarrow> uint256 \<Rightarrow> string + uint256" where
  "sol_calculateLinearInterest rate lastUpdateTime blockTime =
     andThen (sol_sub blockTime lastUpdateTime) (\<lambda>timeDifference.
     andThen (sol_mul rate timeDifference) (\<lambda>m.
     sol_add (m div sol_SECONDS_PER_YEAR) sol_RAY))"

definition sol_calculateCompoundedInterest :: "uint256 \<Rightarrow> uint256 \<Rightarrow> uint256 \<Rightarrow> string + uint256" where
  "sol_calculateCompoundedInterest rate lastUpdateTime currentTime =
     andThen (sol_sub currentTime lastUpdateTime) (\<lambda>expn.
     if expn = 0 then Inr sol_RAY
     else
      (let expMinusOne = expn - 1;
           expMinusTwo = (if expn > 2 then expn - 2 else 0);
           ratePerSecond = rate div sol_SECONDS_PER_YEAR
       in andThen (sol_rayMul ratePerSecond ratePerSecond) (\<lambda>basePowerTwo.
          andThen (sol_rayMul basePowerTwo ratePerSecond) (\<lambda>basePowerThree.
          andThen (sol_mul expn expMinusOne) (\<lambda>e1.
          andThen (sol_mul e1 basePowerTwo) (\<lambda>e2.
          let secondTerm = e2 div 2 in
          andThen (sol_mul expn expMinusOne) (\<lambda>e3.
          andThen (sol_mul e3 expMinusTwo) (\<lambda>e4.
          andThen (sol_mul e4 basePowerThree) (\<lambda>e5.
          let thirdTerm = e5 div 6 in
          andThen (sol_mul ratePerSecond expn) (\<lambda>first.
          andThen (sol_add sol_RAY first) (\<lambda>s1.
          andThen (sol_add s1 secondTerm) (\<lambda>s2.
          sol_add s2 thirdTerm))))))))))))"

subsection \<open>Exactness\<close>

lemma require_Inr [simp]: "require c message k = Inr y \<longleftrightarrow> c \<and> k = Inr y"
  by (simp add: require_def)

lemma uint_lt: "uint (x :: uint256) < 2 ^ 256"
  using uint_lt2p [of x] by simp

lemma uint_max: "uint max_uint = 2 ^ 256 - 1"
  by (simp add: max_uint_def uint_word_ariths)

lemma uint_mult_exact:
  fixes a b :: uint256
  assumes "uint a * uint b < 2 ^ 256" shows "uint (a * b) = uint a * uint b"
  using assms by (simp add: uint_word_ariths)

lemma uint_add_exact:
  fixes a b :: uint256
  assumes "uint a + uint b < 2 ^ 256" shows "uint (a + b) = uint a + uint b"
  using assms by (simp add: uint_word_ariths)

lemma uint_sub_exact:
  fixes a b :: uint256
  assumes "b \<le> a" shows "uint (a - b) = uint a - uint b"
proof -
  have "0 \<le> uint a - uint b" using assms by (simp add: word_le_def)
  moreover have "uint a - uint b < 2 ^ 256" using uint_lt [of a] uint_ge_0 [of b] by linarith
  ultimately show ?thesis by (simp add: uint_word_ariths)
qed

lemma int_div_mult_le: "0 < d \<Longrightarrow> (c div d) * d \<le> (c :: int)"
  using pos_mod_sign [of d c] div_mult_mod_eq [of c d] by linarith

lemma uint_pos: "(b :: uint256) \<noteq> 0 \<Longrightarrow> 0 < uint b"
  using uint_ge_0 [of b] by (simp add: uint_0_iff order_less_le)

lemma sol_add_exact: "sol_add a b = Inr c \<Longrightarrow> uint c = uint a + uint b"
  by (auto simp: sol_add_def Let_def uint_plus_simple)

lemma sol_sub_exact: "sol_sub a b = Inr c \<Longrightarrow> uint b \<le> uint a \<and> uint c = uint a - uint b"
  by (auto simp: sol_sub_def uint_sub_exact word_le_def)

lemma sol_mul_exact: "sol_mul a b = Inr c \<Longrightarrow> uint c = uint a * uint b"
proof (cases "a = 0")
  case False
  assume "sol_mul a b = Inr c"
  with False have c: "c = a * b" "c div a = b" by (auto simp: sol_mul_def Let_def)
  have "uint b = uint c div uint a" using c(2) by (metis uint_div)
  then have "uint a * uint b \<le> uint c"
    using int_div_mult_le [OF uint_pos [OF False], of "uint c"] by (simp add: mult.commute)
  then have "uint a * uint b < 2 ^ 256" using uint_lt [of c] by linarith
  with c(1) show ?thesis by (simp add: uint_mult_exact)
qed (simp add: sol_mul_def)

text \<open>The two guarded shapes of the fixed-point libraries.\<close>

lemma guarded_mul:
  fixes a b half unit :: uint256
  assumes "b \<noteq> 0" "a \<le> (max_uint - half) div b"
  shows "uint ((a * b + half) div unit) = (uint a * uint b + uint half) div uint unit"
proof -
  have b: "0 < uint b" by (rule uint_pos [OF assms(1)])
  have "uint (max_uint - half) = 2 ^ 256 - 1 - uint half"
    using uint_sub_exact [of half max_uint] uint_lt [of half] by (simp add: word_le_def uint_max)
  with assms(2) have "uint a \<le> (2 ^ 256 - 1 - uint half) div uint b"
    by (simp add: word_le_def uint_div)
  then have "uint a * uint b \<le> (2 ^ 256 - 1 - uint half) div uint b * uint b"
    using b by (intro mult_right_mono) simp_all
  then have "uint a * uint b \<le> 2 ^ 256 - 1 - uint half"
    using int_div_mult_le [OF b, of "2 ^ 256 - 1 - uint half"] by linarith
  then have "uint a * uint b + uint half < 2 ^ 256" by linarith
  moreover from this have "uint a * uint b < 2 ^ 256"
    using uint_ge_0 [of half] by linarith
  ultimately show ?thesis by (simp add: uint_div uint_mult_exact uint_add_exact)
qed

lemma guarded_div:
  fixes a b unit :: uint256
  assumes "unit \<noteq> 0" "a \<le> (max_uint - b div 2) div unit"
  shows "uint ((a * unit + b div 2) div b) = (uint a * uint unit + uint b div 2) div uint b"
  using guarded_mul [OF assms, of b] by (simp add: uint_div)

lemma unit_values [simp]:
  "uint sol_RAY = ray_unit" "uint sol_WAD = wad_unit" "uint sol_WAD_RAY_RATIO = 10 ^ 9"
  "uint sol_PERCENTAGE_FACTOR = 10000" "uint sol_SECONDS_PER_YEAR = 31536000"
  "uint sol_halfRAY = ray_unit div 2" "uint sol_halfWAD = wad_unit div 2" "uint sol_HALF_PERCENT = 5000"
  by (simp_all add: sol_RAY_def sol_WAD_def sol_WAD_RAY_RATIO_def sol_PERCENTAGE_FACTOR_def
      sol_SECONDS_PER_YEAR_def ray_unit_def wad_unit_def sol_halfRAY_def sol_halfWAD_def
      sol_HALF_PERCENT_def uint_div)

lemma units_nonzero [simp]: "sol_RAY \<noteq> 0" "sol_WAD \<noteq> 0" "sol_PERCENTAGE_FACTOR \<noteq> 0"
  by (simp_all add: sol_RAY_def sol_WAD_def sol_PERCENTAGE_FACTOR_def)

lemma fixed_mul_floor: "0 < unit \<Longrightarrow> 0 \<le> a \<Longrightarrow> 0 \<le> b \<Longrightarrow> fixed_mul unit a b = (a * b + unit div 2) div unit"
  by (simp add: fixed_mul_def sdiv_nonneg pos_imp_zdiv_nonneg_iff add.commute)

lemma fixed_div_floor: "0 < unit \<Longrightarrow> 0 \<le> a \<Longrightarrow> 0 < b \<Longrightarrow> fixed_div unit a b = (a * unit + b div 2) div b"
  by (simp add: fixed_div_def sdiv_nonneg pos_imp_zdiv_nonneg_iff add.commute)

lemma half_div_unit [simp]: "0 < unit \<Longrightarrow> unit div 2 div unit = (0 :: int)"
  by (rule div_pos_pos_trivial) simp_all

lemma sol_rayMul_exact: "sol_rayMul a b = Inr c \<Longrightarrow> uint c = ray_mul (uint a) (uint b)"
  by (auto simp: sol_rayMul_def ray_mul_def fixed_mul_floor guarded_mul split: if_splits)

lemma sol_wadMul_exact: "sol_wadMul a b = Inr c \<Longrightarrow> uint c = wad_mul (uint a) (uint b)"
  by (auto simp: sol_wadMul_def wad_mul_def fixed_mul_floor guarded_mul split: if_splits)

lemma sol_percentMul_exact: "sol_percentMul a b = Inr c \<Longrightarrow> uint c = percent_mul (uint a) (uint b)"
  by (auto simp: sol_percentMul_def percent_mul_def fixed_mul_floor guarded_mul split: if_splits)

lemma sol_rayDiv_exact: "sol_rayDiv a b = Inr c \<Longrightarrow> uint b \<noteq> 0 \<and> uint c = ray_div (uint a) (uint b)"
  by (auto simp: sol_rayDiv_def Let_def ray_div_def fixed_div_floor uint_pos guarded_div uint_0_iff)

lemma sol_wadDiv_exact: "sol_wadDiv a b = Inr c \<Longrightarrow> uint b \<noteq> 0 \<and> uint c = wad_div (uint a) (uint b)"
  by (auto simp: sol_wadDiv_def Let_def wad_div_def fixed_div_floor uint_pos guarded_div uint_0_iff)

lemma sol_percentDiv_exact:
  "sol_percentDiv a b = Inr c \<Longrightarrow> uint b \<noteq> 0 \<and> uint c = percent_div (uint a) (uint b)"
  by (auto simp: sol_percentDiv_def Let_def percent_div_def fixed_div_floor uint_pos guarded_div uint_0_iff)

lemma sol_wadToRay_exact: "sol_wadToRay a = Inr c \<Longrightarrow> uint c = wad_to_ray (uint a)"
proof -
  assume "sol_wadToRay a = Inr c"
  then have c: "c = a * sol_WAD_RAY_RATIO" "c div sol_WAD_RAY_RATIO = a"
    by (auto simp: sol_wadToRay_def Let_def)
  have "uint a = uint c div uint sol_WAD_RAY_RATIO" using c(2) by (metis uint_div)
  then have "uint a * 10 ^ 9 \<le> uint c" using int_div_mult_le [of "10 ^ 9" "uint c"] by simp
  then have "uint a * uint sol_WAD_RAY_RATIO < 2 ^ 256" using uint_lt [of c] by simp
  with c(1) show ?thesis by (simp add: uint_mult_exact wad_to_ray_def)
qed

lemma sol_rayToWad_exact: "sol_rayToWad a = Inr c \<Longrightarrow> uint c = ray_to_wad (uint a)"
proof -
  assume "sol_rayToWad a = Inr c"
  then have "sol_WAD_RAY_RATIO div 2 \<le> sol_WAD_RAY_RATIO div 2 + a"
    "c = (sol_WAD_RAY_RATIO div 2 + a) div sol_WAD_RAY_RATIO"
    by (auto simp: sol_rayToWad_def Let_def)
  then have "uint c = (uint (sol_WAD_RAY_RATIO div 2) + uint a) div uint sol_WAD_RAY_RATIO"
    by (simp only: uint_div uint_plus_simple)
  then show ?thesis by (simp add: uint_div ray_to_wad_def sdiv_nonneg)
qed

lemma sol_calculateLinearInterest_exact:
  "sol_calculateLinearInterest rate upd now = Inr c \<Longrightarrow>
   uint upd \<le> uint now \<and> uint c = linear_interest (uint rate) (uint now - uint upd)"
  by (auto simp: sol_calculateLinearInterest_def linear_interest_def uint_div sdiv_nonneg
      dest!: sol_sub_exact sol_mul_exact sol_add_exact)

lemma uint_minus_1: "(e :: uint256) \<noteq> 0 \<Longrightarrow> uint (e - 1) = uint e - 1"
  using uint_sub_exact [of 1 e] uint_pos [of e] by (simp add: word_le_def)

lemma uint_minus_2:
  "uint (if e > 2 then e - 2 else (0 :: uint256)) = (if uint e > 2 then uint e - 2 else 0)"
  using uint_sub_exact [of 2 e] by (simp add: word_less_def word_le_def)

lemma sol_calculateCompoundedInterest_exact:
  assumes "sol_calculateCompoundedInterest rate upd now = Inr c"
  shows "uint upd \<le> uint now \<and> uint c = compounded_interest (uint rate) (uint now - uint upd)"
proof -
  from assms obtain e where e: "sol_sub now upd = Inr e"
    by (auto simp: sol_calculateCompoundedInterest_def)
  note sub = sol_sub_exact [OF e]
  show ?thesis
  proof (cases "e = 0")
    case True
    with assms e sub show ?thesis by (simp add: sol_calculateCompoundedInterest_def)
  next
    case False
    have em1: "uint (e - 1) = uint e - 1" by (rule uint_minus_1 [OF False])
    define em2 where "em2 = (if e > 2 then e - 2 else 0)"
    have em2: "uint em2 = (if uint e > 2 then uint e - 2 else 0)"
      unfolding em2_def by (rule uint_minus_2)
    define rps where "rps = rate div sol_SECONDS_PER_YEAR"
    have rps: "uint rps = uint rate sdiv 31536000" by (simp add: rps_def uint_div sdiv_nonneg)
    from assms e False obtain p2 p3 e1 e2 e4 e5 f s1 s2 where
      rm: "sol_rayMul rps rps = Inr p2" "sol_rayMul p2 rps = Inr p3"
      and mul: "sol_mul e (e - 1) = Inr e1"
        "sol_mul e1 p2 = Inr e2" "sol_mul e1 em2 = Inr e4" "sol_mul e4 p3 = Inr e5"
        "sol_mul rps e = Inr f"
      and add: "sol_add sol_RAY f = Inr s1" "sol_add s1 (e2 div 2) = Inr s2"
        "sol_add s2 (e5 div 6) = Inr c"
      by (auto simp: sol_calculateCompoundedInterest_def Let_def rps_def [symmetric] em2_def [symmetric])
    have exact: "uint p2 = ray_mul (uint rps) (uint rps)" "uint p3 = ray_mul (uint p2) (uint rps)"
      "uint e1 = uint e * uint (e - 1)" "uint e2 = uint e1 * uint p2" "uint e4 = uint e1 * uint em2"
      "uint e5 = uint e4 * uint p3" "uint f = uint rps * uint e" "uint s1 = ray_unit + uint f"
      "uint s2 = uint s1 + uint e2 div 2" "uint c = uint s2 + uint e5 div 6"
      using rm [THEN sol_rayMul_exact] mul [THEN sol_mul_exact] add [THEN sol_add_exact]
      by (simp_all add: uint_div)
    have "uint e = uint now - uint upd" "uint now - uint upd \<noteq> 0"
      using sub uint_pos [OF False] by auto
    moreover have "uint c = ray_unit + uint rps * uint e + uint e2 sdiv 2 + uint e5 sdiv 6"
      using exact by (simp add: sdiv_nonneg)
    ultimately show ?thesis
      using sub by (simp add: exact(1-6) em1 em2 rps compounded_interest_def Let_def)
  qed
qed

end
