(* ===== verification/ReserveOracle.thy ===== *)
theory ReserveOracle
  imports RateModel
begin

text \<open>
  The expected reserve after each action: the \<open>calcExpectedReserveDataAfter...\<close> functions of
  \<open>utils/calculations.ts\<close>.  Each builds an object field by field from the empty object, so the
  definitions thread a record through the same assignments in the same order; a field the code
  never assigns stays \<open>None\<close>.
\<close>

definition calcExpectedReserveDataAfterDeposit ::
  "'b bignumber_api \<Rightarrow> IReserveParams obj \<Rightarrow> string \<Rightarrow> 'b ReserveData \<Rightarrow> 'b \<Rightarrow> 'b ReserveData option"
where
  "calcExpectedReserveDataAfterDeposit B reservesParams amountDeposited prior txTimestamp =
     do {
       let e = empty_reserve\<lparr>address := address prior\<rparr>;
       liquidityBefore \<leftarrow> totalLiquidity prior;
       let e = e\<lparr>totalLiquidity := Some (bnPlus B liquidityBefore (bnOfString B amountDeposited))\<rparr>;
       available \<leftarrow> availableLiquidity prior;
       let e = e\<lparr>availableLiquidity := Some (bnPlus B available (bnOfString B amountDeposited))\<rparr>;
       let e = e\<lparr>averageStableBorrowRate := averageStableBorrowRate prior\<rparr>;
       liqIndex \<leftarrow> calcExpectedLiquidityIndex B prior txTimestamp;
       let e = e\<lparr>liquidityIndex := Some liqIndex\<rparr>;
       varIndex \<leftarrow> calcExpectedVariableBorrowIndex B prior txTimestamp;
       let e = e\<lparr>variableBorrowIndex := Some varIndex\<rparr>;
       principalDebt \<leftarrow> principalStableDebt prior;
       avgRate \<leftarrow> averageStableBorrowRate prior;
       stableUpdated \<leftarrow> totalStableDebtLastUpdated prior;
       let e = e\<lparr>totalStableDebt :=
         Some (calcExpectedTotalStableDebt B principalDebt avgRate stableUpdated txTimestamp)\<rparr>;
       variableDebt \<leftarrow> calcExpectedTotalVariableDebt B prior varIndex;
       let e = e\<lparr>totalVariableDebt := Some variableDebt\<rparr>;
       let e = e\<lparr>scaledVariableDebt := scaledVariableDebt prior\<rparr>;
       let e = e\<lparr>principalStableDebt := principalStableDebt prior\<rparr>;
       stableDebt \<leftarrow> totalStableDebt e;
       liquidity \<leftarrow> totalLiquidity e;
       let util = calcExpectedUtilizationRate B stableDebt variableDebt liquidity;
       let e = e\<lparr>utilizationRate := Some util\<rparr>;
       sym \<leftarrow> symbol prior;
       marketRate \<leftarrow> marketStableRate prior;
       rates \<leftarrow> calcExpectedInterestRates B reservesParams sym marketRate util stableDebt
                 variableDebt avgRate;
       let e = e\<lparr>liquidityRate := Some (rates ! 0)\<rparr>;
       let e = e\<lparr>stableBorrowRate := Some (rates ! 1)\<rparr>;
       let e = e\<lparr>variableBorrowRate := Some (rates ! 2)\<rparr>;
       Some e
     }"

definition calcExpectedReserveDataAfterWithdraw ::
  "'b bignumber_api \<Rightarrow> IReserveParams obj \<Rightarrow> string \<Rightarrow> 'b ReserveData \<Rightarrow> 'b UserReserveData \<Rightarrow> 'b \<Rightarrow>
   'b ReserveData option"
where
  "calcExpectedReserveDataAfterWithdraw B reservesParams amountWithdrawn prior user txTimestamp =
     do {
       let e = empty_reserve\<lparr>address := address prior\<rparr>;
       amount \<leftarrow>
         (if amountWithdrawn = MAX_UINT_AMOUNT
          then map_option (bnToFixed B) (calcExpectedLTokenBalance B prior user txTimestamp)
          else Some amountWithdrawn);
       available \<leftarrow> availableLiquidity prior;
       let e = e\<lparr>availableLiquidity := Some (bnMinus B available (bnOfString B amount))\<rparr>;
       let e = e\<lparr>principalStableDebt := principalStableDebt prior\<rparr>;
       let e = e\<lparr>scaledVariableDebt := scaledVariableDebt prior\<rparr>;
       liqIndex \<leftarrow> calcExpectedLiquidityIndex B prior txTimestamp;
       let e = e\<lparr>liquidityIndex := Some liqIndex\<rparr>;
       varIndex \<leftarrow> calcExpectedVariableBorrowIndex B prior txTimestamp;
       let e = e\<lparr>variableBorrowIndex := Some varIndex\<rparr>;
       principalDebt \<leftarrow> principalStableDebt prior;
       avgRate \<leftarrow> averageStableBorrowRate prior;
       stableUpdated \<leftarrow> totalStableDebtLastUpdated prior;
       let stableDebt = calcExpectedTotalStableDebt B principalDebt avgRate stableUpdated txTimestamp;
       let e = e\<lparr>totalStableDebt := Some stableDebt\<rparr>;
       scaled \<leftarrow> scaledVariableDebt e;
       let variableDebt = rayMul B scaled varIndex;
       let e = e\<lparr>totalVariableDebt := Some variableDebt\<rparr>;
       let e = e\<lparr>averageStableBorrowRate := averageStableBorrowRate prior\<rparr>;
       let liquidity =
         bnPlus B (bnPlus B (bnMinus B available (bnOfString B amount)) variableDebt) stableDebt;
       let e = e\<lparr>totalLiquidity := Some liquidity\<rparr>;
       let util = calcExpectedUtilizationRate B stableDebt variableDebt liquidity;
       let e = e\<lparr>utilizationRate := Some util\<rparr>;
       sym \<leftarrow> symbol prior;
       marketRate \<leftarrow> marketStableRate prior;
       rates \<leftarrow> calcExpectedInterestRates B reservesParams sym marketRate util stableDebt
                 variableDebt avgRate;
       let e = e\<lparr>liquidityRate := Some (rates ! 0)\<rparr>;
       let e = e\<lparr>stableBorrowRate := Some (rates ! 1)\<rparr>;
       let e = e\<lparr>variableBorrowRate := Some (rates ! 2)\<rparr>;
       Some e
     }"

definition calcExpectedReserveDataAfterBorrow ::
  "'b bignumber_api \<Rightarrow> IReserveParams obj \<Rightarrow> string \<Rightarrow> string \<Rightarrow> 'b ReserveData \<Rightarrow>
   'b UserReserveData \<Rightarrow> 'b \<Rightarrow> 'b \<Rightarrow> 'b ReserveData option"
where
  "calcExpectedReserveDataAfterBorrow B reservesParams amountBorrowed borrowRateMode prior user
       txTimestamp currentTimestamp =
     do {
       let e = empty_reserve\<lparr>address := address prior\<rparr>;
       let amountBorrowedBN = bnOfString B amountBorrowed;
       liqIndex \<leftarrow> calcExpectedLiquidityIndex B prior txTimestamp;
       let e = e\<lparr>liquidityIndex := Some liqIndex\<rparr>;
       varIndex \<leftarrow> calcExpectedVariableBorrowIndex B prior txTimestamp;
       let e = e\<lparr>variableBorrowIndex := Some varIndex\<rparr>;
       availableBefore \<leftarrow> availableLiquidity prior;
       let available = bnMinus B availableBefore amountBorrowedBN;
       let e = e\<lparr>availableLiquidity := Some available\<rparr>;
       let e = e\<lparr>lastUpdateTimestamp := Some txTimestamp\<rparr>;
       sym \<leftarrow> symbol prior;
       marketRate \<leftarrow> marketStableRate prior;
       principalBefore \<leftarrow> principalStableDebt prior;
       avgBefore \<leftarrow> averageStableBorrowRate prior;
       stableUpdated \<leftarrow> totalStableDebtLastUpdated prior;
       scaledBefore \<leftarrow> scaledVariableDebt prior;
       if borrowRateMode = RateMode_value RateStable then do {
         let e = e\<lparr>scaledVariableDebt := scaledVariableDebt prior\<rparr>;
         let variableDebtAfterTx = rayMul B scaledBefore varIndex;
         let stableDebtUntilTx =
           calcExpectedTotalStableDebt B principalBefore avgBefore stableUpdated txTimestamp;
         let principalDebt = bnPlus B stableDebtUntilTx amountBorrowedBN;
         let e = e\<lparr>principalStableDebt := Some principalDebt\<rparr>;
         stableRateBefore \<leftarrow> stableBorrowRate prior;
         let avgRate =
           calcExpectedAverageStableBorrowRate B avgBefore stableDebtUntilTx amountBorrowedBN
             stableRateBefore;
         let e = e\<lparr>averageStableBorrowRate := Some avgRate\<rparr>;
         let liquidityAfterTx = bnPlus B (bnPlus B available principalDebt) variableDebtAfterTx;
         let utilAfterTx =
           calcExpectedUtilizationRate B principalDebt variableDebtAfterTx liquidityAfterTx;
         ratesAfterTx \<leftarrow> calcExpectedInterestRates B reservesParams sym marketRate utilAfterTx
                          principalDebt variableDebtAfterTx avgRate;
         let e = e\<lparr>liquidityRate := Some (ratesAfterTx ! 0)\<rparr>;
         let e = e\<lparr>stableBorrowRate := Some (ratesAfterTx ! 1)\<rparr>;
         let e = e\<lparr>variableBorrowRate := Some (ratesAfterTx ! 2)\<rparr>;
         let stableDebt =
           calcExpectedTotalStableDebt B principalDebt avgRate txTimestamp currentTimestamp;
         let e = e\<lparr>totalStableDebt := Some stableDebt\<rparr>;
         let variableDebt =
           rayMul B scaledBefore
             (calcExpectedReserveNormalizedDebt B (ratesAfterTx ! 2) varIndex txTimestamp
               currentTimestamp);
         let e = e\<lparr>totalVariableDebt := Some variableDebt\<rparr>;
         let liquidity = bnPlus B (bnPlus B available variableDebt) stableDebt;
         let e = e\<lparr>totalLiquidity := Some liquidity\<rparr>;
         let e = e\<lparr>utilizationRate :=
           Some (calcExpectedUtilizationRate B stableDebt variableDebt liquidity)\<rparr>;
         Some e
       } else do {
         let e = e\<lparr>principalStableDebt := principalStableDebt prior\<rparr>;
         let stableDebtAfterTx =
           calcExpectedStableDebtTokenBalance B principalBefore avgBefore stableUpdated txTimestamp;
         let stableDebt =
           calcExpectedTotalStableDebt B principalBefore avgBefore stableUpdated currentTimestamp;
         let e = e\<lparr>totalStableDebt := Some stableDebt\<rparr>;
         let e = e\<lparr>averageStableBorrowRate := averageStableBorrowRate prior\<rparr>;
         let scaled = bnPlus B scaledBefore (rayDiv B amountBorrowedBN varIndex);
         let e = e\<lparr>scaledVariableDebt := Some scaled\<rparr>;
         let variableDebtAfterTx = rayMul B scaled varIndex;
         let utilAfterTx =
           calcExpectedUtilizationRate B stableDebtAfterTx variableDebtAfterTx
             (bnPlus B (bnPlus B available stableDebtAfterTx) variableDebtAfterTx);
         rates \<leftarrow> calcExpectedInterestRates B reservesParams sym marketRate utilAfterTx
                   stableDebtAfterTx variableDebtAfterTx avgBefore;
         let e = e\<lparr>liquidityRate := Some (rates ! 0)\<rparr>;
         let e = e\<lparr>stableBorrowRate := Some (rates ! 1)\<rparr>;
         let e = e\<lparr>variableBorrowRate := Some (rates ! 2)\<rparr>;
         let variableDebt =
           rayMul B scaled
             (calcExpectedReserveNormalizedDebt B (rates ! 2) varIndex txTimestamp currentTimestamp);
         let e = e\<lparr>totalVariableDebt := Some variableDebt\<rparr>;
         let liquidity = bnPlus B (bnPlus B available stableDebt) variableDebt;
         let e = e\<lparr>totalLiquidity := Some liquidity\<rparr>;
         let e = e\<lparr>utilizationRate :=
           Some (calcExpectedUtilizationRate B stableDebt variableDebt liquidity)\<rparr>;
         Some e
       }
     }"

text \<open>Repayment: \<open>MAX_UINT_AMOUNT\<close> (also written as the hexadecimal literal of -1 by the caller)
  stands for the whole debt of the chosen mode.  In the stable branch the totals collapse to zero
  when accumulated rounding makes the total debt or the average rate negative.\<close>

definition calcExpectedReserveDataAfterRepay ::
  "'b bignumber_api \<Rightarrow> IReserveParams obj \<Rightarrow> string \<Rightarrow> string \<Rightarrow> 'b ReserveData \<Rightarrow>
   'b UserReserveData \<Rightarrow> 'b \<Rightarrow> 'b \<Rightarrow> 'b ReserveData option"
where
  "calcExpectedReserveDataAfterRepay B reservesParams amountRepaid borrowRateMode prior user
       txTimestamp currentTimestamp =
     do {
       let e = empty_reserve\<lparr>address := address prior\<rparr>;
       userPrincipal \<leftarrow> principalStableDebt_u user;
       userRate \<leftarrow> stableBorrowRate_u user;
       userUpdated \<leftarrow> stableRateLastUpdated user;
       let userStableDebt =
         calcExpectedStableDebtTokenBalance B userPrincipal userRate userUpdated txTimestamp;
       userVariableDebt \<leftarrow> calcExpectedVariableDebtTokenBalance B prior user txTimestamp;
       let amountRepaidBN =
         (if bnEq B (bnAbs B (bnOfString B amountRepaid)) (bnOfString B MAX_UINT_AMOUNT)
          then if borrowRateMode = RateMode_value RateStable then userStableDebt
               else userVariableDebt
          else bnOfString B amountRepaid);
       liqIndex \<leftarrow> calcExpectedLiquidityIndex B prior txTimestamp;
       let e = e\<lparr>liquidityIndex := Some liqIndex\<rparr>;
       varIndex \<leftarrow> calcExpectedVariableBorrowIndex B prior txTimestamp;
       let e = e\<lparr>variableBorrowIndex := Some varIndex\<rparr>;
       principalBefore \<leftarrow> principalStableDebt prior;
       avgBefore \<leftarrow> averageStableBorrowRate prior;
       scaledBefore \<leftarrow> scaledVariableDebt prior;
       e \<leftarrow>
         (if borrowRateMode = RateMode_value RateStable then do {
            stableUpdated \<leftarrow> totalStableDebtLastUpdated prior;
            let expectedDebt =
              calcExpectedTotalStableDebt B principalBefore avgBefore stableUpdated txTimestamp;
            let stableDebt = bnMinus B expectedDebt amountRepaidBN;
            let e = e\<lparr>totalStableDebt := Some stableDebt, principalStableDebt := Some stableDebt\<rparr>;
            let e =
              (if bnLt B stableDebt (bnOfNumber B 0)
               then e\<lparr>averageStableBorrowRate := Some (bnOfNumber B 0),
                      totalStableDebt := Some (bnOfNumber B 0),
                      principalStableDebt := Some (bnOfNumber B 0)\<rparr>
               else
                (let avgRate =
                       calcExpectedAverageStableBorrowRate B avgBefore expectedDebt
                         (bnNegated B amountRepaidBN) userRate;
                     e = e\<lparr>averageStableBorrowRate := Some avgRate\<rparr>
                 in if bnLt B avgRate (bnOfNumber B 0)
                    then e\<lparr>averageStableBorrowRate := Some (bnOfNumber B 0),
                           totalStableDebt := Some (bnOfNumber B 0),
                           principalStableDebt := Some (bnOfNumber B 0)\<rparr>
                    else e));
            let e = e\<lparr>scaledVariableDebt := scaledVariableDebt prior\<rparr>;
            let e = e\<lparr>totalVariableDebt := Some (rayMul B scaledBefore varIndex)\<rparr>;
            Some e
          } else do {
            let scaled = bnMinus B scaledBefore (rayDiv B amountRepaidBN varIndex);
            let e = e\<lparr>scaledVariableDebt := Some scaled\<rparr>;
            let e = e\<lparr>totalVariableDebt := Some (rayMul B scaled varIndex)\<rparr>;
            let e = e\<lparr>principalStableDebt := principalStableDebt prior\<rparr>;
            let e = e\<lparr>totalStableDebt := totalStableDebt prior\<rparr>;
            let e = e\<lparr>averageStableBorrowRate := averageStableBorrowRate prior\<rparr>;
            Some e
          });
       availableBefore \<leftarrow> availableLiquidity prior;
       let available = bnPlus B availableBefore amountRepaidBN;
       let e = e\<lparr>availableLiquidity := Some available\<rparr>;
       stableDebt \<leftarrow> totalStableDebt e;
       variableDebt \<leftarrow> totalVariableDebt e;
       let liquidity = bnPlus B (bnPlus B available stableDebt) variableDebt;
       let e = e\<lparr>totalLiquidity := Some liquidity\<rparr>;
       let util = calcExpectedUtilizationRate B stableDebt variableDebt liquidity;
       let e = e\<lparr>utilizationRate := Some util\<rparr>;
       sym \<leftarrow> symbol prior;
       marketRate \<leftarrow> marketStableRate prior;
       avgRate \<leftarrow> averageStableBorrowRate e;
       rates \<leftarrow> calcExpectedInterestRates B reservesParams sym marketRate util stableDebt
                 variableDebt avgRate;
       let e = e\<lparr>liquidityRate := Some (rates ! 0)\<rparr>;
       let e = e\<lparr>stableBorrowRate := Some (rates ! 1)\<rparr>;
       let e = e\<lparr>variableBorrowRate := Some (rates ! 2)\<rparr>;
       let e = e\<lparr>lastUpdateTimestamp := Some txTimestamp\<rparr>;
       Some e
     }"

definition calcExpectedReserveDataAfterSwapRateMode ::
  "'b bignumber_api \<Rightarrow> IReserveParams obj \<Rightarrow> 'b ReserveData \<Rightarrow> 'b UserReserveData \<Rightarrow> string \<Rightarrow> 'b \<Rightarrow>
   'b ReserveData option"
where
  "calcExpectedReserveDataAfterSwapRateMode B reservesParams prior user rateMode txTimestamp =
     do {
       let e = empty_reserve\<lparr>address := address prior\<rparr>;
       variableDebtUser \<leftarrow> calcExpectedVariableDebtTokenBalance B prior user txTimestamp;
       userPrincipal \<leftarrow> principalStableDebt_u user;
       userRate \<leftarrow> stableBorrowRate_u user;
       userUpdated \<leftarrow> stableRateLastUpdated user;
       let stableDebtUser =
         calcExpectedStableDebtTokenBalance B userPrincipal userRate userUpdated txTimestamp;
       liqIndex \<leftarrow> calcExpectedLiquidityIndex B prior txTimestamp;
       let e = e\<lparr>liquidityIndex := Some liqIndex\<rparr>;
       varIndex \<leftarrow> calcExpectedVariableBorrowIndex B prior txTimestamp;
       let e = e\<lparr>variableBorrowIndex := Some varIndex\<rparr>;
       let e = e\<lparr>availableLiquidity := availableLiquidity prior\<rparr>;
       principalBefore \<leftarrow> principalStableDebt prior;
       avgBefore \<leftarrow> averageStableBorrowRate prior;
       stableUpdated \<leftarrow> totalStableDebtLastUpdated prior;
       let stableDebtUntilTx =
         calcExpectedTotalStableDebt B principalBefore avgBefore stableUpdated txTimestamp;
       scaledBefore \<leftarrow> scaledVariableDebt prior;
       (e, stableDebt, variableDebt, avgRate) \<leftarrow>
         (if rateMode = RateMode_value RateStable then do {
            let scaled = bnPlus B scaledBefore (rayDiv B stableDebtUser varIndex);
            let e = e\<lparr>scaledVariableDebt := Some scaled\<rparr>;
            let variableDebt = rayMul B scaled varIndex;
            let e = e\<lparr>totalVariableDebt := Some variableDebt\<rparr>;
            let stableDebt = bnMinus B stableDebtUntilTx stableDebtUser;
            let e = e\<lparr>totalStableDebt := Some stableDebt, principalStableDebt := Some stableDebt\<rparr>;
            let avgRate =
              calcExpectedAverageStableBorrowRate B avgBefore (bnPlus B stableDebt stableDebtUser)
                (bnNegated B stableDebtUser) userRate;
            let e = e\<lparr>averageStableBorrowRate := Some avgRate\<rparr>;
            Some (e, stableDebt, variableDebt, avgRate)
          } else do {
            let stableDebt = bnPlus B stableDebtUntilTx variableDebtUser;
            let e = e\<lparr>totalStableDebt := Some stableDebt, principalStableDebt := Some stableDebt\<rparr>;
            let scaled = bnMinus B scaledBefore (rayDiv B variableDebtUser varIndex);
            let e = e\<lparr>scaledVariableDebt := Some scaled\<rparr>;
            let variableDebt = rayMul B scaled varIndex;
            let e = e\<lparr>totalVariableDebt := Some variableDebt\<rparr>;
            stableDebtBefore \<leftarrow> totalStableDebt prior;
            stableRateBefore \<leftarrow> stableBorrowRate prior;
            let avgRate =
              calcExpectedAverageStableBorrowRate B avgBefore stableDebtBefore variableDebtUser
                stableRateBefore;
            let e = e\<lparr>averageStableBorrowRate := Some avgRate\<rparr>;
            Some (e, stableDebt, variableDebt, avgRate)
          });
       available \<leftarrow> availableLiquidity prior;
       let liquidity = bnPlus B (bnPlus B available stableDebt) variableDebt;
       let e = e\<lparr>totalLiquidity := Some liquidity\<rparr>;
       let util = calcExpectedUtilizationRate B stableDebt variableDebt liquidity;
       let e = e\<lparr>utilizationRate := Some util\<rparr>;
       sym \<leftarrow> symbol prior;
       marketRate \<leftarrow> marketStableRate prior;
       rates \<leftarrow> calcExpectedInterestRates B reservesParams sym marketRate util stableDebt
                 variableDebt avgRate;
       let e = e\<lparr>liquidityRate := Some (rates ! 0)\<rparr>;
       let e = e\<lparr>stableBorrowRate := Some (rates ! 1)\<rparr>;
       let e = e\<lparr>variableBorrowRate := Some (rates ! 2)\<rparr>;
       Some e
     }"

definition calcExpectedReserveDataAfterStableRateRebalance ::
  "'b bignumber_api \<Rightarrow> IReserveParams obj \<Rightarrow> 'b ReserveData \<Rightarrow> 'b UserReserveData \<Rightarrow> 'b \<Rightarrow>
   'b ReserveData option"
where
  "calcExpectedReserveDataAfterStableRateRebalance B reservesParams prior user txTimestamp =
     do {
       let e = empty_reserve\<lparr>address := address prior\<rparr>;
       userPrincipal \<leftarrow> principalStableDebt_u user;
       userRate \<leftarrow> stableBorrowRate_u user;
       userUpdated \<leftarrow> stableRateLastUpdated user;
       let userStableDebt =
         calcExpectedStableDebtTokenBalance B userPrincipal userRate userUpdated txTimestamp;
       liqIndex \<leftarrow> calcExpectedLiquidityIndex B prior txTimestamp;
       let e = e\<lparr>liquidityIndex := Some liqIndex\<rparr>;
       varIndex \<leftarrow> calcExpectedVariableBorrowIndex B prior txTimestamp;
       let e = e\<lparr>variableBorrowIndex := Some varIndex\<rparr>;
       let e = e\<lparr>scaledVariableDebt := scaledVariableDebt prior\<rparr>;
       scaled \<leftarrow> scaledVariableDebt e;
       let variableDebt = rayMul B scaled varIndex;
       let e = e\<lparr>totalVariableDebt := Some variableDebt\<rparr>;
       principalBefore \<leftarrow> principalStableDebt prior;
       avgBefore \<leftarrow> averageStableBorrowRate prior;
       stableUpdated \<leftarrow> totalStableDebtLastUpdated prior;
       let stableDebt =
         calcExpectedTotalStableDebt B principalBefore avgBefore stableUpdated txTimestamp;
       let e = e\<lparr>totalStableDebt := Some stableDebt, principalStableDebt := Some stableDebt\<rparr>;
       let e = e\<lparr>availableLiquidity := availableLiquidity prior\<rparr>;
       available \<leftarrow> availableLiquidity e;
       let liquidity = bnPlus B (bnPlus B available stableDebt) variableDebt;
       let e = e\<lparr>totalLiquidity := Some liquidity\<rparr>;
       let avgRateBefore =
         calcExpectedAverageStableBorrowRateRebalance B avgBefore stableDebt
           (bnNegated B userStableDebt) userRate;
       stableRateBefore \<leftarrow> stableBorrowRate prior;
       let avgRate =
         calcExpectedAverageStableBorrowRateRebalance B avgRateBefore
           (bnMinus B stableDebt userStableDebt) userStableDebt stableRateBefore;
       let e = e\<lparr>averageStableBorrowRate := Some avgRate\<rparr>;
       let util = calcExpectedUtilizationRate B stableDebt variableDebt liquidity;
       let e = e\<lparr>utilizationRate := Some util\<rparr>;
       sym \<leftarrow> symbol prior;
       marketRate \<leftarrow> marketStableRate prior;
       rates \<leftarrow> calcExpectedInterestRates B reservesParams sym marketRate util stableDebt
                 variableDebt avgRate;
       let e = e\<lparr>liquidityRate := Some (rates ! 0)\<rparr>;
       let e = e\<lparr>stableBorrowRate := Some (rates ! 1)\<rparr>;
       let e = e\<lparr>variableBorrowRate := Some (rates ! 2)\<rparr>;
       Some e
     }"

end
