(* ===== verification/UserOracle.thy ===== *)
theory UserOracle
  imports ReserveOracle
begin

text \<open>
  The expected user position after each action: the \<open>calcExpectedUserDataAfter...\<close> functions of
  \<open>utils/calculations.ts\<close>, threading the object they build through the same assignments.
  Parameters a function declares and never reads (\<open>txCost\<close>, \<open>currentTimestamp\<close> of the
  deposit and withdrawal functions) are kept.
\<close>

definition calcExpectedUserDataAfterDeposit ::
  "'b bignumber_api \<Rightarrow> string \<Rightarrow> 'b ReserveData \<Rightarrow> 'b ReserveData \<Rightarrow> 'b UserReserveData \<Rightarrow>
   'b \<Rightarrow> 'b \<Rightarrow> 'b \<Rightarrow> 'b UserReserveData option"
where
  "calcExpectedUserDataAfterDeposit B amountDeposited reserveBefore reserveAfter prior
       txTimestamp currentTimestamp txCost =
     do {
       let e = empty_user;
       principalDebt \<leftarrow> principalStableDebt_u prior;
       stableRate \<leftarrow> stableBorrowRate_u prior;
       updated \<leftarrow> stableRateLastUpdated prior;
       let stableDebt =
         calcExpectedStableDebtTokenBalance B principalDebt stableRate updated txTimestamp;
       let e = e\<lparr>currentStableDebt := Some stableDebt\<rparr>;
       variableDebt \<leftarrow> calcExpectedVariableDebtTokenBalance B reserveBefore prior txTimestamp;
       let e = e\<lparr>currentVariableDebt := Some variableDebt\<rparr>;
       let e = e\<lparr>principalStableDebt_u := principalStableDebt_u prior\<rparr>;
       let e = e\<lparr>scaledVariableDebt_u := scaledVariableDebt_u prior\<rparr>;
       let e = e\<lparr>variableBorrowIndex_u := variableBorrowIndex_u prior\<rparr>;
       let e = e\<lparr>stableBorrowRate_u := stableBorrowRate_u prior\<rparr>;
       let e = e\<lparr>stableRateLastUpdated := stableRateLastUpdated prior\<rparr>;
       let e = e\<lparr>liquidityRate_u := liquidityRate reserveAfter\<rparr>;
       indexAfter \<leftarrow> liquidityIndex reserveAfter;
       scaled \<leftarrow> calcExpectedScaledLTokenBalance B prior indexAfter
                  (bnOfString B amountDeposited) (bnOfNumber B 0);
       let e = e\<lparr>scaledLTokenBalance := Some scaled\<rparr>;
       balance \<leftarrow> calcExpectedLTokenBalance B reserveBefore prior txTimestamp;
       let e = e\<lparr>currentLTokenBalance := Some (bnPlus B balance (bnOfString B amountDeposited))\<rparr>;
       balanceBefore \<leftarrow> currentLTokenBalance prior;
       let e =
         (if bnEq B balanceBefore (bnOfNumber B 0) then e\<lparr>usageAsCollateralEnabled := Some True\<rparr>
          else e\<lparr>usageAsCollateralEnabled := usageAsCollateralEnabled prior\<rparr>);
       let e = e\<lparr>variableBorrowIndex_u := variableBorrowIndex_u prior\<rparr>;
       wallet \<leftarrow> walletBalance prior;
       let e = e\<lparr>walletBalance := Some (bnMinus B wallet (bnOfString B amountDeposited))\<rparr>;
       let stableDebtAgain =
         calcExpectedStableDebtTokenBalance B principalDebt stableRate updated txTimestamp;
       let e = e\<lparr>principalStableDebt_u := Some stableDebtAgain, currentStableDebt := Some stableDebtAgain\<rparr>;
       variableDebtAgain \<leftarrow> calcExpectedVariableDebtTokenBalance B reserveBefore prior txTimestamp;
       let e = e\<lparr>principalStableDebt_u := Some variableDebtAgain,
                currentVariableDebt := Some variableDebtAgain\<rparr>;
       Some e
     }"

definition calcExpectedUserDataAfterWithdraw ::
  "'b bignumber_api \<Rightarrow> string \<Rightarrow> 'b ReserveData \<Rightarrow> 'b ReserveData \<Rightarrow> 'b UserReserveData \<Rightarrow>
   'b \<Rightarrow> 'b \<Rightarrow> 'b \<Rightarrow> 'b UserReserveData option"
where
  "calcExpectedUserDataAfterWithdraw B amountWithdrawn reserveBefore reserveAfter prior
       txTimestamp currentTimestamp txCost =
     do {
       let e = empty_user;
       lTokenBalance \<leftarrow> calcExpectedLTokenBalance B reserveBefore prior txTimestamp;
       let amount =
         (if amountWithdrawn = MAX_UINT_AMOUNT then bnToFixed B lTokenBalance else amountWithdrawn);
       indexAfter \<leftarrow> liquidityIndex reserveAfter;
       scaled \<leftarrow> calcExpectedScaledLTokenBalance B prior indexAfter (bnOfNumber B 0)
                  (bnOfString B amount);
       let e = e\<lparr>scaledLTokenBalance := Some scaled\<rparr>;
       let balance = bnMinus B lTokenBalance (bnOfString B amount);
       let e = e\<lparr>currentLTokenBalance := Some balance\<rparr>;
       let e = e\<lparr>principalStableDebt_u := principalStableDebt_u prior\<rparr>;
       let e = e\<lparr>scaledVariableDebt_u := scaledVariableDebt_u prior\<rparr>;
       principalDebt \<leftarrow> principalStableDebt_u prior;
       stableRate \<leftarrow> stableBorrowRate_u prior;
       updated \<leftarrow> stableRateLastUpdated prior;
       let e = e\<lparr>currentStableDebt :=
         Some (calcExpectedStableDebtTokenBalance B principalDebt stableRate updated txTimestamp)\<rparr>;
       variableDebt \<leftarrow> calcExpectedVariableDebtTokenBalance B reserveBefore prior txTimestamp;
       let e = e\<lparr>currentVariableDebt := Some variableDebt\<rparr>;
       let e = e\<lparr>variableBorrowIndex_u := variableBorrowIndex_u prior\<rparr>;
       let e = e\<lparr>stableBorrowRate_u := stableBorrowRate_u prior\<rparr>;
       let e = e\<lparr>stableRateLastUpdated := stableRateLastUpdated prior\<rparr>;
       let e = e\<lparr>liquidityRate_u := liquidityRate reserveAfter\<rparr>;
       balanceBefore \<leftarrow> currentLTokenBalance prior;
       let e =
         (if bnEq B balanceBefore (bnOfNumber B 0) then e\<lparr>usageAsCollateralEnabled := Some True\<rparr>
          else if bnEq B balance (bnOfNumber B 0) then e\<lparr>usageAsCollateralEnabled := Some False\<rparr>
          else e\<lparr>usageAsCollateralEnabled := usageAsCollateralEnabled prior\<rparr>);
       wallet \<leftarrow> walletBalance prior;
       let e = e\<lparr>walletBalance := Some (bnPlus B wallet (bnOfString B amount))\<rparr>;
       Some e
     }"

definition calcExpectedUserDataAfterBorrow ::
  "'b bignumber_api \<Rightarrow> string \<Rightarrow> string \<Rightarrow> 'b ReserveData \<Rightarrow> 'b ReserveData \<Rightarrow>
   'b UserReserveData \<Rightarrow> 'b \<Rightarrow> 'b \<Rightarrow> 'b UserReserveData option"
where
  "calcExpectedUserDataAfterBorrow B amountBorrowed interestRateMode reserveBefore
       expectedDataAfterAction prior txTimestamp currentTimestamp =
     do {
       let e = empty_user;
       let amountBorrowedBN = bnOfString B amountBorrowed;
       principalBefore \<leftarrow> principalStableDebt_u prior;
       stableRate \<leftarrow> stableBorrowRate_u prior;
       updated \<leftarrow> stableRateLastUpdated prior;
       e \<leftarrow>
         (if interestRateMode = RateMode_value RateStable then do {
            let stableDebtUntilTx =
              calcExpectedStableDebtTokenBalance B principalBefore stableRate updated txTimestamp;
            let principalDebt = bnPlus B stableDebtUntilTx (bnOfString B amountBorrowed);
            let e = e\<lparr>principalStableDebt_u := Some principalDebt\<rparr>;
            let e = e\<lparr>stableRateLastUpdated := Some txTimestamp\<rparr>;
            reserveStableRate \<leftarrow> stableBorrowRate reserveBefore;
            let userRate =
              calcExpectedUserStableRate B stableDebtUntilTx stableRate amountBorrowedBN
                reserveStableRate;
            let e = e\<lparr>stableBorrowRate_u := Some userRate\<rparr>;
            let e = e\<lparr>currentStableDebt :=
              Some (calcExpectedStableDebtTokenBalance B principalDebt userRate txTimestamp
                     currentTimestamp)\<rparr>;
            let e = e\<lparr>scaledVariableDebt_u := scaledVariableDebt_u prior\<rparr>;
            Some e
          } else do {
            scaledReserve \<leftarrow> scaledVariableDebt reserveBefore;
            varIndexAfter \<leftarrow> variableBorrowIndex expectedDataAfterAction;
            let e = e\<lparr>scaledVariableDebt_u :=
              Some (bnPlus B scaledReserve (rayDiv B amountBorrowedBN varIndexAfter))\<rparr>;
            let e = e\<lparr>principalStableDebt_u := principalStableDebt_u prior\<rparr>;
            let e = e\<lparr>stableBorrowRate_u := stableBorrowRate_u prior\<rparr>;
            let e = e\<lparr>stableRateLastUpdated := stableRateLastUpdated prior\<rparr>;
            let e = e\<lparr>currentStableDebt :=
              Some (calcExpectedStableDebtTokenBalance B principalBefore stableRate updated
                     currentTimestamp)\<rparr>;
            Some e
          });
       variableDebt \<leftarrow> calcExpectedVariableDebtTokenBalance B expectedDataAfterAction e
                        currentTimestamp;
       let e = e\<lparr>currentVariableDebt := Some variableDebt\<rparr>;
       let e = e\<lparr>liquidityRate_u := liquidityRate expectedDataAfterAction\<rparr>;
       let e = e\<lparr>usageAsCollateralEnabled := usageAsCollateralEnabled prior\<rparr>;
       balance \<leftarrow> calcExpectedLTokenBalance B expectedDataAfterAction prior currentTimestamp;
       let e = e\<lparr>currentLTokenBalance := Some balance\<rparr>;
       let e = e\<lparr>scaledLTokenBalance := scaledLTokenBalance prior\<rparr>;
       wallet \<leftarrow> walletBalance prior;
       let e = e\<lparr>walletBalance := Some (bnPlus B wallet (bnOfString B amountBorrowed))\<rparr>;
       Some e
     }"

definition calcExpectedUserDataAfterRepay ::
  "'b bignumber_api \<Rightarrow> string \<Rightarrow> string \<Rightarrow> 'b ReserveData \<Rightarrow> 'b ReserveData \<Rightarrow>
   'b UserReserveData \<Rightarrow> string \<Rightarrow> string \<Rightarrow> 'b \<Rightarrow> 'b \<Rightarrow> 'b UserReserveData option"
where
  "calcExpectedUserDataAfterRepay B totalRepaid rateMode reserveBefore expectedDataAfterAction
       prior user onBehalfOf txTimestamp currentTimestamp =
     do {
       let e = empty_user;
       variableDebt \<leftarrow> calcExpectedVariableDebtTokenBalance B reserveBefore prior currentTimestamp;
       principalBefore \<leftarrow> principalStableDebt_u prior;
       stableRate \<leftarrow> stableBorrowRate_u prior;
       updated \<leftarrow> stableRateLastUpdated prior;
       let stableDebt =
         calcExpectedStableDebtTokenBalance B principalBefore stableRate updated currentTimestamp;
       let totalRepaidBN =
         (if bnEq B (bnAbs B (bnOfString B totalRepaid)) (bnOfString B MAX_UINT_AMOUNT)
          then if rateMode = RateMode_value RateStable then stableDebt else variableDebt
          else bnOfString B totalRepaid);
       e \<leftarrow>
         (if rateMode = RateMode_value RateStable then do {
            let e = e\<lparr>scaledVariableDebt_u := scaledVariableDebt_u prior\<rparr>;
            let e = e\<lparr>currentVariableDebt := Some variableDebt\<rparr>;
            let remaining = bnMinus B stableDebt totalRepaidBN;
            let e = e\<lparr>currentStableDebt := Some remaining, principalStableDebt_u := Some remaining\<rparr>;
            Some (if bnEq B remaining (bnOfString B ''0'')
                  then e\<lparr>stableRateLastUpdated := Some (bnOfString B ''0''),
                         stableBorrowRate_u := Some (bnOfString B ''0'')\<rparr>
                  else e\<lparr>stableBorrowRate_u := stableBorrowRate_u prior,
                         stableRateLastUpdated := Some txTimestamp\<rparr>)
          } else do {
            let e = e\<lparr>currentStableDebt := principalStableDebt_u prior\<rparr>;
            let e = e\<lparr>principalStableDebt_u := Some stableDebt\<rparr>;
            let e = e\<lparr>stableBorrowRate_u := stableBorrowRate_u prior\<rparr>;
            let e = e\<lparr>stableRateLastUpdated := stableRateLastUpdated prior\<rparr>;
            scaledBefore \<leftarrow> scaledVariableDebt_u prior;
            varIndexAfter \<leftarrow> variableBorrowIndex expectedDataAfterAction;
            let scaled = bnMinus B scaledBefore (rayDiv B totalRepaidBN varIndexAfter);
            let e = e\<lparr>scaledVariableDebt_u := Some scaled\<rparr>;
            let e = e\<lparr>currentVariableDebt := Some (rayMul B scaled varIndexAfter)\<rparr>;
            Some e
          });
       let e = e\<lparr>liquidityRate_u := liquidityRate expectedDataAfterAction\<rparr>;
       let e = e\<lparr>usageAsCollateralEnabled := usageAsCollateralEnabled prior\<rparr>;
       balance \<leftarrow> calcExpectedLTokenBalance B reserveBefore prior txTimestamp;
       let e = e\<lparr>currentLTokenBalance := Some balance\<rparr>;
       let e = e\<lparr>scaledLTokenBalance := scaledLTokenBalance prior\<rparr>;
       if user = onBehalfOf then do {
         wallet \<leftarrow> walletBalance prior;
         Some (e\<lparr>walletBalance := Some (bnMinus B wallet totalRepaidBN)\<rparr>)
       } else Some (e\<lparr>walletBalance := walletBalance prior\<rparr>)
     }"

definition calcExpectedUserDataAfterSetUseAsCollateral ::
  "bool \<Rightarrow> 'b ReserveData \<Rightarrow> 'b UserReserveData \<Rightarrow> 'b \<Rightarrow> 'b UserReserveData"
where
  "calcExpectedUserDataAfterSetUseAsCollateral useAsCollateral reserveBefore prior txCost =
     prior\<lparr>usageAsCollateralEnabled := Some useAsCollateral\<rparr>"

definition calcExpectedUserDataAfterSwapRateMode ::
  "'b bignumber_api \<Rightarrow> 'b ReserveData \<Rightarrow> 'b ReserveData \<Rightarrow> 'b UserReserveData \<Rightarrow> string \<Rightarrow>
   'b \<Rightarrow> 'b \<Rightarrow> 'b UserReserveData option"
where
  "calcExpectedUserDataAfterSwapRateMode B reserveBefore expectedDataAfterAction prior rateMode
       txCost txTimestamp =
     do {
       let e = prior;
       principalBefore \<leftarrow> principalStableDebt_u prior;
       stableRate \<leftarrow> stableBorrowRate_u prior;
       updated \<leftarrow> stableRateLastUpdated prior;
       let stableDebtBalance =
         calcExpectedStableDebtTokenBalance B principalBefore stableRate updated txTimestamp;
       variableDebtBalance \<leftarrow> calcExpectedVariableDebtTokenBalance B reserveBefore prior txTimestamp;
       balance \<leftarrow> calcExpectedLTokenBalance B reserveBefore prior txTimestamp;
       let e = e\<lparr>currentLTokenBalance := Some balance\<rparr>;
       e \<leftarrow>
         (if rateMode = RateMode_value RateStable then do {
            let e = e\<lparr>principalStableDebt_u := Some (bnOfNumber B 0),
                     currentStableDebt := Some (bnOfNumber B 0)\<rparr>;
            let e = e\<lparr>stableBorrowRate_u := Some (bnOfNumber B 0)\<rparr>;
            scaledBefore \<leftarrow> scaledVariableDebt_u prior;
            varIndexAfter \<leftarrow> variableBorrowIndex expectedDataAfterAction;
            let scaled = bnPlus B scaledBefore (rayDiv B stableDebtBalance varIndexAfter);
            let e = e\<lparr>scaledVariableDebt_u := Some scaled\<rparr>;
            let e = e\<lparr>currentVariableDebt := Some (rayMul B scaled varIndexAfter)\<rparr>;
            let e = e\<lparr>stableRateLastUpdated := Some (bnOfNumber B 0)\<rparr>;
            Some e
          } else do {
            currentBefore \<leftarrow> currentStableDebt prior;
            let stableDebt = bnPlus B currentBefore variableDebtBalance;
            let e = e\<lparr>currentStableDebt := Some stableDebt, principalStableDebt_u := Some stableDebt\<rparr>;
            reserveStableRate \<leftarrow> stableBorrowRate reserveBefore;
            let e = e\<lparr>stableBorrowRate_u :=
              Some (calcExpectedUserStableRate B stableDebtBalance stableRate variableDebtBalance
                     reserveStableRate)\<rparr>;
            let e = e\<lparr>stableRateLastUpdated := Some txTimestamp\<rparr>;
            let e = e\<lparr>scaledVariableDebt_u := Some (bnOfNumber B 0),
                     currentVariableDebt := Some (bnOfNumber B 0)\<rparr>;
            Some e
          });
       let e = e\<lparr>liquidityRate_u := liquidityRate expectedDataAfterAction\<rparr>;
       Some e
     }"

definition calcExpectedUserDataAfterStableRateRebalance ::
  "'b bignumber_api \<Rightarrow> 'b ReserveData \<Rightarrow> 'b ReserveData \<Rightarrow> 'b UserReserveData \<Rightarrow> 'b \<Rightarrow> 'b \<Rightarrow>
   'b UserReserveData option"
where
  "calcExpectedUserDataAfterStableRateRebalance B reserveBefore expectedDataAfterAction prior
       txCost txTimestamp =
     do {
       let e = prior;
       let e = e\<lparr>principalStableDebt_u := principalStableDebt_u prior\<rparr>;
       variableDebt \<leftarrow> calcExpectedVariableDebtTokenBalance B reserveBefore prior txTimestamp;
       let e = e\<lparr>principalVariableDebt := Some variableDebt\<rparr>;
       principalBefore \<leftarrow> principalStableDebt_u prior;
       stableRate \<leftarrow> stableBorrowRate_u prior;
       updated \<leftarrow> stableRateLastUpdated prior;
       let stableDebt =
         calcExpectedStableDebtTokenBalance B principalBefore stableRate updated txTimestamp;
       let e = e\<lparr>principalStableDebt_u := Some stableDebt, currentStableDebt := Some stableDebt\<rparr>;
       let e = e\<lparr>currentVariableDebt := Some variableDebt\<rparr>;
       let e = e\<lparr>stableRateLastUpdated := Some txTimestamp\<rparr>;
       let e = e\<lparr>principalVariableDebt := principalVariableDebt prior\<rparr>;
       let e = e\<lparr>stableBorrowRate_u := averageStableBorrowRate expectedDataAfterAction\<rparr>;
       let e = e\<lparr>liquidityRate_u := liquidityRate expectedDataAfterAction\<rparr>;
       balance \<leftarrow> calcExpectedLTokenBalance B reserveBefore prior txTimestamp;
       let e = e\<lparr>currentLTokenBalance := Some balance\<rparr>;
       Some e
     }"

end
