(* ===== verification/OracleFacts.thy ===== *)
theory OracleFacts
  imports UserOracle
begin

text \<open>
  Well-formed inputs of the lending oracle and what its functions return on them.  A reserve or
  user record is complete when every field the chain readers fill is a finite integer, and sound
  when amounts, rates and times have the signs and bounds the contracts guarantee; a strategy is
  sane when its literals are canonical decimals and its kink lies strictly between 0 and one ray.
  The lemmas are stated inside the bignumber interface.
\<close>

subsection \<open>Complete and sound inputs\<close>

definition complete_reserve :: "('b \<Rightarrow> bool) \<Rightarrow> 'b ReserveData \<Rightarrow> bool" where
  "complete_reserve ok r \<longleftrightarrow>
     present (\<lambda>_. True) (address r) \<and> symbol r \<noteq> None \<and>
     present ok (totalLiquidity r) \<and> present ok (availableLiquidity r) \<and>
     present ok (totalStableDebt r) \<and> present ok (totalVariableDebt r) \<and>
     present ok (principalStableDebt r) \<and> present ok (scaledVariableDebt r) \<and>
     present ok (averageStableBorrowRate r) \<and> present ok (variableBorrowRate r) \<and>
     present ok (stableBorrowRate r) \<and> present ok (utilizationRate r) \<and>
     present ok (liquidityIndex r) \<and> present ok (variableBorrowIndex r) \<and>
     present ok (marketStableRate r) \<and> present ok (lastUpdateTimestamp r) \<and>
     present ok (totalStableDebtLastUpdated r) \<and> present ok (liquidityRate r)"

definition complete_user :: "('b \<Rightarrow> bool) \<Rightarrow> 'b UserReserveData \<Rightarrow> bool" where
  "complete_user ok u \<longleftrightarrow>
     present ok (scaledLTokenBalance u) \<and> present ok (currentLTokenBalance u) \<and>
     present ok (currentStableDebt u) \<and> present ok (currentVariableDebt u) \<and>
     present ok (principalStableDebt_u u) \<and> present ok (scaledVariableDebt_u u) \<and>
     present ok (liquidityRate_u u) \<and> present ok (stableBorrowRate_u u) \<and>
     present ok (stableRateLastUpdated u) \<and> present (\<lambda>_. True) (usageAsCollateralEnabled u) \<and>
     present ok (walletBalance u)"

definition sound_reserve :: "('b \<Rightarrow> int) \<Rightarrow> 'b ReserveData \<Rightarrow> int \<Rightarrow> bool" where
  "sound_reserve ival r now \<longleftrightarrow>
     0 \<le> value_of ival (totalLiquidity r) \<and> 0 \<le> value_of ival (availableLiquidity r) \<and>
     0 \<le> value_of ival (totalStableDebt r) \<and> 0 \<le> value_of ival (totalVariableDebt r) \<and>
     0 \<le> value_of ival (principalStableDebt r) \<and> 0 \<le> value_of ival (scaledVariableDebt r) \<and>
     0 \<le> value_of ival (averageStableBorrowRate r) \<and> 0 \<le> value_of ival (variableBorrowRate r) \<and>
     0 \<le> value_of ival (liquidityRate r) \<and>
     ray_unit \<le> value_of ival (liquidityIndex r) \<and> ray_unit \<le> value_of ival (variableBorrowIndex r) \<and>
     value_of ival (lastUpdateTimestamp r) \<le> now \<and>
     value_of ival (totalStableDebtLastUpdated r) \<le> now"

text \<open>A decimal literal and its value.\<close>

definition canonical :: "string \<Rightarrow> bool" where
  "canonical s \<longleftrightarrow> (case read_int s of None \<Rightarrow> False | Some n \<Rightarrow> decimal n = s)"

definition num :: "string \<Rightarrow> int" where
  "num s = (case read_int s of None \<Rightarrow> 0 | Some n \<Rightarrow> n)"

lemma canonical_num: "canonical s \<Longrightarrow> s = decimal (num s)"
  by (auto simp: canonical_def num_def split: option.splits)

lemma canonical_decimal [simp]: "canonical (decimal n)" "num (decimal n) = n"
  by (simp_all add: canonical_def num_def read_int_decimal)

definition sane_params :: "IReserveParams \<Rightarrow> bool" where
  "sane_params p \<longleftrightarrow>
     canonical (optimalUtilizationRate (strategy p)) \<and>
     canonical (baseVariableBorrowRate (strategy p)) \<and>
     canonical (variableRateSlope1 (strategy p)) \<and> canonical (variableRateSlope2 (strategy p)) \<and>
     canonical (stableRateSlope1 (strategy p)) \<and> canonical (stableRateSlope2 (strategy p)) \<and>
     canonical (reserveFactor p) \<and>
     0 < num (optimalUtilizationRate (strategy p)) \<and>
     num (optimalUtilizationRate (strategy p)) < ray_unit \<and>
     0 \<le> num (baseVariableBorrowRate (strategy p)) \<and>
     0 \<le> num (variableRateSlope1 (strategy p)) \<and> 0 \<le> num (variableRateSlope2 (strategy p)) \<and>
     0 \<le> num (stableRateSlope1 (strategy p)) \<and> 0 \<le> num (stableRateSlope2 (strategy p)) \<and>
     0 \<le> num (reserveFactor p) \<and> num (reserveFactor p) \<le> 10000"

text \<open>The strategy the rate computation finds for a symbol.\<close>

definition strategy_of :: "IReserveParams obj \<Rightarrow> string \<Rightarrow> IReserveParams" where
  "strategy_of reservesParams sy = the (map_of reservesParams sy)"

definition configured :: "IReserveParams obj \<Rightarrow> string \<Rightarrow> bool" where
  "configured reservesParams sy \<longleftrightarrow>
     map_of reservesParams sy \<noteq> None \<and> sane_params (strategy_of reservesParams sy)"

text \<open>The amount a withdrawal or repayment string stands for.\<close>

definition amount_or :: "string \<Rightarrow> int \<Rightarrow> int" where
  "amount_or s whole = (if s = MAX_UINT_AMOUNT then whole else num s)"

definition repay_amount :: "int \<Rightarrow> int \<Rightarrow> int" where
  "repay_amount m whole = (if \<bar>m\<bar> = 2 ^ 256 - 1 then whole else m)"

subsection \<open>The interest rates of a strategy\<close>

definition variable_rate_of :: "IReserveParams \<Rightarrow> int \<Rightarrow> int" where
  "variable_rate_of p =
     variable_curve (num (optimalUtilizationRate (strategy p))) (num (variableRateSlope1 (strategy p)))
       (num (variableRateSlope2 (strategy p))) (num (baseVariableBorrowRate (strategy p)))"

definition stable_rate_of :: "IReserveParams \<Rightarrow> int \<Rightarrow> int \<Rightarrow> int" where
  "stable_rate_of p =
     stable_curve (num (optimalUtilizationRate (strategy p))) (num (stableRateSlope1 (strategy p)))
       (num (stableRateSlope2 (strategy p)))"

definition liquidity_rate_of :: "IReserveParams \<Rightarrow> int \<Rightarrow> int \<Rightarrow> int \<Rightarrow> int \<Rightarrow> int" where
  "liquidity_rate_of p util sdebt vdebt avg =
     percent_mul (ray_mul (overall_rate sdebt vdebt (variable_rate_of p util) avg) util)
       (10000 - num (reserveFactor p))"

context bignumber
begin

lemma of_canonical [simp]:
  assumes "canonical s" shows "ok (bnOfString B s)" "ival (bnOfString B s) = num s"
proof -
  have "bnOfString B s = bnOfString B (decimal (num s))"
    using canonical_num [OF assms] by simp
  then show "ok (bnOfString B s)" "ival (bnOfString B s) = num s" by simp_all
qed

lemma rates_spec:
  assumes p: "map_of reservesParams sy = Some p" "sane_params p"
    and ok: "ok m" "ok u" "ok s" "ok v" "ok a"
  shows "\<exists>l sr vr. calcExpectedInterestRates B reservesParams sy m u s v a = Some [l, sr, vr] \<and>
    ok l \<and> ok sr \<and> ok vr \<and>
    ival l = liquidity_rate_of p (ival u) (ival s) (ival v) (ival a) \<and>
    ival sr = stable_rate_of p (ival m) (ival u) \<and> ival vr = variable_rate_of p (ival u)"
proof -
  have opt: "num (optimalUtilizationRate (strategy p)) \<noteq> 0"
    "ray_unit - num (optimalUtilizationRate (strategy p)) \<noteq> 0"
    using p(2) by (auto simp: sane_params_def)
  note lits = p(2) [unfolded sane_params_def]
  show ?thesis
  proof (cases "num (optimalUtilizationRate (strategy p)) < ival u")
    case True
    with opt lits ok show ?thesis
      by (simp add: calcExpectedInterestRates_def find_entry_map_of p(1) Let_def
          liquidity_rate_of_def stable_rate_of_def variable_rate_of_def stable_curve_def variable_curve_def)
  next
    case False
    with opt lits ok show ?thesis
      by (simp add: calcExpectedInterestRates_def find_entry_map_of p(1) Let_def
          liquidity_rate_of_def stable_rate_of_def variable_rate_of_def stable_curve_def variable_curve_def)
  qed
qed

lemma rates_spec_simps [simp]:
  assumes "configured reservesParams sy" "ok m" "ok u" "ok s" "ok v" "ok a"
  shows "calcExpectedInterestRates B reservesParams sy m u s v a \<noteq> None"
    "ok (the (calcExpectedInterestRates B reservesParams sy m u s v a) ! 0)"
    "ok (the (calcExpectedInterestRates B reservesParams sy m u s v a) ! Suc 0)"
    "ok (the (calcExpectedInterestRates B reservesParams sy m u s v a) ! 2)"
    "ival (the (calcExpectedInterestRates B reservesParams sy m u s v a) ! 0) =
       liquidity_rate_of (strategy_of reservesParams sy) (ival u) (ival s) (ival v) (ival a)"
    "ival (the (calcExpectedInterestRates B reservesParams sy m u s v a) ! Suc 0) =
       stable_rate_of (strategy_of reservesParams sy) (ival m) (ival u)"
    "ival (the (calcExpectedInterestRates B reservesParams sy m u s v a) ! 2) =
       variable_rate_of (strategy_of reservesParams sy) (ival u)"
proof -
  from assms(1) have "map_of reservesParams sy = Some (strategy_of reservesParams sy)"
    "sane_params (strategy_of reservesParams sy)"
    by (auto simp: configured_def strategy_of_def)
  from rates_spec [OF this assms(2-6)]
  show "calcExpectedInterestRates B reservesParams sy m u s v a \<noteq> None"
    "ok (the (calcExpectedInterestRates B reservesParams sy m u s v a) ! 0)"
    "ok (the (calcExpectedInterestRates B reservesParams sy m u s v a) ! Suc 0)"
    "ok (the (calcExpectedInterestRates B reservesParams sy m u s v a) ! 2)"
    "ival (the (calcExpectedInterestRates B reservesParams sy m u s v a) ! 0) =
       liquidity_rate_of (strategy_of reservesParams sy) (ival u) (ival s) (ival v) (ival a)"
    "ival (the (calcExpectedInterestRates B reservesParams sy m u s v a) ! Suc 0) =
       stable_rate_of (strategy_of reservesParams sy) (ival m) (ival u)"
    "ival (the (calcExpectedInterestRates B reservesParams sy m u s v a) ! 2) =
       variable_rate_of (strategy_of reservesParams sy) (ival u)"
    by auto
qed

end

subsection \<open>Indices and balances of records\<close>

definition liquidity_index_at :: "('b \<Rightarrow> int) \<Rightarrow> 'b ReserveData \<Rightarrow> int \<Rightarrow> int" where
  "liquidity_index_at ival r now =
     (if value_of ival (utilizationRate r) = 0 then value_of ival (liquidityIndex r)
      else ray_mul (linear_interest (value_of ival (liquidityRate r))
             (now - value_of ival (lastUpdateTimestamp r))) (value_of ival (liquidityIndex r)))"

definition variable_index_at :: "('b \<Rightarrow> int) \<Rightarrow> 'b ReserveData \<Rightarrow> int \<Rightarrow> int" where
  "variable_index_at ival r now =
     (if value_of ival (totalVariableDebt r) = 0 then value_of ival (variableBorrowIndex r)
      else ray_mul (compounded_interest (value_of ival (variableBorrowRate r))
             (now - value_of ival (lastUpdateTimestamp r))) (value_of ival (variableBorrowIndex r)))"

definition total_stable_at :: "('b \<Rightarrow> int) \<Rightarrow> 'b ReserveData \<Rightarrow> int \<Rightarrow> int" where
  "total_stable_at ival r now =
     total_stable (value_of ival (principalStableDebt r)) (value_of ival (averageStableBorrowRate r))
       (now - value_of ival (totalStableDebtLastUpdated r))"

definition user_balance_at :: "('b \<Rightarrow> int) \<Rightarrow> 'b ReserveData \<Rightarrow> 'b UserReserveData \<Rightarrow> int \<Rightarrow> int" where
  "user_balance_at ival r u now =
     ray_mul (value_of ival (scaledLTokenBalance u))
       (normalized_income (value_of ival (liquidityRate r)) (value_of ival (liquidityIndex r))
         (now - value_of ival (lastUpdateTimestamp r)))"

definition user_variable_at :: "('b \<Rightarrow> int) \<Rightarrow> 'b ReserveData \<Rightarrow> 'b UserReserveData \<Rightarrow> int \<Rightarrow> int" where
  "user_variable_at ival r u now =
     ray_mul (value_of ival (scaledVariableDebt_u u))
       (normalized_debt (value_of ival (variableBorrowRate r)) (value_of ival (variableBorrowIndex r))
         (now - value_of ival (lastUpdateTimestamp r)))"

definition user_stable_at :: "('b \<Rightarrow> int) \<Rightarrow> 'b UserReserveData \<Rightarrow> int \<Rightarrow> int" where
  "user_stable_at ival u now =
     stable_balance (value_of ival (principalStableDebt_u u)) (value_of ival (stableBorrowRate_u u))
       (value_of ival (stableRateLastUpdated u)) now"

lemma variable_index_ge:
  "sound_reserve ival r now \<Longrightarrow> value_of ival (variableBorrowIndex r) \<le> variable_index_at ival r now"
  by (simp add: variable_index_at_def sound_reserve_def ray_mul_ge_right compounded_interest_ge
      order_trans [OF ray_unit_nonneg])

lemma variable_index_pos: "sound_reserve ival r now \<Longrightarrow> 0 < variable_index_at ival r now"
  using variable_index_ge [of ival r now] less_le_trans [OF ray_unit_pos]
  by (force simp: sound_reserve_def)

lemma liquidity_index_ge:
  "sound_reserve ival r now \<Longrightarrow> value_of ival (liquidityIndex r) \<le> liquidity_index_at ival r now"
  by (simp add: liquidity_index_at_def sound_reserve_def ray_mul_ge_right linear_interest_ge
      order_trans [OF ray_unit_nonneg])

lemma total_stable_at_nonneg: "sound_reserve ival r now \<Longrightarrow> 0 \<le> total_stable_at ival r now"
  by (simp add: total_stable_at_def sound_reserve_def total_stable_def
      order_trans [OF ray_unit_nonneg compounded_interest_ge])

context bignumber
begin

lemma present_simps [simp]:
  assumes "present ok v"
  shows "v \<noteq> None" "ok (the v)"
  using assms by (auto simp: present_iff)

lemma ival_the [simp]: "ival (the v) = value_of ival v"
  by (simp add: value_of_def)

lemma complete_reserve_fields [simp]:
  assumes "complete_reserve ok r"
  shows "present (\<lambda>_. True) (address r)" "symbol r \<noteq> None"
    "present ok (totalLiquidity r)" "present ok (availableLiquidity r)"
    "present ok (totalStableDebt r)" "present ok (totalVariableDebt r)"
    "present ok (principalStableDebt r)" "present ok (scaledVariableDebt r)"
    "present ok (averageStableBorrowRate r)" "present ok (variableBorrowRate r)"
    "present ok (stableBorrowRate r)" "present ok (utilizationRate r)"
    "present ok (liquidityIndex r)" "present ok (variableBorrowIndex r)"
    "present ok (marketStableRate r)" "present ok (lastUpdateTimestamp r)"
    "present ok (totalStableDebtLastUpdated r)" "present ok (liquidityRate r)"
  using assms by (simp_all add: complete_reserve_def)

lemma complete_user_fields [simp]:
  assumes "complete_user ok u"
  shows "present ok (scaledLTokenBalance u)" "present ok (currentLTokenBalance u)"
    "present ok (currentStableDebt u)" "present ok (currentVariableDebt u)"
    "present ok (principalStableDebt_u u)" "present ok (scaledVariableDebt_u u)"
    "present ok (liquidityRate_u u)" "present ok (stableBorrowRate_u u)"
    "present ok (stableRateLastUpdated u)" "present (\<lambda>_. True) (usageAsCollateralEnabled u)"
    "present ok (walletBalance u)"
  using assms by (simp_all add: complete_user_def)

lemmas field_specs = complete_reserve_fields complete_user_fields

lemma liquidity_index_spec [simp]:
  assumes "complete_reserve ok r" "ok now"
  shows "present ok (calcExpectedLiquidityIndex B r now)"
    "value_of ival (calcExpectedLiquidityIndex B r now) = liquidity_index_at ival r (ival now)"
  using assms
  by (simp_all add: calcExpectedLiquidityIndex_def liquidity_index_at_def)

lemma variable_index_spec [simp]:
  assumes "complete_reserve ok r" "ok now"
  shows "present ok (calcExpectedVariableBorrowIndex B r now)"
    "value_of ival (calcExpectedVariableBorrowIndex B r now) = variable_index_at ival r (ival now)"
  using assms
  by (simp_all add: calcExpectedVariableBorrowIndex_def variable_index_at_def)

lemma user_balance_spec [simp]:
  assumes "present ok (liquidityRate r)" "present ok (liquidityIndex r)"
    "present ok (lastUpdateTimestamp r)" "present ok (scaledLTokenBalance u)" "ok now"
  shows "present ok (calcExpectedLTokenBalance B r u now)"
    "value_of ival (calcExpectedLTokenBalance B r u now) = user_balance_at ival r u (ival now)"
  using assms
  by (simp_all add: calcExpectedLTokenBalance_def
      calcExpectedReserveNormalizedIncome_def user_balance_at_def normalized_income_def)

lemma user_variable_spec [simp]:
  assumes "present ok (variableBorrowRate r)" "present ok (variableBorrowIndex r)"
    "present ok (lastUpdateTimestamp r)" "present ok (scaledVariableDebt_u u)" "ok now"
  shows "present ok (calcExpectedVariableDebtTokenBalance B r u now)"
    "value_of ival (calcExpectedVariableDebtTokenBalance B r u now) = user_variable_at ival r u (ival now)"
  using assms
  by (simp_all add: calcExpectedVariableDebtTokenBalance_def
      user_variable_at_def)

end

end
