(* ===== verification/SolidityRates.thy ===== *)
theory SolidityRates
  imports SolidityMath OracleFacts
begin

text \<open>
  The contracts' side of what the oracle predicts: \<open>DefaultReserveInterestRateStrategy.sol\<close> (its
  constructor, \<open>calculateInterestRates\<close>, \<open>_getOverallBorrowRate\<close>) and the index update of
  \<open>ReserveLogic.sol\<close>, with storage at the widths of \<open>DataTypes.sol\<close>.  The market borrow rate,
  an external call, is an argument; so is \<open>block.timestamp\<close>.
\<close>

subsection \<open>The interest rate strategy\<close>

record sol_strategy =
  OPTIMAL_UTILIZATION_RATE :: uint256
  EXCESS_UTILIZATION_RATE :: uint256
  sol_baseVariableBorrowRate :: uint256
  sol_variableRateSlope1 :: uint256
  sol_variableRateSlope2 :: uint256
  sol_stableRateSlope1 :: uint256
  sol_stableRateSlope2 :: uint256

definition sol_constructor ::
  "uint256 \<Rightarrow> uint256 \<Rightarrow> uint256 \<Rightarrow> uint256 \<Rightarrow> uint256 \<Rightarrow> uint256 \<Rightarrow> string + sol_strategy" where
  "sol_constructor optimalUtilization base vSlope1 vSlope2 sSlope1 sSlope2 =
     andThen (sol_sub sol_RAY optimalUtilization) (\<lambda>excess.
     Inr \<lparr>OPTIMAL_UTILIZATION_RATE = optimalUtilization, EXCESS_UTILIZATION_RATE = excess,
          sol_baseVariableBorrowRate = base, sol_variableRateSlope1 = vSlope1,
          sol_variableRateSlope2 = vSlope2, sol_stableRateSlope1 = sSlope1,
          sol_stableRateSlope2 = sSlope2\<rparr>)"

definition sol_getOverallBorrowRate ::
  "uint256 \<Rightarrow> uint256 \<Rightarrow> uint256 \<Rightarrow> uint256 \<Rightarrow> string + uint256" where
  "sol_getOverallBorrowRate stableDebt variableDebt currentVariableBorrowRate averageRate =
     andThen (sol_add stableDebt variableDebt) (\<lambda>totalDebt.
     if totalDebt = 0 then Inr 0
     else
      andThen (sol_wadToRay variableDebt) (\<lambda>v.
      andThen (sol_rayMul v currentVariableBorrowRate) (\<lambda>weightedVariableRate.
      andThen (sol_wadToRay stableDebt) (\<lambda>s.
      andThen (sol_rayMul s averageRate) (\<lambda>weightedStableRate.
      andThen (sol_add weightedVariableRate weightedStableRate) (\<lambda>w.
      andThen (sol_wadToRay totalDebt) (\<lambda>t.
      sol_rayDiv w t)))))))"

definition sol_calculateInterestRates ::
  "sol_strategy \<Rightarrow> uint256 \<Rightarrow> uint256 \<Rightarrow> uint256 \<Rightarrow> uint256 \<Rightarrow> uint256 \<Rightarrow> uint256 \<Rightarrow>
   string + (uint256 \<times> uint256 \<times> uint256)" where
  "sol_calculateInterestRates st marketBorrowRate liquidity stableDebt variableDebt averageRate factor =
     andThen (sol_add stableDebt variableDebt) (\<lambda>totalDebt.
     andThen (if totalDebt = 0 then Inr 0
              else andThen (sol_add liquidity totalDebt) (sol_rayDiv totalDebt)) (\<lambda>utilizationRate.
     andThen
      (if utilizationRate > OPTIMAL_UTILIZATION_RATE st then
         andThen (sol_sub utilizationRate (OPTIMAL_UTILIZATION_RATE st)) (\<lambda>excess.
         andThen (sol_rayDiv excess (EXCESS_UTILIZATION_RATE st)) (\<lambda>excessUtilizationRateRatio.
         andThen (sol_add marketBorrowRate (sol_stableRateSlope1 st)) (\<lambda>s1.
         andThen (sol_rayMul (sol_stableRateSlope2 st) excessUtilizationRateRatio) (\<lambda>s2.
         andThen (sol_add s1 s2) (\<lambda>stableRate.
         andThen (sol_add (sol_baseVariableBorrowRate st) (sol_variableRateSlope1 st)) (\<lambda>v1.
         andThen (sol_rayMul (sol_variableRateSlope2 st) excessUtilizationRateRatio) (\<lambda>v2.
         andThen (sol_add v1 v2) (\<lambda>variableRate.
         Inr (stableRate, variableRate)))))))))
       else
         andThen (sol_rayDiv utilizationRate (OPTIMAL_UTILIZATION_RATE st)) (\<lambda>ratio.
         andThen (sol_rayMul (sol_stableRateSlope1 st) ratio) (\<lambda>s1.
         andThen (sol_add marketBorrowRate s1) (\<lambda>stableRate.
         andThen (sol_rayMul utilizationRate (sol_variableRateSlope1 st)) (\<lambda>v0.
         andThen (sol_rayDiv v0 (OPTIMAL_UTILIZATION_RATE st)) (\<lambda>v1.
         andThen (sol_add (sol_baseVariableBorrowRate st) v1) (\<lambda>variableRate.
         Inr (stableRate, variableRate)))))))) (\<lambda>(stableRate, variableRate).
     andThen (sol_getOverallBorrowRate stableDebt variableDebt variableRate averageRate) (\<lambda>overall.
     andThen (sol_rayMul overall utilizationRate) (\<lambda>l.
     andThen (sol_sub sol_PERCENTAGE_FACTOR factor) (\<lambda>share.
     andThen (sol_percentMul l share) (\<lambda>liquidityRate.
     Inr (liquidityRate, stableRate, variableRate))))))))"

subsection \<open>The index update\<close>

record sol_reserve =
  sol_liquidityIndex :: "128 word"
  sol_variableBorrowIndex :: "128 word"
  sol_currentLiquidityRate :: "128 word"
  sol_currentVariableBorrowRate :: "128 word"
  sol_lastUpdateTimestamp :: "40 word"

definition sol_updateIndexes ::
  "uint256 \<Rightarrow> 'r sol_reserve_scheme \<Rightarrow> uint256 \<Rightarrow> uint256 \<Rightarrow> uint256 \<Rightarrow> 40 word \<Rightarrow>
   string + ('r sol_reserve_scheme \<times> uint256 \<times> uint256)" where
  "sol_updateIndexes blockTime reserve scaledDebt index variableIndex timestamp =
     andThen
      (if sol_currentLiquidityRate reserve > 0 then
         andThen (sol_calculateLinearInterest (ucast (sol_currentLiquidityRate reserve)) (ucast timestamp)
           blockTime) (\<lambda>cumulatedLiquidityInterest.
         andThen (sol_rayMul cumulatedLiquidityInterest index) (\<lambda>newLiquidityIndex.
         require (newLiquidityIndex \<le> ucast (- 1 :: 128 word)) ''51''
          (let reserve1 = reserve\<lparr>sol_liquidityIndex := ucast newLiquidityIndex\<rparr>
           in if scaledDebt \<noteq> 0 then
                andThen (sol_calculateCompoundedInterest
                  (ucast (sol_currentVariableBorrowRate reserve1)) (ucast timestamp) blockTime)
                 (\<lambda>cumulatedVariableBorrowInterest.
                andThen (sol_rayMul cumulatedVariableBorrowInterest variableIndex)
                 (\<lambda>newVariableBorrowIndex.
                require (newVariableBorrowIndex \<le> ucast (- 1 :: 128 word)) ''52''
                 (Inr (reserve1\<lparr>sol_variableBorrowIndex := ucast newVariableBorrowIndex\<rparr>,
                       newLiquidityIndex, newVariableBorrowIndex))))
              else Inr (reserve1, newLiquidityIndex, variableIndex))))
       else Inr (reserve, index, variableIndex))
      (\<lambda>(reserve', newLiquidityIndex, newVariableBorrowIndex).
        Inr (reserve'\<lparr>sol_lastUpdateTimestamp := ucast blockTime\<rparr>, newLiquidityIndex,
             newVariableBorrowIndex))"

subsection \<open>A deployed strategy\<close>

text \<open>The contract deployed with the arguments the configuration gives as decimal strings.\<close>

definition deployed :: "IReserveParams \<Rightarrow> sol_strategy \<Rightarrow> bool" where
  "deployed p st \<longleftrightarrow>
     (let arg = (\<lambda>s. word_of_int (num s) :: uint256); c = strategy p
      in sol_constructor (arg (optimalUtilizationRate c)) (arg (baseVariableBorrowRate c))
           (arg (variableRateSlope1 c)) (arg (variableRateSlope2 c)) (arg (stableRateSlope1 c))
           (arg (stableRateSlope2 c)) = Inr st)"

definition small_params :: "IReserveParams \<Rightarrow> bool" where
  "small_params p \<longleftrightarrow>
     num (baseVariableBorrowRate (strategy p)) \<le> ray_unit \<and>
     num (variableRateSlope1 (strategy p)) \<le> ray_unit \<and>
     num (variableRateSlope2 (strategy p)) \<le> 10 * ray_unit \<and>
     num (stableRateSlope1 (strategy p)) \<le> ray_unit \<and>
     num (stableRateSlope2 (strategy p)) \<le> 10 * ray_unit \<and>
     9 * ray_unit \<le> 20 * num (optimalUtilizationRate (strategy p))"

lemma uint_of_small: "0 \<le> n \<Longrightarrow> n \<le> 10 * ray_unit \<Longrightarrow> uint (word_of_int n :: uint256) = n"
  by (simp add: uint_word_of_int ray_unit_def)

lemma deployed_fields:
  assumes "deployed p st" "sane_params p" "small_params p"
  shows "uint (OPTIMAL_UTILIZATION_RATE st) = num (optimalUtilizationRate (strategy p))"
    "uint (EXCESS_UTILIZATION_RATE st) = ray_unit - num (optimalUtilizationRate (strategy p))"
    "uint (sol_baseVariableBorrowRate st) = num (baseVariableBorrowRate (strategy p))"
    "uint (sol_variableRateSlope1 st) = num (variableRateSlope1 (strategy p))"
    "uint (sol_variableRateSlope2 st) = num (variableRateSlope2 (strategy p))"
    "uint (sol_stableRateSlope1 st) = num (stableRateSlope1 (strategy p))"
    "uint (sol_stableRateSlope2 st) = num (stableRateSlope2 (strategy p))"
  using assms ray_unit_pos
  by (auto simp: deployed_def Let_def sol_constructor_def sane_params_def small_params_def
      uint_of_small dest!: sol_sub_exact)

lemma sol_getOverallBorrowRate_exact:
  assumes "sol_getOverallBorrowRate s v vr avg = Inr c"
  shows "uint c = overall_rate (uint s) (uint v) (uint vr) (uint avg)"
proof -
  from assms obtain t where t: "sol_add s v = Inr t" by (auto simp: sol_getOverallBorrowRate_def)
  have total: "uint t = uint s + uint v" by (rule sol_add_exact [OF t])
  show ?thesis
  proof (cases "t = 0")
    case True
    with assms t total show ?thesis by (simp add: sol_getOverallBorrowRate_def overall_rate_def)
  next
    case False
    then have "uint s + uint v \<noteq> 0" using total uint_pos [OF False] by simp
    moreover from assms t False obtain a b d e f g where
      conv: "sol_wadToRay v = Inr a" "sol_wadToRay s = Inr d" "sol_wadToRay t = Inr g"
      and mul: "sol_rayMul a vr = Inr b" "sol_rayMul d avg = Inr e"
      and add: "sol_add b e = Inr f" and dv: "sol_rayDiv f g = Inr c"
      by (auto simp: sol_getOverallBorrowRate_def)
    ultimately show ?thesis
      using conv [THEN sol_wadToRay_exact] mul [THEN sol_rayMul_exact] sol_add_exact [OF add]
        sol_rayDiv_exact [OF dv] total
      by (simp add: overall_rate_def)
  qed
qed

lemma word_zero_uint [simp]: "(x :: uint256) = 0 \<longleftrightarrow> uint x = 0"
  by (simp add: uint_0_iff)

lemma sol_calculateInterestRates_exact:
  assumes st: "deployed p st" "sane_params p" "small_params p"
    and r: "sol_calculateInterestRates st m liq s v avg f = Inr (l, sr, vr)"
  defines "util \<equiv> utilization (uint s) (uint v) (uint liq + uint s + uint v)"
    and "opt \<equiv> num (optimalUtilizationRate (strategy p))"
  shows "uint sr = stable_rate_of p (uint m) util"
    and "opt < util \<Longrightarrow> uint vr = variable_rate_of p util"
    and "util \<le> opt \<Longrightarrow> uint vr = num (baseVariableBorrowRate (strategy p)) +
      ray_div (ray_mul util (num (variableRateSlope1 (strategy p)))) opt"
    and "uint l = percent_mul (ray_mul (overall_rate (uint s) (uint v) (uint vr) (uint avg)) util)
      (10000 - uint f)"
proof -
  note fields = deployed_fields [OF st]
  from r obtain t u o' l' w where
    t: "sol_add s v = Inr t"
    and u: "(if t = 0 then Inr 0 else andThen (sol_add liq t) (sol_rayDiv t)) = Inr u"
    and o': "sol_getOverallBorrowRate s v vr avg = Inr o'" and l': "sol_rayMul o' u = Inr l'"
    and w: "sol_sub sol_PERCENTAGE_FACTOR f = Inr w" and l: "sol_percentMul l' w = Inr l"
    and rates: "(if u > OPTIMAL_UTILIZATION_RATE st then
         andThen (sol_sub u (OPTIMAL_UTILIZATION_RATE st)) (\<lambda>excess.
         andThen (sol_rayDiv excess (EXCESS_UTILIZATION_RATE st)) (\<lambda>excessUtilizationRateRatio.
         andThen (sol_add m (sol_stableRateSlope1 st)) (\<lambda>s1.
         andThen (sol_rayMul (sol_stableRateSlope2 st) excessUtilizationRateRatio) (\<lambda>s2.
         andThen (sol_add s1 s2) (\<lambda>stableRate.
         andThen (sol_add (sol_baseVariableBorrowRate st) (sol_variableRateSlope1 st)) (\<lambda>v1.
         andThen (sol_rayMul (sol_variableRateSlope2 st) excessUtilizationRateRatio) (\<lambda>v2.
         andThen (sol_add v1 v2) (\<lambda>variableRate.
         Inr (stableRate, variableRate)))))))))
       else
         andThen (sol_rayDiv u (OPTIMAL_UTILIZATION_RATE st)) (\<lambda>ratio.
         andThen (sol_rayMul (sol_stableRateSlope1 st) ratio) (\<lambda>s1.
         andThen (sol_add m s1) (\<lambda>stableRate.
         andThen (sol_rayMul u (sol_variableRateSlope1 st)) (\<lambda>v0.
         andThen (sol_rayDiv v0 (OPTIMAL_UTILIZATION_RATE st)) (\<lambda>v1.
         andThen (sol_add (sol_baseVariableBorrowRate st) v1) (\<lambda>variableRate.
         Inr (stableRate, variableRate)))))))) = Inr (sr, vr)"
    unfolding sol_calculateInterestRates_def andThen_Inr by (elim exE conjE) (auto simp: case_prod_beta)
  have total: "uint t = uint s + uint v" by (rule sol_add_exact [OF t])
  have util: "uint u = util"
  proof (cases "t = 0")
    case True
    with u total uint_ge_0 [of s] uint_ge_0 [of v] show ?thesis
      by (auto simp: util_def utilization_def)
  next
    case False
    with u obtain x where x: "sol_add liq t = Inr x" "sol_rayDiv t x = Inr u" by auto
    with False total show ?thesis
      by (auto simp: util_def utilization_def add.assoc dest!: sol_add_exact sol_rayDiv_exact)
  qed
  have cond: "u > OPTIMAL_UTILIZATION_RATE st \<longleftrightarrow> opt < util"
    by (simp add: word_less_def util fields(1) opt_def)
  show "uint sr = stable_rate_of p (uint m) util"
  proof (cases "opt < util")
    case True
    with rates cond show ?thesis
      by (auto simp: stable_rate_of_def stable_curve_def fields util opt_def
          dest!: sol_sub_exact sol_rayDiv_exact sol_rayMul_exact sol_add_exact)
  next
    case False
    with rates cond show ?thesis
      by (auto simp: stable_rate_of_def stable_curve_def fields util opt_def
          dest!: sol_sub_exact sol_rayDiv_exact sol_rayMul_exact sol_add_exact)
  qed
  show "uint vr = variable_rate_of p util" if "opt < util"
    using that rates cond
    by (auto simp: variable_rate_of_def variable_curve_def fields util opt_def
          dest!: sol_sub_exact sol_rayDiv_exact sol_rayMul_exact sol_add_exact)
  show "uint vr = num (baseVariableBorrowRate (strategy p)) +
      ray_div (ray_mul util (num (variableRateSlope1 (strategy p)))) opt" if "util \<le> opt"
    using that rates cond
    by (auto simp: fields util opt_def
          dest!: sol_sub_exact sol_rayDiv_exact sol_rayMul_exact sol_add_exact)
  show "uint l = percent_mul (ray_mul (overall_rate (uint s) (uint v) (uint vr) (uint avg)) util)
      (10000 - uint f)"
    using sol_getOverallBorrowRate_exact [OF o'] sol_rayMul_exact [OF l'] sol_sub_exact [OF w]
      sol_percentMul_exact [OF l] util by simp
qed

text \<open>Multiplying before or after the division changes the variable rate by at most two units.\<close>

lemma mult_abs: "0 < (k :: int) \<Longrightarrow> \<bar>x\<bar> \<le> y \<Longrightarrow> \<bar>k * x\<bar> \<le> k * y"
  by (simp add: abs_mult mult_left_mono)

lemma ray_mul_error: "0 \<le> a \<Longrightarrow> 0 \<le> b \<Longrightarrow> \<bar>2 * ray_unit * ray_mul a b - 2 * (a * b)\<bar> \<le> ray_unit"
  using fixed_mul_bounds [of ray_unit a b] by (simp add: ray_mul_def abs_le_iff)

lemma ray_div_error: "0 \<le> a \<Longrightarrow> 0 < b \<Longrightarrow> \<bar>2 * b * ray_div a b - 2 * (a * ray_unit)\<bar> \<le> b"
  using fixed_div_bounds [of ray_unit a b] by (simp add: ray_div_def abs_le_iff)

lemma rounding_order:
  assumes "0 \<le> u" "0 \<le> s" "s \<le> ray_unit" "0 < o'" "9 * ray_unit \<le> 20 * o'"
  shows "\<bar>ray_mul (ray_div u o') s - ray_div (ray_mul u s) o'\<bar> \<le> 2"
proof -
  define R where "R = ray_unit"
  define a where "a = ray_div u o'"
  define x where "x = ray_mul a s"
  define b where "b = ray_mul u s"
  define y where "y = ray_div b o'"
  have R: "0 < R" by (simp add: R_def)
  have nn: "0 \<le> a" "0 \<le> b" using assms by (simp_all add: a_def b_def)
  have err: "\<bar>2 * o' * a - 2 * (u * R)\<bar> \<le> o'" "\<bar>2 * R * x - 2 * (a * s)\<bar> \<le> R"
    "\<bar>2 * R * b - 2 * (u * s)\<bar> \<le> R" "\<bar>2 * o' * y - 2 * (b * R)\<bar> \<le> o'"
    using assms nn unfolding a_def x_def b_def y_def R_def
    by (simp_all only: ray_mul_error ray_div_error)
  have "\<bar>s * (2 * o' * a - 2 * (u * R))\<bar> \<le> s * o'"
    using assms(2) err(1) by (simp add: abs_mult mult_left_mono)
  moreover have "s * o' \<le> R * o'" using assms(3,4) by (simp add: R_def mult_right_mono)
  moreover note mult_abs [OF assms(4) err(2)] mult_abs [OF R err(3)] mult_abs [OF R err(4)]
  ultimately have "\<bar>2 * o' * R * x - 2 * o' * R * y\<bar> \<le> 3 * (o' * R) + R * R"
    by (simp add: algebra_simps abs_le_iff)
  moreover have "9 * (R * R) \<le> 20 * (o' * R)"
    using mult_right_mono [OF assms(5), of R] R by (simp add: R_def)
  moreover have "0 < o' * R" using R assms(4) by simp
  ultimately have "\<bar>2 * o' * R * x - 2 * o' * R * y\<bar> < 6 * (o' * R)" by linarith
  moreover have "2 * o' * R * x - 2 * o' * R * y = (2 * (o' * R)) * (x - y)" by (simp add: algebra_simps)
  ultimately have "(2 * (o' * R)) * \<bar>x - y\<bar> < (2 * (o' * R)) * 3"
    using R assms(4) by (simp add: abs_mult)
  with \<open>0 < o' * R\<close> have "\<bar>x - y\<bar> < 3" by (simp only: mult_less_cancel_left_pos)
  then show ?thesis by (simp add: x_def y_def a_def b_def)
qed

end
