(* ===== verification/Permits.thy ===== *)
theory Permits
  imports SolidityMath
begin

text \<open>
  Permits: the typed data that \<open>helpers/contracts-helpers.ts\<close> builds and has signed, the parameters of
  the swap adapters, and the contract side, \<open>permit\<close> of \<open>LToken.sol\<close>, that checks a signature.
  Hashing, recovering and signing are parameters.
\<close>

subsection \<open>Byte strings and words\<close>

type_synonym byte = "8 word"
type_synonym address = "160 word"

text \<open>A 256-bit word as its 32 bytes, the most significant first, and the static \<open>abi.encode\<close>.\<close>

definition bytes32 :: "uint256 \<Rightarrow> byte list" where
  "bytes32 w = map (\<lambda>i. ucast (drop_bit (8 * (31 - i)) w)) [0..<32]"

definition abi_encode :: "uint256 list \<Rightarrow> byte list" where
  "abi_encode ws = concat (map bytes32 ws)"

text \<open>The bytes of an ASCII string, \<open>bytes(s)\<close>.\<close>

definition string_bytes :: "string \<Rightarrow> byte list" where
  "string_bytes s = map (\<lambda>c. word_of_nat (of_char c)) s"

text \<open>\<open>abi.encodePacked('\x19\x01', domainSeparator, structHash)\<close>\<close>

definition signed_bytes :: "uint256 \<Rightarrow> uint256 \<Rightarrow> byte list" where
  "signed_bytes domainSeparator structHash = [0x19, 0x01] @ bytes32 domainSeparator @ bytes32 structHash"

text \<open>The number a decimal or \<open>0x\<close> string stands for, as a word; \<open>None\<close> if it does not fit.\<close>

definition word_of_string :: "string \<Rightarrow> 'w::len word option" where
  "word_of_string s =
     Option.bind (read_unsigned s) (\<lambda>n. if n < 2 ^ LENGTH('w) then Some (word_of_int n) else None)"

subsection \<open>Typed data and its parameters\<close>

datatype json = JString string | JNumber int

text \<open>A member \<open>{name, type}\<close> of a struct type.\<close>

type_synonym member = "string \<times> string"

record typed_data =
  tdTypes :: "member list obj"
  tdPrimaryType :: string
  tdDomain :: "json obj"
  tdMessage :: "json obj"

definition buildPermitParams ::
  "int \<Rightarrow> string \<Rightarrow> string \<Rightarrow> string \<Rightarrow> string \<Rightarrow> string \<Rightarrow> int \<Rightarrow> string \<Rightarrow> string \<Rightarrow> typed_data" where
  "buildPermitParams chainId token revision tokenName owner spender nonce deadline value =
     \<lparr>tdTypes =
        [(''EIP712Domain'',
           [(''name'', ''string''), (''version'', ''string''), (''chainId'', ''uint256''),
            (''verifyingContract'', ''address'')]),
         (''Permit'',
           [(''owner'', ''address''), (''spender'', ''address''), (''value'', ''uint256''),
            (''nonce'', ''uint256''), (''deadline'', ''uint256'')])],
      tdPrimaryType = ''Permit'',
      tdDomain =
        [(''name'', JString tokenName), (''version'', JString revision), (''chainId'', JNumber chainId),
         (''verifyingContract'', JString token)],
      tdMessage =
        [(''owner'', JString owner), (''spender'', JString spender), (''value'', JString value),
         (''nonce'', JNumber nonce), (''deadline'', JString deadline)]\<rparr>"

text \<open>
  \<open>eth-sig-util\<close> and \<open>ethereumjs-util\<close> are packages: signing typed data and splitting a signature are
  parameters.
\<close>

record signature =
  sigV :: "8 word"
  sigR :: "uint256"
  sigS :: "uint256"

record signer_api =
  signTypedData_v4 :: "string \<Rightarrow> typed_data \<Rightarrow> string"
  fromRpcSig :: "string \<Rightarrow> signature"

definition getSignatureFromTypedData :: "signer_api \<Rightarrow> string \<Rightarrow> typed_data \<Rightarrow> signature" where
  "getSignatureFromTypedData S privateKey typedData =
     fromRpcSig S (signTypedData_v4 S (take 64 (drop 2 privateKey)) typedData)"

subsection \<open>What a wallet signs: EIP-712\<close>

text \<open>
  The digest of typed data as the EIP-712 standard defines it, for struct types whose members are
  strings, numbers and addresses, as they are here.  It says what the package signs; a value that is
  missing or does not fit its type has no encoding.
\<close>

fun join_with :: "string \<Rightarrow> string list \<Rightarrow> string" where
  "join_with sep [] = []"
| "join_with sep [s] = s"
| "join_with sep (s # t # rest) = s @ sep @ join_with sep (t # rest)"

definition encodeType :: "string \<Rightarrow> member list \<Rightarrow> string" where
  "encodeType name members =
     name @ ''('' @ join_with '','' (map (\<lambda>(n, t). t @ '' '' @ n) members) @ '')''"

definition encodeValue :: "(byte list \<Rightarrow> uint256) \<Rightarrow> string \<Rightarrow> json \<Rightarrow> uint256 option" where
  "encodeValue keccak type v =
     (case v of
        JString s \<Rightarrow>
          if type = ''string'' then Some (keccak (string_bytes s))
          else if type = ''uint256'' then word_of_string s
          else if type = ''address'' then map_option ucast (word_of_string s :: address option)
          else None
      | JNumber n \<Rightarrow> if type = ''uint256'' \<and> 0 \<le> n \<and> n < 2 ^ 256 then Some (word_of_int n) else None)"

fun encodeData :: "(byte list \<Rightarrow> uint256) \<Rightarrow> member list \<Rightarrow> json obj \<Rightarrow> uint256 list option" where
  "encodeData keccak [] data = Some []"
| "encodeData keccak ((n, t) # members) data =
     Option.bind (Option.bind (map_of data n) (encodeValue keccak t)) (\<lambda>w.
     map_option (Cons w) (encodeData keccak members data))"

definition hashStruct ::
  "(byte list \<Rightarrow> uint256) \<Rightarrow> member list obj \<Rightarrow> string \<Rightarrow> json obj \<Rightarrow> uint256 option" where
  "hashStruct keccak types name data =
     Option.bind (map_of types name) (\<lambda>members.
     map_option (\<lambda>ws. keccak (abi_encode (keccak (string_bytes (encodeType name members)) # ws)))
       (encodeData keccak members data))"

definition typed_data_digest :: "(byte list \<Rightarrow> uint256) \<Rightarrow> typed_data \<Rightarrow> uint256 option" where
  "typed_data_digest keccak td =
     Option.bind (hashStruct keccak (tdTypes td) ''EIP712Domain'' (tdDomain td)) (\<lambda>domainSeparator.
     map_option (\<lambda>structHash. keccak (signed_bytes domainSeparator structHash))
       (hashStruct keccak (tdTypes td) (tdPrimaryType td) (tdMessage td)))"

subsection \<open>The permit of the token contract\<close>

text \<open>The storage of \<open>LToken.sol\<close> that a permit reads and writes, and its block.\<close>

record ltoken =
  ltAddress :: "address"
  ltName :: string
  ltNonces :: "address \<Rightarrow> uint256"
  ltAllowances :: "address \<Rightarrow> address \<Rightarrow> uint256"

record evm =
  evmKeccak :: "byte list \<Rightarrow> uint256"
  evmRecover :: "uint256 \<Rightarrow> signature \<Rightarrow> address"     \<comment> \<open>\<open>ecrecover(digest, v, r, s)\<close>\<close>
  evmChainId :: "uint256"
  evmTimestamp :: "uint256"

definition sol_EIP712_REVISION :: string where "sol_EIP712_REVISION = ''1''"

definition sol_EIP712_DOMAIN :: "evm \<Rightarrow> uint256" where
  "sol_EIP712_DOMAIN E = evmKeccak E (string_bytes
     ''EIP712Domain(string name,string version,uint256 chainId,address verifyingContract)'')"

definition sol_PERMIT_TYPEHASH :: "evm \<Rightarrow> uint256" where
  "sol_PERMIT_TYPEHASH E = evmKeccak E (string_bytes
     ''Permit(address owner,address spender,uint256 value,uint256 nonce,uint256 deadline)'')"

definition sol_approve :: "ltoken \<Rightarrow> address \<Rightarrow> address \<Rightarrow> uint256 \<Rightarrow> string + ltoken" where
  "sol_approve t owner spender amount =
     require (owner \<noteq> 0) ''ERC20: approve from the zero address''
      (require (spender \<noteq> 0) ''ERC20: approve to the zero address''
        (Inr (t\<lparr>ltAllowances := (ltAllowances t)(owner := (ltAllowances t owner)(spender := amount))\<rparr>)))"

definition sol_permit_digest ::
  "evm \<Rightarrow> ltoken \<Rightarrow> address \<Rightarrow> address \<Rightarrow> uint256 \<Rightarrow> uint256 \<Rightarrow> uint256 \<Rightarrow> uint256" where
  "sol_permit_digest E t owner spender value currentValidNonce deadline =
     (let domainSeparator = evmKeccak E (abi_encode
            [sol_EIP712_DOMAIN E, evmKeccak E (string_bytes (ltName t)),
             evmKeccak E (string_bytes sol_EIP712_REVISION), evmChainId E, ucast (ltAddress t)])
      in evmKeccak E (signed_bytes domainSeparator
           (evmKeccak E (abi_encode
              [sol_PERMIT_TYPEHASH E, ucast owner, ucast spender, value, currentValidNonce, deadline]))))"

definition sol_permit ::
  "evm \<Rightarrow> ltoken \<Rightarrow> address \<Rightarrow> address \<Rightarrow> uint256 \<Rightarrow> uint256 \<Rightarrow> signature \<Rightarrow> string + ltoken" where
  "sol_permit E t owner spender value deadline sg =
     require (owner \<noteq> 0) ''INVALID_OWNER''
      (require (evmTimestamp E \<le> deadline) ''INVALID_EXPIRATION''
        (let currentValidNonce = ltNonces t owner
         in require (owner = evmRecover E (sol_permit_digest E t owner spender value currentValidNonce deadline) sg)
              ''INVALID_SIGNATURE''
             (andThen (sol_add currentValidNonce 1) (\<lambda>nonce.
              sol_approve (t\<lparr>ltNonces := (ltNonces t)(owner := nonce)\<rparr>) owner spender value))))"

subsection \<open>Parameters of the adapters\<close>

text \<open>The ABI coder is a package; a value is passed with the type it is to be encoded as.\<close>

datatype abi_value =
    VAddress string
  | VNumber int
  | VBool bool
  | VBytes string
  | VList "abi_value list"

definition buildLiquiditySwapParams ::
  "(string list \<Rightarrow> abi_value list \<Rightarrow> string) \<Rightarrow> string list \<Rightarrow> int list \<Rightarrow> int list \<Rightarrow> int list \<Rightarrow> int list \<Rightarrow>
   int list \<Rightarrow> string list \<Rightarrow> string list \<Rightarrow> bool list \<Rightarrow> string" where
  "buildLiquiditySwapParams encode assetToSwapToList minAmountsToReceive swapAllBalances permitAmounts
     deadlines v r s useEthPath =
     encode
       [''address[]'', ''uint256[]'', ''bool[]'', ''uint256[]'', ''uint256[]'', ''uint8[]'', ''bytes32[]'',
        ''bytes32[]'', ''bool[]'']
       [VList (map VAddress assetToSwapToList), VList (map VNumber minAmountsToReceive),
        VList (map VNumber swapAllBalances), VList (map VNumber permitAmounts), VList (map VNumber deadlines),
        VList (map VNumber v), VList (map VBytes r), VList (map VBytes s), VList (map VBool useEthPath)]"

definition buildRepayAdapterParams ::
  "(string list \<Rightarrow> abi_value list \<Rightarrow> string) \<Rightarrow> string \<Rightarrow> int \<Rightarrow> int \<Rightarrow> int \<Rightarrow> int \<Rightarrow> int \<Rightarrow> string \<Rightarrow> string \<Rightarrow>
   bool \<Rightarrow> string" where
  "buildRepayAdapterParams encode collateralAsset collateralAmount rateMode permitAmount deadline v r s useEthPath =
     encode
       [''address'', ''uint256'', ''uint256'', ''uint256'', ''uint256'', ''uint8'', ''bytes32'', ''bytes32'', ''bool'']
       [VAddress collateralAsset, VNumber collateralAmount, VNumber rateMode, VNumber permitAmount,
        VNumber deadline, VNumber v, VBytes r, VBytes s, VBool useEthPath]"

end
