(* ===== verification/Comparison.thy ===== *)
theory Comparison
  imports OracleFacts
begin

text \<open>
  The two approximate comparisons of the scenario tests: \<open>almostEqual\<close>
  (\<open>helpers/almost-equal.ts\<close>, within 2) and \<open>almostEqualOrEqual\<close> (\<open>helpers/actions.ts\<close>, field by
  field within 3, skipping accessory data).  A failed assertion is the left value.
\<close>

subsection \<open>almostEqual\<close>

definition almostEqualAssertion :: "'b bignumber_api \<Rightarrow> 'b \<Rightarrow> 'b \<Rightarrow> bool" where
  "almostEqualAssertion B expected actual \<longleftrightarrow>
     bnEq B (bnPlus B expected (bnOfNumber B 1)) actual \<or>
     bnEq B (bnPlus B expected (bnOfNumber B 2)) actual \<or>
     bnEq B (bnPlus B actual (bnOfNumber B 1)) expected \<or>
     bnEq B (bnPlus B actual (bnOfNumber B 2)) expected \<or>
     bnEq B expected actual"

subsection \<open>Objects with their keys\<close>

datatype 'b field = FBig 'b | FString string | FBool bool

fun field_string :: "'b bignumber_api \<Rightarrow> 'b field \<Rightarrow> string" where
  "field_string B (FBig x) = bnToString B x"
| "field_string B (FString s) = s"
| "field_string B (FBool b) = (if b then ''true'' else ''false'')"

definition entry :: "string \<Rightarrow> ('a \<Rightarrow> 'b field) \<Rightarrow> 'a option \<Rightarrow> 'b field obj" where
  "entry key f v = (case v of None \<Rightarrow> [] | Some x \<Rightarrow> [(key, f x)])"

text \<open>\<open>Object.entries\<close> of a reserve and of a user record: the fields that are set, in the order of
  the object literals of \<open>getReserveData\<close> and \<open>getUserData\<close>.\<close>

definition reserve_object :: "'b ReserveData \<Rightarrow> 'b field obj" where
  "reserve_object r =
     entry ''totalLiquidity'' FBig (totalLiquidity r) @
     entry ''utilizationRate'' FBig (utilizationRate r) @
     entry ''availableLiquidity'' FBig (availableLiquidity r) @
     entry ''totalStableDebt'' FBig (totalStableDebt r) @
     entry ''totalVariableDebt'' FBig (totalVariableDebt r) @
     entry ''liquidityRate'' FBig (liquidityRate r) @
     entry ''variableBorrowRate'' FBig (variableBorrowRate r) @
     entry ''stableBorrowRate'' FBig (stableBorrowRate r) @
     entry ''averageStableBorrowRate'' FBig (averageStableBorrowRate r) @
     entry ''liquidityIndex'' FBig (liquidityIndex r) @
     entry ''variableBorrowIndex'' FBig (variableBorrowIndex r) @
     entry ''lastUpdateTimestamp'' FBig (lastUpdateTimestamp r) @
     entry ''totalStableDebtLastUpdated'' FBig (totalStableDebtLastUpdated r) @
     entry ''principalStableDebt'' FBig (principalStableDebt r) @
     entry ''scaledVariableDebt'' FBig (scaledVariableDebt r) @
     entry ''address'' FString (address r) @
     entry ''lTokenAddress'' FString (lTokenAddress r) @
     entry ''symbol'' FString (symbol r) @
     entry ''decimals'' FBig (decimals r) @
     entry ''marketStableRate'' FBig (marketStableRate r)"

definition user_object :: "'b UserReserveData \<Rightarrow> 'b field obj" where
  "user_object u =
     entry ''scaledLTokenBalance'' FBig (scaledLTokenBalance u) @
     entry ''currentLTokenBalance'' FBig (currentLTokenBalance u) @
     entry ''currentStableDebt'' FBig (currentStableDebt u) @
     entry ''currentVariableDebt'' FBig (currentVariableDebt u) @
     entry ''principalStableDebt'' FBig (principalStableDebt_u u) @
     entry ''scaledVariableDebt'' FBig (scaledVariableDebt_u u) @
     entry ''stableBorrowRate'' FBig (stableBorrowRate_u u) @
     entry ''liquidityRate'' FBig (liquidityRate_u u) @
     entry ''usageAsCollateralEnabled'' FBool (usageAsCollateralEnabled u) @
     entry ''stableRateLastUpdated'' FBig (stableRateLastUpdated u) @
     entry ''walletBalance'' FBig (walletBalance u) @
     entry ''variableBorrowIndex'' FBig (variableBorrowIndex_u u) @
     entry ''principalVariableDebt'' FBig (principalVariableDebt u)"

subsection \<open>almostEqualOrEqual\<close>

definition accessory_keys :: "string list" where
  "accessory_keys =
   [''lastUpdateTimestamp'', ''marketStableRate'', ''symbol'', ''lTokenAddress'', ''decimals'',
    ''totalStableDebtLastUpdated'']"

definition within_three :: "'b bignumber_api \<Rightarrow> 'b \<Rightarrow> 'b \<Rightarrow> bool" where
  "within_three B actualValue expectedValue \<longleftrightarrow>
     bnEq B actualValue expectedValue \<or>
     bnEq B (bnPlus B actualValue (bnOfNumber B 1)) expectedValue \<or>
     bnEq B actualValue (bnPlus B expectedValue (bnOfNumber B 1)) \<or>
     bnEq B (bnPlus B actualValue (bnOfNumber B 2)) expectedValue \<or>
     bnEq B actualValue (bnPlus B expectedValue (bnOfNumber B 2)) \<or>
     bnEq B (bnPlus B actualValue (bnOfNumber B 3)) expectedValue \<or>
     bnEq B actualValue (bnPlus B expectedValue (bnOfNumber B 3))"

text \<open>The body of the loop over the keys of \<open>actual\<close>.  The check that the expected value is not
  undefined is \<open>expect(condition, message)\<close> without a matcher, which asserts nothing, so an
  undefined expected value fails where it is used.\<close>

fun check_field :: "'b bignumber_api \<Rightarrow> 'b field obj \<Rightarrow> string \<Rightarrow> 'b field \<Rightarrow> string + unit" where
  "check_field B expected key (FBig actual) =
     (case map_of expected key of
        Some (FBig e) \<Rightarrow>
          (if within_three B (bnDecimalPlaces B actual) (bnDecimalPlaces B e) then Inr ()
           else Inl (''expected #{act} to be almost equal or equal #{exp} for property '' @ key))
      | Some _ \<Rightarrow> Inl ''TypeError: decimalPlaces is not a function''
      | None \<Rightarrow> Inl ''TypeError: Cannot read property of undefined'')"
| "check_field B expected key actual =
     (case map_of expected key of
        Some e \<Rightarrow>
          (if field_string B actual = field_string B e then Inr ()
           else Inl (''expected #{act} to be equal #{exp} for property '' @ key))
      | None \<Rightarrow> Inl ''TypeError: Cannot read property of undefined'')"

fun check_fields :: "'b bignumber_api \<Rightarrow> 'b field obj \<Rightarrow> 'b field obj \<Rightarrow> string + unit" where
  "check_fields B expected [] = Inr ()"
| "check_fields B expected ((key, actual) # rest) =
     (if key \<in> set accessory_keys then check_fields B expected rest
      else case check_field B expected key actual of
        Inl e \<Rightarrow> Inl e
      | Inr u \<Rightarrow> check_fields B expected rest)"

definition almostEqualOrEqual :: "'b bignumber_api \<Rightarrow> 'b field obj \<Rightarrow> 'b field obj \<Rightarrow> string + unit" where
  "almostEqualOrEqual B expected actual = check_fields B expected actual"

text \<open>\<open>expectEqual(actual, expected)\<close>, guarded by the suite's \<open>skipIntegrityCheck\<close>.\<close>

definition expectEqual :: "'b bignumber_api \<Rightarrow> bool \<Rightarrow> 'b field obj \<Rightarrow> 'b field obj \<Rightarrow> string + unit" where
  "expectEqual B skipIntegrityCheck actual expected =
     (if \<not> skipIntegrityCheck then almostEqualOrEqual B expected actual else Inr ())"

subsection \<open>What a passed check means\<close>

text \<open>One compared field: equal up to 3 for numbers, equal for the rest.\<close>

fun close_field :: "('b \<Rightarrow> int) \<Rightarrow> 'b field \<Rightarrow> 'b field \<Rightarrow> bool" where
  "close_field ival (FBig a) (FBig e) = (\<bar>ival a - ival e\<bar> \<le> 3)"
| "close_field ival (FString a) (FString e) = (a = e)"
| "close_field ival (FBool a) (FBool e) = (a = e)"
| "close_field ival _ _ = False"

text \<open>Objects whose numbers are integers and whose fields have the same kinds.\<close>

fun same_kind :: "('b \<Rightarrow> bool) \<Rightarrow> 'b field \<Rightarrow> 'b field \<Rightarrow> bool" where
  "same_kind ok (FBig a) (FBig e) = (ok a \<and> ok e)"
| "same_kind ok (FString a) (FString e) = True"
| "same_kind ok (FBool a) (FBool e) = True"
| "same_kind ok _ _ = False"

definition comparable_objects :: "('b \<Rightarrow> bool) \<Rightarrow> 'b field obj \<Rightarrow> 'b field obj \<Rightarrow> bool" where
  "comparable_objects ok expected actual \<longleftrightarrow>
     list_all (\<lambda>(key, a). key \<in> set accessory_keys \<or>
       (case map_of expected key of None \<Rightarrow> False | Some e \<Rightarrow> same_kind ok a e)) actual"

context bignumber
begin

lemma within_three_iff:
  "ok a \<Longrightarrow> ok e \<Longrightarrow> within_three B a e \<longleftrightarrow> \<bar>ival a - ival e\<bar> \<le> 3"
  by (simp add: within_three_def) arith

lemma almostEqual_iff:
  "ok e \<Longrightarrow> ok a \<Longrightarrow> almostEqualAssertion B e a \<longleftrightarrow> \<bar>ival a - ival e\<bar> \<le> 2"
  by (simp add: almostEqualAssertion_def) arith

lemma check_field_iff:
  "map_of expected key = Some e \<Longrightarrow> same_kind ok a e \<Longrightarrow>
   check_field B expected key a = Inr () \<longleftrightarrow> close_field ival a e"
  by (cases a; cases e) (auto simp: within_three_iff)

lemma check_fields_iff:
  "comparable_objects ok expected actual \<Longrightarrow>
   check_fields B expected actual = Inr () \<longleftrightarrow>
     (\<forall>(key, a) \<in> set actual. key \<notin> set accessory_keys \<longrightarrow>
        (\<exists>e. map_of expected key = Some e \<and> close_field ival a e))"
proof (induction actual)
  case Nil
  then show ?case by simp
next
  case (Cons x rest)
  obtain key a where x: "x = (key, a)" by (cases x)
  from Cons.prems have rest: "comparable_objects ok expected rest"
    by (simp add: comparable_objects_def)
  show ?case
  proof (cases "key \<in> set accessory_keys")
    case True
    with Cons.IH [OF rest] x show ?thesis by simp
  next
    case False
    with Cons.prems x obtain e where e: "map_of expected key = Some e" "same_kind ok a e"
      by (auto simp: comparable_objects_def split: option.splits)
    from check_field_iff [OF e] have "check_field B expected key a = Inr () \<longleftrightarrow> close_field ival a e" .
    with Cons.IH [OF rest] x False e(1) show ?thesis
      by (auto split: sum.splits)
  qed
qed

end

end
