(* ===== verification/Effects.thy ===== *)
theory Effects
  imports Types
begin

text \<open>
  Asynchronous TypeScript code as functions on an explicit world: the transactions sent so far, the
  JSON database and the files written.  An \<open>await\<close> that rejects or a \<open>throw\<close> is the left value of a sum; what was
  sent or written before it stays.  The chain itself is not part of the repository's TypeScript:
  it is a parameter, a record of functions of the transactions sent so far.
\<close>

subsection \<open>The world\<close>

text \<open>Arguments of contract calls and constructor calls, as the code passes them.\<close>

datatype arg =
    AString string
  | AInt int
  | ABool bool
  | AList "arg list"
  | AAddress string
  | AUndefined

record tx =
  txTo :: "string option"      \<comment> \<open>\<open>None\<close>: a contract creation\<close>
  txMethod :: string           \<comment> \<open>the method, or the contract that is created\<close>
  txArgs :: "arg list"
  txSender :: string

text \<open>An entry \<open>{address, deployer, salt}\<close> of \<open>deployed-contracts.json\<close>.\<close>

record db_entry =
  entryAddress :: string
  entryDeployer :: "string option"
  entrySalt :: "string option"

text \<open>lowdb is a package: its \<open>get(path).value()\<close> and \<open>set(path, v).write()\<close> are parameters.\<close>

record 'd lowdb_api =
  dbGet :: "'d \<Rightarrow> string \<Rightarrow> db_entry option"
  dbSet :: "'d \<Rightarrow> string \<Rightarrow> db_entry \<Rightarrow> 'd"

record 'd world =
  sent :: "tx list"
  db :: 'd
  files :: "string obj"       \<comment> \<open>files written by the code, by path\<close>

text \<open>What the code reads of the process and of the Hardhat runtime environment: the network the
  task runs on and the environment variables, \<open>None\<close> when unset.\<close>

record environment =
  networkName :: string
  envFORK :: "string option"
  envMAINNET_FORK :: "string option"
  envETHERSCAN_KEY :: "string option"
  envTENDERLY :: "string option"

definition truthy :: "string option \<Rightarrow> bool" where
  "truthy s = (case s of None \<Rightarrow> False | Some v \<Rightarrow> v \<noteq> [])"

subsection \<open>Actions\<close>

type_synonym ('d, 'a) action = "'d world \<Rightarrow> (string + 'a) \<times> 'd world"

definition returnA :: "'a \<Rightarrow> ('d, 'a) action" where
  "returnA x = (\<lambda>w. (Inr x, w))"

definition throwA :: "string \<Rightarrow> ('d, 'a) action" where
  "throwA e = (\<lambda>w. (Inl e, w))"

definition bindA :: "('d, 'a) action \<Rightarrow> ('a \<Rightarrow> ('d, 'b) action) \<Rightarrow> ('d, 'b) action" where
  "bindA m f = (\<lambda>w. case m w of (Inl e, w') \<Rightarrow> (Inl e, w') | (Inr x, w') \<Rightarrow> f x w')"

definition thenA :: "('d, 'a) action \<Rightarrow> ('d, 'b) action \<Rightarrow> ('d, 'b) action" where
  "thenA m k = bindA m (\<lambda>_. k)"

text \<open>A value computed from the world without changing it, and one that may throw.\<close>

definition readA :: "('d world \<Rightarrow> 'a) \<Rightarrow> ('d, 'a) action" where
  "readA f = (\<lambda>w. (Inr (f w), w))"

definition requireA :: "string \<Rightarrow> 'a option \<Rightarrow> ('d, 'a) action" where
  "requireA e v = (case v of None \<Rightarrow> throwA e | Some x \<Rightarrow> returnA x)"

text \<open>A computation on the world that may throw but changes nothing.\<close>

definition checkA :: "('d world \<Rightarrow> string + 'a) \<Rightarrow> ('d, 'a) action" where
  "checkA f = (\<lambda>w. (f w, w))"

definition liftA :: "string + 'a \<Rightarrow> ('d, 'a) action" where
  "liftA v = (\<lambda>w. (v, w))"

definition whenA :: "bool \<Rightarrow> ('d, unit) action \<Rightarrow> ('d, unit) action" where
  "whenA c m = (if c then m else returnA ())"

text \<open>\<open>for (const x of xs) await f(x)\<close> and the list of its results.\<close>

fun mapA :: "('a \<Rightarrow> ('d, 'b) action) \<Rightarrow> 'a list \<Rightarrow> ('d, 'b list) action" where
  "mapA f [] = returnA []"
| "mapA f (x # xs) = bindA (f x) (\<lambda>y. bindA (mapA f xs) (\<lambda>ys. returnA (y # ys)))"

fun forA :: "'a list \<Rightarrow> ('a \<Rightarrow> ('d, unit) action) \<Rightarrow> ('d, unit) action" where
  "forA [] f = returnA ()"
| "forA (x # xs) f = thenA (f x) (forA xs f)"

subsection \<open>The chain\<close>

record chain_api =
  reverts :: "tx list \<Rightarrow> tx \<Rightarrow> string option"
  created :: "tx list \<Rightarrow> tx \<Rightarrow> string"

text \<open>A transaction, awaited: recorded when it succeeds.  A reverted one leaves no trace the later
  code can see.\<close>

definition sendA :: "chain_api \<Rightarrow> tx \<Rightarrow> ('d, unit) action" where
  "sendA C t = (\<lambda>w. case reverts C (sent w) t of
     Some e \<Rightarrow> (Inl e, w)
   | None \<Rightarrow> (Inr (), w\<lparr>sent := sent w @ [t]\<rparr>))"

definition callTx :: "string \<Rightarrow> string \<Rightarrow> arg list \<Rightarrow> string \<Rightarrow> tx" where
  "callTx target method args sender = \<lparr>txTo = Some target, txMethod = method, txArgs = args, txSender = sender\<rparr>"

definition deployTx :: "string \<Rightarrow> arg list \<Rightarrow> string \<Rightarrow> tx" where
  "deployTx contract args sender = \<lparr>txTo = None, txMethod = contract, txArgs = args, txSender = sender\<rparr>"

text \<open>\<open>new Factory(signer).deploy(...args)\<close>, awaited: the address of the instance.\<close>

definition deployA :: "chain_api \<Rightarrow> string \<Rightarrow> arg list \<Rightarrow> string \<Rightarrow> ('d, string) action" where
  "deployA C contract args sender =
     bindA (readA (\<lambda>w. created C (sent w) (deployTx contract args sender)))
       (\<lambda>addr. thenA (sendA C (deployTx contract args sender)) (returnA addr))"

text \<open>\<open>await expect(tx).to.be.reverted\<close>: an assertion error when the transaction succeeds.\<close>

definition expectRevertA :: "chain_api \<Rightarrow> tx \<Rightarrow> ('d, unit) action" where
  "expectRevertA C t = (\<lambda>w. case sendA C t w of
     (Inl e, w') \<Rightarrow> (Inr (), w')
   | (Inr u, w') \<Rightarrow> (Inl ''Expected transaction to be reverted'', w'))"

subsection \<open>Laws\<close>

lemma bindA_returnA [simp]: "bindA (returnA x) f = f x"
  by (simp add: bindA_def returnA_def)

lemma bindA_returnA_right [simp]: "bindA m returnA = m"
  by (auto simp: bindA_def returnA_def fun_eq_iff split: sum.splits prod.splits)

lemma bindA_assoc: "bindA (bindA m f) g = bindA m (\<lambda>x. bindA (f x) g)"
  by (auto simp: bindA_def fun_eq_iff split: sum.splits prod.splits)

lemma bindA_throwA [simp]: "bindA (throwA e) f = throwA e"
  by (simp add: bindA_def throwA_def)

lemma returnA_run [simp]: "returnA x w = (Inr x, w)"
  by (simp add: returnA_def)

lemma throwA_run [simp]: "throwA e w = (Inl e, w)"
  by (simp add: throwA_def)

lemma readA_run [simp]: "readA f w = (Inr (f w), w)"
  by (simp add: readA_def)

lemma liftA_run [simp]: "liftA v w = (v, w)"
  by (simp add: liftA_def)

lemma checkA_run [simp]: "checkA f w = (f w, w)"
  by (simp add: checkA_def)

lemma bindA_Inr: "bindA m f w = (Inr y, w') \<longleftrightarrow> (\<exists>x w1. m w = (Inr x, w1) \<and> f x w1 = (Inr y, w'))"
  by (auto simp: bindA_def split: sum.splits prod.splits)

lemma thenA_Inr: "thenA m k w = (Inr y, w') \<longleftrightarrow> (\<exists>x w1. m w = (Inr x, w1) \<and> k w1 = (Inr y, w'))"
  by (simp add: thenA_def bindA_Inr)

lemma requireA_Inr: "requireA e v w = (Inr y, w') \<longleftrightarrow> v = Some y \<and> w' = w"
  by (auto simp: requireA_def split: option.splits)

lemma whenA_Inr:
  "whenA c m w = (Inr y, w') \<longleftrightarrow> (if c then m w = (Inr y, w') else w' = w)"
  by (auto simp: whenA_def)

lemma sendA_Inr:
  "sendA C t w = (Inr y, w') \<longleftrightarrow> reverts C (sent w) t = None \<and> w' = w\<lparr>sent := sent w @ [t]\<rparr>"
  by (auto simp: sendA_def split: option.splits)

lemma expectRevertA_Inr:
  "expectRevertA C t w = (Inr y, w') \<longleftrightarrow> reverts C (sent w) t \<noteq> None \<and> w' = w"
  by (auto simp: expectRevertA_def sendA_def split: option.splits)

lemmas run_Inr = bindA_Inr thenA_Inr requireA_Inr whenA_Inr sendA_Inr expectRevertA_Inr

text \<open>Sent transactions are never unsent.\<close>

definition extends :: "('d, 'a) action \<Rightarrow> bool" where
  "extends m \<longleftrightarrow> (\<forall>w. \<exists>ts. sent (snd (m w)) = sent w @ ts)"

lemma extends_pure [simp]:
  "extends (returnA x)" "extends (throwA e)" "extends (readA f)" "extends (liftA v)"
    "extends (checkA g)"
  by (simp_all add: extends_def)

lemma extends_bindA: "extends m \<Longrightarrow> (\<And>x. extends (f x)) \<Longrightarrow> extends (bindA m f)"
proof -
  assume m: "extends m" and f: "\<And>x. extends (f x)"
  have "\<exists>ts. sent (snd (bindA m f w)) = sent w @ ts" for w
  proof (cases "m w")
    case (Pair v w1)
    obtain ts where ts: "sent w1 = sent w @ ts" using m Pair by (metis extends_def snd_conv)
    show ?thesis
    proof (cases v)
      case (Inl e)
      with Pair ts show ?thesis by (simp add: bindA_def)
    next
      case (Inr x)
      from f [of x] obtain us where "sent (snd (f x w1)) = sent w1 @ us" by (auto simp: extends_def)
      with Pair Inr ts show ?thesis by (simp add: bindA_def)
    qed
  qed
  then show ?thesis by (simp add: extends_def)
qed

lemma extends_sendA [simp]: "extends (sendA C t)"
  by (auto simp: extends_def sendA_def split: option.splits)

subsection \<open>The database\<close>

definition plain_key :: "string \<Rightarrow> bool" where
  "plain_key s \<longleftrightarrow> CHR ''.'' \<notin> set s \<and> CHR ''['' \<notin> set s \<and> CHR '']'' \<notin> set s"

text \<open>\<open>`${contractId}.${network}`\<close>\<close>

definition entry_path :: "string \<Rightarrow> string \<Rightarrow> string" where
  "entry_path contractId network = contractId @ ''.'' @ network"

lemma takeWhile_entry_path:
  assumes "plain_key i"
  shows "takeWhile (\<lambda>c. c \<noteq> CHR ''.'') (entry_path i n) = i"
    and "drop 1 (dropWhile (\<lambda>c. c \<noteq> CHR ''.'') (entry_path i n)) = n"
    and "drop (Suc 0) (dropWhile (\<lambda>c. c \<noteq> CHR ''.'') (entry_path i n)) = n"
  using assms by (auto simp: entry_path_def plain_key_def takeWhile_append dropWhile_append)

lemma entry_path_inject:
  "plain_key i \<Longrightarrow> plain_key j \<Longrightarrow> entry_path i m = entry_path j n \<longleftrightarrow> i = j \<and> m = n"
  by (metis takeWhile_entry_path)

locale lowdb =
  fixes D :: "'d lowdb_api"
  assumes get_set: "plain_key i \<Longrightarrow> plain_key n \<Longrightarrow>
      dbGet D (dbSet D d (entry_path i n) v) (entry_path i n) = Some v"
    and get_set_other: "plain_key i \<Longrightarrow> plain_key n \<Longrightarrow> plain_key j \<Longrightarrow> plain_key m \<Longrightarrow>
      (i, n) \<noteq> (j, m) \<Longrightarrow>
      dbGet D (dbSet D d (entry_path i n) v) (entry_path j m) = dbGet D d (entry_path j m)"
begin

lemma get_set_iff:
  "plain_key i \<Longrightarrow> plain_key n \<Longrightarrow> plain_key j \<Longrightarrow> plain_key m \<Longrightarrow>
   dbGet D (dbSet D d (entry_path i n) v) (entry_path j m) =
     (if (i, n) = (j, m) then Some v else dbGet D d (entry_path j m))"
  using get_set get_set_other by auto

end

text \<open>The database file itself: an object of networks per contract.\<close>

type_synonym json_db = "db_entry obj obj"

definition json_get :: "json_db \<Rightarrow> string \<Rightarrow> db_entry option" where
  "json_get d path =
     (let i = takeWhile (\<lambda>c. c \<noteq> CHR ''.'') path; n = drop 1 (dropWhile (\<lambda>c. c \<noteq> CHR ''.'') path)
      in case map_of d i of None \<Rightarrow> None | Some entries \<Rightarrow> map_of entries n)"

definition json_set :: "json_db \<Rightarrow> string \<Rightarrow> db_entry \<Rightarrow> json_db" where
  "json_set d path v =
     (let i = takeWhile (\<lambda>c. c \<noteq> CHR ''.'') path; n = drop 1 (dropWhile (\<lambda>c. c \<noteq> CHR ''.'') path)
      in obj_set d i (obj_set (case map_of d i of None \<Rightarrow> [] | Some entries \<Rightarrow> entries) n v))"

definition json_file :: "json_db lowdb_api" where
  "json_file = \<lparr>dbGet = json_get, dbSet = json_set\<rparr>"

interpretation jdb: lowdb json_file
  by unfold_locales
    (auto simp: json_file_def json_get_def json_set_def Let_def map_of_obj_set takeWhile_entry_path
      simp del: drop_0 split: option.splits)

lemma json_file_laws: "lowdb json_file"
  by (rule jdb.lowdb_axioms)

end
