(* ===== verification/Readers.thy ===== *)
theory Readers
  imports Comparison Effects "HOL-Library.Word"
begin

text \<open>
  Reading the chain into \<open>ReserveData\<close> and \<open>UserReserveData\<close>:
  \<open>test-suites/test-palmy/helpers/utils/helpers.ts\<close> and the data-gathering part of
  \<open>helpers/actions.ts\<close>.  What a contract call returns is a parameter, a function of the
  transactions sent so far; amounts and rates are 256-bit words, passed through
  \<open>new BigNumber(x.toString())\<close>.
\<close>

type_synonym uint256 = "256 word"

subsection \<open>What the contracts return\<close>

text \<open>The tuples of \<open>PalmyProtocolDataProvider.getReserveData\<close> and \<open>getUserReserveData\<close>.\<close>

record raw_reserve =
  rawAvailableLiquidity :: uint256
  rawTotalStableDebt :: uint256
  rawTotalVariableDebt :: uint256
  rawLiquidityRate :: uint256
  rawVariableBorrowRate :: uint256
  rawStableBorrowRate :: uint256
  rawAverageStableBorrowRate :: uint256
  rawLiquidityIndex :: uint256
  rawVariableBorrowIndex :: uint256
  rawLastUpdateTimestamp :: nat

record raw_user =
  rawCurrentLTokenBalance :: uint256
  rawCurrentStableDebt :: uint256
  rawCurrentVariableDebt :: uint256
  rawPrincipalStableDebt :: uint256
  rawScaledVariableDebt :: uint256
  rawUserStableBorrowRate :: uint256
  rawUserLiquidityRate :: uint256
  rawStableRateLastUpdated :: nat
  rawUsageAsCollateralEnabled :: bool

record token_addresses =
  lTokenOf :: string
  stableDebtTokenOf :: string
  variableDebtTokenOf :: string

record readers_api =
  rdReserveData :: "tx list \<Rightarrow> string \<Rightarrow> string \<Rightarrow> raw_reserve"
  rdTokens :: "tx list \<Rightarrow> string \<Rightarrow> string \<Rightarrow> token_addresses"
  rdPrincipalSupply :: "tx list \<Rightarrow> string \<Rightarrow> uint256"
  rdSupplyLastUpdated :: "tx list \<Rightarrow> string \<Rightarrow> nat"
  rdScaledTotalSupply :: "tx list \<Rightarrow> string \<Rightarrow> uint256"
  rdMarketBorrowRate :: "tx list \<Rightarrow> string \<Rightarrow> string \<Rightarrow> uint256"
  rdSymbol :: "tx list \<Rightarrow> string \<Rightarrow> string"
  rdDecimals :: "tx list \<Rightarrow> string \<Rightarrow> nat"
  rdUserReserveData :: "tx list \<Rightarrow> string \<Rightarrow> string \<Rightarrow> string \<Rightarrow> raw_user"
  rdScaledBalanceOf :: "tx list \<Rightarrow> string \<Rightarrow> string \<Rightarrow> uint256"
  rdBalanceOf :: "tx list \<Rightarrow> string \<Rightarrow> string \<Rightarrow> uint256"
  rdTimeLatest :: "tx list \<Rightarrow> nat"

text \<open>\<open>new BigNumber(x.toString())\<close> of a contract integer.\<close>

definition bnOfUint :: "'b bignumber_api \<Rightarrow> uint256 \<Rightarrow> 'b" where
  "bnOfUint B x = bnOfString B (decimal (uint x))"

subsection \<open>Reserve and user data\<close>

definition getReserveData ::
  "'b bignumber_api \<Rightarrow> readers_api \<Rightarrow> 'd lowdb_api \<Rightarrow> string \<Rightarrow> string \<Rightarrow> string \<Rightarrow>
   ('d, 'b ReserveData) action"
where
  "getReserveData B R D network helper reserve =
     bindA (readA (\<lambda>w. dbGet D (db w) (entry_path ''LendingRateOracle'' network))) (\<lambda>oracleEntry.
     bindA (requireA ''TypeError: Cannot read property 'address' of undefined'' oracleEntry) (\<lambda>oracle.
     readA (\<lambda>w.
       let s = sent w;
           reserveData = rdReserveData R s helper reserve;
           tokens = rdTokens R s helper reserve;
           stableSupply = rdPrincipalSupply R s (stableDebtTokenOf tokens);
           stableUpdated = rdSupplyLastUpdated R s (stableDebtTokenOf tokens);
           scaledDebt = rdScaledTotalSupply R s (variableDebtTokenOf tokens);
           rate = rdMarketBorrowRate R s (entryAddress oracle) reserve;
           liquidity =
             bnPlus B
               (bnPlus B (bnOfUint B (rawAvailableLiquidity reserveData))
                 (bnOfUint B (rawTotalStableDebt reserveData)))
               (bnOfUint B (rawTotalVariableDebt reserveData));
           util =
             (if bnEq B liquidity (bnOfNumber B 0) then bnOfNumber B 0
              else rayDiv B
                     (bnPlus B (bnOfUint B (rawTotalStableDebt reserveData))
                       (bnOfUint B (rawTotalVariableDebt reserveData)))
                     liquidity)
       in \<lparr>address = Some reserve,
           symbol = Some (rdSymbol R s reserve),
           decimals = Some (bnOfNumber B (int (rdDecimals R s reserve))),
           totalLiquidity = Some liquidity,
           availableLiquidity = Some (bnOfUint B (rawAvailableLiquidity reserveData)),
           totalStableDebt = Some (bnOfUint B (rawTotalStableDebt reserveData)),
           totalVariableDebt = Some (bnOfUint B (rawTotalVariableDebt reserveData)),
           principalStableDebt = Some (bnOfUint B stableSupply),
           scaledVariableDebt = Some (bnOfUint B scaledDebt),
           averageStableBorrowRate = Some (bnOfUint B (rawAverageStableBorrowRate reserveData)),
           variableBorrowRate = Some (bnOfUint B (rawVariableBorrowRate reserveData)),
           stableBorrowRate = Some (bnOfUint B (rawStableBorrowRate reserveData)),
           utilizationRate = Some util,
           liquidityIndex = Some (bnOfUint B (rawLiquidityIndex reserveData)),
           variableBorrowIndex = Some (bnOfUint B (rawVariableBorrowIndex reserveData)),
           lTokenAddress = Some (lTokenOf tokens),
           marketStableRate = Some (bnOfUint B rate),
           lastUpdateTimestamp = Some (bnOfNumber B (int (rawLastUpdateTimestamp reserveData))),
           totalStableDebtLastUpdated = Some (bnOfNumber B (int stableUpdated)),
           liquidityRate = Some (bnOfUint B (rawLiquidityRate reserveData))\<rparr>)))"

definition getLTokenUserData :: "readers_api \<Rightarrow> tx list \<Rightarrow> string \<Rightarrow> string \<Rightarrow> string \<Rightarrow> string" where
  "getLTokenUserData R s reserve user helper =
     (let lToken = lTokenOf (rdTokens R s helper reserve)
      in decimal (uint (rdScaledBalanceOf R s lToken user)))"

definition getUserData ::
  "'b bignumber_api \<Rightarrow> readers_api \<Rightarrow> string \<Rightarrow> string \<Rightarrow> string \<Rightarrow> string option \<Rightarrow>
   ('d, 'b UserReserveData) action"
where
  "getUserData B R helper reserve user sender =
     readA (\<lambda>w.
       let s = sent w;
           userData = rdUserReserveData R s helper reserve user;
           scaledBalance = getLTokenUserData R s reserve user helper;
           wallet = rdBalanceOf R s reserve (if truthy sender then the sender else user)
       in \<lparr>scaledLTokenBalance = Some (bnOfString B scaledBalance),
           currentLTokenBalance = Some (bnOfUint B (rawCurrentLTokenBalance userData)),
           currentStableDebt = Some (bnOfUint B (rawCurrentStableDebt userData)),
           currentVariableDebt = Some (bnOfUint B (rawCurrentVariableDebt userData)),
           principalStableDebt_u = Some (bnOfUint B (rawPrincipalStableDebt userData)),
           scaledVariableDebt_u = Some (bnOfUint B (rawScaledVariableDebt userData)),
           liquidityRate_u = Some (bnOfUint B (rawUserLiquidityRate userData)),
           stableBorrowRate_u = Some (bnOfUint B (rawUserStableBorrowRate userData)),
           stableRateLastUpdated =
             Some (bnOfString B (decimal (int (rawStableRateLastUpdated userData)))),
           usageAsCollateralEnabled = Some (rawUsageAsCollateralEnabled userData),
           walletBalance = Some (bnOfUint B wallet),
           variableBorrowIndex_u = None,
           principalVariableDebt = None\<rparr>)"

definition getReserveAddressFromSymbol ::
  "'d lowdb_api \<Rightarrow> string \<Rightarrow> string \<Rightarrow> ('d, string) action"
where
  "getReserveAddressFromSymbol D network sy =
     bindA (readA (\<lambda>w. dbGet D (db w) (entry_path sy network))) (\<lambda>found.
     bindA (requireA ''TypeError: Cannot read property 'address' of undefined'' found) (\<lambda>e.
     returnA (entryAddress e)))"

record 'b contracts_data =
  cdReserve :: "'b ReserveData"
  cdUser :: "'b UserReserveData"
  cdTimestamp :: 'b

definition getContractsData ::
  "'b bignumber_api \<Rightarrow> readers_api \<Rightarrow> 'd lowdb_api \<Rightarrow> string \<Rightarrow> string \<Rightarrow> string \<Rightarrow> string \<Rightarrow>
   string option \<Rightarrow> ('d, 'b contracts_data) action"
where
  "getContractsData B R D network helper reserve user sender =
     bindA (getUserData B R helper reserve user (if truthy sender then sender else Some user)) (\<lambda>u.
     bindA (getReserveData B R D network helper reserve) (\<lambda>r.
     bindA (readA (\<lambda>w. rdTimeLatest R (sent w))) (\<lambda>t.
     returnA \<lparr>cdReserve = r, cdUser = u, cdTimestamp = bnOfNumber B (int t)\<rparr>)))"

subsection \<open>What is read is complete\<close>

lemma sent_readers:
  "getUserData B R helper reserve user sender w = (Inr u, w') \<Longrightarrow> w' = w"
  by (simp add: getUserData_def)

context bignumber
begin

lemma bnOfUint_spec [simp]: "ok (bnOfUint B x)" "ival (bnOfUint B x) = uint x"
  by (simp_all add: bnOfUint_def)

lemma getReserveData_complete:
  assumes "getReserveData B R D network helper reserve w = (Inr r, w')"
  shows "complete_reserve ok r \<and> w' = w \<and> address r = Some reserve \<and>
    value_of ival (totalLiquidity r) =
      value_of ival (availableLiquidity r) + value_of ival (totalStableDebt r) +
      value_of ival (totalVariableDebt r) \<and>
    value_of ival (utilizationRate r) =
      utilization (value_of ival (totalStableDebt r)) (value_of ival (totalVariableDebt r))
        (value_of ival (totalLiquidity r))"
proof -
  have nonneg: "0 \<le> uint x" for x :: uint256 by simp
  have zero: "uint x = 0 \<and> uint y = 0" if "uint a + uint x + uint y = 0" for a x y :: uint256
    using that nonneg [of a] nonneg [of x] nonneg [of y] by linarith
  have pos: "0 < uint a + uint x + uint y" if "uint a + uint x + uint y \<noteq> 0" for a x y :: uint256
    using that nonneg [of a] nonneg [of x] nonneg [of y] by linarith
  show ?thesis
    using assms zero pos
    by (auto simp: getReserveData_def bindA_Inr requireA_Inr Let_def complete_reserve_def utilization_def
        simp del: complete_reserve_fields)
qed

lemma getUserData_complete:
  assumes "getUserData B R helper reserve user sender w = (Inr u, w')"
  shows "complete_user ok u \<and> w' = w"
proof -
  from assms have "w' = w" by (rule sent_readers)
  moreover from assms have "complete_user ok u"
    unfolding getUserData_def Let_def readA_run getLTokenUserData_def
    by (clarsimp simp: complete_user_def simp del: complete_user_fields)
  ultimately show ?thesis by blast
qed

end

end
