(* ===== verification/PoolContract.thy ===== *)
theory PoolContract
  imports SolidityRates Permits Readers
begin

text \<open>
  The lending pool in Solidity, as far as the scenario tests drive it: the tokens of a reserve
  (\<open>IncentivizedERC20.sol\<close>, \<open>LToken.sol\<close>, \<open>StableDebtToken.sol\<close>, \<open>VariableDebtToken.sol\<close>, the
  underlying \<open>ERC20.sol\<close>), \<open>ReserveLogic.sol\<close> and the data provider the readers call.  A revert is
  the left value with its message.  What other contracts answer (prices, market borrow rates) and
  the block are the record \<open>sol_env\<close>; the incentives controller, which is only notified, and
  events are left out.
\<close>

unbundle bit_operations_syntax

record sol_env =
  blockTimestamp :: uint256
  msgSender :: address
  poolAddress :: address
  marketBorrowRate :: "address \<Rightarrow> uint256"
  assetPrice :: "address \<Rightarrow> uint256"
  hasCode :: "address \<Rightarrow> bool"

subsection \<open>Tokens\<close>

record sol_token =
  sol_balances :: "address \<Rightarrow> uint256"
  sol_totalSupply :: uint256
  sol_allowances :: "address \<Rightarrow> address \<Rightarrow> uint256"

text \<open>\<open>SafeMath.sub\<close> with its own message.\<close>

definition sol_sub_or :: "string \<Rightarrow> uint256 \<Rightarrow> uint256 \<Rightarrow> string + uint256" where
  "sol_sub_or message a b = require (b \<le> a) message (Inr (a - b))"

text \<open>\<open>_mint\<close> and \<open>_burn\<close> of \<open>IncentivizedERC20.sol\<close>.\<close>

definition sol_mint :: "'r sol_token_scheme \<Rightarrow> address \<Rightarrow> uint256 \<Rightarrow> string + 'r sol_token_scheme" where
  "sol_mint t account amount =
     require (account \<noteq> 0) ''ERC20: mint to the zero address''
      (andThen (sol_add (sol_totalSupply t) amount) (\<lambda>supply.
       andThen (sol_add (sol_balances t account) amount) (\<lambda>balance.
       Inr (t\<lparr>sol_totalSupply := supply, sol_balances := (sol_balances t)(account := balance)\<rparr>))))"

definition sol_burn :: "'r sol_token_scheme \<Rightarrow> address \<Rightarrow> uint256 \<Rightarrow> string + 'r sol_token_scheme" where
  "sol_burn t account amount =
     require (account \<noteq> 0) ''ERC20: burn from the zero address''
      (andThen (sol_sub (sol_totalSupply t) amount) (\<lambda>supply.
       andThen (sol_sub_or ''ERC20: burn amount exceeds balance'' (sol_balances t account) amount) (\<lambda>balance.
       Inr (t\<lparr>sol_totalSupply := supply, sol_balances := (sol_balances t)(account := balance)\<rparr>))))"

text \<open>The underlying token, OpenZeppelin's \<open>ERC20.sol\<close>, called through \<open>SafeERC20.sol\<close>.\<close>

definition sol_transfer_tokens :: "sol_token \<Rightarrow> address \<Rightarrow> address \<Rightarrow> uint256 \<Rightarrow> string + sol_token" where
  "sol_transfer_tokens t sender recipient amount =
     require (sender \<noteq> 0) ''ERC20: transfer from the zero address''
      (require (recipient \<noteq> 0) ''ERC20: transfer to the zero address''
       (andThen (sol_sub_or ''ERC20: transfer amount exceeds balance'' (sol_balances t sender) amount) (\<lambda>left.
        let t1 = t\<lparr>sol_balances := (sol_balances t)(sender := left)\<rparr>
        in andThen (sol_add (sol_balances t1 recipient) amount) (\<lambda>balance.
           Inr (t1\<lparr>sol_balances := (sol_balances t1)(recipient := balance)\<rparr>)))))"

definition sol_transferFrom ::
  "address \<Rightarrow> sol_token \<Rightarrow> address \<Rightarrow> address \<Rightarrow> uint256 \<Rightarrow> string + sol_token" where
  "sol_transferFrom spender t sender recipient amount =
     andThen (sol_transfer_tokens t sender recipient amount) (\<lambda>t1.
     andThen (sol_sub_or ''ERC20: transfer amount exceeds allowance'' (sol_allowances t1 sender spender) amount)
      (\<lambda>left.
       require (sender \<noteq> 0) ''ERC20: approve from the zero address''
        (require (spender \<noteq> 0) ''ERC20: approve to the zero address''
          (Inr (t1\<lparr>sol_allowances :=
            (sol_allowances t1)(sender := (sol_allowances t1 sender)(spender := left))\<rparr>)))))"

definition sol_callOptionalReturn :: "sol_env \<Rightarrow> address \<Rightarrow> string + 'a \<Rightarrow> string + 'a" where
  "sol_callOptionalReturn E token result =
     require (hasCode E token) ''SafeERC20: call to non-contract''
      (case result of Inl _ \<Rightarrow> Inl ''SafeERC20: low-level call failed'' | Inr t \<Rightarrow> Inr t)"

definition sol_safeTransfer ::
  "sol_env \<Rightarrow> address \<Rightarrow> address \<Rightarrow> sol_token \<Rightarrow> address \<Rightarrow> uint256 \<Rightarrow> string + sol_token" where
  "sol_safeTransfer E asset from t to amount =
     sol_callOptionalReturn E asset (sol_transfer_tokens t from to amount)"

definition sol_safeTransferFrom ::
  "sol_env \<Rightarrow> address \<Rightarrow> sol_token \<Rightarrow> address \<Rightarrow> address \<Rightarrow> uint256 \<Rightarrow> string + sol_token" where
  "sol_safeTransferFrom E asset t from to amount =
     sol_callOptionalReturn E asset (sol_transferFrom (poolAddress E) t from to amount)"

subsection \<open>The contracts of a reserve\<close>

text \<open>\<open>DataTypes.ReserveData\<close>; the token addresses it holds stand for the tokens of \<open>market_reserve\<close>.\<close>

record reserve_data = sol_reserve +
  sol_configuration :: uint256
  sol_currentStableBorrowRate :: "128 word"
  sol_lTokenAddress :: address
  sol_id :: "8 word"

record stable_token = sol_token +
  sol_avgStableRate :: uint256
  sol_timestamps :: "address \<Rightarrow> 40 word"
  sol_usersStableRate :: "address \<Rightarrow> uint256"
  sol_totalSupplyTimestamp :: "40 word"

text \<open>Debt tokens have no transfers; their \<open>sol_allowances\<close> are \<open>_borrowAllowances\<close>.\<close>

record market_reserve =
  mrData :: reserve_data
  mrStrategy :: sol_strategy
  mrLToken :: sol_token
  mrTreasury :: address
  mrStable :: stable_token
  mrVariable :: sol_token
  mrAsset :: sol_token

text \<open>\<open>ReserveConfiguration.sol\<close>: the masks and the getters.\<close>

definition sol_LTV_MASK :: uint256 where
  "sol_LTV_MASK = 0xFFFFFFFFFFFFFFFFFFFFFFFFFFFFFFFFFFFFFFFFFFFFFFFFFFFFFFFFFFFF0000"

definition sol_LIQUIDATION_THRESHOLD_MASK :: uint256 where
  "sol_LIQUIDATION_THRESHOLD_MASK = 0xFFFFFFFFFFFFFFFFFFFFFFFFFFFFFFFFFFFFFFFFFFFFFFFFFFFFFFFF0000FFFF"

definition sol_DECIMALS_MASK :: uint256 where
  "sol_DECIMALS_MASK = 0xFFFFFFFFFFFFFFFFFFFFFFFFFFFFFFFFFFFFFFFFFFFFFFFFFF00FFFFFFFFFFFF"

definition sol_ACTIVE_MASK :: uint256 where
  "sol_ACTIVE_MASK = 0xFFFFFFFFFFFFFFFFFFFFFFFFFFFFFFFFFFFFFFFFFFFFFFFFFEFFFFFFFFFFFFFF"

definition sol_FROZEN_MASK :: uint256 where
  "sol_FROZEN_MASK = 0xFFFFFFFFFFFFFFFFFFFFFFFFFFFFFFFFFFFFFFFFFFFFFFFFFDFFFFFFFFFFFFFF"

definition sol_BORROWING_MASK :: uint256 where
  "sol_BORROWING_MASK = 0xFFFFFFFFFFFFFFFFFFFFFFFFFFFFFFFFFFFFFFFFFFFFFFFFFBFFFFFFFFFFFFFF"

definition sol_STABLE_BORROWING_MASK :: uint256 where
  "sol_STABLE_BORROWING_MASK = 0xFFFFFFFFFFFFFFFFFFFFFFFFFFFFFFFFFFFFFFFFFFFFFFFFF7FFFFFFFFFFFFFF"

definition sol_RESERVE_FACTOR_MASK :: uint256 where
  "sol_RESERVE_FACTOR_MASK = 0xFFFFFFFFFFFFFFFFFFFFFFFFFFFFFFFFFFFFFFFFFFFF0000FFFFFFFFFFFFFFFF"

definition sol_getLtv :: "uint256 \<Rightarrow> uint256" where
  "sol_getLtv data = data AND NOT sol_LTV_MASK"

definition sol_getLiquidationThreshold :: "uint256 \<Rightarrow> uint256" where
  "sol_getLiquidationThreshold data = drop_bit 16 (data AND NOT sol_LIQUIDATION_THRESHOLD_MASK)"

definition sol_getDecimals :: "uint256 \<Rightarrow> uint256" where
  "sol_getDecimals data = drop_bit 48 (data AND NOT sol_DECIMALS_MASK)"

definition sol_getReserveFactor :: "uint256 \<Rightarrow> uint256" where
  "sol_getReserveFactor data = drop_bit 64 (data AND NOT sol_RESERVE_FACTOR_MASK)"

definition sol_getActive :: "uint256 \<Rightarrow> bool" where
  "sol_getActive data \<longleftrightarrow> data AND NOT sol_ACTIVE_MASK \<noteq> 0"

definition sol_getFrozen :: "uint256 \<Rightarrow> bool" where
  "sol_getFrozen data \<longleftrightarrow> data AND NOT sol_FROZEN_MASK \<noteq> 0"

definition sol_getBorrowingEnabled :: "uint256 \<Rightarrow> bool" where
  "sol_getBorrowingEnabled data \<longleftrightarrow> data AND NOT sol_BORROWING_MASK \<noteq> 0"

definition sol_getStableRateBorrowingEnabled :: "uint256 \<Rightarrow> bool" where
  "sol_getStableRateBorrowingEnabled data \<longleftrightarrow> data AND NOT sol_STABLE_BORROWING_MASK \<noteq> 0"

text \<open>\<open>UserConfiguration.sol\<close>: two bits per reserve.\<close>

definition sol_setBorrowing :: "uint256 \<Rightarrow> nat \<Rightarrow> bool \<Rightarrow> string + uint256" where
  "sol_setBorrowing data reserveIndex borrowing =
     require (reserveIndex < 128) ''77''
      (Inr ((data AND NOT (push_bit (reserveIndex * 2) 1)) OR
            push_bit (reserveIndex * 2) (if borrowing then 1 else 0)))"

definition sol_setUsingAsCollateral :: "uint256 \<Rightarrow> nat \<Rightarrow> bool \<Rightarrow> string + uint256" where
  "sol_setUsingAsCollateral data reserveIndex usingAsCollateral =
     require (reserveIndex < 128) ''77''
      (Inr ((data AND NOT (push_bit (reserveIndex * 2 + 1) 1)) OR
            push_bit (reserveIndex * 2 + 1) (if usingAsCollateral then 1 else 0)))"

definition sol_isUsingAsCollateralOrBorrowing :: "uint256 \<Rightarrow> nat \<Rightarrow> string + bool" where
  "sol_isUsingAsCollateralOrBorrowing data reserveIndex =
     require (reserveIndex < 128) ''77'' (Inr (drop_bit (reserveIndex * 2) data AND 3 \<noteq> 0))"

definition sol_isBorrowing :: "uint256 \<Rightarrow> nat \<Rightarrow> string + bool" where
  "sol_isBorrowing data reserveIndex =
     require (reserveIndex < 128) ''77'' (Inr (drop_bit (reserveIndex * 2) data AND 1 \<noteq> 0))"

definition sol_isUsingAsCollateral :: "uint256 \<Rightarrow> nat \<Rightarrow> string + bool" where
  "sol_isUsingAsCollateral data reserveIndex =
     require (reserveIndex < 128) ''77'' (Inr (drop_bit (reserveIndex * 2 + 1) data AND 1 \<noteq> 0))"

definition sol_isBorrowingAny :: "uint256 \<Rightarrow> bool" where
  "sol_isBorrowingAny data \<longleftrightarrow>
     data AND 0x5555555555555555555555555555555555555555555555555555555555555555 \<noteq> 0"

subsection \<open>Balances with interest\<close>

text \<open>\<open>getNormalizedIncome\<close> and \<open>getNormalizedDebt\<close>: nothing accrues within a block.\<close>

definition sol_getNormalizedIncome :: "sol_env \<Rightarrow> 'r sol_reserve_scheme \<Rightarrow> string + uint256" where
  "sol_getNormalizedIncome E reserve =
     (let timestamp = sol_lastUpdateTimestamp reserve
      in if timestamp = ucast (blockTimestamp E) then Inr (ucast (sol_liquidityIndex reserve))
         else andThen (sol_calculateLinearInterest (ucast (sol_currentLiquidityRate reserve))
                (ucast timestamp) (blockTimestamp E)) (\<lambda>interest.
              sol_rayMul interest (ucast (sol_liquidityIndex reserve))))"

definition sol_getNormalizedDebt :: "sol_env \<Rightarrow> 'r sol_reserve_scheme \<Rightarrow> string + uint256" where
  "sol_getNormalizedDebt E reserve =
     (let timestamp = sol_lastUpdateTimestamp reserve
      in if timestamp = ucast (blockTimestamp E) then Inr (ucast (sol_variableBorrowIndex reserve))
         else andThen (sol_calculateCompoundedInterest (ucast (sol_currentVariableBorrowRate reserve))
                (ucast timestamp) (blockTimestamp E)) (\<lambda>interest.
              sol_rayMul interest (ucast (sol_variableBorrowIndex reserve))))"

definition sol_lToken_balanceOf :: "sol_env \<Rightarrow> market_reserve \<Rightarrow> address \<Rightarrow> string + uint256" where
  "sol_lToken_balanceOf E m user =
     andThen (sol_getNormalizedIncome E (mrData m)) (\<lambda>income. sol_rayMul (sol_balances (mrLToken m) user) income)"

definition sol_variable_balanceOf :: "sol_env \<Rightarrow> market_reserve \<Rightarrow> address \<Rightarrow> string + uint256" where
  "sol_variable_balanceOf E m user =
     (let scaledBalance = sol_balances (mrVariable m) user
      in if scaledBalance = 0 then Inr 0
         else andThen (sol_getNormalizedDebt E (mrData m)) (sol_rayMul scaledBalance))"

definition sol_variable_totalSupply :: "sol_env \<Rightarrow> market_reserve \<Rightarrow> string + uint256" where
  "sol_variable_totalSupply E m =
     andThen (sol_getNormalizedDebt E (mrData m)) (sol_rayMul (sol_totalSupply (mrVariable m)))"

definition sol_stable_balanceOf :: "sol_env \<Rightarrow> stable_token \<Rightarrow> address \<Rightarrow> string + uint256" where
  "sol_stable_balanceOf E t account =
     (let accountBalance = sol_balances t account; stableRate = sol_usersStableRate t account
      in if accountBalance = 0 then Inr 0
         else andThen (sol_calculateCompoundedInterest stableRate (ucast (sol_timestamps t account))
                (blockTimestamp E)) (sol_rayMul accountBalance))"

definition sol_calcTotalSupply :: "sol_env \<Rightarrow> stable_token \<Rightarrow> uint256 \<Rightarrow> string + uint256" where
  "sol_calcTotalSupply E t avgRate =
     (let principalSupply = sol_totalSupply t
      in if principalSupply = 0 then Inr 0
         else andThen (sol_calculateCompoundedInterest avgRate (ucast (sol_totalSupplyTimestamp t))
                (blockTimestamp E)) (sol_rayMul principalSupply))"

subsection \<open>Accruing a reserve\<close>

definition sol_mintToTreasury_lToken :: "market_reserve \<Rightarrow> uint256 \<Rightarrow> uint256 \<Rightarrow> string + market_reserve" where
  "sol_mintToTreasury_lToken m amount index =
     (if amount = 0 then Inr m
      else andThen (sol_rayDiv amount index) (\<lambda>amountScaled.
           andThen (sol_mint (mrLToken m) (mrTreasury m) amountScaled) (\<lambda>t. Inr (m\<lparr>mrLToken := t\<rparr>))))"

definition sol_mintToTreasury ::
  "sol_env \<Rightarrow> market_reserve \<Rightarrow> uint256 \<Rightarrow> uint256 \<Rightarrow> uint256 \<Rightarrow> uint256 \<Rightarrow> 40 word \<Rightarrow>
   string + market_reserve" where
  "sol_mintToTreasury E m scaledDebt previousVariableBorrowIndex newLiquidityIndex newVariableBorrowIndex
     timestamp =
     (let reserveFactor = sol_getReserveFactor (sol_configuration (mrData m)); st = mrStable m
      in if reserveFactor = 0 then Inr m
         else
          andThen (sol_calcTotalSupply E st (sol_avgStableRate st)) (\<lambda>currentStableDebt.
          andThen (sol_rayMul scaledDebt previousVariableBorrowIndex) (\<lambda>previousVariableDebt.
          andThen (sol_rayMul scaledDebt newVariableBorrowIndex) (\<lambda>currentVariableDebt.
          andThen (sol_calculateCompoundedInterest (sol_avgStableRate st)
            (ucast (sol_totalSupplyTimestamp st)) (ucast timestamp)) (\<lambda>cumulatedStableInterest.
          andThen (sol_rayMul (sol_totalSupply st) cumulatedStableInterest) (\<lambda>previousStableDebt.
          andThen (sol_add currentVariableDebt currentStableDebt) (\<lambda>d1.
          andThen (sol_sub d1 previousVariableDebt) (\<lambda>d2.
          andThen (sol_sub d2 previousStableDebt) (\<lambda>totalDebtAccrued.
          andThen (sol_percentMul totalDebtAccrued reserveFactor) (\<lambda>amountToMint.
          if amountToMint \<noteq> 0 then sol_mintToTreasury_lToken m amountToMint newLiquidityIndex
          else Inr m))))))))))"

definition sol_updateState :: "sol_env \<Rightarrow> market_reserve \<Rightarrow> string + market_reserve" where
  "sol_updateState E m =
     (let scaledDebt = sol_totalSupply (mrVariable m); r = mrData m;
          previousVariableBorrowIndex = ucast (sol_variableBorrowIndex r);
          previousLiquidityIndex = ucast (sol_liquidityIndex r);
          lastUpdatedTimestamp = sol_lastUpdateTimestamp r
      in andThen (sol_updateIndexes (blockTimestamp E) r scaledDebt previousLiquidityIndex
           previousVariableBorrowIndex lastUpdatedTimestamp)
          (\<lambda>(r', newLiquidityIndex, newVariableBorrowIndex).
            sol_mintToTreasury E (m\<lparr>mrData := r'\<rparr>) scaledDebt previousVariableBorrowIndex newLiquidityIndex
              newVariableBorrowIndex lastUpdatedTimestamp))"

text \<open>\<open>updateInterestRates\<close>, with the first \<open>calculateInterestRates\<close> of the strategy, which reads the
  underlying balance of the lToken.\<close>

definition sol_calculateInterestRatesAt ::
  "sol_env \<Rightarrow> address \<Rightarrow> market_reserve \<Rightarrow> uint256 \<Rightarrow> uint256 \<Rightarrow> uint256 \<Rightarrow> uint256 \<Rightarrow> uint256 \<Rightarrow> uint256 \<Rightarrow>
   string + (uint256 \<times> uint256 \<times> uint256)" where
  "sol_calculateInterestRatesAt E asset m liquidityAdded liquidityTaken stableDebt variableDebt averageRate factor =
     andThen (sol_add (sol_balances (mrAsset m) (sol_lTokenAddress (mrData m))) liquidityAdded) (\<lambda>l1.
     andThen (sol_sub l1 liquidityTaken) (\<lambda>liquidity.
     sol_calculateInterestRates (mrStrategy m) (marketBorrowRate E asset) liquidity stableDebt variableDebt
       averageRate factor))"

definition sol_updateInterestRates ::
  "sol_env \<Rightarrow> address \<Rightarrow> market_reserve \<Rightarrow> uint256 \<Rightarrow> uint256 \<Rightarrow> string + market_reserve" where
  "sol_updateInterestRates E asset m liquidityAdded liquidityTaken =
     (let st = mrStable m; avgStableRate = sol_avgStableRate st; r = mrData m; max128 = ucast (- 1 :: 128 word)
      in andThen (sol_calcTotalSupply E st avgStableRate) (\<lambda>stableDebt.
         andThen (sol_rayMul (sol_totalSupply (mrVariable m)) (ucast (sol_variableBorrowIndex r))) (\<lambda>variableDebt.
         andThen (sol_calculateInterestRatesAt E asset m liquidityAdded liquidityTaken stableDebt variableDebt
           avgStableRate (sol_getReserveFactor (sol_configuration r)))
          (\<lambda>(newLiquidityRate, newStableRate, newVariableRate).
           require (newLiquidityRate \<le> max128) ''53''
            (require (newStableRate \<le> max128) ''55''
             (require (newVariableRate \<le> max128) ''54''
              (Inr (m\<lparr>mrData := r\<lparr>sol_currentLiquidityRate := ucast newLiquidityRate,
                 sol_currentStableBorrowRate := ucast newStableRate,
                 sol_currentVariableBorrowRate := ucast newVariableRate\<rparr>\<rparr>))))))))"

subsection \<open>Minting and burning the tokens of a reserve\<close>

definition sol_lToken_mint ::
  "market_reserve \<Rightarrow> address \<Rightarrow> uint256 \<Rightarrow> uint256 \<Rightarrow> string + (market_reserve \<times> bool)" where
  "sol_lToken_mint m user amount index =
     (let previousBalance = sol_balances (mrLToken m) user
      in andThen (sol_rayDiv amount index) (\<lambda>amountScaled.
         require (amountScaled \<noteq> 0) ''56''
          (andThen (sol_mint (mrLToken m) user amountScaled) (\<lambda>t.
           Inr (m\<lparr>mrLToken := t\<rparr>, previousBalance = 0)))))"

definition sol_lToken_burn ::
  "sol_env \<Rightarrow> address \<Rightarrow> market_reserve \<Rightarrow> address \<Rightarrow> address \<Rightarrow> uint256 \<Rightarrow> uint256 \<Rightarrow> string + market_reserve" where
  "sol_lToken_burn E asset m user receiver amount index =
     andThen (sol_rayDiv amount index) (\<lambda>amountScaled.
     require (amountScaled \<noteq> 0) ''58''
      (andThen (sol_burn (mrLToken m) user amountScaled) (\<lambda>t.
       andThen (sol_safeTransfer E asset (sol_lTokenAddress (mrData m)) (mrAsset m) receiver amount) (\<lambda>a.
       Inr (m\<lparr>mrLToken := t, mrAsset := a\<rparr>)))))"

definition sol_decreaseBorrowAllowance ::
  "'r sol_token_scheme \<Rightarrow> address \<Rightarrow> address \<Rightarrow> uint256 \<Rightarrow> string + 'r sol_token_scheme" where
  "sol_decreaseBorrowAllowance t delegator delegatee amount =
     andThen (sol_sub_or ''59'' (sol_allowances t delegator delegatee) amount) (\<lambda>newAllowance.
     Inr (t\<lparr>sol_allowances :=
       (sol_allowances t)(delegator := (sol_allowances t delegator)(delegatee := newAllowance))\<rparr>))"

definition sol_variable_mint ::
  "market_reserve \<Rightarrow> address \<Rightarrow> address \<Rightarrow> uint256 \<Rightarrow> uint256 \<Rightarrow> string + (market_reserve \<times> bool)" where
  "sol_variable_mint m user onBehalfOf amount index =
     andThen (if user \<noteq> onBehalfOf then sol_decreaseBorrowAllowance (mrVariable m) onBehalfOf user amount
              else Inr (mrVariable m)) (\<lambda>t.
     let previousBalance = sol_balances t onBehalfOf
     in andThen (sol_rayDiv amount index) (\<lambda>amountScaled.
        require (amountScaled \<noteq> 0) ''56''
         (andThen (sol_mint t onBehalfOf amountScaled) (\<lambda>t1.
          Inr (m\<lparr>mrVariable := t1\<rparr>, previousBalance = 0)))))"

definition sol_variable_burn :: "market_reserve \<Rightarrow> address \<Rightarrow> uint256 \<Rightarrow> uint256 \<Rightarrow> string + market_reserve" where
  "sol_variable_burn m user amount index =
     andThen (sol_rayDiv amount index) (\<lambda>amountScaled.
     require (amountScaled \<noteq> 0) ''58''
      (andThen (sol_burn (mrVariable m) user amountScaled) (\<lambda>t. Inr (m\<lparr>mrVariable := t\<rparr>))))"

text \<open>\<open>_calculateBalanceIncrease\<close> of the stable debt token: principal, balance, increase.\<close>

definition sol_calculateBalanceIncrease ::
  "sol_env \<Rightarrow> stable_token \<Rightarrow> address \<Rightarrow> string + (uint256 \<times> uint256 \<times> uint256)" where
  "sol_calculateBalanceIncrease E t user =
     (let previousPrincipalBalance = sol_balances t user
      in if previousPrincipalBalance = 0 then Inr (0, 0, 0)
         else andThen (sol_stable_balanceOf E t user) (\<lambda>balance.
              andThen (sol_sub balance previousPrincipalBalance) (\<lambda>balanceIncrease.
              andThen (sol_add previousPrincipalBalance balanceIncrease) (\<lambda>currentBalance.
              Inr (previousPrincipalBalance, currentBalance, balanceIncrease)))))"

definition sol_stable_mint ::
  "sol_env \<Rightarrow> market_reserve \<Rightarrow> address \<Rightarrow> address \<Rightarrow> uint256 \<Rightarrow> uint256 \<Rightarrow>
   string + (market_reserve \<times> bool)" where
  "sol_stable_mint E m user onBehalfOf amount rate =
     andThen (if user \<noteq> onBehalfOf then sol_decreaseBorrowAllowance (mrStable m) onBehalfOf user amount
              else Inr (mrStable m)) (\<lambda>t.
     andThen (sol_calculateBalanceIncrease E t onBehalfOf) (\<lambda>(_, currentBalance, balanceIncrease).
     andThen (sol_calcTotalSupply E t (sol_avgStableRate t)) (\<lambda>previousSupply.
     andThen (sol_add previousSupply amount) (\<lambda>nextSupply.
     andThen (sol_wadToRay amount) (\<lambda>amountInRay.
     andThen (sol_wadToRay currentBalance) (\<lambda>balanceInRay.
     andThen (sol_rayMul (sol_usersStableRate t onBehalfOf) balanceInRay) (\<lambda>r1.
     andThen (sol_rayMul amountInRay rate) (\<lambda>r2.
     andThen (sol_add r1 r2) (\<lambda>r3.
     andThen (sol_add currentBalance amount) (\<lambda>newBalance.
     andThen (sol_wadToRay newBalance) (\<lambda>newBalanceInRay.
     andThen (sol_rayDiv r3 newBalanceInRay) (\<lambda>newStableRate.
     require (newStableRate \<le> ucast (- 1 :: 128 word)) ''79''
      (andThen (sol_wadToRay previousSupply) (\<lambda>previousInRay.
       andThen (sol_rayMul (sol_avgStableRate t) previousInRay) (\<lambda>a1.
       andThen (sol_rayMul rate amountInRay) (\<lambda>a2.
       andThen (sol_add a1 a2) (\<lambda>a3.
       andThen (sol_wadToRay nextSupply) (\<lambda>nextInRay.
       andThen (sol_rayDiv a3 nextInRay) (\<lambda>avgStableRate.
       andThen (sol_add amount balanceIncrease) (\<lambda>minted.
       andThen (sol_add (sol_balances t onBehalfOf) minted) (\<lambda>balance.
       let now = ucast (blockTimestamp E) in
       Inr (m\<lparr>mrStable := t\<lparr>sol_totalSupply := nextSupply,
            sol_usersStableRate := (sol_usersStableRate t)(onBehalfOf := newStableRate),
            sol_timestamps := (sol_timestamps t)(onBehalfOf := now), sol_totalSupplyTimestamp := now,
            sol_avgStableRate := avgStableRate,
            sol_balances := (sol_balances t)(onBehalfOf := balance)\<rparr>\<rparr>,
          currentBalance = 0))))))))))))))))))))))"

text \<open>Burning stable debt: the supply and average rate fall to zero together when rounding would make
  either negative.\<close>

definition sol_stable_burn :: "sol_env \<Rightarrow> market_reserve \<Rightarrow> address \<Rightarrow> uint256 \<Rightarrow> string + market_reserve" where
  "sol_stable_burn E m user amount =
     (let t = mrStable m; now = ucast (blockTimestamp E) in
      andThen (sol_calculateBalanceIncrease E t user) (\<lambda>(_, currentBalance, balanceIncrease).
      andThen (sol_calcTotalSupply E t (sol_avgStableRate t)) (\<lambda>previousSupply.
      andThen
       (if previousSupply \<le> amount then Inr (0, 0)
        else
         andThen (sol_sub previousSupply amount) (\<lambda>nextSupply.
         andThen (sol_wadToRay previousSupply) (\<lambda>previousInRay.
         andThen (sol_rayMul (sol_avgStableRate t) previousInRay) (\<lambda>firstTerm.
         andThen (sol_wadToRay amount) (\<lambda>amountInRay.
         andThen (sol_rayMul (sol_usersStableRate t user) amountInRay) (\<lambda>secondTerm.
         if secondTerm \<ge> firstTerm then Inr (0, 0)
         else
          andThen (sol_sub firstTerm secondTerm) (\<lambda>d.
          andThen (sol_wadToRay nextSupply) (\<lambda>nextInRay.
          andThen (sol_rayDiv d nextInRay) (\<lambda>avg. Inr (nextSupply, avg)))))))))) (\<lambda>(supply, avg).
      let t1 = t\<lparr>sol_totalSupply := supply, sol_avgStableRate := avg,
                 sol_usersStableRate := (if amount = currentBalance then (sol_usersStableRate t)(user := 0)
                                         else sol_usersStableRate t),
                 sol_timestamps := (sol_timestamps t)(user := (if amount = currentBalance then 0 else now)),
                 sol_totalSupplyTimestamp := now\<rparr> in
      if balanceIncrease > amount then
        andThen (sol_sub balanceIncrease amount) (\<lambda>amountToMint.
        andThen (sol_add (sol_balances t1 user) amountToMint) (\<lambda>balance.
        Inr (m\<lparr>mrStable := t1\<lparr>sol_balances := (sol_balances t1)(user := balance)\<rparr>\<rparr>)))
      else
        andThen (sol_sub amount balanceIncrease) (\<lambda>amountToBurn.
        andThen (sol_sub_or ''80'' (sol_balances t1 user) amountToBurn) (\<lambda>balance.
        Inr (m\<lparr>mrStable := t1\<lparr>sol_balances := (sol_balances t1)(user := balance)\<rparr>\<rparr>)))))))"

end
