(* ===== verification/PoolActions.thy ===== *)
theory PoolActions
  imports PoolContract
begin

text \<open>
  The users' operations of \<open>LendingPool.sol\<close> with the checks of \<open>ValidationLogic.sol\<close> and
  \<open>GenericLogic.sol\<close>, and what \<open>PalmyProtocolDataProvider.sol\<close> answers about a reserve and a user.
  Liquidations, flash loans, transfers of lTokens and the administration are not modelled.
\<close>

record lending_pool =
  lpPaused :: bool
  lpReserves :: "address \<Rightarrow> market_reserve"
  lpReservesList :: "address list"
  lpUsersConfig :: "address \<Rightarrow> uint256"
  lpMaxStableRateBorrowSizePercent :: uint256

subsection \<open>The position of a user\<close>

definition sol_calculateHealthFactorFromBalances :: "uint256 \<Rightarrow> uint256 \<Rightarrow> uint256 \<Rightarrow> string + uint256" where
  "sol_calculateHealthFactorFromBalances totalCollateral totalDebt threshold =
     (if totalDebt = 0 then Inr max_uint
      else andThen (sol_percentMul totalCollateral threshold) (\<lambda>c. sol_wadDiv c totalDebt))"

text \<open>\<open>SafeMath.div\<close>\<close>

definition sol_div :: "uint256 \<Rightarrow> uint256 \<Rightarrow> string + uint256" where
  "sol_div a b = require (b > 0) ''SafeMath: division by zero'' (Inr (a div b))"

record account_data =
  adCollateral :: uint256
  adDebt :: uint256
  adLtv :: uint256
  adThreshold :: uint256

text \<open>One turn of the loop of \<open>calculateUserAccountData\<close> over the reserves.\<close>

definition sol_addCollateral ::
  "sol_env \<Rightarrow> market_reserve \<Rightarrow> address \<Rightarrow> uint256 \<Rightarrow> uint256 \<Rightarrow> account_data \<Rightarrow> string + account_data" where
  "sol_addCollateral E m user price tokenUnit d =
     (let data = sol_configuration (mrData m) in
      andThen (sol_lToken_balanceOf E m user) (\<lambda>balance.
      andThen (sol_mul price balance) (\<lambda>v.
      andThen (sol_div v tokenUnit) (\<lambda>value.
      andThen (sol_add (adCollateral d) value) (\<lambda>collateral.
      andThen (sol_mul value (sol_getLtv data)) (\<lambda>l1.
      andThen (sol_add (adLtv d) l1) (\<lambda>ltv.
      andThen (sol_mul value (sol_getLiquidationThreshold data)) (\<lambda>t1.
      andThen (sol_add (adThreshold d) t1) (\<lambda>threshold.
      Inr (d\<lparr>adCollateral := collateral, adLtv := ltv, adThreshold := threshold\<rparr>))))))))))"

definition sol_addDebt ::
  "sol_env \<Rightarrow> market_reserve \<Rightarrow> address \<Rightarrow> uint256 \<Rightarrow> uint256 \<Rightarrow> account_data \<Rightarrow> string + account_data" where
  "sol_addDebt E m user price tokenUnit d =
     andThen (sol_stable_balanceOf E (mrStable m) user) (\<lambda>stable.
     andThen (sol_variable_balanceOf E m user) (\<lambda>variable.
     andThen (sol_add stable variable) (\<lambda>balance.
     andThen (sol_mul price balance) (\<lambda>v.
     andThen (sol_div v tokenUnit) (\<lambda>value.
     andThen (sol_add (adDebt d) value) (\<lambda>debt.
     Inr (d\<lparr>adDebt := debt\<rparr>)))))))"

fun sol_accumulate ::
  "sol_env \<Rightarrow> lending_pool \<Rightarrow> address \<Rightarrow> uint256 \<Rightarrow> nat \<Rightarrow> address list \<Rightarrow> account_data \<Rightarrow>
   string + account_data" where
  "sol_accumulate E p user config i [] d = Inr d"
| "sol_accumulate E p user config i (asset # rest) d =
     andThen (sol_isUsingAsCollateralOrBorrowing config i) (\<lambda>involved.
     if \<not> involved then sol_accumulate E p user config (i + 1) rest d
     else
      (let m = lpReserves p asset; data = sol_configuration (mrData m);
           tokenUnit = 10 ^ unat (sol_getDecimals data); price = assetPrice E asset
       in andThen
            (if sol_getLiquidationThreshold data \<noteq> 0
             then andThen (sol_isUsingAsCollateral config i) (\<lambda>asCollateral.
               if asCollateral then sol_addCollateral E m user price tokenUnit d else Inr d)
             else Inr d) (\<lambda>d1.
          andThen (sol_isBorrowing config i) (\<lambda>borrowing.
          andThen (if borrowing then sol_addDebt E m user price tokenUnit d1 else Inr d1)
            (sol_accumulate E p user config (i + 1) rest)))))"

definition sol_calculateUserAccountData ::
  "sol_env \<Rightarrow> lending_pool \<Rightarrow> address \<Rightarrow> string + (account_data \<times> uint256)" where
  "sol_calculateUserAccountData E p user =
     (let config = lpUsersConfig p user; none = \<lparr>adCollateral = 0, adDebt = 0, adLtv = 0, adThreshold = 0\<rparr>
      in if config = 0 then Inr (none, max_uint)
         else andThen (sol_accumulate E p user config 0 (lpReservesList p) none) (\<lambda>d.
              andThen (if adCollateral d > 0 then sol_div (adLtv d) (adCollateral d) else Inr 0) (\<lambda>ltv.
              andThen (if adCollateral d > 0 then sol_div (adThreshold d) (adCollateral d) else Inr 0) (\<lambda>threshold.
              andThen (sol_calculateHealthFactorFromBalances (adCollateral d) (adDebt d) threshold)
                (\<lambda>healthFactor.
              Inr (d\<lparr>adLtv := ltv, adThreshold := threshold\<rparr>, healthFactor))))))"

definition sol_balanceDecreaseAllowed ::
  "sol_env \<Rightarrow> lending_pool \<Rightarrow> address \<Rightarrow> address \<Rightarrow> uint256 \<Rightarrow> string + bool" where
  "sol_balanceDecreaseAllowed E p asset user amount =
     (let r = mrData (lpReserves p asset); data = sol_configuration r; config = lpUsersConfig p user;
          threshold = sol_getLiquidationThreshold data
      in if \<not> sol_isBorrowingAny config then Inr True
         else andThen (sol_isUsingAsCollateral config (unat (sol_id r))) (\<lambda>asCollateral.
         if \<not> asCollateral then Inr True
         else if threshold = 0 then Inr True
         else andThen (sol_calculateUserAccountData E p user) (\<lambda>(d, _).
         if adDebt d = 0 then Inr True
         else
          andThen (sol_mul (assetPrice E asset) amount) (\<lambda>v.
          andThen (sol_div v (10 ^ unat (sol_getDecimals data))) (\<lambda>amountToDecrease.
          andThen (sol_sub (adCollateral d) amountToDecrease) (\<lambda>collateralAfter.
          if collateralAfter = 0 then Inr False
          else
           andThen (sol_mul (adCollateral d) (adThreshold d)) (\<lambda>t1.
           andThen (sol_mul amountToDecrease threshold) (\<lambda>t2.
           andThen (sol_sub t1 t2) (\<lambda>t3.
           andThen (sol_div t3 collateralAfter) (\<lambda>thresholdAfter.
           andThen (sol_calculateHealthFactorFromBalances collateralAfter (adDebt d) thresholdAfter)
             (\<lambda>healthFactor. Inr (healthFactor \<ge> sol_WAD)))))))))))) "

subsection \<open>Deposits and withdrawals\<close>

definition sol_validateDeposit :: "uint256 \<Rightarrow> uint256 \<Rightarrow> string + unit" where
  "sol_validateDeposit data amount =
     require (amount \<noteq> 0) ''1'' (require (sol_getActive data) ''2'' (require (\<not> sol_getFrozen data) ''3'' (Inr ())))"

definition sol_setCollateralFlag :: "lending_pool \<Rightarrow> address \<Rightarrow> address \<Rightarrow> bool \<Rightarrow> string + lending_pool" where
  "sol_setCollateralFlag p asset user flag =
     andThen (sol_setUsingAsCollateral (lpUsersConfig p user) (unat (sol_id (mrData (lpReserves p asset)))) flag)
      (\<lambda>config. Inr (p\<lparr>lpUsersConfig := (lpUsersConfig p)(user := config)\<rparr>))"

definition sol_setBorrowingFlag :: "lending_pool \<Rightarrow> address \<Rightarrow> address \<Rightarrow> bool \<Rightarrow> string + lending_pool" where
  "sol_setBorrowingFlag p asset user flag =
     andThen (sol_setBorrowing (lpUsersConfig p user) (unat (sol_id (mrData (lpReserves p asset)))) flag)
      (\<lambda>config. Inr (p\<lparr>lpUsersConfig := (lpUsersConfig p)(user := config)\<rparr>))"

definition sol_deposit ::
  "sol_env \<Rightarrow> lending_pool \<Rightarrow> address \<Rightarrow> uint256 \<Rightarrow> address \<Rightarrow> string + lending_pool" where
  "sol_deposit E p asset amount onBehalfOf =
     require (\<not> lpPaused p) ''64''
      (let m = lpReserves p asset; lToken = sol_lTokenAddress (mrData m) in
       andThen (sol_validateDeposit (sol_configuration (mrData m)) amount) (\<lambda>_.
       andThen (sol_updateState E m) (\<lambda>m1.
       andThen (sol_updateInterestRates E asset m1 amount 0) (\<lambda>m2.
       andThen (sol_safeTransferFrom E asset (mrAsset m2) (msgSender E) lToken amount) (\<lambda>a.
       andThen (sol_lToken_mint (m2\<lparr>mrAsset := a\<rparr>) onBehalfOf amount (ucast (sol_liquidityIndex (mrData m2))))
        (\<lambda>(m3, isFirstDeposit).
         let p1 = p\<lparr>lpReserves := (lpReserves p)(asset := m3)\<rparr>
         in if isFirstDeposit then sol_setCollateralFlag p1 asset onBehalfOf True else Inr p1))))))"

definition sol_validateWithdraw ::
  "sol_env \<Rightarrow> lending_pool \<Rightarrow> address \<Rightarrow> uint256 \<Rightarrow> uint256 \<Rightarrow> string + unit" where
  "sol_validateWithdraw E p asset amount userBalance =
     require (amount \<noteq> 0) ''1''
      (require (amount \<le> userBalance) ''5''
       (require (sol_getActive (sol_configuration (mrData (lpReserves p asset)))) ''2''
        (andThen (sol_balanceDecreaseAllowed E p asset (msgSender E) amount) (\<lambda>allowed.
         require allowed ''6'' (Inr ())))))"

definition sol_withdraw ::
  "sol_env \<Rightarrow> lending_pool \<Rightarrow> address \<Rightarrow> uint256 \<Rightarrow> address \<Rightarrow> string + (lending_pool \<times> uint256)" where
  "sol_withdraw E p asset amount to =
     require (\<not> lpPaused p) ''64''
      (let m = lpReserves p asset; user = msgSender E in
       andThen (sol_lToken_balanceOf E m user) (\<lambda>userBalance.
       let amountToWithdraw = (if amount = max_uint then userBalance else amount) in
       andThen (sol_validateWithdraw E p asset amountToWithdraw userBalance) (\<lambda>_.
       andThen (sol_updateState E m) (\<lambda>m1.
       andThen (sol_updateInterestRates E asset m1 0 amountToWithdraw) (\<lambda>m2.
       let p1 = p\<lparr>lpReserves := (lpReserves p)(asset := m2)\<rparr> in
       andThen (if amountToWithdraw = userBalance then sol_setCollateralFlag p1 asset user False else Inr p1)
        (\<lambda>p2.
       andThen (sol_lToken_burn E asset m2 user to amountToWithdraw (ucast (sol_liquidityIndex (mrData m2))))
        (\<lambda>m3. Inr (p2\<lparr>lpReserves := (lpReserves p2)(asset := m3)\<rparr>, amountToWithdraw))))))))"

definition sol_setUserUseReserveAsCollateral ::
  "sol_env \<Rightarrow> lending_pool \<Rightarrow> address \<Rightarrow> bool \<Rightarrow> string + lending_pool" where
  "sol_setUserUseReserveAsCollateral E p asset useAsCollateral =
     require (\<not> lpPaused p) ''64''
      (andThen (sol_lToken_balanceOf E (lpReserves p asset) (msgSender E)) (\<lambda>underlyingBalance.
       require (underlyingBalance > 0) ''19''
        (andThen (if useAsCollateral then Inr True
                  else sol_balanceDecreaseAllowed E p asset (msgSender E) underlyingBalance) (\<lambda>allowed.
         require allowed ''20'' (sol_setCollateralFlag p asset (msgSender E) useAsCollateral)))))"

subsection \<open>Borrowing and repaying\<close>

text \<open>The conversion of a \<open>uint256\<close> to \<open>DataTypes.InterestRateMode\<close> (none, stable, variable).\<close>

definition sol_rateMode :: "uint256 \<Rightarrow> string + uint256" where
  "sol_rateMode mode = require (mode \<le> 2) ''invalid opcode'' (Inr mode)"

definition sol_validateBorrow ::
  "sol_env \<Rightarrow> lending_pool \<Rightarrow> address \<Rightarrow> address \<Rightarrow> uint256 \<Rightarrow> uint256 \<Rightarrow> uint256 \<Rightarrow> string + unit" where
  "sol_validateBorrow E p asset user amount amountInETH mode =
     (let m = lpReserves p asset; data = sol_configuration (mrData m); config = lpUsersConfig p user in
      require (sol_getActive data) ''2''
       (require (\<not> sol_getFrozen data) ''3''
        (require (amount \<noteq> 0) ''1''
         (require (sol_getBorrowingEnabled data) ''7''
          (require (mode = 2 \<or> mode = 1) ''8''
           (andThen (sol_calculateUserAccountData E p user) (\<lambda>(d, healthFactor).
            require (adCollateral d > 0) ''9''
             (require (healthFactor > sol_WAD) ''10''
              (andThen (sol_add (adDebt d) amountInETH) (\<lambda>b.
               andThen (sol_percentDiv b (adLtv d)) (\<lambda>collateralNeeded.
               require (collateralNeeded \<le> adCollateral d) ''11''
                (if mode \<noteq> 1 then Inr ()
                 else
                  require (sol_getStableRateBorrowingEnabled data) ''12''
                   (andThen (sol_isUsingAsCollateral config (unat (sol_id (mrData m)))) (\<lambda>asCollateral.
                    andThen
                     (if \<not> asCollateral \<or> sol_getLtv data = 0 then Inr True
                      else andThen (sol_stable_balanceOf E (mrStable m) user) (\<lambda>s.
                           andThen (sol_add amount s) (\<lambda>debt.
                           andThen (sol_lToken_balanceOf E m user) (\<lambda>balance. Inr (debt > balance))))) (\<lambda>different.
                    require different ''13''
                     (andThen (sol_percentMul (sol_balances (mrAsset m) (sol_lTokenAddress (mrData m)))
                        (lpMaxStableRateBorrowSizePercent p)) (\<lambda>maxLoanSizeStable.
                      require (amount \<le> maxLoanSizeStable) ''14'' (Inr ()))))))))))))))))))"

definition sol_borrow ::
  "sol_env \<Rightarrow> lending_pool \<Rightarrow> address \<Rightarrow> uint256 \<Rightarrow> uint256 \<Rightarrow> address \<Rightarrow> string + lending_pool" where
  "sol_borrow E p asset amount mode onBehalfOf =
     require (\<not> lpPaused p) ''64''
      (let m = lpReserves p asset; data = sol_configuration (mrData m); user = msgSender E;
           lToken = sol_lTokenAddress (mrData m) in
       andThen (sol_mul (assetPrice E asset) amount) (\<lambda>v.
       andThen (sol_div v (10 ^ unat (sol_getDecimals data))) (\<lambda>amountInETH.
       andThen (sol_validateBorrow E p asset onBehalfOf amount amountInETH mode) (\<lambda>_.
       andThen (sol_updateState E m) (\<lambda>m1.
       andThen (sol_rateMode mode) (\<lambda>rateMode.
       andThen
        (if rateMode = 1
         then sol_stable_mint E m1 user onBehalfOf amount (ucast (sol_currentStableBorrowRate (mrData m1)))
         else sol_variable_mint m1 user onBehalfOf amount (ucast (sol_variableBorrowIndex (mrData m1))))
        (\<lambda>(m2, isFirstBorrowing).
       andThen
        (if isFirstBorrowing then sol_setBorrowingFlag p asset onBehalfOf True else Inr p) (\<lambda>p1.
       andThen (sol_updateInterestRates E asset m2 0 amount) (\<lambda>m3.
       andThen (sol_safeTransfer E asset lToken (mrAsset m3) user amount) (\<lambda>a.
       Inr (p1\<lparr>lpReserves := (lpReserves p1)(asset := m3\<lparr>mrAsset := a\<rparr>)\<rparr>))))))))))) "

definition sol_getUserCurrentDebt :: "sol_env \<Rightarrow> market_reserve \<Rightarrow> address \<Rightarrow> string + (uint256 \<times> uint256)" where
  "sol_getUserCurrentDebt E m user =
     andThen (sol_stable_balanceOf E (mrStable m) user) (\<lambda>s.
     andThen (sol_variable_balanceOf E m user) (\<lambda>v. Inr (s, v)))"

definition sol_validateRepay ::
  "sol_env \<Rightarrow> uint256 \<Rightarrow> uint256 \<Rightarrow> uint256 \<Rightarrow> address \<Rightarrow> uint256 \<Rightarrow> uint256 \<Rightarrow> string + unit" where
  "sol_validateRepay E data amountSent rateMode onBehalfOf stableDebt variableDebt =
     require (sol_getActive data) ''2''
      (require (amountSent > 0) ''1''
       (require (stableDebt > 0 \<and> rateMode = 1 \<or> variableDebt > 0 \<and> rateMode = 2) ''15''
        (require (amountSent \<noteq> max_uint \<or> msgSender E = onBehalfOf) ''16'' (Inr ()))))"

definition sol_repay ::
  "sol_env \<Rightarrow> lending_pool \<Rightarrow> address \<Rightarrow> uint256 \<Rightarrow> uint256 \<Rightarrow> address \<Rightarrow>
   string + (lending_pool \<times> uint256)" where
  "sol_repay E p asset amount mode onBehalfOf =
     require (\<not> lpPaused p) ''64''
      (let m = lpReserves p asset; lToken = sol_lTokenAddress (mrData m) in
       andThen (sol_getUserCurrentDebt E m onBehalfOf) (\<lambda>(stableDebt, variableDebt).
       andThen (sol_rateMode mode) (\<lambda>rateMode.
       andThen (sol_validateRepay E (sol_configuration (mrData m)) amount rateMode onBehalfOf stableDebt
         variableDebt) (\<lambda>_.
       let whole = (if rateMode = 1 then stableDebt else variableDebt);
           paybackAmount = (if amount < whole then amount else whole) in
       andThen (sol_updateState E m) (\<lambda>m1.
       andThen
        (if rateMode = 1 then sol_stable_burn E m1 onBehalfOf paybackAmount
         else sol_variable_burn m1 onBehalfOf paybackAmount (ucast (sol_variableBorrowIndex (mrData m1)))) (\<lambda>m2.
       andThen (sol_updateInterestRates E asset m2 paybackAmount 0) (\<lambda>m3.
       andThen (sol_add stableDebt variableDebt) (\<lambda>debt.
       andThen (sol_sub debt paybackAmount) (\<lambda>left.
       andThen (if left = 0 then sol_setBorrowingFlag p asset onBehalfOf False else Inr p) (\<lambda>p1.
       andThen (sol_safeTransferFrom E asset (mrAsset m3) (msgSender E) lToken paybackAmount) (\<lambda>a.
       Inr (p1\<lparr>lpReserves := (lpReserves p1)(asset := m3\<lparr>mrAsset := a\<rparr>)\<rparr>, paybackAmount))))))))))))"

definition sol_validateSwapRateMode ::
  "sol_env \<Rightarrow> market_reserve \<Rightarrow> uint256 \<Rightarrow> uint256 \<Rightarrow> uint256 \<Rightarrow> uint256 \<Rightarrow> string + unit" where
  "sol_validateSwapRateMode E m config stableDebt variableDebt currentRateMode =
     (let data = sol_configuration (mrData m) in
      require (sol_getActive data) ''2''
       (require (\<not> sol_getFrozen data) ''3''
        (if currentRateMode = 1 then require (stableDebt > 0) ''17'' (Inr ())
         else if currentRateMode = 2 then
           require (variableDebt > 0) ''18''
            (require (sol_getStableRateBorrowingEnabled data) ''12''
             (andThen (sol_isUsingAsCollateral config (unat (sol_id (mrData m)))) (\<lambda>asCollateral.
              andThen
               (if \<not> asCollateral \<or> sol_getLtv data = 0 then Inr True
                else andThen (sol_add stableDebt variableDebt) (\<lambda>debt.
                     andThen (sol_lToken_balanceOf E m (msgSender E)) (\<lambda>balance. Inr (debt > balance)))) (\<lambda>different.
              require different ''13'' (Inr ())))))
         else Inl ''8'')))"

definition sol_swapBorrowRateMode ::
  "sol_env \<Rightarrow> lending_pool \<Rightarrow> address \<Rightarrow> uint256 \<Rightarrow> string + lending_pool" where
  "sol_swapBorrowRateMode E p asset mode =
     require (\<not> lpPaused p) ''64''
      (let m = lpReserves p asset; user = msgSender E in
       andThen (sol_getUserCurrentDebt E m user) (\<lambda>(stableDebt, variableDebt).
       andThen (sol_rateMode mode) (\<lambda>rateMode.
       andThen (sol_validateSwapRateMode E m (lpUsersConfig p user) stableDebt variableDebt rateMode) (\<lambda>_.
       andThen (sol_updateState E m) (\<lambda>m1.
       andThen
        (if rateMode = 1 then
           andThen (sol_stable_burn E m1 user stableDebt) (\<lambda>m2.
           sol_variable_mint m2 user user stableDebt (ucast (sol_variableBorrowIndex (mrData m2))))
         else
           andThen (sol_variable_burn m1 user variableDebt (ucast (sol_variableBorrowIndex (mrData m1)))) (\<lambda>m2.
           sol_stable_mint E m2 user user variableDebt (ucast (sol_currentStableBorrowRate (mrData m2)))))
        (\<lambda>(m3, _).
       andThen (sol_updateInterestRates E asset m3 0 0) (\<lambda>m4.
       Inr (p\<lparr>lpReserves := (lpReserves p)(asset := m4)\<rparr>))))))))"

definition sol_getMaxVariableBorrowRate :: "sol_strategy \<Rightarrow> string + uint256" where
  "sol_getMaxVariableBorrowRate st =
     andThen (sol_add (sol_baseVariableBorrowRate st) (sol_variableRateSlope1 st)) (\<lambda>r.
     sol_add r (sol_variableRateSlope2 st))"

definition sol_validateRebalanceStableBorrowRate :: "sol_env \<Rightarrow> market_reserve \<Rightarrow> string + unit" where
  "sol_validateRebalanceStableBorrowRate E m =
     (let r = mrData m; st = mrStable m in
      require (sol_getActive (sol_configuration r)) ''2''
       (andThen (sol_calcTotalSupply E st (sol_avgStableRate st)) (\<lambda>stable.
        andThen (sol_variable_totalSupply E m) (\<lambda>variable.
        andThen (sol_add stable variable) (\<lambda>d.
        andThen (sol_wadToRay d) (\<lambda>totalDebt.
        andThen (sol_wadToRay (sol_balances (mrAsset m) (sol_lTokenAddress r))) (\<lambda>availableLiquidity.
        andThen (if totalDebt = 0 then Inr 0
                 else andThen (sol_add availableLiquidity totalDebt) (sol_rayDiv totalDebt)) (\<lambda>usageRatio.
        andThen (sol_getMaxVariableBorrowRate (mrStrategy m)) (\<lambda>maxRate.
        andThen (if usageRatio \<ge> 950000000000000000000000000
                 then andThen (sol_percentMul maxRate 4000) (\<lambda>limit.
                      Inr (ucast (sol_currentLiquidityRate r) \<le> limit))
                 else Inr False) (\<lambda>met.
        require met ''22'' (Inr ())))))))))))"

definition sol_rebalanceStableBorrowRate ::
  "sol_env \<Rightarrow> lending_pool \<Rightarrow> address \<Rightarrow> address \<Rightarrow> string + lending_pool" where
  "sol_rebalanceStableBorrowRate E p asset user =
     require (\<not> lpPaused p) ''64''
      (let m = lpReserves p asset in
       andThen (sol_stable_balanceOf E (mrStable m) user) (\<lambda>stableDebt.
       andThen (sol_validateRebalanceStableBorrowRate E m) (\<lambda>_.
       andThen (sol_updateState E m) (\<lambda>m1.
       andThen (sol_stable_burn E m1 user stableDebt) (\<lambda>m2.
       andThen (sol_stable_mint E m2 user user stableDebt (ucast (sol_currentStableBorrowRate (mrData m2))))
        (\<lambda>(m3, _).
       andThen (sol_updateInterestRates E asset m3 0 0) (\<lambda>m4.
       Inr (p\<lparr>lpReserves := (lpReserves p)(asset := m4)\<rparr>))))))))"

subsection \<open>What the data provider answers\<close>

definition sol_getReserveData :: "sol_env \<Rightarrow> market_reserve \<Rightarrow> string + raw_reserve" where
  "sol_getReserveData E m =
     (let r = mrData m in
      andThen (sol_calcTotalSupply E (mrStable m) (sol_avgStableRate (mrStable m))) (\<lambda>stable.
      andThen (sol_variable_totalSupply E m) (\<lambda>variable.
      Inr \<lparr>rawAvailableLiquidity = sol_balances (mrAsset m) (sol_lTokenAddress r),
           rawTotalStableDebt = stable, rawTotalVariableDebt = variable,
           rawLiquidityRate = ucast (sol_currentLiquidityRate r),
           rawVariableBorrowRate = ucast (sol_currentVariableBorrowRate r),
           rawStableBorrowRate = ucast (sol_currentStableBorrowRate r),
           rawAverageStableBorrowRate = sol_avgStableRate (mrStable m),
           rawLiquidityIndex = ucast (sol_liquidityIndex r),
           rawVariableBorrowIndex = ucast (sol_variableBorrowIndex r),
           rawLastUpdateTimestamp = unat (sol_lastUpdateTimestamp r)\<rparr>)))"

definition sol_getUserReserveData ::
  "sol_env \<Rightarrow> lending_pool \<Rightarrow> address \<Rightarrow> address \<Rightarrow> string + raw_user" where
  "sol_getUserReserveData E p asset user =
     (let m = lpReserves p asset; st = mrStable m in
      andThen (sol_lToken_balanceOf E m user) (\<lambda>balance.
      andThen (sol_variable_balanceOf E m user) (\<lambda>variable.
      andThen (sol_stable_balanceOf E st user) (\<lambda>stable.
      andThen (sol_isUsingAsCollateral (lpUsersConfig p user) (unat (sol_id (mrData m)))) (\<lambda>asCollateral.
      Inr \<lparr>rawCurrentLTokenBalance = balance, rawCurrentStableDebt = stable, rawCurrentVariableDebt = variable,
           rawPrincipalStableDebt = sol_balances st user,
           rawScaledVariableDebt = sol_balances (mrVariable m) user,
           rawUserStableBorrowRate = sol_usersStableRate st user,
           rawUserLiquidityRate = ucast (sol_currentLiquidityRate (mrData m)),
           rawStableRateLastUpdated = unat (sol_timestamps st user),
           rawUsageAsCollateralEnabled = asCollateral\<rparr>)))))"

end
