(* ===== verification/ReserveFacts.thy ===== *)
theory ReserveFacts
  imports OracleFacts
begin

text \<open>
  What the expected-reserve functions return on well-formed inputs: the amounts and indices they
  move, and the two relations every result satisfies, between its totals and its rates.
\<close>

subsection \<open>Relations inside one reserve record\<close>

text \<open>The pool's liquidity is what is available plus what is lent out.\<close>

definition balanced :: "('b \<Rightarrow> int) \<Rightarrow> 'b ReserveData \<Rightarrow> bool" where
  "balanced ival e \<longleftrightarrow>
     value_of ival (totalLiquidity e) =
       value_of ival (availableLiquidity e) + value_of ival (totalStableDebt e) +
       value_of ival (totalVariableDebt e)"

text \<open>Utilization and the three rates are those of the strategy at the record's own totals.\<close>

definition settled :: "('b \<Rightarrow> int) \<Rightarrow> IReserveParams \<Rightarrow> 'b option \<Rightarrow> 'b ReserveData \<Rightarrow> bool" where
  "settled ival p market e \<longleftrightarrow>
     value_of ival (utilizationRate e) =
       utilization (value_of ival (totalStableDebt e)) (value_of ival (totalVariableDebt e))
         (value_of ival (totalLiquidity e)) \<and>
     value_of ival (liquidityRate e) =
       liquidity_rate_of p (value_of ival (utilizationRate e)) (value_of ival (totalStableDebt e))
         (value_of ival (totalVariableDebt e)) (value_of ival (averageStableBorrowRate e)) \<and>
     value_of ival (stableBorrowRate e) =
       stable_rate_of p (value_of ival market) (value_of ival (utilizationRate e)) \<and>
     value_of ival (variableBorrowRate e) = variable_rate_of p (value_of ival (utilizationRate e))"

text \<open>The indices are the accrued ones.\<close>

definition accrued :: "('b \<Rightarrow> int) \<Rightarrow> 'b ReserveData \<Rightarrow> 'b ReserveData \<Rightarrow> int \<Rightarrow> bool" where
  "accrued ival r e now \<longleftrightarrow>
     value_of ival (liquidityIndex e) = liquidity_index_at ival r now \<and>
     value_of ival (variableBorrowIndex e) = variable_index_at ival r now"

text \<open>Every field the integrity check compares is a finite integer.\<close>

definition comparable_reserve :: "('b \<Rightarrow> bool) \<Rightarrow> 'b ReserveData \<Rightarrow> bool" where
  "comparable_reserve ok e \<longleftrightarrow>
     present (\<lambda>_. True) (address e) \<and>
     present ok (totalLiquidity e) \<and> present ok (availableLiquidity e) \<and>
     present ok (totalStableDebt e) \<and> present ok (totalVariableDebt e) \<and>
     present ok (principalStableDebt e) \<and> present ok (scaledVariableDebt e) \<and>
     present ok (averageStableBorrowRate e) \<and> present ok (variableBorrowRate e) \<and>
     present ok (stableBorrowRate e) \<and> present ok (utilizationRate e) \<and>
     present ok (liquidityIndex e) \<and> present ok (variableBorrowIndex e) \<and>
     present ok (liquidityRate e)"

text \<open>Stable debt and average rate after removing \<open>amount\<close> at \<open>rate\<close>: erased together when
  rounding has made either negative.\<close>

definition remaining_stable :: "int \<Rightarrow> int \<Rightarrow> int \<Rightarrow> int \<Rightarrow> int \<times> int" where
  "remaining_stable d avg amount rate =
     (if d - amount < 0 \<or> average_rate avg d (- amount) rate < 0 then (0, 0)
      else (d - amount, average_rate avg d (- amount) rate))"

lemma remaining_stable_nonneg:
  "0 \<le> fst (remaining_stable d avg amount rate)" "0 \<le> snd (remaining_stable d avg amount rate)"
  by (auto simp: remaining_stable_def)

lemma scaled_nonneg: "sound_reserve ival r now \<Longrightarrow> 0 \<le> value_of ival (scaledVariableDebt r)"
  by (simp add: sound_reserve_def)

lemma variable_debt_nonneg:
  "sound_reserve ival r now \<Longrightarrow> 0 \<le> k \<Longrightarrow> 0 \<le> ray_mul k (variable_index_at ival r now)"
  using variable_index_pos [of ival r now] by simp

lemma utilization_defined:
  "0 \<le> a \<Longrightarrow> 0 \<le> s \<Longrightarrow> 0 \<le> v \<Longrightarrow> a + v + s \<noteq> 0 \<or> s = 0 \<and> v = (0::int)"
  by arith

lemma utilization_nonneg:
  "0 \<le> a \<Longrightarrow> 0 \<le> s \<Longrightarrow> 0 \<le> v \<Longrightarrow> 0 \<le> utilization s v (a + s + v)"
  by (auto simp: utilization_def)

lemma variable_rate_of_nonneg: "sane_params p \<Longrightarrow> 0 \<le> util \<Longrightarrow> 0 \<le> variable_rate_of p util"
  by (auto simp: sane_params_def variable_rate_of_def variable_curve_def)

lemma average_rate_nonneg:
  "0 \<le> avg \<Longrightarrow> 0 \<le> d \<Longrightarrow> 0 \<le> n \<Longrightarrow> 0 \<le> rate \<Longrightarrow> 0 \<le> average_rate avg d n rate"
  by (simp add: average_rate_def sdiv_ge_0)

lemma total_stable_nonneg: "0 \<le> rate \<Longrightarrow> 0 \<le> dt \<Longrightarrow> 0 \<le> p \<Longrightarrow> 0 \<le> total_stable p rate dt"
  by (rule order_trans [OF _ total_stable_ge])

lemma normalized_debt_nonneg:
  "0 \<le> rate \<Longrightarrow> 0 \<le> dt \<Longrightarrow> 0 \<le> index \<Longrightarrow> 0 \<le> normalized_debt rate index dt"
  by (rule order_trans [OF _ normalized_debt_ge])

lemma configured_sane: "configured params sy \<Longrightarrow> sane_params (strategy_of params sy)"
  by (simp add: configured_def)

context bignumber
begin

lemma deposit_reserve:
  assumes r: "complete_reserve ok r" "configured params (the (symbol r))"
    and t: "ok t" "sound_reserve ival r (ival t)" and n: "canonical s" "0 < num s"
  shows "\<exists>e. calcExpectedReserveDataAfterDeposit B params s r t = Some e \<and>
    comparable_reserve ok e \<and> accrued ival r e (ival t) \<and>
    settled ival (strategy_of params (the (symbol r))) (marketStableRate r) e \<and>
    value_of ival (totalLiquidity e) = value_of ival (totalLiquidity r) + num s \<and>
    value_of ival (availableLiquidity e) = value_of ival (availableLiquidity r) + num s \<and>
    value_of ival (totalStableDebt e) = total_stable_at ival r (ival t) \<and>
    value_of ival (totalVariableDebt e) =
      ray_mul (value_of ival (scaledVariableDebt r)) (variable_index_at ival r (ival t)) \<and>
    lastUpdateTimestamp e = None"
proof -
  have pos: "value_of ival (totalLiquidity r) + num s \<noteq> 0"
    using t(2) n by (simp add: sound_reserve_def)
  show ?thesis
    using r t(1) n(1) pos
    by (simp add: calcExpectedReserveDataAfterDeposit_def calcExpectedTotalVariableDebt_def
        comparable_reserve_def accrued_def settled_def total_stable_at_def Let_def empty_reserve_def)
qed

lemma withdraw_reserve:
  assumes r: "complete_reserve ok r" "complete_user ok u" "configured params (the (symbol r))"
    and t: "ok t" "sound_reserve ival r (ival t)" and s: "canonical s"
    and n: "amount_or s (user_balance_at ival r u (ival t)) \<le> value_of ival (availableLiquidity r)"
  shows "\<exists>e. calcExpectedReserveDataAfterWithdraw B params s r u t = Some e \<and>
    comparable_reserve ok e \<and> accrued ival r e (ival t) \<and> balanced ival e \<and>
    settled ival (strategy_of params (the (symbol r))) (marketStableRate r) e \<and>
    value_of ival (availableLiquidity e) =
      value_of ival (availableLiquidity r) - amount_or s (user_balance_at ival r u (ival t)) \<and>
    value_of ival (totalStableDebt e) = total_stable_at ival r (ival t) \<and>
    value_of ival (totalVariableDebt e) =
      ray_mul (value_of ival (scaledVariableDebt r)) (variable_index_at ival r (ival t))"
proof -
  have pos: "value_of ival (availableLiquidity r) - amount_or s (user_balance_at ival r u (ival t)) +
      ray_mul (value_of ival (scaledVariableDebt r)) (variable_index_at ival r (ival t)) +
      total_stable_at ival r (ival t) \<noteq> 0 \<or>
      total_stable_at ival r (ival t) = 0 \<and>
      ray_mul (value_of ival (scaledVariableDebt r)) (variable_index_at ival r (ival t)) = 0"
    using n variable_debt_nonneg [OF t(2) scaled_nonneg [OF t(2)]] total_stable_at_nonneg [OF t(2)]
    by (intro utilization_defined) simp_all
  show ?thesis
  proof (cases "s = MAX_UINT_AMOUNT")
    case True
    with r t(1) pos show ?thesis
      by (simp add: calcExpectedReserveDataAfterWithdraw_def option.map_sel amount_or_def
          comparable_reserve_def accrued_def settled_def balanced_def total_stable_at_def Let_def
          empty_reserve_def)
  next
    case False
    with r t(1) s pos show ?thesis
      by (simp add: calcExpectedReserveDataAfterWithdraw_def option.map_sel amount_or_def
          comparable_reserve_def accrued_def settled_def balanced_def total_stable_at_def Let_def
          empty_reserve_def)
  qed
qed

text \<open>Borrowing leaves a balanced pool whose utilization is that of its own totals; the rates are
  those at the transaction, before the interest up to \<open>currentTimestamp\<close>.\<close>

lemma borrow_stable_reserve:
  fixes r u params t now s
  defines "v \<equiv> ray_mul (value_of ival (scaledVariableDebt r)) (variable_index_at ival r (ival t))"
    and "p \<equiv> total_stable_at ival r (ival t) + num s"
    and "a \<equiv> value_of ival (availableLiquidity r) - num s"
  assumes r: "complete_reserve ok r" "configured params (the (symbol r))"
    and t: "ok t" "ok now" "ival t \<le> ival now" "sound_reserve ival r (ival t)"
    and s: "canonical s" "0 \<le> num s" "num s \<le> value_of ival (availableLiquidity r)"
    and rate: "0 \<le> value_of ival (stableBorrowRate r)"
  shows "\<exists>e. calcExpectedReserveDataAfterBorrow B params s ''1'' r u t now = Some e \<and>
    comparable_reserve ok e \<and> accrued ival r e (ival t) \<and> balanced ival e \<and>
    lastUpdateTimestamp e = Some t \<and>
    value_of ival (availableLiquidity e) = a \<and>
    value_of ival (principalStableDebt e) = p \<and>
    scaledVariableDebt e = scaledVariableDebt r \<and>
    value_of ival (averageStableBorrowRate e) =
      average_rate (value_of ival (averageStableBorrowRate r)) (total_stable_at ival r (ival t))
        (num s) (value_of ival (stableBorrowRate r)) \<and>
    value_of ival (variableBorrowRate e) =
      variable_rate_of (strategy_of params (the (symbol r))) (utilization p v (a + p + v)) \<and>
    value_of ival (totalStableDebt e) =
      total_stable p (value_of ival (averageStableBorrowRate e)) (ival now - ival t)"
proof -
  have v: "0 \<le> v" unfolding v_def by (rule variable_debt_nonneg [OF t(4) scaled_nonneg [OF t(4)]])
  have ap: "0 \<le> a" "0 \<le> p" "0 \<le> total_stable_at ival r (ival t)"
    using s total_stable_at_nonneg [OF t(4)] by (simp_all add: a_def p_def)
  define ar where "ar = average_rate (value_of ival (averageStableBorrowRate r))
    (total_stable_at ival r (ival t)) (num s) (value_of ival (stableBorrowRate r))"
  have ar: "0 \<le> ar"
    using ap(3) s rate t(4) by (simp add: ar_def average_rate_nonneg sound_reserve_def)
  define vr where "vr = variable_rate_of (strategy_of params (the (symbol r))) (utilization p v (a + p + v))"
  have vr: "0 \<le> vr"
    unfolding vr_def by (intro variable_rate_of_nonneg configured_sane r(2) utilization_nonneg ap v)
  define v' where "v' = ray_mul (value_of ival (scaledVariableDebt r))
    (normalized_debt vr (variable_index_at ival r (ival t)) (ival now - ival t))"
  have v': "0 \<le> v'"
    unfolding v'_def using vr t variable_index_pos [OF t(4)] scaled_nonneg [OF t(4)]
    by (simp add: normalized_debt_nonneg)
  have ts: "0 \<le> total_stable p ar (ival now - ival t)"
    using ar ap t by (simp add: total_stable_nonneg)
  have den1: "a + p + v \<noteq> 0 \<or> p = 0 \<and> v = 0" using ap v by arith
  have den2: "a + v' + total_stable p ar (ival now - ival t) \<noteq> 0 \<or>
      total_stable p ar (ival now - ival t) = 0 \<and> v' = 0"
    using ap v' ts by arith
  show ?thesis
    using r t(1,2) s(1) den1 den2
    by (simp add: calcExpectedReserveDataAfterBorrow_def comparable_reserve_def accrued_def
        balanced_def Let_def empty_reserve_def total_stable_at_def
        a_def p_def v_def ar_def v'_def vr_def)
qed

lemma borrow_variable_reserve:
  fixes r u params t now s
  defines "sd \<equiv> stable_balance (value_of ival (principalStableDebt r))
      (value_of ival (averageStableBorrowRate r)) (value_of ival (totalStableDebtLastUpdated r)) (ival t)"
    and "k \<equiv> value_of ival (scaledVariableDebt r) + ray_div (num s) (variable_index_at ival r (ival t))"
    and "v \<equiv> ray_mul (value_of ival (scaledVariableDebt r) +
      ray_div (num s) (variable_index_at ival r (ival t))) (variable_index_at ival r (ival t))"
    and "a \<equiv> value_of ival (availableLiquidity r) - num s"
  assumes r: "complete_reserve ok r" "configured params (the (symbol r))"
    and t: "ok t" "ok now" "ival t \<le> ival now" "sound_reserve ival r (ival t)"
    and s: "canonical s" "0 \<le> num s" "num s \<le> value_of ival (availableLiquidity r)"
    and mode: "mode \<noteq> ''1''"
  shows "\<exists>e. calcExpectedReserveDataAfterBorrow B params s mode r u t now = Some e \<and>
    comparable_reserve ok e \<and> accrued ival r e (ival t) \<and> balanced ival e \<and>
    lastUpdateTimestamp e = Some t \<and>
    value_of ival (availableLiquidity e) = a \<and>
    value_of ival (scaledVariableDebt e) = k \<and>
    principalStableDebt e = principalStableDebt r \<and>
    averageStableBorrowRate e = averageStableBorrowRate r \<and>
    value_of ival (totalStableDebt e) = total_stable_at ival r (ival now) \<and>
    value_of ival (variableBorrowRate e) =
      variable_rate_of (strategy_of params (the (symbol r))) (utilization sd v (a + sd + v)) \<and>
    value_of ival (totalVariableDebt e) =
      ray_mul k (normalized_debt (value_of ival (variableBorrowRate e))
        (variable_index_at ival r (ival t)) (ival now - ival t))"
proof -
  have idx: "0 < variable_index_at ival r (ival t)" by (rule variable_index_pos [OF t(4)])
  have k: "0 \<le> k" using idx s(2) scaled_nonneg [OF t(4)] by (simp add: k_def)
  have v: "0 \<le> v" using k idx by (simp add: v_def k_def)
  have a: "0 \<le> a" using s by (simp add: a_def)
  have sd: "0 \<le> sd" unfolding sd_def
    using t(4) by (intro order_trans [OF _ stable_balance_ge]) (simp_all add: sound_reserve_def)
  have now: "sound_reserve ival r (ival now)" using t(3,4) by (simp add: sound_reserve_def)
  define vr where "vr = variable_rate_of (strategy_of params (the (symbol r))) (utilization sd v (a + sd + v))"
  have vr: "0 \<le> vr"
    unfolding vr_def by (intro variable_rate_of_nonneg configured_sane r(2) utilization_nonneg a sd v)
  define v' where "v' = ray_mul k
    (normalized_debt vr (variable_index_at ival r (ival t)) (ival now - ival t))"
  have v': "0 \<le> v'" unfolding v'_def using vr t idx k by (simp add: normalized_debt_nonneg)
  have ts: "0 \<le> total_stable_at ival r (ival now)" by (rule total_stable_at_nonneg [OF now])
  have den1: "a + sd + v \<noteq> 0 \<or> sd = 0 \<and> v = 0" using a sd v by arith
  have den2: "a + total_stable_at ival r (ival now) + v' \<noteq> 0 \<or>
      total_stable_at ival r (ival now) = 0 \<and> v' = 0"
    using a v' ts by arith
  from idx have idx0: "variable_index_at ival r (ival t) \<noteq> 0" by simp
  show ?thesis
    using r t(1,2) s(1) den1 den2 mode idx0
    by (simp add: calcExpectedReserveDataAfterBorrow_def comparable_reserve_def accrued_def
        balanced_def Let_def empty_reserve_def total_stable_at_def
        a_def k_def sd_def v_def v'_def vr_def)
qed

lemma repay_variable_reserve:
  fixes r u params t now m
  defines "n \<equiv> repay_amount m (user_variable_at ival r u (ival t))"
  assumes r: "complete_reserve ok r" "complete_user ok u" "configured params (the (symbol r))"
    and t: "ok t" "sound_reserve ival r (ival t)" and s: "ok (bnOfString B s)" "ival (bnOfString B s) = m" and mode: "mode \<noteq> ''1''"
    and n: "0 \<le> n" "ray_div n (variable_index_at ival r (ival t)) \<le> value_of ival (scaledVariableDebt r)"
  shows "\<exists>e. calcExpectedReserveDataAfterRepay B params s mode r u t now = Some e \<and>
    comparable_reserve ok e \<and> accrued ival r e (ival t) \<and> balanced ival e \<and>
    settled ival (strategy_of params (the (symbol r))) (marketStableRate r) e \<and>
    lastUpdateTimestamp e = Some t \<and>
    value_of ival (availableLiquidity e) = value_of ival (availableLiquidity r) + n \<and>
    value_of ival (scaledVariableDebt e) =
      value_of ival (scaledVariableDebt r) - ray_div n (variable_index_at ival r (ival t)) \<and>
    value_of ival (totalVariableDebt e) =
      ray_mul (value_of ival (scaledVariableDebt e)) (variable_index_at ival r (ival t)) \<and>
    totalStableDebt e = totalStableDebt r \<and> principalStableDebt e = principalStableDebt r \<and>
    averageStableBorrowRate e = averageStableBorrowRate r"
proof -
  have idx: "0 < variable_index_at ival r (ival t)" by (rule variable_index_pos [OF t(2)])
  define v where "v = ray_mul (value_of ival (scaledVariableDebt r) -
    ray_div n (variable_index_at ival r (ival t))) (variable_index_at ival r (ival t))"
  have v: "0 \<le> v" using n idx by (simp add: v_def)
  have "0 \<le> value_of ival (availableLiquidity r)" "0 \<le> value_of ival (totalStableDebt r)"
    using t(2) by (simp_all add: sound_reserve_def)
  then have den: "value_of ival (availableLiquidity r) + n + value_of ival (totalStableDebt r) + v \<noteq> 0 \<or>
      value_of ival (totalStableDebt r) = 0 \<and> v = 0"
    using n(1) v by arith
  from idx have idx0: "variable_index_at ival r (ival t) \<noteq> 0" by simp
  show ?thesis
  proof (cases "\<bar>m\<bar> = 2 ^ 256 - 1")
    case True
    then have nt: "n = user_variable_at ival r u (ival t)" by (simp add: n_def repay_amount_def)
    show ?thesis
      using r t(1) s True den mode idx0 unfolding v_def nt
      by (simp add: calcExpectedReserveDataAfterRepay_def comparable_reserve_def accrued_def
          settled_def balanced_def Let_def empty_reserve_def)
  next
    case False
    then have nt: "n = m" by (simp add: n_def repay_amount_def)
    show ?thesis
      using r t(1) s False den mode idx0 unfolding v_def nt
      by (simp add: calcExpectedReserveDataAfterRepay_def comparable_reserve_def accrued_def
          settled_def balanced_def Let_def empty_reserve_def)
  qed
qed

lemma repay_stable_reserve:
  fixes r u params t now m
  defines "n \<equiv> repay_amount m (user_stable_at ival u (ival t))"
    and "rest \<equiv> remaining_stable (total_stable_at ival r (ival t))
      (value_of ival (averageStableBorrowRate r))
      (repay_amount m (user_stable_at ival u (ival t))) (value_of ival (stableBorrowRate_u u))"
  assumes r: "complete_reserve ok r" "complete_user ok u" "configured params (the (symbol r))"
    and t: "ok t" "sound_reserve ival r (ival t)" and s: "ok (bnOfString B s)" "ival (bnOfString B s) = m" and n: "0 \<le> n"
  shows "\<exists>e. calcExpectedReserveDataAfterRepay B params s ''1'' r u t now = Some e \<and>
    comparable_reserve ok e \<and> accrued ival r e (ival t) \<and> balanced ival e \<and>
    settled ival (strategy_of params (the (symbol r))) (marketStableRate r) e \<and>
    lastUpdateTimestamp e = Some t \<and>
    value_of ival (availableLiquidity e) = value_of ival (availableLiquidity r) + n \<and>
    value_of ival (totalStableDebt e) = fst rest \<and>
    value_of ival (principalStableDebt e) = fst rest \<and>
    value_of ival (averageStableBorrowRate e) = snd rest \<and>
    scaledVariableDebt e = scaledVariableDebt r"
proof -
  define v where "v = ray_mul (value_of ival (scaledVariableDebt r)) (variable_index_at ival r (ival t))"
  have v: "0 \<le> v" unfolding v_def by (rule variable_debt_nonneg [OF t(2) scaled_nonneg [OF t(2)]])
  have "0 \<le> value_of ival (availableLiquidity r)" "0 \<le> fst rest"
    using t(2) by (simp_all add: sound_reserve_def rest_def remaining_stable_nonneg)
  then have den: "value_of ival (availableLiquidity r) + n + fst rest + v \<noteq> 0 \<or> fst rest = 0 \<and> v = 0"
    using n v by arith
  define d where "d = total_stable_at ival r (ival t)"
  define ar where "ar = average_rate (value_of ival (averageStableBorrowRate r)) d (- n)
    (value_of ival (stableBorrowRate_u u))"
  have rest: "rest = (if d - n < 0 \<or> ar < 0 then (0, 0) else (d - n, ar))"
    by (simp add: rest_def remaining_stable_def d_def ar_def n_def)
  have amount: "(if \<bar>m\<bar> = 2 ^ 256 - 1 then user_stable_at ival u (ival t) else m) = n"
    by (simp add: n_def repay_amount_def)
  show ?thesis
  proof (cases "\<bar>m\<bar> = 2 ^ 256 - 1")
    case True
    with amount have nt: "user_stable_at ival u (ival t) = n" by simp
    consider "d - n < 0" | "\<not> d - n < 0" "ar < 0" | "\<not> d - n < 0" "\<not> ar < 0" by blast
    then show ?thesis
      by cases (use r t(1) s True den nt in \<open>simp_all add: rest calcExpectedReserveDataAfterRepay_def
          comparable_reserve_def accrued_def settled_def balanced_def Let_def empty_reserve_def
          d_def ar_def v_def total_stable_at_def user_stable_at_def\<close>)
  next
    case False
    with amount have nt: "m = n" by simp
    consider "d - n < 0" | "\<not> d - n < 0" "ar < 0" | "\<not> d - n < 0" "\<not> ar < 0" by blast
    then show ?thesis
      by cases (use r t(1) s False den nt in \<open>simp_all add: rest calcExpectedReserveDataAfterRepay_def
          comparable_reserve_def accrued_def settled_def balanced_def Let_def empty_reserve_def
          d_def ar_def v_def total_stable_at_def\<close>)
  qed
qed

lemma swap_stable_reserve:
  fixes r u params t
  defines "us \<equiv> user_stable_at ival u (ival t)"
  assumes r: "complete_reserve ok r" "complete_user ok u" "configured params (the (symbol r))"
    and t: "ok t" "sound_reserve ival r (ival t)"
    and us: "0 \<le> us" "us \<le> total_stable_at ival r (ival t)"
  shows "\<exists>e. calcExpectedReserveDataAfterSwapRateMode B params r u ''1'' t = Some e \<and>
    comparable_reserve ok e \<and> accrued ival r e (ival t) \<and> balanced ival e \<and>
    settled ival (strategy_of params (the (symbol r))) (marketStableRate r) e \<and>
    availableLiquidity e = availableLiquidity r \<and>
    value_of ival (totalStableDebt e) = total_stable_at ival r (ival t) - us \<and>
    principalStableDebt e = totalStableDebt e \<and>
    value_of ival (scaledVariableDebt e) =
      value_of ival (scaledVariableDebt r) + ray_div us (variable_index_at ival r (ival t)) \<and>
    value_of ival (totalVariableDebt e) =
      ray_mul (value_of ival (scaledVariableDebt e)) (variable_index_at ival r (ival t)) \<and>
    value_of ival (averageStableBorrowRate e) =
      average_rate (value_of ival (averageStableBorrowRate r)) (total_stable_at ival r (ival t))
        (- us) (value_of ival (stableBorrowRate_u u))"
proof -
  have idx: "0 < variable_index_at ival r (ival t)" by (rule variable_index_pos [OF t(2)])
  define v where "v = ray_mul (value_of ival (scaledVariableDebt r) +
    ray_div us (variable_index_at ival r (ival t))) (variable_index_at ival r (ival t))"
  have v: "0 \<le> v" using us idx scaled_nonneg [OF t(2)] by (simp add: v_def)
  have "0 \<le> value_of ival (availableLiquidity r)" using t(2) by (simp add: sound_reserve_def)
  then have den: "value_of ival (availableLiquidity r) + (total_stable_at ival r (ival t) - us) + v \<noteq> 0 \<or>
      total_stable_at ival r (ival t) - us = 0 \<and> v = 0"
    using us v by arith
  from idx have idx0: "variable_index_at ival r (ival t) \<noteq> 0" by simp
  show ?thesis
    using r t(1) den idx0 unfolding v_def us_def
    by (simp add: calcExpectedReserveDataAfterSwapRateMode_def comparable_reserve_def accrued_def
        settled_def balanced_def Let_def empty_reserve_def total_stable_at_def user_stable_at_def)
qed

lemma swap_variable_reserve:
  fixes r u params t
  defines "uv \<equiv> user_variable_at ival r u (ival t)"
  assumes r: "complete_reserve ok r" "complete_user ok u" "configured params (the (symbol r))"
    and t: "ok t" "sound_reserve ival r (ival t)" and mode: "mode \<noteq> ''1''"
    and uv: "0 \<le> uv" "ray_div uv (variable_index_at ival r (ival t)) \<le> value_of ival (scaledVariableDebt r)"
  shows "\<exists>e. calcExpectedReserveDataAfterSwapRateMode B params r u mode t = Some e \<and>
    comparable_reserve ok e \<and> accrued ival r e (ival t) \<and> balanced ival e \<and>
    settled ival (strategy_of params (the (symbol r))) (marketStableRate r) e \<and>
    availableLiquidity e = availableLiquidity r \<and>
    value_of ival (totalStableDebt e) = total_stable_at ival r (ival t) + uv \<and>
    principalStableDebt e = totalStableDebt e \<and>
    value_of ival (scaledVariableDebt e) =
      value_of ival (scaledVariableDebt r) - ray_div uv (variable_index_at ival r (ival t)) \<and>
    value_of ival (totalVariableDebt e) =
      ray_mul (value_of ival (scaledVariableDebt e)) (variable_index_at ival r (ival t)) \<and>
    value_of ival (averageStableBorrowRate e) =
      average_rate (value_of ival (averageStableBorrowRate r)) (value_of ival (totalStableDebt r))
        uv (value_of ival (stableBorrowRate r))"
proof -
  have idx: "0 < variable_index_at ival r (ival t)" by (rule variable_index_pos [OF t(2)])
  define v where "v = ray_mul (value_of ival (scaledVariableDebt r) -
    ray_div uv (variable_index_at ival r (ival t))) (variable_index_at ival r (ival t))"
  have v: "0 \<le> v" using uv idx by (simp add: v_def)
  have "0 \<le> value_of ival (availableLiquidity r)" using t(2) by (simp add: sound_reserve_def)
  then have den: "value_of ival (availableLiquidity r) + (total_stable_at ival r (ival t) + uv) + v \<noteq> 0 \<or>
      total_stable_at ival r (ival t) + uv = 0 \<and> v = 0"
    using uv v total_stable_at_nonneg [OF t(2)] by arith
  from idx have idx0: "variable_index_at ival r (ival t) \<noteq> 0" by simp
  show ?thesis
    using r t(1) den idx0 mode unfolding v_def uv_def
    by (simp add: calcExpectedReserveDataAfterSwapRateMode_def comparable_reserve_def accrued_def
        settled_def balanced_def Let_def empty_reserve_def total_stable_at_def user_stable_at_def)
qed

lemma rebalance_reserve:
  fixes r u params t
  defines "us \<equiv> user_stable_at ival u (ival t)"
  assumes r: "complete_reserve ok r" "complete_user ok u" "configured params (the (symbol r))"
    and t: "ok t" "sound_reserve ival r (ival t)"
  shows "\<exists>e. calcExpectedReserveDataAfterStableRateRebalance B params r u t = Some e \<and>
    comparable_reserve ok e \<and> accrued ival r e (ival t) \<and> balanced ival e \<and>
    settled ival (strategy_of params (the (symbol r))) (marketStableRate r) e \<and>
    availableLiquidity e = availableLiquidity r \<and> scaledVariableDebt e = scaledVariableDebt r \<and>
    value_of ival (totalStableDebt e) = total_stable_at ival r (ival t) \<and>
    principalStableDebt e = totalStableDebt e \<and>
    value_of ival (averageStableBorrowRate e) =
      rebalance_rate
        (rebalance_rate (value_of ival (averageStableBorrowRate r)) (total_stable_at ival r (ival t))
          (- us) (value_of ival (stableBorrowRate_u u)))
        (total_stable_at ival r (ival t) - us) us (value_of ival (stableBorrowRate r))"
proof -
  define v where "v = ray_mul (value_of ival (scaledVariableDebt r)) (variable_index_at ival r (ival t))"
  have v: "0 \<le> v" unfolding v_def by (rule variable_debt_nonneg [OF t(2) scaled_nonneg [OF t(2)]])
  have "0 \<le> value_of ival (availableLiquidity r)" using t(2) by (simp add: sound_reserve_def)
  then have den: "value_of ival (availableLiquidity r) + total_stable_at ival r (ival t) + v \<noteq> 0 \<or>
      total_stable_at ival r (ival t) = 0 \<and> v = 0"
    using v total_stable_at_nonneg [OF t(2)] by arith
  show ?thesis
    using r t(1) den unfolding v_def us_def
    by (simp add: calcExpectedReserveDataAfterStableRateRebalance_def comparable_reserve_def accrued_def
        settled_def balanced_def Let_def empty_reserve_def total_stable_at_def user_stable_at_def)
qed

end

end
