(* ===== verification/UserFacts.thy ===== *)
theory UserFacts
  imports OracleFacts
begin

text \<open>
  What the expected-position functions return on well-formed inputs: balances, debts, wallet and
  collateral flag of the user after each action, as integers.
\<close>

text \<open>Every field the integrity check compares is present.\<close>

definition comparable_user :: "('b \<Rightarrow> bool) \<Rightarrow> 'b UserReserveData \<Rightarrow> bool" where
  "comparable_user ok e \<longleftrightarrow>
     present ok (scaledLTokenBalance e) \<and> present ok (currentLTokenBalance e) \<and>
     present ok (currentStableDebt e) \<and> present ok (currentVariableDebt e) \<and>
     present ok (principalStableDebt_u e) \<and> present ok (scaledVariableDebt_u e) \<and>
     present ok (liquidityRate_u e) \<and> present ok (stableBorrowRate_u e) \<and>
     present ok (stableRateLastUpdated e) \<and> present (\<lambda>_. True) (usageAsCollateralEnabled e) \<and>
     present ok (walletBalance e)"

text \<open>The parts of the reserve after the action that the user functions read.\<close>

definition reserve_after_ok :: "('b \<Rightarrow> bool) \<Rightarrow> ('b \<Rightarrow> int) \<Rightarrow> 'b ReserveData \<Rightarrow> bool" where
  "reserve_after_ok ok ival e \<longleftrightarrow>
     present ok (liquidityRate e) \<and> present ok (liquidityIndex e) \<and>
     present ok (variableBorrowRate e) \<and> present ok (variableBorrowIndex e) \<and>
     present ok (averageStableBorrowRate e) \<and>
     0 < value_of ival (liquidityIndex e) \<and> 0 < value_of ival (variableBorrowIndex e)"

context bignumber
begin

lemma reserve_after_fields [simp]:
  assumes "reserve_after_ok ok ival e"
  shows "present ok (liquidityRate e)" "present ok (liquidityIndex e)"
    "present ok (variableBorrowRate e)" "present ok (variableBorrowIndex e)"
    "present ok (averageStableBorrowRate e)"
    "value_of ival (liquidityIndex e) \<noteq> 0" "value_of ival (variableBorrowIndex e) \<noteq> 0"
    "0 \<le> value_of ival (liquidityIndex e)"
  using assms by (auto simp: reserve_after_ok_def)

lemma scaled_balance_spec [simp]:
  assumes "present ok (scaledLTokenBalance u)" "ok index" "ival index \<noteq> 0" "ok a" "ok b"
  shows "present ok (calcExpectedScaledLTokenBalance B u index a b)"
    "value_of ival (calcExpectedScaledLTokenBalance B u index a b) =
      value_of ival (scaledLTokenBalance u) + ray_div (ival a) (ival index) - ray_div (ival b) (ival index)"
  using assms by (simp_all add: calcExpectedScaledLTokenBalance_def)

lemma deposit_user:
  assumes u: "complete_user ok u" "complete_reserve ok r" "reserve_after_ok ok ival e"
    and t: "ok t" and s: "canonical s"
  shows "\<exists>w. calcExpectedUserDataAfterDeposit B s r e u t now txCost = Some w \<and>
    comparable_user ok w \<and>
    value_of ival (walletBalance w) = value_of ival (walletBalance u) - num s \<and>
    value_of ival (currentLTokenBalance w) = user_balance_at ival r u (ival t) + num s \<and>
    value_of ival (scaledLTokenBalance w) =
      value_of ival (scaledLTokenBalance u) + ray_div (num s) (value_of ival (liquidityIndex e)) \<and>
    usageAsCollateralEnabled w =
      (if value_of ival (currentLTokenBalance u) = 0 then Some True else usageAsCollateralEnabled u) \<and>
    value_of ival (currentStableDebt w) = user_stable_at ival u (ival t) \<and>
    value_of ival (currentVariableDebt w) = user_variable_at ival r u (ival t) \<and>
    value_of ival (principalStableDebt_u w) = user_variable_at ival r u (ival t) \<and>
    scaledVariableDebt_u w = scaledVariableDebt_u u \<and> liquidityRate_u w = liquidityRate e"
  using u t s
  by (simp add: calcExpectedUserDataAfterDeposit_def comparable_user_def user_stable_at_def Let_def
      empty_user_def)

text \<open>Withdrawal; the whole balance when the amount is \<open>MAX_UINT_AMOUNT\<close>.\<close>

lemma withdraw_user:
  fixes s r u t
  defines "n \<equiv> amount_or s (user_balance_at ival r u (ival t))"
  assumes u: "complete_user ok u" "complete_reserve ok r" "reserve_after_ok ok ival e"
    and t: "ok t" and s: "canonical s"
  shows "\<exists>w. calcExpectedUserDataAfterWithdraw B s r e u t now txCost = Some w \<and>
    comparable_user ok w \<and>
    value_of ival (walletBalance w) = value_of ival (walletBalance u) + n \<and>
    value_of ival (currentLTokenBalance w) = user_balance_at ival r u (ival t) - n \<and>
    value_of ival (scaledLTokenBalance w) =
      value_of ival (scaledLTokenBalance u) - ray_div n (value_of ival (liquidityIndex e)) \<and>
    usageAsCollateralEnabled w =
      (if value_of ival (currentLTokenBalance u) = 0 then Some True
       else if user_balance_at ival r u (ival t) = n then Some False
       else usageAsCollateralEnabled u) \<and>
    value_of ival (currentStableDebt w) = user_stable_at ival u (ival t) \<and>
    value_of ival (currentVariableDebt w) = user_variable_at ival r u (ival t) \<and>
    principalStableDebt_u w = principalStableDebt_u u \<and>
    scaledVariableDebt_u w = scaledVariableDebt_u u \<and> liquidityRate_u w = liquidityRate e"
proof (cases "s = MAX_UINT_AMOUNT")
  case True
  with u t show ?thesis unfolding n_def amount_or_def
    by (simp add: calcExpectedUserDataAfterWithdraw_def comparable_user_def user_stable_at_def Let_def
        empty_user_def)
next
  case False
  with u t s show ?thesis unfolding n_def amount_or_def
    by (simp add: calcExpectedUserDataAfterWithdraw_def comparable_user_def user_stable_at_def Let_def
        empty_user_def)
qed

lemma borrow_stable_user:
  assumes u: "complete_user ok u" "complete_reserve ok r" "reserve_after_ok ok ival e"
    and t: "ok t" "ok now" "lastUpdateTimestamp e = Some t" and s: "canonical s"
    and debt: "user_stable_at ival u (ival t) + num s \<noteq> 0"
  shows "\<exists>w. calcExpectedUserDataAfterBorrow B s ''1'' r e u t now = Some w \<and>
    comparable_user ok w \<and>
    value_of ival (walletBalance w) = value_of ival (walletBalance u) + num s \<and>
    value_of ival (principalStableDebt_u w) = user_stable_at ival u (ival t) + num s \<and>
    value_of ival (stableBorrowRate_u w) =
      user_stable_rate (user_stable_at ival u (ival t)) (value_of ival (stableBorrowRate_u u))
        (num s) (value_of ival (stableBorrowRate r)) \<and>
    stableRateLastUpdated w = Some t \<and>
    value_of ival (currentStableDebt w) =
      stable_balance (value_of ival (principalStableDebt_u w)) (value_of ival (stableBorrowRate_u w))
        (ival t) (ival now) \<and>
    scaledVariableDebt_u w = scaledVariableDebt_u u \<and>
    scaledLTokenBalance w = scaledLTokenBalance u \<and>
    usageAsCollateralEnabled w = usageAsCollateralEnabled u \<and> liquidityRate_u w = liquidityRate e"
  using u t s debt
  by (simp add: calcExpectedUserDataAfterBorrow_def comparable_user_def user_stable_at_def Let_def
      empty_user_def)

lemma borrow_variable_user:
  assumes u: "complete_user ok u" "complete_reserve ok r" "reserve_after_ok ok ival e"
    and t: "ok t" "ok now" "lastUpdateTimestamp e = Some t" and s: "canonical s"
    and mode: "mode \<noteq> ''1''"
  shows "\<exists>w. calcExpectedUserDataAfterBorrow B s mode r e u t now = Some w \<and>
    comparable_user ok w \<and>
    value_of ival (walletBalance w) = value_of ival (walletBalance u) + num s \<and>
    value_of ival (scaledVariableDebt_u w) =
      value_of ival (scaledVariableDebt r) + ray_div (num s) (value_of ival (variableBorrowIndex e)) \<and>
    value_of ival (currentVariableDebt w) = user_variable_at ival e w (ival now) \<and>
    value_of ival (currentStableDebt w) = user_stable_at ival u (ival now) \<and>
    principalStableDebt_u w = principalStableDebt_u u \<and>
    stableBorrowRate_u w = stableBorrowRate_u u \<and>
    stableRateLastUpdated w = stableRateLastUpdated u \<and>
    scaledLTokenBalance w = scaledLTokenBalance u \<and>
    usageAsCollateralEnabled w = usageAsCollateralEnabled u \<and> liquidityRate_u w = liquidityRate e"
  using u t s mode
  by (simp add: calcExpectedUserDataAfterBorrow_def comparable_user_def user_stable_at_def Let_def
      user_variable_at_def empty_user_def)

lemma repay_stable_user:
  fixes m u now
  defines "n \<equiv> repay_amount m (user_stable_at ival u (ival now))"
  assumes u: "complete_user ok u" "complete_reserve ok r" "reserve_after_ok ok ival e"
    and t: "ok t" "ok now" and s: "ok (bnOfString B s)" "ival (bnOfString B s) = m"
  shows "\<exists>w. calcExpectedUserDataAfterRepay B s ''1'' r e u user onBehalfOf t now = Some w \<and>
    comparable_user ok w \<and>
    value_of ival (walletBalance w) =
      value_of ival (walletBalance u) - (if user = onBehalfOf then n else 0) \<and>
    value_of ival (currentStableDebt w) = user_stable_at ival u (ival now) - n \<and>
    value_of ival (principalStableDebt_u w) = user_stable_at ival u (ival now) - n \<and>
    value_of ival (stableBorrowRate_u w) =
      (if user_stable_at ival u (ival now) = n then 0 else value_of ival (stableBorrowRate_u u)) \<and>
    value_of ival (stableRateLastUpdated w) =
      (if user_stable_at ival u (ival now) = n then 0 else ival t) \<and>
    value_of ival (currentVariableDebt w) = user_variable_at ival r u (ival now) \<and>
    scaledVariableDebt_u w = scaledVariableDebt_u u \<and>
    scaledLTokenBalance w = scaledLTokenBalance u \<and>
    usageAsCollateralEnabled w = usageAsCollateralEnabled u \<and> liquidityRate_u w = liquidityRate e"
proof (cases "\<bar>m\<bar> = 2 ^ 256 - 1")
  case True
  with u t s show ?thesis unfolding n_def repay_amount_def
    by (simp add: calcExpectedUserDataAfterRepay_def comparable_user_def user_stable_at_def Let_def
        empty_user_def)
next
  case False
  with u t s show ?thesis unfolding n_def repay_amount_def
    by (simp add: calcExpectedUserDataAfterRepay_def comparable_user_def user_stable_at_def Let_def
        empty_user_def)
qed

lemma repay_variable_user:
  fixes m r u now
  defines "n \<equiv> repay_amount m (user_variable_at ival r u (ival now))"
  assumes u: "complete_user ok u" "complete_reserve ok r" "reserve_after_ok ok ival e"
    and t: "ok t" "ok now" and s: "ok (bnOfString B s)" "ival (bnOfString B s) = m" and mode: "mode \<noteq> ''1''"
  shows "\<exists>w. calcExpectedUserDataAfterRepay B s mode r e u user onBehalfOf t now = Some w \<and>
    comparable_user ok w \<and>
    value_of ival (walletBalance w) =
      value_of ival (walletBalance u) - (if user = onBehalfOf then n else 0) \<and>
    value_of ival (scaledVariableDebt_u w) =
      value_of ival (scaledVariableDebt_u u) - ray_div n (value_of ival (variableBorrowIndex e)) \<and>
    value_of ival (currentVariableDebt w) =
      ray_mul (value_of ival (scaledVariableDebt_u w)) (value_of ival (variableBorrowIndex e)) \<and>
    currentStableDebt w = principalStableDebt_u u \<and>
    value_of ival (principalStableDebt_u w) = user_stable_at ival u (ival now) \<and>
    stableBorrowRate_u w = stableBorrowRate_u u \<and>
    stableRateLastUpdated w = stableRateLastUpdated u \<and>
    scaledLTokenBalance w = scaledLTokenBalance u \<and>
    usageAsCollateralEnabled w = usageAsCollateralEnabled u \<and> liquidityRate_u w = liquidityRate e"
proof (cases "\<bar>m\<bar> = 2 ^ 256 - 1")
  case True
  with u t s mode show ?thesis unfolding n_def repay_amount_def
    by (simp add: calcExpectedUserDataAfterRepay_def comparable_user_def user_stable_at_def Let_def
        empty_user_def)
next
  case False
  with u t s mode show ?thesis unfolding n_def repay_amount_def
    by (simp add: calcExpectedUserDataAfterRepay_def comparable_user_def user_stable_at_def Let_def
        empty_user_def)
qed

lemma swap_stable_user:
  assumes u: "complete_user ok u" "complete_reserve ok r" "reserve_after_ok ok ival e" and t: "ok t"
  shows "\<exists>w. calcExpectedUserDataAfterSwapRateMode B r e u ''1'' txCost t = Some w \<and>
    comparable_user ok w \<and>
    value_of ival (currentStableDebt w) = 0 \<and> value_of ival (principalStableDebt_u w) = 0 \<and>
    value_of ival (stableBorrowRate_u w) = 0 \<and> value_of ival (stableRateLastUpdated w) = 0 \<and>
    value_of ival (scaledVariableDebt_u w) =
      value_of ival (scaledVariableDebt_u u) +
      ray_div (user_stable_at ival u (ival t)) (value_of ival (variableBorrowIndex e)) \<and>
    value_of ival (currentVariableDebt w) =
      ray_mul (value_of ival (scaledVariableDebt_u w)) (value_of ival (variableBorrowIndex e)) \<and>
    walletBalance w = walletBalance u \<and> scaledLTokenBalance w = scaledLTokenBalance u \<and>
    liquidityRate_u w = liquidityRate e"
  using u t
  by (simp add: calcExpectedUserDataAfterSwapRateMode_def comparable_user_def user_stable_at_def Let_def)

lemma swap_variable_user:
  assumes u: "complete_user ok u" "complete_reserve ok r" "reserve_after_ok ok ival e" and t: "ok t"
    and mode: "mode \<noteq> ''1''"
    and debt: "user_stable_at ival u (ival t) + user_variable_at ival r u (ival t) \<noteq> 0"
  shows "\<exists>w. calcExpectedUserDataAfterSwapRateMode B r e u mode txCost t = Some w \<and>
    comparable_user ok w \<and>
    value_of ival (currentStableDebt w) =
      value_of ival (currentStableDebt u) + user_variable_at ival r u (ival t) \<and>
    principalStableDebt_u w = currentStableDebt w \<and>
    value_of ival (stableBorrowRate_u w) =
      user_stable_rate (user_stable_at ival u (ival t)) (value_of ival (stableBorrowRate_u u))
        (user_variable_at ival r u (ival t)) (value_of ival (stableBorrowRate r)) \<and>
    stableRateLastUpdated w = Some t \<and>
    value_of ival (scaledVariableDebt_u w) = 0 \<and> value_of ival (currentVariableDebt w) = 0 \<and>
    walletBalance w = walletBalance u \<and> scaledLTokenBalance w = scaledLTokenBalance u \<and>
    liquidityRate_u w = liquidityRate e"
  using u t mode debt
  by (simp add: calcExpectedUserDataAfterSwapRateMode_def comparable_user_def user_stable_at_def Let_def)

lemma rebalance_user:
  assumes u: "complete_user ok u" "complete_reserve ok r" "reserve_after_ok ok ival e" and t: "ok t"
  shows "\<exists>w. calcExpectedUserDataAfterStableRateRebalance B r e u txCost t = Some w \<and>
    comparable_user ok w \<and>
    value_of ival (currentStableDebt w) = user_stable_at ival u (ival t) \<and>
    principalStableDebt_u w = currentStableDebt w \<and>
    value_of ival (currentVariableDebt w) = user_variable_at ival r u (ival t) \<and>
    value_of ival (currentLTokenBalance w) = user_balance_at ival r u (ival t) \<and>
    stableBorrowRate_u w = averageStableBorrowRate e \<and> stableRateLastUpdated w = Some t \<and>
    scaledVariableDebt_u w = scaledVariableDebt_u u \<and> walletBalance w = walletBalance u \<and>
    scaledLTokenBalance w = scaledLTokenBalance u \<and> liquidityRate_u w = liquidityRate e"
  using u t
  by (simp add: calcExpectedUserDataAfterStableRateRebalance_def comparable_user_def
      user_stable_at_def Let_def)

end

end
