(* ===== verification/Actions.thy ===== *)
theory Actions
  imports Readers
begin

text \<open>
  The scenario actions of \<open>test-suites/test-palmy/helpers/actions.ts\<close>: each reads the reserve and
  the user, sends its transaction, reads them again and compares them with the oracle's
  expectation; or, for the expected result \<open>'revert'\<close>, checks that the transaction fails.
  What the suite is run against is one record of parameters.
\<close>

record ('b, 'd) suite =
  suB :: "'b bignumber_api"
  suR :: readers_api
  suC :: chain_api
  suD :: "'d lowdb_api"
  suNetwork :: string
  suPool :: string                                  \<comment> \<open>\<open>testEnv.pool.address\<close>\<close>
  suHelper :: string                                \<comment> \<open>\<open>testEnv.helpersContract.address\<close>\<close>
  suParams :: "IReserveParams obj"                  \<comment> \<open>\<open>calculations.configuration.reservesParams\<close>\<close>
  suSkipIntegrityCheck :: bool                      \<comment> \<open>\<open>actions.configuration.skipIntegrityCheck\<close>\<close>
  suParseUnits :: "string \<Rightarrow> nat \<Rightarrow> string + int"   \<comment> \<open>\<open>ethers.utils.parseUnits\<close>\<close>
  suTxTimestamp :: "tx list \<Rightarrow> nat"                 \<comment> \<open>timestamp of the block of the last transaction\<close>
  suGasUsed :: "tx list \<Rightarrow> nat"
  suGasPrice :: "tx list \<Rightarrow> nat"
  suBlock :: "tx list \<Rightarrow> nat option"                \<comment> \<open>current block's timestamp, \<open>None\<close> for a null block\<close>
  suBorrowAllowance :: "tx list \<Rightarrow> string \<Rightarrow> string \<Rightarrow> string \<Rightarrow> uint256"

subsection \<open>Helpers\<close>

definition convertToCurrencyDecimals :: "('b, 'd) suite \<Rightarrow> string \<Rightarrow> string \<Rightarrow> ('d, int) action" where
  "convertToCurrencyDecimals S tokenAddress amount =
     bindA (readA (\<lambda>w. rdDecimals (suR S) (sent w) tokenAddress)) (\<lambda>tokenDecimals.
     liftA (suParseUnits S amount tokenDecimals))"

definition contractsData ::
  "('b, 'd) suite \<Rightarrow> string \<Rightarrow> string \<Rightarrow> string option \<Rightarrow> ('d, 'b contracts_data) action"
where
  "contractsData S reserve user sender =
     getContractsData (suB S) (suR S) (suD S) (suNetwork S) (suHelper S) reserve user sender"

definition getTxCostAndTimestamp :: "('b, 'd) suite \<Rightarrow> ('d, 'b \<times> 'b) action" where
  "getTxCostAndTimestamp S =
     readA (\<lambda>w.
       let B = suB S;
           txTimestamp = bnOfNumber B (int (suTxTimestamp S (sent w)));
           txCost = bnTimes B (bnOfString B (decimal (int (suGasUsed S (sent w)))))
                      (bnOfString B (decimal (int (suGasPrice S (sent w)))))
       in (txCost, txTimestamp))"

text \<open>\<open>advanceTimeAndBlock\<close> of \<open>helpers/misc-utils.ts\<close>: provider calls, recorded like transactions.\<close>

definition providerTx :: "string \<Rightarrow> arg list \<Rightarrow> tx" where
  "providerTx method args = callTx ''provider'' method args ''''"

definition advanceTimeAndBlock :: "('b, 'd) suite \<Rightarrow> int \<Rightarrow> ('d, unit) action" where
  "advanceTimeAndBlock S forwardTime =
     bindA (readA (\<lambda>w. suBlock S (sent w))) (\<lambda>currentBlock.
     case currentBlock of
       None \<Rightarrow>
         thenA (sendA (suC S) (providerTx ''evm_increaseTime'' [AInt forwardTime]))
        (thenA (sendA (suC S) (providerTx ''evm_mine'' []))
               (sendA (suC S) (providerTx ''evm_increaseTime'' [AInt 15])))
     | Some currentTime \<Rightarrow>
         thenA (sendA (suC S) (providerTx ''evm_setNextBlockTimestamp'' [AInt (int currentTime + forwardTime)]))
               (sendA (suC S) (providerTx ''evm_mine'' [])))"

text \<open>The two checks that end an action: reserve first, then user.\<close>

definition checkBoth ::
  "('b, 'd) suite \<Rightarrow> 'b contracts_data \<Rightarrow> 'b ReserveData option \<Rightarrow> 'b UserReserveData option \<Rightarrow> ('d, unit) action"
where
  "checkBoth S after expectedReserve expectedUser =
     bindA (requireA ''TypeError: undefined operand'' expectedReserve) (\<lambda>er.
     bindA (requireA ''TypeError: undefined operand'' expectedUser) (\<lambda>eu.
     thenA (liftA (expectEqual (suB S) (suSkipIntegrityCheck S)
                    (reserve_object (cdReserve after)) (reserve_object er)))
           (liftA (expectEqual (suB S) (suSkipIntegrityCheck S)
                    (user_object (cdUser after)) (user_object eu)))))"

subsection \<open>Funding\<close>

definition mint :: "('b, 'd) suite \<Rightarrow> string \<Rightarrow> string \<Rightarrow> string \<Rightarrow> ('d, unit) action" where
  "mint S reserveSymbol amount user =
     bindA (getReserveAddressFromSymbol (suD S) (suNetwork S) reserveSymbol) (\<lambda>reserve.
     bindA (convertToCurrencyDecimals S reserve amount) (\<lambda>units.
     sendA (suC S) (callTx reserve ''mint'' [AInt units] user)))"

definition approve :: "('b, 'd) suite \<Rightarrow> string \<Rightarrow> string \<Rightarrow> ('d, unit) action" where
  "approve S reserveSymbol user =
     bindA (getReserveAddressFromSymbol (suD S) (suNetwork S) reserveSymbol) (\<lambda>reserve.
     sendA (suC S)
       (callTx reserve ''approve'' [AAddress (suPool S), AString ''100000000000000000000000000000''] user))"

subsection \<open>Deposit and withdrawal\<close>

definition depositTx :: "('b, 'd) suite \<Rightarrow> string \<Rightarrow> int \<Rightarrow> string \<Rightarrow> int option \<Rightarrow> string \<Rightarrow> tx" where
  "depositTx S reserve amount onBehalfOf value sender =
     callTx (suPool S) ''deposit''
       ([AAddress reserve, AInt amount, AAddress onBehalfOf, AString ''0''] @
        (case value of None \<Rightarrow> [] | Some v \<Rightarrow> [AInt v])) sender"

definition optionalValue :: "('b, 'd) suite \<Rightarrow> string \<Rightarrow> string option \<Rightarrow> ('d, int option) action" where
  "optionalValue S reserve sendValue =
     (if truthy sendValue
      then bindA (convertToCurrencyDecimals S reserve (the sendValue)) (\<lambda>v. returnA (Some v))
      else returnA None)"

definition deposit ::
  "('b, 'd) suite \<Rightarrow> string \<Rightarrow> string \<Rightarrow> string \<Rightarrow> string \<Rightarrow> string option \<Rightarrow> string \<Rightarrow> ('d, unit) action"
where
  "deposit S reserveSymbol amount sender onBehalfOf sendValue expectedResult =
     bindA (getReserveAddressFromSymbol (suD S) (suNetwork S) reserveSymbol) (\<lambda>reserve.
     bindA (convertToCurrencyDecimals S reserve amount) (\<lambda>amountToDeposit.
     bindA (contractsData S reserve onBehalfOf (Some sender)) (\<lambda>prior.
     bindA (optionalValue S reserve sendValue) (\<lambda>value.
     if expectedResult = ''success'' then
       thenA (sendA (suC S) (depositTx S reserve amountToDeposit onBehalfOf value sender))
      (bindA (contractsData S reserve onBehalfOf (Some sender)) (\<lambda>after.
       bindA (getTxCostAndTimestamp S) (\<lambda>(txCost, txTimestamp).
       let expectedReserve =
             calcExpectedReserveDataAfterDeposit (suB S) (suParams S) (decimal amountToDeposit)
               (cdReserve prior) txTimestamp;
           expectedUser =
             Option.bind expectedReserve (\<lambda>er.
               calcExpectedUserDataAfterDeposit (suB S) (decimal amountToDeposit) (cdReserve prior)
                 er (cdUser prior) txTimestamp (cdTimestamp after) txCost)
       in checkBoth S after expectedReserve expectedUser)))
     else if expectedResult = ''revert'' then
       expectRevertA (suC S) (depositTx S reserve amountToDeposit onBehalfOf value sender)
     else returnA ()))))"

definition withdraw ::
  "('b, 'd) suite \<Rightarrow> string \<Rightarrow> string \<Rightarrow> string \<Rightarrow> string \<Rightarrow> ('d, unit) action"
where
  "withdraw S reserveSymbol amount user expectedResult =
     bindA (getReserveAddressFromSymbol (suD S) (suNetwork S) reserveSymbol) (\<lambda>reserve.
     bindA (contractsData S reserve user None) (\<lambda>prior.
     bindA (if amount \<noteq> ''-1''
            then bindA (convertToCurrencyDecimals S reserve amount) (\<lambda>units. returnA (decimal units))
            else returnA MAX_UINT_AMOUNT) (\<lambda>amountToWithdraw.
     let withdrawTx =
       callTx (suPool S) ''withdraw'' [AAddress reserve, AString amountToWithdraw, AAddress user] user
     in
     if expectedResult = ''success'' then
       thenA (sendA (suC S) withdrawTx)
      (bindA (contractsData S reserve user None) (\<lambda>after.
       bindA (getTxCostAndTimestamp S) (\<lambda>(txCost, txTimestamp).
       let expectedReserve =
             calcExpectedReserveDataAfterWithdraw (suB S) (suParams S) amountToWithdraw
               (cdReserve prior) (cdUser prior) txTimestamp;
           expectedUser =
             Option.bind expectedReserve (\<lambda>er.
               calcExpectedUserDataAfterWithdraw (suB S) amountToWithdraw (cdReserve prior)
                 er (cdUser prior) txTimestamp (cdTimestamp after) txCost)
       in checkBoth S after expectedReserve expectedUser)))
     else if expectedResult = ''revert'' then expectRevertA (suC S) withdrawTx
     else returnA ())))"

subsection \<open>Borrowing\<close>

text \<open>\<open>await expect(promise, m).to.be.revertedWith(m)\<close>: the rejection must mention the message.\<close>

fun infix_of :: "string \<Rightarrow> string \<Rightarrow> bool" where
  "infix_of part [] = (part = [])"
| "infix_of part (c # cs) = (take (length part) (c # cs) = part \<or> infix_of part cs)"

definition expectRevertedWithA :: "chain_api \<Rightarrow> tx \<Rightarrow> string \<Rightarrow> ('d, unit) action" where
  "expectRevertedWithA C t message = (\<lambda>w. case sendA C t w of
     (Inl e, w') \<Rightarrow> (if infix_of message e then Inr () else Inl e, w')
   | (Inr u, w') \<Rightarrow> (Inl ''Expected transaction to be reverted'', w'))"

definition delegateBorrowAllowance ::
  "('b, 'd) suite \<Rightarrow> string \<Rightarrow> string \<Rightarrow> string \<Rightarrow> string \<Rightarrow> string \<Rightarrow> string \<Rightarrow> string option \<Rightarrow>
   ('d, unit) action"
where
  "delegateBorrowAllowance S reserveSymbol amount interestRateMode user receiver expectedResult
       revertMessage =
     bindA (getReserveAddressFromSymbol (suD S) (suNetwork S) reserveSymbol) (\<lambda>reserveAddress.
     bindA (convertToCurrencyDecimals S reserveAddress amount) (\<lambda>amountToDelegate.
     bindA (readA (\<lambda>w. rdTokens (suR S) (sent w) (suPool S) reserveAddress)) (\<lambda>tokens.
     let debtToken =
           (if interestRateMode = ''1'' then stableDebtTokenOf tokens else variableDebtTokenOf tokens);
         delegateTx =
           callTx debtToken ''approveDelegation'' [AAddress receiver, AString (decimal amountToDelegate)]
             user
     in
     if expectedResult = ''revert'' \<and> truthy revertMessage then
       expectRevertedWithA (suC S) delegateTx (the revertMessage)
     else
       thenA (sendA (suC S) delegateTx)
      (bindA (readA (\<lambda>w. suBorrowAllowance S (sent w) debtToken user receiver)) (\<lambda>allowance.
       if decimal (uint allowance) = decimal amountToDelegate then returnA ()
       else throwA ''borrowAllowance is set incorrectly'')))))"

definition borrow ::
  "('b, 'd) suite \<Rightarrow> string \<Rightarrow> string \<Rightarrow> string \<Rightarrow> string \<Rightarrow> string \<Rightarrow> string option \<Rightarrow> string \<Rightarrow>
   ('d, unit) action"
where
  "borrow S reserveSymbol amount interestRateMode user onBehalfOf timeTravel expectedResult =
     bindA (getReserveAddressFromSymbol (suD S) (suNetwork S) reserveSymbol) (\<lambda>reserve.
     bindA (contractsData S reserve onBehalfOf (Some user)) (\<lambda>prior.
     bindA (convertToCurrencyDecimals S reserve amount) (\<lambda>amountToBorrow.
     let borrowTx =
       callTx (suPool S) ''borrow''
         [AAddress reserve, AInt amountToBorrow, AString interestRateMode, AString ''0'',
          AAddress onBehalfOf] user
     in
     if expectedResult = ''success'' then
       thenA (sendA (suC S) borrowTx)
      (bindA (getTxCostAndTimestamp S) (\<lambda>(txCost, txTimestamp).
       thenA
        (whenA (truthy timeTravel)
          (let B = suB S;
               secondsToTravel =
                 bnDiv B (bnTimes B (bnOfString B (the timeTravel)) (bnOfString B ONE_YEAR))
                   (bnOfNumber B 365)
           in advanceTimeAndBlock S (bnToNumber B secondsToTravel)))
        (bindA (contractsData S reserve onBehalfOf (Some user)) (\<lambda>after.
         let expectedReserve =
               calcExpectedReserveDataAfterBorrow (suB S) (suParams S) (decimal amountToBorrow)
                 interestRateMode (cdReserve prior) (cdUser prior) txTimestamp (cdTimestamp after);
             expectedUser =
               Option.bind expectedReserve (\<lambda>er.
                 calcExpectedUserDataAfterBorrow (suB S) (decimal amountToBorrow) interestRateMode
                   (cdReserve prior) er (cdUser prior) txTimestamp (cdTimestamp after))
         in checkBoth S after expectedReserve expectedUser))))
     else if expectedResult = ''revert'' then expectRevertA (suC S) borrowTx
     else returnA ())))"

subsection \<open>Repayment\<close>

text \<open>The amount is sent in hexadecimal; \<open>'-1'\<close> repays everything.\<close>

definition repayArgument :: "'b bignumber_api \<Rightarrow> string \<Rightarrow> string" where
  "repayArgument B amount = ''0x'' @ bnToHex B (bnOfString B amount)"

definition repay ::
  "('b, 'd) suite \<Rightarrow> string \<Rightarrow> string \<Rightarrow> string \<Rightarrow> string \<Rightarrow> string \<Rightarrow> string option \<Rightarrow> string \<Rightarrow>
   ('d, unit) action"
where
  "repay S reserveSymbol amount rateMode user onBehalfOf sendValue expectedResult =
     bindA (getReserveAddressFromSymbol (suD S) (suNetwork S) reserveSymbol) (\<lambda>reserve.
     bindA (contractsData S reserve onBehalfOf None) (\<lambda>prior.
     bindA (if amount \<noteq> ''-1''
            then bindA (convertToCurrencyDecimals S reserve amount) (\<lambda>units. returnA (decimal units))
            else returnA MAX_UINT_AMOUNT) (\<lambda>units.
     let amountToRepay = repayArgument (suB S) units in
     bindA (if truthy sendValue
            then bindA (convertToCurrencyDecimals S reserve (the sendValue))
                   (\<lambda>v. returnA (Some (repayArgument (suB S) (decimal v))))
            else returnA None) (\<lambda>value.
     let repayTx =
       callTx (suPool S) ''repay''
         ([AAddress reserve, AString amountToRepay, AString rateMode, AAddress onBehalfOf] @
          (case value of None \<Rightarrow> [] | Some v \<Rightarrow> [AString v])) user
     in
     if expectedResult = ''success'' then
       thenA (sendA (suC S) repayTx)
      (bindA (getTxCostAndTimestamp S) (\<lambda>(txCost, txTimestamp).
       bindA (contractsData S reserve onBehalfOf None) (\<lambda>after.
       let expectedReserve =
             calcExpectedReserveDataAfterRepay (suB S) (suParams S) amountToRepay rateMode
               (cdReserve prior) (cdUser prior) txTimestamp (cdTimestamp after);
           expectedUser =
             Option.bind expectedReserve (\<lambda>er.
               calcExpectedUserDataAfterRepay (suB S) amountToRepay rateMode (cdReserve prior) er
                 (cdUser prior) user onBehalfOf txTimestamp (cdTimestamp after))
       in checkBoth S after expectedReserve expectedUser)))
     else if expectedResult = ''revert'' then expectRevertA (suC S) repayTx
     else returnA ()))))"

subsection \<open>Collateral and rate mode\<close>

definition ascii_lower :: "char \<Rightarrow> char" where
  "ascii_lower c =
     (if 65 \<le> (of_char c :: nat) \<and> (of_char c :: nat) \<le> 90 then char_of ((of_char c :: nat) + 32) else c)"

definition toLowerCase :: "string \<Rightarrow> string" where
  "toLowerCase s = map ascii_lower s"

definition setUseAsCollateral ::
  "('b, 'd) suite \<Rightarrow> string \<Rightarrow> string \<Rightarrow> string \<Rightarrow> string \<Rightarrow> ('d, unit) action"
where
  "setUseAsCollateral S reserveSymbol user useAsCollateral expectedResult =
     bindA (getReserveAddressFromSymbol (suD S) (suNetwork S) reserveSymbol) (\<lambda>reserve.
     bindA (contractsData S reserve user None) (\<lambda>prior.
     let useAsCollateralBool = (toLowerCase useAsCollateral = ''true'');
         collateralTx =
           callTx (suPool S) ''setUserUseReserveAsCollateral'' [AAddress reserve, ABool useAsCollateralBool]
             user
     in
     if expectedResult = ''success'' then
       thenA (sendA (suC S) collateralTx)
      (bindA (getTxCostAndTimestamp S) (\<lambda>(txCost, txTimestamp).
       bindA (contractsData S reserve user None) (\<lambda>after.
       liftA (expectEqual (suB S) (suSkipIntegrityCheck S) (user_object (cdUser after))
         (user_object (calcExpectedUserDataAfterSetUseAsCollateral useAsCollateralBool
           (cdReserve prior) (cdUser prior) txCost))))))
     else if expectedResult = ''revert'' then expectRevertA (suC S) collateralTx
     else returnA ()))"

definition swapBorrowRateMode ::
  "('b, 'd) suite \<Rightarrow> string \<Rightarrow> string \<Rightarrow> string \<Rightarrow> string \<Rightarrow> ('d, unit) action"
where
  "swapBorrowRateMode S reserveSymbol user rateMode expectedResult =
     bindA (getReserveAddressFromSymbol (suD S) (suNetwork S) reserveSymbol) (\<lambda>reserve.
     bindA (contractsData S reserve user None) (\<lambda>prior.
     let swapTx = callTx (suPool S) ''swapBorrowRateMode'' [AAddress reserve, AString rateMode] user in
     if expectedResult = ''success'' then
       thenA (sendA (suC S) swapTx)
      (bindA (getTxCostAndTimestamp S) (\<lambda>(txCost, txTimestamp).
       bindA (contractsData S reserve user None) (\<lambda>after.
       let expectedReserve =
             calcExpectedReserveDataAfterSwapRateMode (suB S) (suParams S) (cdReserve prior)
               (cdUser prior) rateMode txTimestamp;
           expectedUser =
             Option.bind expectedReserve (\<lambda>er.
               calcExpectedUserDataAfterSwapRateMode (suB S) (cdReserve prior) er (cdUser prior)
                 rateMode txCost txTimestamp)
       in checkBoth S after expectedReserve expectedUser)))
     else if expectedResult = ''revert'' then expectRevertA (suC S) swapTx
     else returnA ()))"

definition rebalanceStableBorrowRate ::
  "('b, 'd) suite \<Rightarrow> string \<Rightarrow> string \<Rightarrow> string \<Rightarrow> string \<Rightarrow> ('d, unit) action"
where
  "rebalanceStableBorrowRate S reserveSymbol user target expectedResult =
     bindA (getReserveAddressFromSymbol (suD S) (suNetwork S) reserveSymbol) (\<lambda>reserve.
     bindA (contractsData S reserve target None) (\<lambda>prior.
     let rebalanceTx =
       callTx (suPool S) ''rebalanceStableBorrowRate'' [AAddress reserve, AAddress target] user
     in
     if expectedResult = ''success'' then
       thenA (sendA (suC S) rebalanceTx)
      (bindA (getTxCostAndTimestamp S) (\<lambda>(txCost, txTimestamp).
       bindA (contractsData S reserve target None) (\<lambda>after.
       let expectedReserve =
             calcExpectedReserveDataAfterStableRateRebalance (suB S) (suParams S) (cdReserve prior)
               (cdUser prior) txTimestamp;
           expectedUser =
             Option.bind expectedReserve (\<lambda>er.
               calcExpectedUserDataAfterStableRateRebalance (suB S) (cdReserve prior) er
                 (cdUser prior) txCost txTimestamp)
       in checkBoth S after expectedReserve expectedUser)))
     else if expectedResult = ''revert'' then expectRevertA (suC S) rebalanceTx
     else returnA ()))"

end
