(* ===== verification/ScenarioEngine.thy ===== *)
theory ScenarioEngine
  imports Actions
begin

text \<open>
  The story interpreter \<open>test-suites/test-palmy/helpers/scenario-engine.ts\<close>: a story is a list of
  actions read from JSON, each validated and dispatched to the action functions.  Missing JSON
  keys are \<open>None\<close>.
\<close>

record action_args =
  argReserve :: "string option"
  argUser :: "string option"
  argBorrowRateMode :: "string option"
  argAmount :: "string option"
  argSendValue :: "string option"
  argOnBehalfOf :: "string option"
  argToUser :: "string option"
  argTimeTravel :: "string option"
  argUseAsCollateral :: "string option"
  argTarget :: "string option"

record scenario_action =
  actionName :: "string option"
  actionArgs :: action_args
  actionExpected :: "string option"
  actionRevertMessage :: "string option"

record story =
  storyDescription :: string
  storyActions :: "scenario_action list"

record scenario =
  scenarioTitle :: string
  scenarioDescription :: string
  scenarioStories :: "story list"

subsection \<open>Standard functions\<close>

text \<open>\<open>parseInt(s)\<close>: leading blanks, a sign, then the longest run of digits; \<open>None\<close> is \<open>NaN\<close>.\<close>

fun leading_digits :: "int \<Rightarrow> string \<Rightarrow> string" where
  "leading_digits base [] = []"
| "leading_digits base (c # cs) =
     (if digit_value base c = None then [] else c # leading_digits base cs)"

definition parse_digits :: "string \<Rightarrow> int option" where
  "parse_digits s =
     (let hex = (take 2 s = ''0x'' \<or> take 2 s = ''0X'');
          base = (if hex then 16 else 10);
          ds = leading_digits base (if hex then drop 2 s else s)
      in if ds = [] then None else read_digits base 0 ds)"

definition parseInt :: "string \<Rightarrow> int option" where
  "parseInt s =
     (case dropWhile (\<lambda>c. c = CHR '' '') s of
        [] \<Rightarrow> None
      | c # cs \<Rightarrow>
          (if c = CHR ''-'' then map_option uminus (parse_digits cs)
           else if c = CHR ''+'' then parse_digits cs
           else parse_digits (c # cs)))"

text \<open>\<open>users[i]\<close>: undefined outside the array and for \<open>NaN\<close>.\<close>

definition array_get :: "'a list \<Rightarrow> int option \<Rightarrow> 'a option" where
  "array_get xs i =
     (case i of None \<Rightarrow> None
      | Some n \<Rightarrow> if 0 \<le> n \<and> n < int (length xs) then Some (xs ! nat n) else None)"

definition user_at :: "string list \<Rightarrow> string option \<Rightarrow> string option" where
  "user_at users index = Option.bind index (\<lambda>s. array_get users (parseInt s))"

subsection \<open>The interpreter\<close>

text \<open>The mode argument of a story; any other word selects an invalid mode on purpose.\<close>

definition rate_mode_argument :: "string option \<Rightarrow> string" where
  "rate_mode_argument borrowRateMode =
     (if truthy borrowRateMode then
        (if the borrowRateMode = ''none'' then RateMode_value RateNone
         else if the borrowRateMode = ''stable'' then RateMode_value RateStable
         else if the borrowRateMode = ''variable'' then RateMode_value RateVariable
         else ''4'')
      else RateMode_value RateNone)"

definition userA :: "string option \<Rightarrow> ('d, string) action" where
  "userA u = requireA ''TypeError: Cannot read property of undefined'' u"

definition amountA :: "string \<Rightarrow> string option \<Rightarrow> ('d, string) action" where
  "amountA message amount = (if truthy amount then returnA (the amount) else throwA message)"

definition dispatch ::
  "('b, 'd) suite \<Rightarrow> string list \<Rightarrow> string \<Rightarrow> action_args \<Rightarrow> string \<Rightarrow> string \<Rightarrow> string option \<Rightarrow> string \<Rightarrow>
   string option \<Rightarrow> ('d, unit) action"
where
  "dispatch S users name args reserve rateMode user expected revertMessage =
     (if name = ''mint'' then
        bindA (amountA (''Invalid amount of '' @ reserve @ '' to mint'') (argAmount args)) (\<lambda>amount.
        bindA (userA user) (\<lambda>u. mint S reserve amount u))
      else if name = ''approve'' then
        bindA (userA user) (\<lambda>u. approve S reserve u)
      else if name = ''deposit'' then
        bindA (userA (if truthy (argOnBehalfOf args) then user_at users (argOnBehalfOf args) else user))
          (\<lambda>onBehalfOf.
        bindA (amountA (''Invalid amount to deposit into the '' @ reserve @ '' reserve'') (argAmount args))
          (\<lambda>amount.
        bindA (userA user) (\<lambda>u. deposit S reserve amount u onBehalfOf (argSendValue args) expected)))
      else if name = ''delegateBorrowAllowance'' then
        bindA (userA (user_at users (argToUser args))) (\<lambda>toUser.
        bindA (amountA (''Invalid amount to deposit into the '' @ reserve @ '' reserve'') (argAmount args))
          (\<lambda>amount.
        bindA (userA user) (\<lambda>u.
          delegateBorrowAllowance S reserve amount rateMode u toUser expected revertMessage)))
      else if name = ''withdraw'' then
        bindA (amountA (''Invalid amount to withdraw from the '' @ reserve @ '' reserve'') (argAmount args))
          (\<lambda>amount.
        bindA (userA user) (\<lambda>u. withdraw S reserve amount u expected))
      else if name = ''borrow'' then
        bindA (userA (if truthy (argOnBehalfOf args) then user_at users (argOnBehalfOf args) else user))
          (\<lambda>onBehalfOf.
        bindA (amountA (''Invalid amount to borrow from the '' @ reserve @ '' reserve'') (argAmount args))
          (\<lambda>amount.
        bindA (userA user) (\<lambda>u.
          borrow S reserve amount rateMode u onBehalfOf (argTimeTravel args) expected)))
      else if name = ''repay'' then
        bindA (amountA (''Invalid amount to repay into the '' @ reserve @ '' reserve'') (argAmount args))
          (\<lambda>amount.
        bindA (userA (if truthy (argOnBehalfOf args) then user_at users (argOnBehalfOf args) else user))
          (\<lambda>onBehalfOf.
        bindA (userA user) (\<lambda>u.
          repay S reserve amount rateMode u onBehalfOf (argSendValue args) expected)))
      else if name = ''setUseAsCollateral'' then
        bindA (amountA
            (''A valid value for useAsCollateral needs to be set when calling setUseReserveAsCollateral on reserve ''
              @ reserve) (argUseAsCollateral args)) (\<lambda>useAsCollateral.
        bindA (userA user) (\<lambda>u. setUseAsCollateral S reserve u useAsCollateral expected))
      else if name = ''swapBorrowRateMode'' then
        bindA (userA user) (\<lambda>u. swapBorrowRateMode S reserve u rateMode expected)
      else if name = ''rebalanceStableBorrowRate'' then
        bindA (amountA ''A target must be selected when trying to rebalance a stable rate'' (argTarget args))
          (\<lambda>targetIndex.
        bindA (userA (user_at users (Some targetIndex))) (\<lambda>target.
        bindA (userA user) (\<lambda>u. rebalanceStableBorrowRate S reserve u target expected)))
      else throwA (''Invalid action requested: '' @ name))"

definition executeAction ::
  "('b, 'd) suite \<Rightarrow> string list \<Rightarrow> scenario_action \<Rightarrow> ('d, unit) action"
where
  "executeAction S users act =
     (let args = actionArgs act in
      if \<not> truthy (actionName act) then throwA ''Action name is missing''
      else if \<not> truthy (argReserve args) then throwA ''Invalid reserve selected for deposit''
      else if \<not> truthy (argUser args) then
        throwA (''Invalid user selected to deposit into the '' @ the (argReserve args) @ '' reserve'')
      else if \<not> truthy (actionExpected act) then
        throwA (''An expected resut for action '' @ the (actionName act) @ '' is required'')
      else
        dispatch S users (the (actionName act)) args (the (argReserve args))
          (rate_mode_argument (argBorrowRateMode args)) (user_at users (argUser args))
          (the (actionExpected act)) (actionRevertMessage act))"

definition executeStory :: "('b, 'd) suite \<Rightarrow> string list \<Rightarrow> story \<Rightarrow> ('d, unit) action" where
  "executeStory S users st = forA (storyActions st) (executeAction S users)"

end
