(* ===== verification/OracleClaims.thy ===== *)
theory OracleClaims
  imports ReserveFacts UserFacts ScenarioEngine
begin

text \<open>
  Properties of the lending oracle: what each action is expected to do to the reserve and the
  user, with a sample reserve on which every hypothesis holds.
\<close>

subsection \<open>From the facts of one side to both\<close>

context bignumber
begin

lemma reserve_after_okI:
  assumes "comparable_reserve ok e" "accrued ival r e now" "sound_reserve ival r now"
  shows "reserve_after_ok ok ival e"
proof -
  have "ray_unit \<le> value_of ival (liquidityIndex r)" using assms(3) by (simp only: sound_reserve_def)
  then have "0 < value_of ival (liquidityIndex e)"
    using liquidity_index_ge [OF assms(3)] assms(2) ray_unit_pos unfolding accrued_def by linarith
  moreover have "0 < value_of ival (variableBorrowIndex e)"
    using variable_index_pos [OF assms(3)] assms(2) unfolding accrued_def by linarith
  ultimately show ?thesis
    using assms(1) unfolding comparable_reserve_def reserve_after_ok_def by blast
qed

end

subsection \<open>A sample position\<close>

text \<open>A reserve of a million tokens, a quarter of it lent at variable and a tenth at stable rates,
  half a year after the last update, with the DAI test strategy; and one of its users.\<close>

definition sample_strategy :: IInterestRateStrategyParams where
  "sample_strategy =
   \<lparr>strategyName = ''rateStrategyStableTwo'', optimalUtilizationRate = decimal (8 * 10 ^ 26),
    baseVariableBorrowRate = decimal 0, variableRateSlope1 = decimal (4 * 10 ^ 25),
    variableRateSlope2 = decimal (75 * 10 ^ 25), stableRateSlope1 = decimal (2 * 10 ^ 25),
    stableRateSlope2 = decimal (75 * 10 ^ 25)\<rparr>"

definition sample_params :: "IReserveParams obj" where
  "sample_params =
   [(''DAI'', \<lparr>strategy = sample_strategy, baseLTVAsCollateral = ''7500'', liquidationThreshold = ''8000'',
      liquidationBonus = ''10500'', borrowingEnabled = True, stableBorrowRateEnabled = True,
      reserveDecimals = ''18'', lTokenImpl = ''LToken'', reserveFactor = decimal 1000\<rparr>)]"

definition sample_reserve :: "bnval ReserveData" where
  "sample_reserve =
   \<lparr>address = Some ''0xdai'', symbol = Some ''DAI'', decimals = Some (Fin 18),
    totalLiquidity = Some (Fin 1000000), availableLiquidity = Some (Fin 650000),
    totalStableDebt = Some (Fin 100000), totalVariableDebt = Some (Fin 250000),
    principalStableDebt = Some (Fin 100000), scaledVariableDebt = Some (Fin 240000),
    averageStableBorrowRate = Some (Fin (5 * 10 ^ 25)), variableBorrowRate = Some (Fin (3 * 10 ^ 25)),
    stableBorrowRate = Some (Fin (6 * 10 ^ 25)), utilizationRate = Some (Fin (35 * 10 ^ 25)),
    liquidityIndex = Some (Fin (102 * 10 ^ 25)), variableBorrowIndex = Some (Fin (104 * 10 ^ 25)),
    lTokenAddress = Some ''0xldai'', marketStableRate = Some (Fin (39 * 10 ^ 24)),
    lastUpdateTimestamp = Some (Fin 1600000000), totalStableDebtLastUpdated = Some (Fin 1600000000),
    liquidityRate = Some (Fin (12 * 10 ^ 24))\<rparr>"

definition sample_user :: "bnval UserReserveData" where
  "sample_user =
   \<lparr>scaledLTokenBalance = Some (Fin 5000), currentLTokenBalance = Some (Fin 5100),
    currentStableDebt = Some (Fin 1000), currentVariableDebt = Some (Fin 2080),
    principalStableDebt_u = Some (Fin 1000), scaledVariableDebt_u = Some (Fin 2000),
    liquidityRate_u = Some (Fin (12 * 10 ^ 24)), stableBorrowRate_u = Some (Fin (5 * 10 ^ 25)),
    stableRateLastUpdated = Some (Fin 1600000000), usageAsCollateralEnabled = Some True,
    walletBalance = Some (Fin 70000), variableBorrowIndex_u = None, principalVariableDebt = None\<rparr>"

definition sample_time :: bnval where "sample_time = Fin 1615768000"

lemma sample_complete:
  "complete_reserve bn_ok sample_reserve" "complete_user bn_ok sample_user" "bn_ok sample_time"
  "configured sample_params (the (symbol sample_reserve))"
  "sound_reserve bn_int sample_reserve (bn_int sample_time)"
  by (simp_all add: complete_reserve_def complete_user_def sample_reserve_def sample_user_def
      sample_time_def configured_def strategy_of_def sample_params_def sample_strategy_def
      sane_params_def sound_reserve_def ray_unit_def
      del: bn.complete_reserve_fields bn.complete_user_fields)

subsection \<open>Deposit and withdrawal\<close>

text \<open>C1: Deposit.  On a complete, sound reserve and user, the oracle's expectation exists and every
  compared field of it is present; tokens are conserved between the wallet and the pool, the user
  is credited the amount at the accrued index, a first deposit turns collateral use on, and the
  rates are the strategy's at the new totals.\<close>

theorem deposit_expectation:
  assumes "bignumber B ok ival" "complete_reserve ok r" "complete_user ok u"
    "configured params (the (symbol r))" "ok t" "sound_reserve ival r (ival t)"
    "canonical amount" "0 < num amount"
  shows "\<exists>e w. calcExpectedReserveDataAfterDeposit B params amount r t = Some e \<and>
    calcExpectedUserDataAfterDeposit B amount r e u t now txCost = Some w \<and>
    comparable_reserve ok e \<and> comparable_user ok w \<and> accrued ival r e (ival t) \<and>
    settled ival (strategy_of params (the (symbol r))) (marketStableRate r) e \<and>
    value_of ival (totalLiquidity e) = value_of ival (totalLiquidity r) + num amount \<and>
    value_of ival (availableLiquidity e) + value_of ival (walletBalance w) =
      value_of ival (availableLiquidity r) + value_of ival (walletBalance u) \<and>
    value_of ival (walletBalance w) = value_of ival (walletBalance u) - num amount \<and>
    value_of ival (currentLTokenBalance w) = user_balance_at ival r u (ival t) + num amount \<and>
    value_of ival (scaledLTokenBalance w) =
      value_of ival (scaledLTokenBalance u) + ray_div (num amount) (liquidity_index_at ival r (ival t)) \<and>
    usageAsCollateralEnabled w =
      (if value_of ival (currentLTokenBalance u) = 0 then Some True else usageAsCollateralEnabled u)"
proof -
  note bn = assms(1)
  from bignumber.deposit_reserve [OF bn assms(2,4-8)] obtain e
    where e: "calcExpectedReserveDataAfterDeposit B params amount r t = Some e"
      "comparable_reserve ok e" "accrued ival r e (ival t)"
      "settled ival (strategy_of params (the (symbol r))) (marketStableRate r) e"
      "value_of ival (totalLiquidity e) = value_of ival (totalLiquidity r) + num amount"
      "value_of ival (availableLiquidity e) = value_of ival (availableLiquidity r) + num amount"
    by blast
  have after: "reserve_after_ok ok ival e"
    by (rule bignumber.reserve_after_okI [OF bn e(2,3) assms(6)])
  from bignumber.deposit_user [OF bn assms(3,2) after assms(5,7)] e show ?thesis
    by (fastforce simp: accrued_def)
qed

theorem deposit_expectation_witness:
  "\<exists>e w. calcExpectedReserveDataAfterDeposit bn_reference sample_params (decimal 70000)
        sample_reserve sample_time = Some e \<and>
    calcExpectedUserDataAfterDeposit bn_reference (decimal 70000) sample_reserve e sample_user
        sample_time sample_time (Fin 0) = Some w \<and>
    value_of bn_int (walletBalance w) = 0 \<and> value_of bn_int (totalLiquidity e) = 1070000"
  using deposit_expectation [OF bn_reference_laws sample_complete(1,2,4,3,5),
      of "decimal 70000" sample_time "Fin 0"]
  by (auto simp: sample_user_def sample_reserve_def)

text \<open>C10: Withdrawing everything.  With the amount \<open>MAX_UINT_AMOUNT\<close> the expected balance is exactly
  zero, the collateral flag of a user who had a balance is cleared, the pool loses exactly what
  the wallet gains, and the pool stays balanced with rates settled at its totals.\<close>

theorem withdraw_all_expectation:
  assumes "bignumber B ok ival" "complete_reserve ok r" "complete_user ok u"
    "configured params (the (symbol r))" "ok t" "sound_reserve ival r (ival t)"
    "user_balance_at ival r u (ival t) \<le> value_of ival (availableLiquidity r)"
    "value_of ival (currentLTokenBalance u) \<noteq> 0"
  shows "\<exists>e w. calcExpectedReserveDataAfterWithdraw B params MAX_UINT_AMOUNT r u t = Some e \<and>
    calcExpectedUserDataAfterWithdraw B MAX_UINT_AMOUNT r e u t now txCost = Some w \<and>
    comparable_reserve ok e \<and> comparable_user ok w \<and> balanced ival e \<and>
    settled ival (strategy_of params (the (symbol r))) (marketStableRate r) e \<and>
    value_of ival (currentLTokenBalance w) = 0 \<and> usageAsCollateralEnabled w = Some False \<and>
    value_of ival (walletBalance w) =
      value_of ival (walletBalance u) + user_balance_at ival r u (ival t) \<and>
    value_of ival (availableLiquidity e) + value_of ival (walletBalance w) =
      value_of ival (availableLiquidity r) + value_of ival (walletBalance u)"
proof -
  note bn = assms(1)
  have m: "canonical MAX_UINT_AMOUNT" by (simp add: MAX_UINT_AMOUNT_decimal)
  from assms(7) have le: "amount_or MAX_UINT_AMOUNT (user_balance_at ival r u (ival t))
      \<le> value_of ival (availableLiquidity r)"
    by (simp add: amount_or_def)
  from bignumber.withdraw_reserve [OF bn assms(2-6) m le] obtain e
    where e: "calcExpectedReserveDataAfterWithdraw B params MAX_UINT_AMOUNT r u t = Some e"
      "comparable_reserve ok e" "accrued ival r e (ival t)" "balanced ival e"
      "settled ival (strategy_of params (the (symbol r))) (marketStableRate r) e"
      "value_of ival (availableLiquidity e) =
        value_of ival (availableLiquidity r) - user_balance_at ival r u (ival t)"
    by (auto simp: amount_or_def)
  have after: "reserve_after_ok ok ival e"
    by (rule bignumber.reserve_after_okI [OF bn e(2,3) assms(6)])
  from bignumber.withdraw_user [OF bn assms(3,2) after assms(5) m] e assms(8) show ?thesis
    by (fastforce simp: amount_or_def)
qed

theorem withdraw_all_expectation_witness:
  "\<exists>e w. calcExpectedReserveDataAfterWithdraw bn_reference sample_params MAX_UINT_AMOUNT
        sample_reserve sample_user sample_time = Some e \<and>
    calcExpectedUserDataAfterWithdraw bn_reference MAX_UINT_AMOUNT sample_reserve e sample_user
        sample_time sample_time (Fin 0) = Some w \<and>
    value_of bn_int (currentLTokenBalance w) = 0 \<and> usageAsCollateralEnabled w = Some False"
proof -
  have "user_balance_at bn_int sample_reserve sample_user (bn_int sample_time)
      \<le> value_of bn_int (availableLiquidity sample_reserve)"
    "value_of bn_int (currentLTokenBalance sample_user) \<noteq> 0"
    by code_simp+
  from withdraw_all_expectation [OF bn_reference_laws sample_complete(1,2,4,3,5) this,
      of sample_time "Fin 0"] show ?thesis by blast
qed

subsection \<open>Borrowing\<close>

lemma user_stable_rate_between:
  assumes "0 \<le> b" "0 \<le> n" "b + n \<noteq> 0" "0 \<le> x" "0 \<le> y"
  shows "min x y \<le> user_stable_rate b x n y" "user_stable_rate b x n y \<le> max x y"
proof -
  have pos: "0 < b + n" using assms by linarith
  have div: "user_stable_rate b x n y = (b * x + n * y) div (b + n)"
    using assms by (simp add: user_stable_rate_def sdiv_nonneg)
  have "b * min x y + n * min x y \<le> b * x + n * y" "b * x + n * y \<le> b * max x y + n * max x y"
    using assms by (intro add_mono mult_left_mono; simp)+
  then have lo: "min x y * (b + n) \<le> b * x + n * y" and hi: "b * x + n * y \<le> max x y * (b + n)"
    by (simp_all add: algebra_simps)
  show "min x y \<le> user_stable_rate b x n y"
    using div_le_mono2 zdiv_mono1 [OF lo pos] pos by (simp add: div)
  show "user_stable_rate b x n y \<le> max x y"
    using zdiv_mono1 [OF hi pos] pos by (simp add: div)
qed

lemma user_stable_nonneg:
  assumes "0 \<le> value_of ival (principalStableDebt_u u)" "0 \<le> value_of ival (stableBorrowRate_u u)"
    "value_of ival (stableRateLastUpdated u) \<le> now"
  shows "0 \<le> user_stable_at ival u now"
  using assms stable_balance_ge unfolding user_stable_at_def by (meson order_trans)

text \<open>C28: Borrowing at a stable rate.  The wallet gains what the pool's available liquidity loses, the
  user's stable debt restarts from its accrued value plus the amount, the user's new rate lies
  between the old rate and the reserve's, and the resulting pool is balanced.\<close>

theorem borrow_stable_expectation:
  assumes "bignumber B ok ival" "complete_reserve ok r" "complete_user ok u"
    "configured params (the (symbol r))" "ok t" "ok now" "ival t \<le> ival now"
    "sound_reserve ival r (ival t)" "canonical amount" "0 < num amount"
    "num amount \<le> value_of ival (availableLiquidity r)"
    "0 \<le> value_of ival (stableBorrowRate r)" "0 \<le> value_of ival (principalStableDebt_u u)"
    "0 \<le> value_of ival (stableBorrowRate_u u)" "value_of ival (stableRateLastUpdated u) \<le> ival t"
  shows "\<exists>e w. calcExpectedReserveDataAfterBorrow B params amount (RateMode_value RateStable) r u t now = Some e \<and>
    calcExpectedUserDataAfterBorrow B amount (RateMode_value RateStable) r e u t now = Some w \<and>
    comparable_reserve ok e \<and> comparable_user ok w \<and> balanced ival e \<and>
    value_of ival (walletBalance w) = value_of ival (walletBalance u) + num amount \<and>
    value_of ival (availableLiquidity e) + value_of ival (walletBalance w) =
      value_of ival (availableLiquidity r) + value_of ival (walletBalance u) \<and>
    value_of ival (principalStableDebt e) = total_stable_at ival r (ival t) + num amount \<and>
    value_of ival (principalStableDebt_u w) = user_stable_at ival u (ival t) + num amount \<and>
    min (value_of ival (stableBorrowRate_u u)) (value_of ival (stableBorrowRate r))
      \<le> value_of ival (stableBorrowRate_u w) \<and>
    value_of ival (stableBorrowRate_u w)
      \<le> max (value_of ival (stableBorrowRate_u u)) (value_of ival (stableBorrowRate r)) \<and>
    scaledVariableDebt e = scaledVariableDebt r \<and> scaledVariableDebt_u w = scaledVariableDebt_u u"
proof -
  note bn = assms(1)
  have us: "0 \<le> user_stable_at ival u (ival t)" by (rule user_stable_nonneg [OF assms(13-15)])
  then have debt: "user_stable_at ival u (ival t) + num amount \<noteq> 0" using assms(10) by linarith
  have n: "0 \<le> num amount" using assms(10) by simp
  from bignumber.borrow_stable_reserve [OF bn assms(2,4-9) n assms(11,12), of u] obtain e
    where e: "calcExpectedReserveDataAfterBorrow B params amount ''1'' r u t now = Some e"
      "comparable_reserve ok e" "accrued ival r e (ival t)" "balanced ival e"
      "lastUpdateTimestamp e = Some t"
      "value_of ival (availableLiquidity e) = value_of ival (availableLiquidity r) - num amount"
      "value_of ival (principalStableDebt e) = total_stable_at ival r (ival t) + num amount"
      "scaledVariableDebt e = scaledVariableDebt r"
    by blast
  have after: "reserve_after_ok ok ival e"
    by (rule bignumber.reserve_after_okI [OF bn e(2,3) assms(8)])
  from bignumber.borrow_stable_user [OF bn assms(3,2) after assms(5,6) e(5) assms(9) debt] obtain w
    where w: "calcExpectedUserDataAfterBorrow B amount ''1'' r e u t now = Some w"
      "comparable_user ok w"
      "value_of ival (walletBalance w) = value_of ival (walletBalance u) + num amount"
      "value_of ival (principalStableDebt_u w) = user_stable_at ival u (ival t) + num amount"
      "value_of ival (stableBorrowRate_u w) =
        user_stable_rate (user_stable_at ival u (ival t)) (value_of ival (stableBorrowRate_u u))
          (num amount) (value_of ival (stableBorrowRate r))"
      "scaledVariableDebt_u w = scaledVariableDebt_u u"
    by blast
  from user_stable_rate_between [OF us n debt assms(14,12)] e w show ?thesis by simp
qed

theorem borrow_stable_expectation_witness:
  "\<exists>e w. calcExpectedReserveDataAfterBorrow bn_reference sample_params (decimal 1000)
        (RateMode_value RateStable) sample_reserve sample_user sample_time (Fin 1615769000) = Some e \<and>
    calcExpectedUserDataAfterBorrow bn_reference (decimal 1000) (RateMode_value RateStable)
        sample_reserve e sample_user sample_time (Fin 1615769000) = Some w \<and>
    balanced bn_int e \<and> value_of bn_int (walletBalance w) = 71000"
proof -
  have hyps: "bn_ok (Fin 1615769000)" "bn_int sample_time \<le> bn_int (Fin 1615769000)"
    "0 < num (decimal 1000)" "num (decimal 1000) \<le> value_of bn_int (availableLiquidity sample_reserve)"
    "0 \<le> value_of bn_int (stableBorrowRate sample_reserve)"
    "0 \<le> value_of bn_int (principalStableDebt_u sample_user)"
    "0 \<le> value_of bn_int (stableBorrowRate_u sample_user)"
    "value_of bn_int (stableRateLastUpdated sample_user) \<le> bn_int sample_time"
    by (simp_all add: sample_time_def sample_reserve_def sample_user_def)
  from borrow_stable_expectation [OF bn_reference_laws sample_complete(1,2,4,3) hyps(1,2)
      sample_complete(5) canonical_decimal(1) hyps(3-8)]
  show ?thesis by (auto simp: sample_user_def)
qed

text \<open>C27: Borrowing at a variable rate and repaying in the same block.  Borrowing adds
  \<open>amount.rayDiv(index)\<close> to the scaled debt at the accrued index; repaying the same amount, on the
  reserve as the borrow left it, at the same timestamp, restores the scaled debt and the
  available liquidity exactly.\<close>

theorem borrow_repay_variable_roundtrip:
  assumes "bignumber B ok ival" "complete_reserve ok r" "configured params (the (symbol r))"
    "ok t" "sound_reserve ival r (ival t)"
    "canonical amount" "0 < num amount" "num amount < 2 ^ 256 - 1"
    "num amount \<le> value_of ival (availableLiquidity r)"
    and after: "complete_reserve ok r2" "complete_user ok u2" "configured params (the (symbol r2))"
      "sound_reserve ival r2 (ival t)"
      "calcExpectedReserveDataAfterBorrow B params amount (RateMode_value RateVariable) r u t t = Some e"
      "scaledVariableDebt r2 = scaledVariableDebt e" "variableBorrowIndex r2 = variableBorrowIndex e"
      "availableLiquidity r2 = availableLiquidity e" "lastUpdateTimestamp r2 = Some t"
  shows "\<exists>e2. calcExpectedReserveDataAfterRepay B params amount (RateMode_value RateVariable) r2 u2 t t = Some e2 \<and>
    value_of ival (scaledVariableDebt e) =
      value_of ival (scaledVariableDebt r) + ray_div (num amount) (variable_index_at ival r (ival t)) \<and>
    value_of ival (variableBorrowIndex e2) = value_of ival (variableBorrowIndex e) \<and>
    value_of ival (scaledVariableDebt e2) = value_of ival (scaledVariableDebt r) \<and>
    value_of ival (availableLiquidity e2) = value_of ival (availableLiquidity r) \<and>
    balanced ival e2"
proof -
  note bn = assms(1)
  have mode: "RateMode_value RateVariable \<noteq> ''1''" by simp
  have n: "0 \<le> num amount" using assms(7) by simp
  from bignumber.borrow_variable_reserve [OF bn assms(2-4,4) order_refl assms(5,6) n assms(9) mode, of u]
    after(5)
  have e: "accrued ival r e (ival t)"
      "value_of ival (availableLiquidity e) = value_of ival (availableLiquidity r) - num amount"
      "value_of ival (scaledVariableDebt e) =
        value_of ival (scaledVariableDebt r) + ray_div (num amount) (variable_index_at ival r (ival t))"
    by auto
  have idx: "value_of ival (variableBorrowIndex e) = variable_index_at ival r (ival t)"
    using e(1) by (simp add: accrued_def)
  have idx_pos: "0 < variable_index_at ival r (ival t)" by (rule variable_index_pos [OF assms(5)])
  have "value_of ival (variableBorrowIndex r2) = variable_index_at ival r (ival t)"
    using after(7) idx by simp
  then have idx2: "variable_index_at ival r2 (ival t) = variable_index_at ival r (ival t)"
    using after(9) idx_pos by (simp add: variable_index_at_def [of ival r2])
  have amount: "repay_amount (num amount) whole = num amount" for whole
    using assms(7,8) by (simp add: repay_amount_def)
  have s: "ok (bnOfString B amount)" "ival (bnOfString B amount) = num amount"
    using bignumber.of_canonical [OF bn assms(6)] by blast+
  have le: "ray_div (num amount) (variable_index_at ival r2 (ival t)) \<le> value_of ival (scaledVariableDebt r2)"
    using e(3) after(6) assms(5) idx2 by (simp add: sound_reserve_def)
  from bignumber.repay_variable_reserve [OF bn after(1-3) assms(4) after(4) s mode, of t,
      unfolded amount, OF n le] e after(6,8) idx idx2
  show ?thesis by (auto simp: accrued_def)
qed

definition sample_after_borrow :: "bnval ReserveData" where
  "sample_after_borrow =
     (let e = the (calcExpectedReserveDataAfterBorrow bn_reference sample_params (decimal 1000)
                (RateMode_value RateVariable) sample_reserve sample_user sample_time sample_time)
      in sample_reserve\<lparr>scaledVariableDebt := scaledVariableDebt e,
           variableBorrowIndex := variableBorrowIndex e, availableLiquidity := availableLiquidity e,
           lastUpdateTimestamp := Some sample_time\<rparr>)"

theorem borrow_repay_variable_roundtrip_witness:
  "\<exists>e2. calcExpectedReserveDataAfterRepay bn_reference sample_params (decimal 1000)
        (RateMode_value RateVariable) sample_after_borrow sample_user sample_time sample_time = Some e2 \<and>
    value_of bn_int (scaledVariableDebt e2) = 240000 \<and>
    value_of bn_int (availableLiquidity e2) = 650000"
proof -
  let ?borrow = "calcExpectedReserveDataAfterBorrow bn_reference sample_params (decimal 1000)
    (RateMode_value RateVariable) sample_reserve sample_user sample_time sample_time"
  have hyps: "0 < num (decimal 1000)" "num (decimal 1000) < 2 ^ 256 - 1"
    "num (decimal 1000) \<le> value_of bn_int (availableLiquidity sample_reserve)"
    by (simp_all add: sample_reserve_def)
  from bn.borrow_variable_reserve [OF sample_complete(1,4,3,3) order_refl sample_complete(5)
      canonical_decimal(1), of 1000 "RateMode_value RateVariable" sample_user]
  obtain e where e: "?borrow = Some e" "comparable_reserve bn_ok e"
      "accrued bn_int sample_reserve e (bn_int sample_time)"
      "value_of bn_int (availableLiquidity e) = 649000"
      "value_of bn_int (scaledVariableDebt e) =
        240000 + ray_div 1000 (variable_index_at bn_int sample_reserve (bn_int sample_time))"
    by (auto simp: sample_reserve_def)
  define r2 where "r2 = sample_after_borrow"
  have r2: "r2 = sample_reserve\<lparr>scaledVariableDebt := scaledVariableDebt e,
      variableBorrowIndex := variableBorrowIndex e, availableLiquidity := availableLiquidity e,
      lastUpdateTimestamp := Some sample_time\<rparr>"
    unfolding r2_def sample_after_borrow_def Let_def e(1) option.sel by (rule refl)
  have idx: "104 * 10 ^ 25 \<le> variable_index_at bn_int sample_reserve (bn_int sample_time)"
    using variable_index_ge [OF sample_complete(5)] by (simp add: sample_reserve_def)
  then have "0 \<le> ray_div 1000 (variable_index_at bn_int sample_reserve (bn_int sample_time))"
    by (intro ray_div_nonneg) simp_all
  then have after: "sound_reserve bn_int r2 (bn_int sample_time)"
    using e(3-5) idx sample_complete(5) unfolding r2 sound_reserve_def accrued_def
    by (simp add: ray_unit_def sample_time_def)
  have "complete_reserve bn_ok r2"
    using e(2) sample_complete(1,3) unfolding r2 complete_reserve_def comparable_reserve_def by simp
  moreover have "configured sample_params (the (symbol r2))" using sample_complete(4) by (simp add: r2)
  moreover have "scaledVariableDebt r2 = scaledVariableDebt e"
    "variableBorrowIndex r2 = variableBorrowIndex e"
    "availableLiquidity r2 = availableLiquidity e" "lastUpdateTimestamp r2 = Some sample_time"
    by (simp_all add: r2)
  ultimately show ?thesis
    using borrow_repay_variable_roundtrip [OF bn_reference_laws sample_complete(1,4,3,5)
      canonical_decimal(1) hyps _ sample_complete(2) _ after e(1)]
    by (fastforce simp: sample_reserve_def r2_def)
qed

subsection \<open>Repayment\<close>

lemma ray_div_ray_mul:
  assumes "0 \<le> k" "ray_unit \<le> idx"
  shows "ray_div (ray_mul k idx) idx = k"
proof (cases "idx = ray_unit")
  case True
  have "ray_unit div 2 div ray_unit = 0" by (simp add: ray_unit_def)
  then have "ray_div k ray_unit = k"
    using assms(1) by (simp add: ray_div_def fixed_div_def sdiv_nonneg)
  with True assms show ?thesis by simp
next
  case False
  with assms have idx: "ray_unit < idx" "0 < idx" using ray_unit_pos by linarith+
  define m where "m = ray_mul k idx"
  have m0: "0 \<le> m" using assms idx by (simp add: m_def)
  have lo: "2 * (k * idx) \<le> 2 * (m * ray_unit) + ray_unit" and hi: "2 * (m * ray_unit) \<le> ray_unit + 2 * (k * idx)"
    using fixed_mul_bounds [of ray_unit k idx] assms idx
    by (simp_all add: m_def ray_mul_def algebra_simps)
  have half: "2 * (idx div 2) \<le> idx" "idx \<le> 2 * (idx div 2) + 1" by linarith+
  have even: "ray_unit = 2 * (ray_unit div 2)" using ray_unit_even by simp
  have "k * idx \<le> idx div 2 + m * ray_unit"
    using lo half idx even by linarith
  moreover have "idx div 2 + m * ray_unit < k * idx + idx"
    using hi half idx by linarith
  ultimately have "(idx div 2 + m * ray_unit) div idx = k"
    using idx by (intro int_div_pos_eq [of _ _ _ "idx div 2 + m * ray_unit - idx * k"]) (simp_all add: algebra_simps)
  then show ?thesis
    using m0 idx by (simp add: ray_div_def fixed_div_def sdiv_nonneg m_def [symmetric])
qed

lemma compounded_interest_zero_rate: "compounded_interest 0 dt = ray_unit"
  by (simp add: compounded_interest_def Let_def)

lemma normalized_debt_index:
  assumes "sound_reserve ival r now" "value_of ival (totalVariableDebt r) \<noteq> 0"
  shows "normalized_debt (value_of ival (variableBorrowRate r)) (value_of ival (variableBorrowIndex r))
    (now - value_of ival (lastUpdateTimestamp r)) = variable_index_at ival r now"
proof -
  have "0 \<le> value_of ival (variableBorrowIndex r)"
    using assms(1) ray_unit_nonneg unfolding sound_reserve_def by linarith
  with assms(2) show ?thesis
    by (simp add: normalized_debt_def variable_index_at_def compounded_interest_zero_rate)
qed

text \<open>C29: Repaying all variable debt.  The action sends the amount \<open>'-1'\<close> as the hexadecimal of
  \<open>MAX_UINT_AMOUNT\<close>; the oracle then takes the user's accrued debt, which leaves exactly zero
  scaled and current variable debt (rounding cancels), moves that amount from the payer's
  wallet to the pool and leaves a balanced pool with settled rates.\<close>

theorem repay_all_variable_expectation:
  assumes "bignumber B ok ival" "complete_reserve ok r" "complete_user ok u"
    "configured params (the (symbol r))" "ok t" "sound_reserve ival r (ival t)"
    "value_of ival (totalVariableDebt r) \<noteq> 0" "0 \<le> value_of ival (scaledVariableDebt_u u)"
    "value_of ival (scaledVariableDebt_u u) \<le> value_of ival (scaledVariableDebt r)"
  shows "\<exists>e w. calcExpectedReserveDataAfterRepay B params (repayArgument B MAX_UINT_AMOUNT)
        (RateMode_value RateVariable) r u t t = Some e \<and>
    calcExpectedUserDataAfterRepay B (repayArgument B MAX_UINT_AMOUNT) (RateMode_value RateVariable)
        r e u payer payer t t = Some w \<and>
    comparable_reserve ok e \<and> comparable_user ok w \<and> balanced ival e \<and>
    settled ival (strategy_of params (the (symbol r))) (marketStableRate r) e \<and>
    value_of ival (scaledVariableDebt_u w) = 0 \<and> value_of ival (currentVariableDebt w) = 0 \<and>
    value_of ival (scaledVariableDebt e) =
      value_of ival (scaledVariableDebt r) - value_of ival (scaledVariableDebt_u u) \<and>
    value_of ival (walletBalance w) = value_of ival (walletBalance u) - user_variable_at ival r u (ival t) \<and>
    value_of ival (availableLiquidity e) + value_of ival (walletBalance w) =
      value_of ival (availableLiquidity r) + value_of ival (walletBalance u)"
proof -
  note bn = assms(1)
  have max: "ok (bnOfString B (repayArgument B MAX_UINT_AMOUNT))"
    "ival (bnOfString B (repayArgument B MAX_UINT_AMOUNT)) = 2 ^ 256 - 1"
    using bignumber.to_hex [OF bn, of "bnOfString B MAX_UINT_AMOUNT"] bignumber.of_constants [OF bn]
    by (simp_all add: repayArgument_def)
  have mode: "RateMode_value RateVariable \<noteq> ''1''" by simp
  have all: "repay_amount (2 ^ 256 - 1) whole = whole" for whole by (simp add: repay_amount_def)
  define idx where "idx = variable_index_at ival r (ival t)"
  define k where "k = value_of ival (scaledVariableDebt_u u)"
  have idx: "ray_unit \<le> idx" using variable_index_ge [OF assms(6)] assms(6)
    unfolding idx_def sound_reserve_def by linarith
  then have idx0: "0 \<le> idx" using ray_unit_nonneg by linarith
  have debt: "user_variable_at ival r u (ival t) = ray_mul k idx"
    by (simp add: user_variable_at_def normalized_debt_index [OF assms(6,7)] k_def idx_def)
  have whole: "ray_div (user_variable_at ival r u (ival t)) idx = k"
    unfolding debt by (rule ray_div_ray_mul) (use assms(8) idx in \<open>simp_all add: k_def\<close>)
  have n: "0 \<le> user_variable_at ival r u (ival t)" using idx0 assms(8) by (simp add: debt k_def)
  have le: "ray_div (user_variable_at ival r u (ival t)) (variable_index_at ival r (ival t))
      \<le> value_of ival (scaledVariableDebt r)"
    using whole assms(9) by (simp add: idx_def k_def)
  from bignumber.repay_variable_reserve [OF bn assms(2-6) max mode, of t, unfolded all, OF n le]
  obtain e where e: "calcExpectedReserveDataAfterRepay B params (repayArgument B MAX_UINT_AMOUNT)
        (RateMode_value RateVariable) r u t t = Some e"
      "comparable_reserve ok e" "accrued ival r e (ival t)" "balanced ival e"
      "settled ival (strategy_of params (the (symbol r))) (marketStableRate r) e"
      "value_of ival (availableLiquidity e) =
        value_of ival (availableLiquidity r) + user_variable_at ival r u (ival t)"
      "value_of ival (scaledVariableDebt e) = value_of ival (scaledVariableDebt r) - k"
    using whole by (auto simp: idx_def)
  have after: "reserve_after_ok ok ival e"
    by (rule bignumber.reserve_after_okI [OF bn e(2,3) assms(6)])
  have vidx: "value_of ival (variableBorrowIndex e) = idx" using e(3) by (simp add: accrued_def idx_def)
  from bignumber.repay_variable_user [OF bn assms(3,2) after assms(5,5) max mode, of payer payer,
      unfolded all vidx] whole e
  show ?thesis by (auto simp: k_def)
qed

theorem repay_all_variable_expectation_witness:
  "\<exists>e w. calcExpectedReserveDataAfterRepay bn_reference sample_params
        (repayArgument bn_reference MAX_UINT_AMOUNT) (RateMode_value RateVariable)
        sample_reserve sample_user sample_time sample_time = Some e \<and>
    calcExpectedUserDataAfterRepay bn_reference (repayArgument bn_reference MAX_UINT_AMOUNT)
        (RateMode_value RateVariable) sample_reserve e sample_user ''0xuser'' ''0xuser''
        sample_time sample_time = Some w \<and>
    value_of bn_int (scaledVariableDebt_u w) = 0 \<and> value_of bn_int (scaledVariableDebt e) = 238000"
proof -
  have hyps: "value_of bn_int (totalVariableDebt sample_reserve) \<noteq> 0"
    "0 \<le> value_of bn_int (scaledVariableDebt_u sample_user)"
    "value_of bn_int (scaledVariableDebt_u sample_user) \<le> value_of bn_int (scaledVariableDebt sample_reserve)"
    "value_of bn_int (scaledVariableDebt sample_reserve) -
      value_of bn_int (scaledVariableDebt_u sample_user) = 238000"
    by (simp_all add: sample_reserve_def sample_user_def)
  from repay_all_variable_expectation [OF bn_reference_laws sample_complete(1,2,4,3,5) hyps(1-3),
      of "''0xuser''"] show ?thesis unfolding hyps(4) by blast
qed

text \<open>C30: Repaying all stable debt on behalf of oneself.  The user's stable debt, rate and timestamp
  are reset to zero, the reserve's stable total and average rate are never negative (they are
  erased together when rounding would make them so), and tokens are conserved.\<close>

theorem repay_all_stable_expectation:
  assumes "bignumber B ok ival" "complete_reserve ok r" "complete_user ok u"
    "configured params (the (symbol r))" "ok t" "sound_reserve ival r (ival t)"
    "0 \<le> value_of ival (principalStableDebt_u u)" "0 \<le> value_of ival (stableBorrowRate_u u)"
    "value_of ival (stableRateLastUpdated u) \<le> ival t"
  shows "\<exists>e w. calcExpectedReserveDataAfterRepay B params (repayArgument B MAX_UINT_AMOUNT)
        (RateMode_value RateStable) r u t t = Some e \<and>
    calcExpectedUserDataAfterRepay B (repayArgument B MAX_UINT_AMOUNT) (RateMode_value RateStable)
        r e u payer payer t t = Some w \<and>
    comparable_reserve ok e \<and> comparable_user ok w \<and> balanced ival e \<and>
    0 \<le> value_of ival (totalStableDebt e) \<and> 0 \<le> value_of ival (averageStableBorrowRate e) \<and>
    value_of ival (currentStableDebt w) = 0 \<and> value_of ival (principalStableDebt_u w) = 0 \<and>
    value_of ival (stableBorrowRate_u w) = 0 \<and> value_of ival (stableRateLastUpdated w) = 0 \<and>
    value_of ival (walletBalance w) = value_of ival (walletBalance u) - user_stable_at ival u (ival t) \<and>
    value_of ival (availableLiquidity e) + value_of ival (walletBalance w) =
      value_of ival (availableLiquidity r) + value_of ival (walletBalance u)"
proof -
  note bn = assms(1)
  have max: "ok (bnOfString B (repayArgument B MAX_UINT_AMOUNT))"
    "ival (bnOfString B (repayArgument B MAX_UINT_AMOUNT)) = 2 ^ 256 - 1"
    using bignumber.to_hex [OF bn, of "bnOfString B MAX_UINT_AMOUNT"] bignumber.of_constants [OF bn]
    by (simp_all add: repayArgument_def)
  have all: "repay_amount (2 ^ 256 - 1) whole = whole" for whole by (simp add: repay_amount_def)
  have n: "0 \<le> user_stable_at ival u (ival t)" by (rule user_stable_nonneg [OF assms(7-9)])
  from bignumber.repay_stable_reserve [OF bn assms(2-6) max, of t, unfolded all, OF n]
  obtain e where e: "calcExpectedReserveDataAfterRepay B params (repayArgument B MAX_UINT_AMOUNT)
        ''1'' r u t t = Some e"
      "comparable_reserve ok e" "accrued ival r e (ival t)" "balanced ival e"
      "value_of ival (availableLiquidity e) =
        value_of ival (availableLiquidity r) + user_stable_at ival u (ival t)"
      "0 \<le> value_of ival (totalStableDebt e)" "0 \<le> value_of ival (averageStableBorrowRate e)"
    using remaining_stable_nonneg by auto
  have after: "reserve_after_ok ok ival e"
    by (rule bignumber.reserve_after_okI [OF bn e(2,3) assms(6)])
  from bignumber.repay_stable_user [OF bn assms(3,2) after assms(5,5) max, of payer payer,
      unfolded all] e
  show ?thesis by auto
qed

theorem repay_all_stable_expectation_witness:
  "\<exists>e w. calcExpectedReserveDataAfterRepay bn_reference sample_params
        (repayArgument bn_reference MAX_UINT_AMOUNT) (RateMode_value RateStable)
        sample_reserve sample_user sample_time sample_time = Some e \<and>
    calcExpectedUserDataAfterRepay bn_reference (repayArgument bn_reference MAX_UINT_AMOUNT)
        (RateMode_value RateStable) sample_reserve e sample_user ''0xuser'' ''0xuser''
        sample_time sample_time = Some w \<and>
    value_of bn_int (currentStableDebt w) = 0 \<and> balanced bn_int e"
proof -
  have hyps: "0 \<le> value_of bn_int (principalStableDebt_u sample_user)"
    "0 \<le> value_of bn_int (stableBorrowRate_u sample_user)"
    "value_of bn_int (stableRateLastUpdated sample_user) \<le> bn_int sample_time"
    by (simp_all add: sample_user_def sample_time_def)
  from repay_all_stable_expectation [OF bn_reference_laws sample_complete(1,2,4,3,5) hyps,
      of "''0xuser''"] show ?thesis by blast
qed

subsection \<open>Changing the rate mode\<close>



text \<open>C32: Swapping variable debt to stable.  The user's variable debt is erased, the reserve's scaled
  debt falls by exactly the user's (rounding cancels), its stable debt grows by the accrued value,
  and no token moves.\<close>

theorem swap_to_stable_expectation:
  assumes "bignumber B ok ival" "complete_reserve ok r" "complete_user ok u"
    "configured params (the (symbol r))" "ok t" "sound_reserve ival r (ival t)"
    "value_of ival (totalVariableDebt r) \<noteq> 0" "0 < value_of ival (scaledVariableDebt_u u)"
    "value_of ival (scaledVariableDebt_u u) \<le> value_of ival (scaledVariableDebt r)"
    "0 \<le> user_stable_at ival u (ival t)"
  shows "\<exists>e w. calcExpectedReserveDataAfterSwapRateMode B params r u (RateMode_value RateVariable) t = Some e \<and>
    calcExpectedUserDataAfterSwapRateMode B r e u (RateMode_value RateVariable) txCost t = Some w \<and>
    comparable_reserve ok e \<and> comparable_user ok w \<and> balanced ival e \<and>
    settled ival (strategy_of params (the (symbol r))) (marketStableRate r) e \<and>
    value_of ival (scaledVariableDebt_u w) = 0 \<and> value_of ival (currentVariableDebt w) = 0 \<and>
    value_of ival (scaledVariableDebt e) =
      value_of ival (scaledVariableDebt r) - value_of ival (scaledVariableDebt_u u) \<and>
    value_of ival (totalStableDebt e) =
      total_stable_at ival r (ival t) + user_variable_at ival r u (ival t) \<and>
    value_of ival (currentStableDebt w) =
      value_of ival (currentStableDebt u) + user_variable_at ival r u (ival t) \<and>
    availableLiquidity e = availableLiquidity r \<and> walletBalance w = walletBalance u"
proof -
  note bn = assms(1)
  have mode: "RateMode_value RateVariable \<noteq> ''1''" by simp
  define idx where "idx = variable_index_at ival r (ival t)"
  define k where "k = value_of ival (scaledVariableDebt_u u)"
  have idx: "ray_unit \<le> idx" using variable_index_ge [OF assms(6)] assms(6)
    unfolding idx_def sound_reserve_def by linarith
  have debt: "user_variable_at ival r u (ival t) = ray_mul k idx"
    by (simp add: user_variable_at_def normalized_debt_index [OF assms(6,7)] k_def idx_def)
  have kpos: "0 \<le> k" using assms(8) by (simp add: k_def)
  have whole: "ray_div (user_variable_at ival r u (ival t)) idx = k"
    unfolding debt by (rule ray_div_ray_mul [OF kpos idx])
  have le: "ray_div (user_variable_at ival r u (ival t)) (variable_index_at ival r (ival t))
      \<le> value_of ival (scaledVariableDebt r)"
    using whole assms(9) by (simp add: idx_def k_def)
  have "k \<le> user_variable_at ival r u (ival t)" unfolding debt by (rule ray_mul_ge [OF kpos idx])
  then have uv: "0 \<le> user_variable_at ival r u (ival t)"
    "user_stable_at ival u (ival t) + user_variable_at ival r u (ival t) \<noteq> 0"
    using assms(8,10) by (simp_all add: k_def)
  from bignumber.swap_variable_reserve [OF bn assms(2-6) mode uv(1) le] obtain e
    where e: "calcExpectedReserveDataAfterSwapRateMode B params r u (RateMode_value RateVariable) t = Some e"
      "comparable_reserve ok e" "accrued ival r e (ival t)" "balanced ival e"
      "settled ival (strategy_of params (the (symbol r))) (marketStableRate r) e"
      "availableLiquidity e = availableLiquidity r"
      "value_of ival (totalStableDebt e) = total_stable_at ival r (ival t) + user_variable_at ival r u (ival t)"
      "value_of ival (scaledVariableDebt e) = value_of ival (scaledVariableDebt r) - k"
    using whole by (auto simp: idx_def)
  have after: "reserve_after_ok ok ival e"
    by (rule bignumber.reserve_after_okI [OF bn e(2,3) assms(6)])
  from bignumber.swap_variable_user [OF bn assms(3,2) after assms(5) mode uv(2), of txCost] e
  show ?thesis by (auto simp: k_def)
qed

theorem swap_to_stable_expectation_witness:
  "\<exists>e w. calcExpectedReserveDataAfterSwapRateMode bn_reference sample_params sample_reserve sample_user
        (RateMode_value RateVariable) sample_time = Some e \<and>
    calcExpectedUserDataAfterSwapRateMode bn_reference sample_reserve e sample_user
        (RateMode_value RateVariable) (Fin 0) sample_time = Some w \<and>
    value_of bn_int (scaledVariableDebt e) = 238000 \<and> value_of bn_int (scaledVariableDebt_u w) = 0"
proof -
  have hyps: "value_of bn_int (totalVariableDebt sample_reserve) \<noteq> 0"
    "0 < value_of bn_int (scaledVariableDebt_u sample_user)"
    "value_of bn_int (scaledVariableDebt_u sample_user) \<le> value_of bn_int (scaledVariableDebt sample_reserve)"
    "value_of bn_int (scaledVariableDebt sample_reserve) -
      value_of bn_int (scaledVariableDebt_u sample_user) = 238000"
    by (simp_all add: sample_reserve_def sample_user_def)
  have us: "0 \<le> user_stable_at bn_int sample_user (bn_int sample_time)" by code_simp
  from swap_to_stable_expectation [OF bn_reference_laws sample_complete(1,2,4,3,5) hyps(1-3) us, of "Fin 0"]
  show ?thesis unfolding hyps(4) by blast
qed

text \<open>C33: Rebalancing a stable rate.  No token and no variable debt moves, the reserve's average rate
  is first stripped of the user's debt at the old rate and then recharged with it at the reserve's
  current rate, and the user's rate becomes that average.\<close>

theorem rebalance_expectation:
  assumes "bignumber B ok ival" "complete_reserve ok r" "complete_user ok u"
    "configured params (the (symbol r))" "ok t" "sound_reserve ival r (ival t)"
  shows "\<exists>e w. calcExpectedReserveDataAfterStableRateRebalance B params r u t = Some e \<and>
    calcExpectedUserDataAfterStableRateRebalance B r e u txCost t = Some w \<and>
    comparable_reserve ok e \<and> comparable_user ok w \<and> balanced ival e \<and> accrued ival r e (ival t) \<and>
    settled ival (strategy_of params (the (symbol r))) (marketStableRate r) e \<and>
    value_of ival (averageStableBorrowRate e) =
      rebalance_rate
        (rebalance_rate (value_of ival (averageStableBorrowRate r)) (total_stable_at ival r (ival t))
          (- user_stable_at ival u (ival t)) (value_of ival (stableBorrowRate_u u)))
        (total_stable_at ival r (ival t) - user_stable_at ival u (ival t))
        (user_stable_at ival u (ival t)) (value_of ival (stableBorrowRate r)) \<and>
    stableBorrowRate_u w = averageStableBorrowRate e \<and> stableRateLastUpdated w = Some t \<and>
    availableLiquidity e = availableLiquidity r \<and> walletBalance w = walletBalance u \<and>
    scaledVariableDebt e = scaledVariableDebt r \<and> scaledVariableDebt_u w = scaledVariableDebt_u u"
proof -
  note bn = assms(1)
  from bignumber.rebalance_reserve [OF bn assms(2-6)] obtain e
    where e: "calcExpectedReserveDataAfterStableRateRebalance B params r u t = Some e"
      "comparable_reserve ok e" "accrued ival r e (ival t)" "balanced ival e"
      "settled ival (strategy_of params (the (symbol r))) (marketStableRate r) e"
      "availableLiquidity e = availableLiquidity r" "scaledVariableDebt e = scaledVariableDebt r"
      "value_of ival (averageStableBorrowRate e) =
        rebalance_rate
          (rebalance_rate (value_of ival (averageStableBorrowRate r)) (total_stable_at ival r (ival t))
            (- user_stable_at ival u (ival t)) (value_of ival (stableBorrowRate_u u)))
          (total_stable_at ival r (ival t) - user_stable_at ival u (ival t))
          (user_stable_at ival u (ival t)) (value_of ival (stableBorrowRate r))"
    by blast
  have after: "reserve_after_ok ok ival e"
    by (rule bignumber.reserve_after_okI [OF bn e(2,3) assms(6)])
  from bignumber.rebalance_user [OF bn assms(3,2) after assms(5), of txCost] e show ?thesis by auto
qed

theorem rebalance_expectation_witness:
  "\<exists>e w. calcExpectedReserveDataAfterStableRateRebalance bn_reference sample_params sample_reserve
        sample_user sample_time = Some e \<and>
    calcExpectedUserDataAfterStableRateRebalance bn_reference sample_reserve e sample_user (Fin 0)
        sample_time = Some w \<and>
    balanced bn_int e \<and> stableBorrowRate_u w = averageStableBorrowRate e"
  using rebalance_expectation [OF bn_reference_laws sample_complete(1,2,4,3,5), of "Fin 0"] by blast

subsection \<open>Indices over time\<close>

lemma compounded_interest_mono:
  assumes "0 \<le> rate" "0 \<le> d1" "d1 \<le> d2"
  shows "compounded_interest rate d1 \<le> compounded_interest rate d2"
proof (cases "d1 = 0")
  case True
  with assms show ?thesis using compounded_interest_ge [of rate d2] by simp
next
  case False
  define rps where "rps = rate sdiv 31536000"
  define bp2 where "bp2 = ray_mul rps rps"
  define bp3 where "bp3 = ray_mul bp2 rps"
  define em2 where "em2 d = (if d > 2 then d - 2 else 0 :: int)" for d
  have nn: "0 \<le> rps" "0 \<le> bp2" "0 \<le> bp3"
    using assms by (simp_all add: rps_def bp2_def bp3_def sdiv_ge_0)
  have d: "1 \<le> d1" "1 \<le> d2" using False assms by simp_all
  have em: "0 \<le> em2 d1" "em2 d1 \<le> em2 d2" using assms by (simp_all add: em2_def)
  have expand: "compounded_interest rate d =
      ray_unit + rps * d + (d * (d - 1) * bp2) sdiv 2 + (d * (d - 1) * em2 d * bp3) sdiv 6"
    if "1 \<le> d" for d
    using that by (simp add: compounded_interest_def rps_def bp2_def bp3_def em2_def Let_def)
  have sq: "d1 * (d1 - 1) \<le> d2 * (d2 - 1)" "0 \<le> d1 * (d1 - 1)"
    using d assms by (auto intro: mult_mono)
  have "rps * d1 \<le> rps * d2" using nn assms by (simp add: mult_left_mono)
  moreover have "(d1 * (d1 - 1) * bp2) sdiv 2 \<le> (d2 * (d2 - 1) * bp2) sdiv 2"
    using sq nn by (simp add: sdiv_nonneg zdiv_mono1 mult_right_mono)
  moreover have "(d1 * (d1 - 1) * em2 d1 * bp3) sdiv 6 \<le> (d2 * (d2 - 1) * em2 d2 * bp3) sdiv 6"
  proof -
    have "0 \<le> d2 * (d2 - 1)" using sq by linarith
    then have "d1 * (d1 - 1) * em2 d1 \<le> d2 * (d2 - 1) * em2 d2"
      by (intro mult_mono [OF sq(1) em(2)] em(1))
    then have le: "d1 * (d1 - 1) * em2 d1 * bp3 \<le> d2 * (d2 - 1) * em2 d2 * bp3"
      by (rule mult_right_mono [OF _ nn(3)])
    have "0 \<le> d1 * (d1 - 1) * em2 d1 * bp3"
      using mult_nonneg_nonneg [OF mult_nonneg_nonneg [OF sq(2) em(1)] nn(3)] .
    with le show ?thesis using zdiv_mono1 [OF le, of 6] by (simp add: sdiv_nonneg)
  qed
  ultimately show ?thesis by (simp add: expand d)
qed

lemma linear_interest_mono:
  "0 \<le> rate \<Longrightarrow> 0 \<le> d1 \<Longrightarrow> d1 \<le> d2 \<Longrightarrow> linear_interest rate d1 \<le> linear_interest rate d2"
  by (simp add: linear_interest_def sdiv_nonneg zdiv_mono1 mult_left_mono)

lemma ray_mul_mono_left: "0 \<le> a \<Longrightarrow> a \<le> a' \<Longrightarrow> 0 \<le> b \<Longrightarrow> ray_mul a b \<le> ray_mul a' b"
  by (simp add: ray_mul_def fixed_mul_mono)

text \<open>C35: Both indices only grow: the expected liquidity and variable borrow indices at a time not
  before the last update are at least the stored ones, and later times give larger indices.\<close>

theorem indices_monotone:
  assumes "bignumber B ok ival" "complete_reserve ok r" "ok t1" "ok t2" "ival t1 \<le> ival t2"
    "sound_reserve ival r (ival t1)"
  shows "\<exists>l1 l2 v1 v2.
    calcExpectedLiquidityIndex B r t1 = Some l1 \<and> calcExpectedLiquidityIndex B r t2 = Some l2 \<and>
    calcExpectedVariableBorrowIndex B r t1 = Some v1 \<and> calcExpectedVariableBorrowIndex B r t2 = Some v2 \<and>
    value_of ival (liquidityIndex r) \<le> ival l1 \<and> ival l1 \<le> ival l2 \<and>
    value_of ival (variableBorrowIndex r) \<le> ival v1 \<and> ival v1 \<le> ival v2"
proof -
  note bn = assms(1)
  have s: "0 \<le> value_of ival (liquidityRate r)" "0 \<le> value_of ival (variableBorrowRate r)"
    "0 \<le> value_of ival (liquidityIndex r)" "0 \<le> value_of ival (variableBorrowIndex r)"
    "0 \<le> ival t1 - value_of ival (lastUpdateTimestamp r)"
    "ival t1 - value_of ival (lastUpdateTimestamp r) \<le> ival t2 - value_of ival (lastUpdateTimestamp r)"
    using assms(5,6) ray_unit_nonneg unfolding sound_reserve_def by linarith+
  have "0 \<le> linear_interest (value_of ival (liquidityRate r)) (ival t1 - value_of ival (lastUpdateTimestamp r))"
    "0 \<le> compounded_interest (value_of ival (variableBorrowRate r)) (ival t1 - value_of ival (lastUpdateTimestamp r))"
    using s linear_interest_ge compounded_interest_ge ray_unit_nonneg by (meson order_trans)+
  with s have "liquidity_index_at ival r (ival t1) \<le> liquidity_index_at ival r (ival t2)"
    "variable_index_at ival r (ival t1) \<le> variable_index_at ival r (ival t2)"
    by (simp_all add: liquidity_index_at_def variable_index_at_def ray_mul_mono_left
        linear_interest_mono compounded_interest_mono)
  moreover have "value_of ival (liquidityIndex r) \<le> liquidity_index_at ival r (ival t1)"
    "value_of ival (variableBorrowIndex r) \<le> variable_index_at ival r (ival t1)"
    by (rule liquidity_index_ge [OF assms(6)] variable_index_ge [OF assms(6)])+
  ultimately show ?thesis
    using bignumber.liquidity_index_spec [OF bn assms(2,3)] bignumber.liquidity_index_spec [OF bn assms(2,4)]
      bignumber.variable_index_spec [OF bn assms(2,3)] bignumber.variable_index_spec [OF bn assms(2,4)]
    by (auto simp: present_iff)
qed

theorem indices_monotone_witness:
  "\<exists>l1 l2. calcExpectedLiquidityIndex bn_reference sample_reserve sample_time = Some l1 \<and>
    calcExpectedLiquidityIndex bn_reference sample_reserve (Fin 1999999999) = Some l2 \<and>
    102 * 10 ^ 25 \<le> bn_int l1 \<and> bn_int l1 \<le> bn_int l2"
proof -
  have hyps: "bn_ok (Fin 1999999999)" "bn_int sample_time \<le> bn_int (Fin 1999999999)"
    "value_of bn_int (liquidityIndex sample_reserve) = 102 * 10 ^ 25"
    by (simp_all add: sample_time_def sample_reserve_def)
  from indices_monotone [OF bn_reference_laws sample_complete(1,3) hyps(1,2) sample_complete(5)]
  show ?thesis unfolding hyps(3) by blast
qed

end
