(* ===== verification/ContractClaims.thy ===== *)
theory ContractClaims
  imports SolidityRates OracleClaims
begin

text \<open>
  The oracle predicts what the contracts do: its fixed-point helpers, interest formulas, interest
  rate model and index updates against the contracts' 256-bit computations.  Each property
  assumes that the contract call does not revert.
\<close>

subsection \<open>Arithmetic\<close>

text \<open>C34: The fixed-point helpers agree with the contracts.  Whenever the contract's 256-bit
  operation does not revert, the BigNumber method on the same operands has the same value:
  \<open>rayMul\<close>, \<open>rayDiv\<close>, \<open>wadMul\<close>, \<open>wadDiv\<close>, \<open>percentMul\<close>, \<open>percentDiv\<close>, \<open>wadToRay\<close> and
  \<open>rayToWad\<close>.\<close>

theorem fixed_point_matches_contract:
  assumes B: "bignumber B ok ival" and x: "ok x" "ival x = uint a" and y: "ok y" "ival y = uint b"
  shows "(sol_rayMul a b = Inr c \<longrightarrow> ival (rayMul B x y) = uint c) \<and>
    (sol_rayDiv a b = Inr c \<longrightarrow> ival (rayDiv B x y) = uint c) \<and>
    (sol_wadMul a b = Inr c \<longrightarrow> ival (wadMul B x y) = uint c) \<and>
    (sol_wadDiv a b = Inr c \<longrightarrow> ival (wadDiv B x y) = uint c) \<and>
    (sol_percentMul a b = Inr c \<longrightarrow> ival (percentMul B x y) = uint c) \<and>
    (sol_percentDiv a b = Inr c \<longrightarrow> ival (percentDiv B x y) = uint c) \<and>
    (sol_wadToRay a = Inr c \<longrightarrow> ival (wadToRay B x) = uint c) \<and>
    (sol_rayToWad a = Inr c \<longrightarrow> ival (rayToWad B x) = uint c)"
proof -
  note specs = bignumber.rayMul_spec(2) [OF B] bignumber.rayDiv_spec(2) [OF B]
    bignumber.wadMul_spec(2) [OF B] bignumber.wadDiv_spec(2) [OF B]
    bignumber.percentMul_spec(2) [OF B] bignumber.percentDiv_spec(2) [OF B]
    bignumber.wadToRay_spec(2) [OF B] bignumber.rayToWad_spec(2) [OF B]
  show ?thesis using x y
    by (auto simp: specs sol_rayMul_exact sol_wadMul_exact sol_percentMul_exact sol_wadToRay_exact
        sol_rayToWad_exact dest!: sol_rayDiv_exact sol_wadDiv_exact sol_percentDiv_exact)
qed

theorem fixed_point_matches_contract_witness:
  "bn_int (rayMul bn_reference (Fin (3 * 10 ^ 27)) (Fin 5)) = 15 \<and>
   bn_int (rayDiv bn_reference (Fin (3 * 10 ^ 27)) (Fin 5)) = 6 * 10 ^ 53"
proof -
  have u: "uint (3 * 10 ^ 27 :: uint256) = 3 * 10 ^ 27" "uint (5 :: uint256) = 5" by simp_all
  have s: "sol_rayMul (3 * 10 ^ 27) 5 = Inr 15" "sol_rayDiv (3 * 10 ^ 27) 5 = Inr (6 * 10 ^ 53)"
    by code_simp+
  have p: "bn_ok (Fin (3 * 10 ^ 27))" "bn_int (Fin (3 * 10 ^ 27)) = uint (3 * 10 ^ 27 :: uint256)"
    "bn_ok (Fin 5)" "bn_int (Fin 5) = uint (5 :: uint256)"
    using u by simp_all
  have "bn_int (rayMul bn_reference (Fin (3 * 10 ^ 27)) (Fin 5)) = uint (15 :: uint256)"
    "bn_int (rayDiv bn_reference (Fin (3 * 10 ^ 27)) (Fin 5)) = uint (6 * 10 ^ 53 :: uint256)"
    using fixed_point_matches_contract [OF bn_reference_laws p] s by blast+
  then show ?thesis by simp
qed

text \<open>Accrued interest agrees with the contracts.  Whenever \<open>calculateCompoundedInterest\<close> and
  \<open>calculateLinearInterest\<close> do not revert, \<open>calcCompoundedInterest\<close> and \<open>calcLinearInterest\<close>
  have their values, for every rate and period.\<close>

theorem interest_matches_contract:
  assumes B: "bignumber B ok ival" and "ok rate" "ival rate = uint r" "ok upd" "ival upd = uint u"
    "ok now" "ival now = uint t"
  shows "(sol_calculateCompoundedInterest r u t = Inr c \<longrightarrow>
      ival (calcCompoundedInterest B rate now upd) = uint c) \<and>
    (sol_calculateLinearInterest r u t = Inr c \<longrightarrow>
      ival (calcLinearInterest B rate now upd) = uint c)"
  using assms(2-) bignumber.compounded_spec(2) [OF B] bignumber.linear_spec(2) [OF B]
  by (auto dest: sol_calculateCompoundedInterest_exact sol_calculateLinearInterest_exact)

theorem interest_matches_contract_witness:
  "bn_int (calcCompoundedInterest bn_reference (Fin (5 * 10 ^ 25)) (Fin 1631536000) (Fin 1600000000)) =
     1051270908731986166777656000 \<and>
   bn_int (calcLinearInterest bn_reference (Fin (5 * 10 ^ 25)) (Fin 1631536000) (Fin 1600000000)) =
     1050000000000000000000000000"
proof -
  have u: "uint (5 * 10 ^ 25 :: uint256) = 5 * 10 ^ 25" "uint (1600000000 :: uint256) = 1600000000"
    "uint (1631536000 :: uint256) = 1631536000"
    "uint (1051270908731986166777656000 :: uint256) = 1051270908731986166777656000"
    "uint (1050000000000000000000000000 :: uint256) = 1050000000000000000000000000" by simp_all
  have "sol_calculateCompoundedInterest (5 * 10 ^ 25) 1600000000 1631536000 =
      Inr 1051270908731986166777656000"
    "sol_calculateLinearInterest (5 * 10 ^ 25) 1600000000 1631536000 =
      Inr 1050000000000000000000000000"
    by code_simp+
  then show ?thesis
    using interest_matches_contract [OF bn_reference_laws, of "Fin (5 * 10 ^ 25)" "5 * 10 ^ 25"
        "Fin 1600000000" 1600000000 "Fin 1631536000" 1631536000] u
    by simp
qed

subsection \<open>The interest rate model\<close>

lemma utilization_of_debt: "0 \<le> l \<Longrightarrow> 0 \<le> s \<Longrightarrow> 0 \<le> v \<Longrightarrow> 0 \<le> utilization s v (l + s + v)"
  by (auto simp: utilization_def)

lemma contract_rates_close:
  assumes p: "deployed p st" "sane_params p" "small_params p"
    and sol: "sol_calculateInterestRates st m liquidity s v avg f = Inr (l, sr, vr)"
  defines "util \<equiv> utilization (uint s) (uint v) (uint liquidity + uint s + uint v)"
    and "opt \<equiv> num (optimalUtilizationRate (strategy p))"
  shows "uint sr = stable_rate_of p (uint m) util"
    "\<bar>variable_rate_of p util - uint vr\<bar> \<le> 2"
    "util = 0 \<or> opt < util \<Longrightarrow> variable_rate_of p util = uint vr"
    "variable_rate_of p util = uint vr \<Longrightarrow> num (reserveFactor p) = uint f \<Longrightarrow>
      liquidity_rate_of p util (uint s) (uint v) (uint avg) = uint l"
proof -
  note exact = sol_calculateInterestRates_exact [OF p sol, folded util_def opt_def]
  have nonneg: "0 \<le> util" by (simp add: util_def utilization_of_debt)
  have opt: "0 < opt" using p(2) by (simp add: opt_def sane_params_def)
  show "uint sr = stable_rate_of p (uint m) util" by (rule exact(1))
  have low: "\<bar>variable_rate_of p util - uint vr\<bar> \<le> 2" if "util \<le> opt"
    using rounding_order [of util "num (variableRateSlope1 (strategy p))" opt] that p(2,3) exact(3) nonneg
    by (simp add: variable_rate_of_def variable_curve_def sane_params_def small_params_def opt_def)
  then show "\<bar>variable_rate_of p util - uint vr\<bar> \<le> 2"
    using exact(2) by (cases "opt < util") simp_all
  show "variable_rate_of p util = uint vr" if "util = 0 \<or> opt < util"
    using that exact(2,3) opt by (auto simp: variable_rate_of_def variable_curve_def opt_def)
  show "liquidity_rate_of p util (uint s) (uint v) (uint avg) = uint l"
    if "variable_rate_of p util = uint vr" "num (reserveFactor p) = uint f"
    using that exact(4) by (simp add: liquidity_rate_of_def)
qed

text \<open>C8: The predicted interest rates agree with the deployed strategy.  For a configured reserve
  whose strategy contract was deployed with the configured parameters, the expected stable rate
  is exactly the contract's; the expected variable rate is exact above the optimal utilization and
  within 2 units, the tolerance of the comparison, below it (the contract multiplies before it
  divides); and whenever the variable rates agree so do the liquidity rates.\<close>

theorem rates_match_contract:
  assumes B: "bignumber B ok ival" and p: "map_of reservesParams sy = Some p" "sane_params p"
      "small_params p" "deployed p st"
    and ok: "ok mB" "ok LB" "ok sB" "ok vB" "ok aB"
    and vals: "ival mB = uint m" "ival LB = uint liquidity + uint s + uint v" "ival sB = uint s"
      "ival vB = uint v" "ival aB = uint avg" "num (reserveFactor p) = uint f"
    and sol: "sol_calculateInterestRates st m liquidity s v avg f = Inr (l, sr, vr)"
  shows "\<exists>lB srB vrB. calcExpectedInterestRates B reservesParams sy mB
      (calcExpectedUtilizationRate B sB vB LB) sB vB aB = Some [lB, srB, vrB] \<and>
    ival srB = uint sr \<and> \<bar>ival vrB - uint vr\<bar> \<le> 2 \<and>
    (num (optimalUtilizationRate (strategy p)) < utilization (uint s) (uint v) (ival LB) \<longrightarrow>
      ival vrB = uint vr) \<and>
    (ival vrB = uint vr \<longrightarrow> ival lB = uint l)"
proof -
  define util where "util = utilization (uint s) (uint v) (uint liquidity + uint s + uint v)"
  define opt where "opt = num (optimalUtilizationRate (strategy p))"
  have "ival LB \<noteq> 0 \<or> ival sB = 0 \<and> ival vB = 0"
    using vals uint_ge_0 [of liquidity] uint_ge_0 [of s] uint_ge_0 [of v] by linarith
  with bignumber.utilization_spec [OF B ok(3,4,2)] vals
  have u: "ok (calcExpectedUtilizationRate B sB vB LB)" "ival (calcExpectedUtilizationRate B sB vB LB) = util"
    by (simp_all add: util_def)
  from bignumber.rates_spec [OF B p(1,2) ok(1) u(1) ok(3-5)] obtain lB srB vrB where
    r: "calcExpectedInterestRates B reservesParams sy mB (calcExpectedUtilizationRate B sB vB LB)
        sB vB aB = Some [lB, srB, vrB]"
      "ival lB = liquidity_rate_of p util (uint s) (uint v) (uint avg)"
      "ival srB = stable_rate_of p (uint m) util" "ival vrB = variable_rate_of p util"
    using vals u(2) by auto
  note close = contract_rates_close [OF p(4,2,3) sol, folded util_def opt_def]
  have "\<bar>ival vrB - uint vr\<bar> \<le> 2" "opt < util \<Longrightarrow> ival vrB = uint vr"
    "ival vrB = uint vr \<Longrightarrow> ival lB = uint l"
    using close vals(6) r(2,4) by simp_all
  then show ?thesis
    using r close(1) vals(2) by (auto simp: util_def opt_def)
qed

theorem rates_match_contract_witness:
  "\<exists>lB srB vrB. calcExpectedInterestRates bn_reference sample_params ''DAI'' (Fin (39 * 10 ^ 24))
      (calcExpectedUtilizationRate bn_reference (Fin 100) (Fin 250) (Fin 1000)) (Fin 100) (Fin 250)
      (Fin (5 * 10 ^ 25)) = Some [lB, srB, vrB] \<and>
    bn_int srB = 47750000000000000000000000 \<and> \<bar>bn_int vrB - 17500000000000000000000000\<bar> \<le> 2"
proof -
  define st where "st = \<lparr>OPTIMAL_UTILIZATION_RATE = 8 * 10 ^ 26, EXCESS_UTILIZATION_RATE = 2 * 10 ^ 26,
     sol_baseVariableBorrowRate = 0, sol_variableRateSlope1 = 4 * 10 ^ 25,
     sol_variableRateSlope2 = 75 * 10 ^ 25, sol_stableRateSlope1 = 2 * 10 ^ 25,
     sol_stableRateSlope2 = 75 * 10 ^ 25\<rparr>"
  have p: "map_of sample_params ''DAI'' = Some (strategy_of sample_params ''DAI'')"
    "sane_params (strategy_of sample_params ''DAI'')" "small_params (strategy_of sample_params ''DAI'')"
    "num (reserveFactor (strategy_of sample_params ''DAI'')) = uint (1000 :: uint256)"
    by (simp_all add: sample_params_def strategy_of_def sample_strategy_def sane_params_def
        small_params_def ray_unit_def)
  have d: "deployed (strategy_of sample_params ''DAI'') st"
    by (simp add: deployed_def sample_params_def strategy_of_def sample_strategy_def st_def
        sol_constructor_def sol_sub_def andThen_def require_def sol_RAY_def word_le_def)
  have sol: "sol_calculateInterestRates st (39 * 10 ^ 24) 650 100 250 (5 * 10 ^ 25) 1000 =
      Inr (8437500000000000000000000, 47750000000000000000000000, 17500000000000000000000000)"
    unfolding st_def by code_simp
  have u: "uint (39 * 10 ^ 24 :: uint256) = 39 * 10 ^ 24" "uint (5 * 10 ^ 25 :: uint256) = 5 * 10 ^ 25" by simp_all
  show ?thesis
    using rates_match_contract [OF bn_reference_laws p(1-3) d _ _ _ _ _ _ _ _ _ _ p(4) sol,
        of "Fin (39 * 10 ^ 24)" "Fin 1000" "Fin 100" "Fin 250" "Fin (5 * 10 ^ 25)"] u
    by fastforce
qed

subsection \<open>The index update\<close>

text \<open>The contract's reserve holds the values the oracle's record holds, there is variable debt when
  there is scaled debt, and no income means no debt: the cases in which the oracle's conditions
  (utilization, total variable debt) are the contract's (liquidity rate, scaled debt).\<close>

definition on_chain :: "('b \<Rightarrow> int) \<Rightarrow> 'b ReserveData \<Rightarrow> 'r sol_reserve_scheme \<Rightarrow> uint256 \<Rightarrow> bool" where
  "on_chain ival r s scaled \<longleftrightarrow>
     value_of ival (liquidityIndex r) = uint (sol_liquidityIndex s) \<and>
     value_of ival (variableBorrowIndex r) = uint (sol_variableBorrowIndex s) \<and>
     value_of ival (liquidityRate r) = uint (sol_currentLiquidityRate s) \<and>
     value_of ival (variableBorrowRate r) = uint (sol_currentVariableBorrowRate s) \<and>
     value_of ival (lastUpdateTimestamp r) = uint (sol_lastUpdateTimestamp s) \<and>
     (value_of ival (totalVariableDebt r) = 0 \<longleftrightarrow> scaled = 0) \<and>
     (value_of ival (utilizationRate r) = 0 \<longleftrightarrow> value_of ival (liquidityRate r) = 0) \<and>
     (value_of ival (liquidityRate r) = 0 \<longrightarrow> value_of ival (totalVariableDebt r) = 0)"

lemma uint_ucast_up: "LENGTH('a) \<le> LENGTH('b) \<Longrightarrow> uint (ucast (w :: 'a::len word) :: 'b::len word) = uint w"
  by (simp add: unsigned_ucast_eq take_bit_int_eq_self order_less_le_trans [OF uint_lt2p])

lemma uint_ucast_fits:
  "(w :: uint256) \<le> ucast (- 1 :: 128 word) \<Longrightarrow> uint (ucast w :: 128 word) = uint w"
  by (simp add: unsigned_ucast_eq word_le_def uint_word_ariths take_bit_int_eq_self)

lemma updateIndexes_exact:
  assumes chain: "on_chain ival r s scaled"
    and sol: "sol_updateIndexes t s scaled (ucast (sol_liquidityIndex s))
      (ucast (sol_variableBorrowIndex s)) (sol_lastUpdateTimestamp s) = Inr (s', li, vi)"
  shows "liquidity_index_at ival r (uint t) = uint li \<and> variable_index_at ival r (uint t) = uint vi \<and>
    uint (sol_liquidityIndex s') = uint li \<and> uint (sol_variableBorrowIndex s') = uint vi"
proof -
  note up = uint_ucast_up [where 'a = 128 and 'b = 256, simplified]
    uint_ucast_up [where 'a = 40 and 'b = 256, simplified]
  have scaled: "value_of ival (totalVariableDebt r) = 0 \<longleftrightarrow> scaled = 0"
    using chain by (simp only: on_chain_def)
  show ?thesis
  proof (cases "sol_currentLiquidityRate s = 0")
    case True
    then have "value_of ival (utilizationRate r) = 0" "value_of ival (totalVariableDebt r) = 0"
      using chain by (auto simp: on_chain_def)
    moreover from True sol have "s' = s\<lparr>sol_lastUpdateTimestamp := ucast t\<rparr>"
      "li = ucast (sol_liquidityIndex s)" "vi = ucast (sol_variableBorrowIndex s)"
      by (simp_all add: sol_updateIndexes_def)
    ultimately show ?thesis
      using chain by (simp add: liquidity_index_at_def variable_index_at_def on_chain_def up)
  next
    case False
    then have util: "value_of ival (utilizationRate r) \<noteq> 0"
      using chain by (auto simp: on_chain_def uint_0_iff [where 'a = 128])
    show ?thesis
    proof (cases "scaled = 0")
      case True
      with False sol chain util scaled show ?thesis
        by (auto simp: sol_updateIndexes_def liquidity_index_at_def variable_index_at_def
            on_chain_def up uint_ucast_fits word_neq_0_conv Let_def
            dest!: sol_calculateLinearInterest_exact sol_rayMul_exact)
    next
      case nz: False
      with False sol chain util scaled show ?thesis
        by (auto simp: sol_updateIndexes_def liquidity_index_at_def variable_index_at_def
            on_chain_def up uint_ucast_fits word_neq_0_conv Let_def
            dest!: sol_calculateLinearInterest_exact sol_calculateCompoundedInterest_exact sol_rayMul_exact)
    qed
  qed
qed


definition sample_chain :: sol_reserve where
  "sample_chain =
   \<lparr>sol_liquidityIndex = 102 * 10 ^ 25, sol_variableBorrowIndex = 104 * 10 ^ 25,
    sol_currentLiquidityRate = 12 * 10 ^ 24, sol_currentVariableBorrowRate = 3 * 10 ^ 25,
    sol_lastUpdateTimestamp = 1600000000\<rparr>"


end
