(* ===== verification/PoolFacts.thy ===== *)
theory PoolFacts
  imports PoolActions ContractClaims
begin

text \<open>
  What a user's operation does to a reserve, as integers: accruing and settling the rates keep the
  tokens of the reserve, the indices and rates after them are the ones of the interest model, and
  what the data provider answers afterwards follows.
\<close>

subsection \<open>Words of different widths\<close>

lemmas uint_up = uint_ucast_up [where 'a = 128 and 'b = 256, simplified]
  uint_ucast_up [where 'a = 40 and 'b = 256, simplified]

lemma uint_ucast_time: "uint (t :: uint256) < 2 ^ 40 \<Longrightarrow> uint (ucast t :: 40 word) = uint t"
  by (simp add: unsigned_ucast_eq take_bit_int_eq_self)

lemma time_eq_iff:
  "uint (t :: uint256) < 2 ^ 40 \<Longrightarrow> (s :: 40 word) = ucast t \<longleftrightarrow> uint s = uint t"
  by (metis uint_ucast_time word_uint_eqI)

lemma sol_sub_or_exact: "sol_sub_or e a b = Inr c \<Longrightarrow> uint b \<le> uint a \<and> uint c = uint a - uint b"
  by (auto simp: sol_sub_or_def uint_sub_exact word_le_def)

lemma sol_mint_other: "sol_mint t account n = Inr t' \<Longrightarrow> user \<noteq> account \<Longrightarrow> sol_balances t' user = sol_balances t user"
  by (auto simp: sol_mint_def)

lemma sol_mint_account:
  "sol_mint t account n = Inr t' \<Longrightarrow> uint (sol_balances t' account) = uint (sol_balances t account) + uint n"
  by (auto simp: sol_mint_def sol_add_exact)

subsection \<open>Accruing and settling\<close>

lemma sol_mintToTreasury_keeps:
  assumes "sol_mintToTreasury E m s p l v t = Inr m'"
  shows "mrData m' = mrData m \<and> mrStrategy m' = mrStrategy m \<and> mrStable m' = mrStable m \<and>
    mrVariable m' = mrVariable m \<and> mrAsset m' = mrAsset m \<and> mrTreasury m' = mrTreasury m \<and>
    (\<forall>user. user \<noteq> mrTreasury m \<longrightarrow> sol_balances (mrLToken m') user = sol_balances (mrLToken m) user)"
proof -
  have lToken: "sol_mintToTreasury_lToken m a l = Inr m' \<Longrightarrow> ?thesis" for a
    by (auto simp: sol_mintToTreasury_lToken_def sol_mint_other split: if_splits)
  from assms show ?thesis
    by (auto simp: sol_mintToTreasury_def Let_def split: if_splits dest: lToken)
qed

text \<open>The fields of a reserve that accruing does not touch.\<close>

definition same_static :: "reserve_data \<Rightarrow> reserve_data \<Rightarrow> bool" where
  "same_static r s \<longleftrightarrow>
     sol_configuration s = sol_configuration r \<and> sol_lTokenAddress s = sol_lTokenAddress r \<and> sol_id s = sol_id r"

lemma sol_updateIndexes_rates:
  assumes "sol_updateIndexes t r s i v u = Inr (r', li, vi)"
  shows "sol_currentLiquidityRate r' = sol_currentLiquidityRate r"
    "sol_currentVariableBorrowRate r' = sol_currentVariableBorrowRate r"
    "sol_reserve.more r' = sol_reserve.more r" "sol_lastUpdateTimestamp r' = ucast t"
  using assms by (auto simp: sol_updateIndexes_def Let_def split: if_splits)

lemma reserve_more_static:
  fixes r s :: reserve_data
  assumes "sol_reserve.more s = sol_reserve.more r"
  shows "same_static r s \<and> sol_currentStableBorrowRate s = sol_currentStableBorrowRate r"
  using assms by (cases r; cases s) (simp add: same_static_def)

lemma sol_updateState_keeps:
  assumes "sol_updateState E m = Inr m'"
  shows "mrStrategy m' = mrStrategy m \<and> mrStable m' = mrStable m \<and> mrVariable m' = mrVariable m \<and>
    mrAsset m' = mrAsset m \<and> mrTreasury m' = mrTreasury m \<and> same_static (mrData m) (mrData m') \<and>
    (\<forall>user. user \<noteq> mrTreasury m \<longrightarrow> sol_balances (mrLToken m') user = sol_balances (mrLToken m) user) \<and>
    (\<exists>li vi. sol_updateIndexes (blockTimestamp E) (mrData m) (sol_totalSupply (mrVariable m))
       (ucast (sol_liquidityIndex (mrData m))) (ucast (sol_variableBorrowIndex (mrData m)))
       (sol_lastUpdateTimestamp (mrData m)) = Inr (mrData m', li, vi))"
proof -
  from assms obtain r' li vi where
    i: "sol_updateIndexes (blockTimestamp E) (mrData m) (sol_totalSupply (mrVariable m))
       (ucast (sol_liquidityIndex (mrData m))) (ucast (sol_variableBorrowIndex (mrData m)))
       (sol_lastUpdateTimestamp (mrData m)) = Inr (r', li, vi)"
    and t: "sol_mintToTreasury E (m\<lparr>mrData := r'\<rparr>) (sol_totalSupply (mrVariable m))
       (ucast (sol_variableBorrowIndex (mrData m))) li vi (sol_lastUpdateTimestamp (mrData m)) = Inr m'"
    by (auto simp: sol_updateState_def Let_def)
  show ?thesis
    using sol_mintToTreasury_keeps [OF t] i reserve_more_static [OF sol_updateIndexes_rates(3) [OF i]] by auto
qed

lemma sol_updateInterestRates_result:
  assumes "sol_updateInterestRates E asset m a k = Inr m'"
  obtains s v liq l sr vr where
    "sol_calcTotalSupply E (mrStable m) (sol_avgStableRate (mrStable m)) = Inr s"
    "sol_rayMul (sol_totalSupply (mrVariable m)) (ucast (sol_variableBorrowIndex (mrData m))) = Inr v"
    "uint liq = uint (sol_balances (mrAsset m) (sol_lTokenAddress (mrData m))) + uint a - uint k"
    "sol_calculateInterestRates (mrStrategy m) (marketBorrowRate E asset) liq s v
      (sol_avgStableRate (mrStable m)) (sol_getReserveFactor (sol_configuration (mrData m))) = Inr (l, sr, vr)"
    "m' = m\<lparr>mrData := (mrData m)\<lparr>sol_currentLiquidityRate := ucast l,
       sol_currentStableBorrowRate := ucast sr, sol_currentVariableBorrowRate := ucast vr\<rparr>\<rparr>"
    "uint (ucast l :: 128 word) = uint l" "uint (ucast sr :: 128 word) = uint sr"
    "uint (ucast vr :: 128 word) = uint vr"
  using assms
  by (auto simp: sol_updateInterestRates_def sol_calculateInterestRatesAt_def Let_def uint_ucast_fits
      dest!: sol_add_exact sol_sub_exact)

subsection \<open>What is read from a reserve\<close>

text \<open>The record of the readers holds what the contracts answer at the time of \<open>E\<close>.\<close>

definition reads_reserve ::
  "sol_env \<Rightarrow> address \<Rightarrow> market_reserve \<Rightarrow> ('b \<Rightarrow> int) \<Rightarrow> 'b ReserveData \<Rightarrow> bool" where
  "reads_reserve E asset m ival r \<longleftrightarrow>
     (\<exists>s v. sol_calcTotalSupply E (mrStable m) (sol_avgStableRate (mrStable m)) = Inr s \<and>
        sol_variable_totalSupply E m = Inr v \<and>
        value_of ival (totalStableDebt r) = uint s \<and> value_of ival (totalVariableDebt r) = uint v) \<and>
     value_of ival (availableLiquidity r) = uint (sol_balances (mrAsset m) (sol_lTokenAddress (mrData m))) \<and>
     value_of ival (totalLiquidity r) = value_of ival (availableLiquidity r) +
       value_of ival (totalStableDebt r) + value_of ival (totalVariableDebt r) \<and>
     value_of ival (utilizationRate r) = utilization (value_of ival (totalStableDebt r))
       (value_of ival (totalVariableDebt r)) (value_of ival (totalLiquidity r)) \<and>
     value_of ival (liquidityRate r) = uint (sol_currentLiquidityRate (mrData m)) \<and>
     value_of ival (variableBorrowRate r) = uint (sol_currentVariableBorrowRate (mrData m)) \<and>
     value_of ival (stableBorrowRate r) = uint (sol_currentStableBorrowRate (mrData m)) \<and>
     value_of ival (averageStableBorrowRate r) = uint (sol_avgStableRate (mrStable m)) \<and>
     value_of ival (liquidityIndex r) = uint (sol_liquidityIndex (mrData m)) \<and>
     value_of ival (variableBorrowIndex r) = uint (sol_variableBorrowIndex (mrData m)) \<and>
     value_of ival (lastUpdateTimestamp r) = uint (sol_lastUpdateTimestamp (mrData m)) \<and>
     value_of ival (principalStableDebt r) = uint (sol_totalSupply (mrStable m)) \<and>
     value_of ival (totalStableDebtLastUpdated r) = uint (sol_totalSupplyTimestamp (mrStable m)) \<and>
     value_of ival (scaledVariableDebt r) = uint (sol_totalSupply (mrVariable m)) \<and>
     value_of ival (marketStableRate r) = uint (marketBorrowRate E asset)"

text \<open>The answers the readers get are the contracts'.\<close>

definition answers_reserve ::
  "readers_api \<Rightarrow> tx list \<Rightarrow> string \<Rightarrow> string \<Rightarrow> sol_env \<Rightarrow> address \<Rightarrow> market_reserve \<Rightarrow> bool" where
  "answers_reserve R ts helper reserve E asset m \<longleftrightarrow>
     (let tokens = rdTokens R ts helper reserve in
      sol_getReserveData E m = Inr (rdReserveData R ts helper reserve) \<and>
      rdPrincipalSupply R ts (stableDebtTokenOf tokens) = sol_totalSupply (mrStable m) \<and>
      rdSupplyLastUpdated R ts (stableDebtTokenOf tokens) = unat (sol_totalSupplyTimestamp (mrStable m)) \<and>
      rdScaledTotalSupply R ts (variableDebtTokenOf tokens) = sol_totalSupply (mrVariable m) \<and>
      (\<forall>rateOracle. rdMarketBorrowRate R ts rateOracle reserve = marketBorrowRate E asset))"

context bignumber
begin

lemma getReserveData_reads:
  assumes r: "getReserveData B R D network helper reserve w = (Inr r, w')"
    and a: "answers_reserve R (sent w) helper reserve E asset m"
  shows "reads_reserve E asset m ival r"
proof -
  from a obtain s v where sv: "sol_calcTotalSupply E (mrStable m) (sol_avgStableRate (mrStable m)) = Inr s"
    "sol_variable_totalSupply E m = Inr v"
    by (auto simp: answers_reserve_def Let_def sol_getReserveData_def)
  note c = getReserveData_complete [OF r]
  define raw where "raw = rdReserveData R (sent w) helper reserve"
  have raw: "Inr raw = sol_getReserveData E m" using a by (simp add: raw_def answers_reserve_def Let_def)
  then have raw_fields: "rawAvailableLiquidity raw = sol_balances (mrAsset m) (sol_lTokenAddress (mrData m))"
    "rawTotalStableDebt raw = s" "rawTotalVariableDebt raw = v"
    "uint (rawLiquidityRate raw) = uint (sol_currentLiquidityRate (mrData m))"
    "uint (rawVariableBorrowRate raw) = uint (sol_currentVariableBorrowRate (mrData m))"
    "uint (rawStableBorrowRate raw) = uint (sol_currentStableBorrowRate (mrData m))"
    "rawAverageStableBorrowRate raw = sol_avgStableRate (mrStable m)"
    "uint (rawLiquidityIndex raw) = uint (sol_liquidityIndex (mrData m))"
    "uint (rawVariableBorrowIndex raw) = uint (sol_variableBorrowIndex (mrData m))"
    "int (rawLastUpdateTimestamp raw) = uint (sol_lastUpdateTimestamp (mrData m))"
    using sv by (simp_all add: sol_getReserveData_def Let_def uint_up)
  have "value_of ival (totalStableDebt r) = uint (rawTotalStableDebt raw) \<and>
    value_of ival (totalVariableDebt r) = uint (rawTotalVariableDebt raw) \<and>
    value_of ival (availableLiquidity r) = uint (rawAvailableLiquidity raw) \<and>
    value_of ival (liquidityRate r) = uint (rawLiquidityRate raw) \<and>
    value_of ival (variableBorrowRate r) = uint (rawVariableBorrowRate raw) \<and>
    value_of ival (stableBorrowRate r) = uint (rawStableBorrowRate raw) \<and>
    value_of ival (averageStableBorrowRate r) = uint (rawAverageStableBorrowRate raw) \<and>
    value_of ival (liquidityIndex r) = uint (rawLiquidityIndex raw) \<and>
    value_of ival (variableBorrowIndex r) = uint (rawVariableBorrowIndex raw) \<and>
    value_of ival (lastUpdateTimestamp r) = int (rawLastUpdateTimestamp raw) \<and>
    value_of ival (principalStableDebt r) = uint (sol_totalSupply (mrStable m)) \<and>
    value_of ival (totalStableDebtLastUpdated r) = uint (sol_totalSupplyTimestamp (mrStable m)) \<and>
    value_of ival (scaledVariableDebt r) = uint (sol_totalSupply (mrVariable m)) \<and>
    value_of ival (marketStableRate r) = uint (marketBorrowRate E asset)"
    using r a unfolding raw_def
    by (auto simp: getReserveData_def bindA_Inr requireA_Inr Let_def answers_reserve_def)
  with c raw_fields sv show ?thesis unfolding reads_reserve_def by auto
qed

end

text \<open>A reserve whose indices are at least one ray and whose timestamps are not in the future.\<close>

definition initialised :: "uint256 \<Rightarrow> market_reserve \<Rightarrow> bool" where
  "initialised now m \<longleftrightarrow>
     ray_unit \<le> uint (sol_liquidityIndex (mrData m)) \<and> ray_unit \<le> uint (sol_variableBorrowIndex (mrData m)) \<and>
     uint (sol_lastUpdateTimestamp (mrData m)) \<le> uint now \<and>
     uint (sol_totalSupplyTimestamp (mrStable m)) \<le> uint now \<and> uint now < 2 ^ 40"

lemma reads_sound:
  assumes "reads_reserve E asset m ival r" "initialised now m"
  shows "sound_reserve ival r (uint now)"
proof -
  have "0 \<le> value_of ival (totalLiquidity r)" using assms(1) by (auto simp: reads_reserve_def)
  with assms show ?thesis by (auto simp: reads_reserve_def initialised_def sound_reserve_def)
qed

lemma calcTotalSupply_exact:
  assumes "sol_calcTotalSupply E t avg = Inr s"
  shows "uint s = total_stable (uint (sol_totalSupply t)) (uint avg)
    (uint (blockTimestamp E) - uint (sol_totalSupplyTimestamp t))"
  using assms
  by (auto simp: sol_calcTotalSupply_def Let_def total_stable_def uint_up ray_mul_def fixed_mul_commute
      dest!: sol_calculateCompoundedInterest_exact sol_rayMul_exact split: if_splits)

lemma normalizedDebt_ge:
  assumes "sol_getNormalizedDebt E r = Inr d" "ray_unit \<le> uint (sol_variableBorrowIndex r)"
  shows "ray_unit \<le> uint d"
proof (cases "sol_lastUpdateTimestamp r = ucast (blockTimestamp E)")
  case True
  with assms show ?thesis by (auto simp: sol_getNormalizedDebt_def uint_up)
next
  case False
  with assms(1) obtain i where "sol_calculateCompoundedInterest (ucast (sol_currentVariableBorrowRate r))
      (ucast (sol_lastUpdateTimestamp r)) (blockTimestamp E) = Inr i"
    "sol_rayMul i (ucast (sol_variableBorrowIndex r)) = Inr d"
    by (auto simp: sol_getNormalizedDebt_def Let_def)
  from sol_calculateCompoundedInterest_exact [OF this(1)] sol_rayMul_exact [OF this(2)]
  have i: "ray_unit \<le> uint i" "uint d = ray_mul (uint i) (uint (sol_variableBorrowIndex r))"
    using compounded_interest_ge by (auto simp: uint_up)
  from ray_mul_ge [of "uint i" "uint (sol_variableBorrowIndex r)"] assms(2) i show ?thesis by simp
qed

lemma variable_supply_zero:
  assumes "sol_variable_totalSupply E m = Inr v" "ray_unit \<le> uint (sol_variableBorrowIndex (mrData m))"
  shows "uint v = 0 \<longleftrightarrow> sol_totalSupply (mrVariable m) = 0"
proof -
  from assms(1) obtain d where d: "sol_getNormalizedDebt E (mrData m) = Inr d"
    "sol_rayMul (sol_totalSupply (mrVariable m)) d = Inr v"
    by (auto simp: sol_variable_totalSupply_def)
  note ge = normalizedDebt_ge [OF d(1) assms(2)]
  have "uint (sol_totalSupply (mrVariable m)) \<le> uint v"
    using ray_mul_ge [OF _ ge] sol_rayMul_exact [OF d(2)] by simp
  moreover have "uint v = 0" if "uint (sol_totalSupply (mrVariable m)) = 0"
    using that sol_rayMul_exact [OF d(2)] by simp
  ultimately show ?thesis
    using uint_ge_0 [of "sol_totalSupply (mrVariable m)"] by (auto simp del: uint_ge_0)
qed

subsection \<open>The reserve after an operation\<close>

text \<open>The cases in which the oracle's conditions for accruing are the contract's.\<close>

definition earning :: "('b \<Rightarrow> int) \<Rightarrow> 'b ReserveData \<Rightarrow> bool" where
  "earning ival r \<longleftrightarrow>
     (value_of ival (utilizationRate r) = 0 \<longleftrightarrow> value_of ival (liquidityRate r) = 0) \<and>
     (value_of ival (liquidityRate r) = 0 \<longrightarrow> value_of ival (totalVariableDebt r) = 0)"

text \<open>The strategy contract has the configured parameters, and the reserve the configured factor.\<close>

definition configured_as :: "IReserveParams \<Rightarrow> market_reserve \<Rightarrow> bool" where
  "configured_as ps m \<longleftrightarrow>
     sane_params ps \<and> small_params ps \<and> deployed ps (mrStrategy m) \<and>
     num (reserveFactor ps) = uint (sol_getReserveFactor (sol_configuration (mrData m)))"

text \<open>A reserve as it is read after accruing, moving liquidity and settling the rates: debts and indices
  at the time of the transaction and the rates of the strategy, the variable one within 2 units.\<close>

definition moved_to ::
  "('b \<Rightarrow> int) \<Rightarrow> IReserveParams \<Rightarrow> 'b ReserveData \<Rightarrow> int \<Rightarrow> int \<Rightarrow> 'b ReserveData \<Rightarrow> bool" where
  "moved_to ival ps r now delta r' \<longleftrightarrow>
     (let s = total_stable_at ival r now;
          v = ray_mul (value_of ival (scaledVariableDebt r)) (variable_index_at ival r now);
          a = value_of ival (availableLiquidity r) + delta;
          util = utilization s v (a + s + v); vr = variable_rate_of ps util
      in value_of ival (liquidityIndex r') = liquidity_index_at ival r now \<and>
         value_of ival (variableBorrowIndex r') = variable_index_at ival r now \<and>
         value_of ival (totalStableDebt r') = s \<and> value_of ival (totalVariableDebt r') = v \<and>
         value_of ival (availableLiquidity r') = a \<and> value_of ival (totalLiquidity r') = a + s + v \<and>
         value_of ival (utilizationRate r') = util \<and>
         value_of ival (stableBorrowRate r') = stable_rate_of ps (value_of ival (marketStableRate r)) util \<and>
         \<bar>vr - value_of ival (variableBorrowRate r')\<bar> \<le> 2 \<and>
         (util = 0 \<or> num (optimalUtilizationRate (strategy ps)) < util \<longrightarrow>
            value_of ival (variableBorrowRate r') = vr) \<and>
         (value_of ival (variableBorrowRate r') = vr \<longrightarrow>
            value_of ival (liquidityRate r') =
              liquidity_rate_of ps util s v (value_of ival (averageStableBorrowRate r))) \<and>
         value_of ival (principalStableDebt r') = value_of ival (principalStableDebt r) \<and>
         value_of ival (scaledVariableDebt r') = value_of ival (scaledVariableDebt r) \<and>
         value_of ival (averageStableBorrowRate r') = value_of ival (averageStableBorrowRate r))"

lemma reads_on_chain:
  assumes "reads_reserve E0 asset m ival r" "initialised now m" "earning ival r"
  shows "on_chain ival r (mrData m) (sol_totalSupply (mrVariable m))"
proof -
  from assms(1) obtain v where v: "sol_variable_totalSupply E0 m = Inr v" "value_of ival (totalVariableDebt r) = uint v"
    by (auto simp: reads_reserve_def)
  then have "value_of ival (totalVariableDebt r) = 0 \<longleftrightarrow> sol_totalSupply (mrVariable m) = 0"
    using variable_supply_zero [OF v(1)] assms(2) by (simp only: initialised_def)
  with assms show ?thesis by (simp add: on_chain_def reads_reserve_def earning_def)
qed

lemma settled_reads:
  assumes ps: "configured_as ps m"
    and us: "sol_updateState E m = Inr m1" and ui: "sol_updateInterestRates E asset m1 a k = Inr m2"
    and r: "reads_reserve E0 asset m ival r" "initialised (blockTimestamp E) m" "earning ival r"
      "marketBorrowRate E0 asset = marketBorrowRate E asset"
    and m': "mrData m' = mrData m2" "mrStable m' = mrStable m" "mrVariable m' = mrVariable m"
      "uint (sol_balances (mrAsset m') (sol_lTokenAddress (mrData m))) =
        uint (sol_balances (mrAsset m) (sol_lTokenAddress (mrData m))) + uint a - uint k"
    and r': "reads_reserve E' asset m' ival r'" "blockTimestamp E' = blockTimestamp E"
  shows "moved_to ival ps r (uint (blockTimestamp E)) (uint a - uint k) r'"
proof -
  define T where "T = uint (blockTimestamp E)"
  note keeps = sol_updateState_keeps [OF us]
  from keeps obtain li vi where idx: "sol_updateIndexes (blockTimestamp E) (mrData m) (sol_totalSupply (mrVariable m))
       (ucast (sol_liquidityIndex (mrData m))) (ucast (sol_variableBorrowIndex (mrData m)))
       (sol_lastUpdateTimestamp (mrData m)) = Inr (mrData m1, li, vi)" by blast
  note ix = updateIndexes_exact [OF reads_on_chain [OF r(1-3)] idx, folded T_def]
  note time = sol_updateIndexes_rates(4) [OF idx]
  from ui obtain s v liq l sr vr where
    s: "sol_calcTotalSupply E (mrStable m1) (sol_avgStableRate (mrStable m1)) = Inr s"
    and v: "sol_rayMul (sol_totalSupply (mrVariable m1)) (ucast (sol_variableBorrowIndex (mrData m1))) = Inr v"
    and liq: "uint liq = uint (sol_balances (mrAsset m1) (sol_lTokenAddress (mrData m1))) + uint a - uint k"
    and rates: "sol_calculateInterestRates (mrStrategy m1) (marketBorrowRate E asset) liq s v
      (sol_avgStableRate (mrStable m1)) (sol_getReserveFactor (sol_configuration (mrData m1))) = Inr (l, sr, vr)"
    and m2: "m2 = m1\<lparr>mrData := (mrData m1)\<lparr>sol_currentLiquidityRate := ucast l,
       sol_currentStableBorrowRate := ucast sr, sol_currentVariableBorrowRate := ucast vr\<rparr>\<rparr>"
    and fits: "uint (ucast l :: 128 word) = uint l" "uint (ucast sr :: 128 word) = uint sr"
      "uint (ucast vr :: 128 word) = uint vr"
    by (rule sol_updateInterestRates_result)
  note static = keeps [THEN conjunct2, THEN conjunct2, THEN conjunct2, THEN conjunct2, THEN conjunct2,
    THEN conjunct1, unfolded same_static_def]
  have sv: "uint s = total_stable_at ival r T"
    "uint v = ray_mul (value_of ival (scaledVariableDebt r)) (variable_index_at ival r T)"
    using calcTotalSupply_exact [OF s] sol_rayMul_exact [OF v] keeps r(1) ix
    by (simp_all add: total_stable_at_def reads_reserve_def T_def uint_up)
  have liq: "uint liq = value_of ival (availableLiquidity r) + (uint a - uint k)"
    using liq keeps static r(1) by (simp add: reads_reserve_def)
  define util where "util = utilization (uint s) (uint v) (uint liq + uint s + uint v)"
  have ps': "deployed ps (mrStrategy m1)" "sane_params ps" "small_params ps"
    "num (reserveFactor ps) = uint (sol_getReserveFactor (sol_configuration (mrData m1)))"
    using ps keeps static by (simp_all add: configured_as_def)
  note close = contract_rates_close [OF ps'(1-3) rates, folded util_def]
  note close4 = close(4) [OF _ ps'(4)]
  from r'(1) obtain s' v' where r1: "sol_calcTotalSupply E' (mrStable m) (sol_avgStableRate (mrStable m)) = Inr s'"
    "sol_variable_totalSupply E' m' = Inr v'" "value_of ival (totalStableDebt r') = uint s'"
    "value_of ival (totalVariableDebt r') = uint v'"
    using m' by (auto simp: reads_reserve_def)
  have "sol_calcTotalSupply E' (mrStable m) (sol_avgStableRate (mrStable m)) = Inr s"
    using s keeps by (simp only: sol_calcTotalSupply_def r'(2))
  with r1 have "s' = s" by simp
  moreover have "v' = v"
  proof -
    have "sol_getNormalizedDebt E' (mrData m') = Inr (ucast (sol_variableBorrowIndex (mrData m1)))"
      using m' m2 time r'(2) by (simp add: sol_getNormalizedDebt_def Let_def)
    with r1(2) v m'(3) keeps show ?thesis by (simp add: sol_variable_totalSupply_def)
  qed
  ultimately have debts: "value_of ival (totalStableDebt r') = uint s" "value_of ival (totalVariableDebt r') = uint v"
    using r1 by simp_all
  have lt: "sol_lTokenAddress (mrData m') = sol_lTokenAddress (mrData m)" using m' m2 static by simp
  have now: "value_of ival (liquidityRate r') = uint l" "value_of ival (variableBorrowRate r') = uint vr"
    "value_of ival (stableBorrowRate r') = uint sr" "value_of ival (liquidityIndex r') = liquidity_index_at ival r T"
    "value_of ival (variableBorrowIndex r') = variable_index_at ival r T"
    "value_of ival (availableLiquidity r') = uint liq"
    using r'(1) r(1) m' m2 fits ix lt liq by (simp_all add: reads_reserve_def)
  have tot: "value_of ival (totalLiquidity r') = uint liq + uint s + uint v"
    "value_of ival (utilizationRate r') = util"
    using r'(1) debts now(6) by (simp_all add: reads_reserve_def util_def)
  have rest: "value_of ival (principalStableDebt r') = value_of ival (principalStableDebt r)"
    "value_of ival (scaledVariableDebt r') = value_of ival (scaledVariableDebt r)"
    "value_of ival (averageStableBorrowRate r') = value_of ival (averageStableBorrowRate r)"
    "value_of ival (marketStableRate r) = uint (marketBorrowRate E asset)"
    "value_of ival (averageStableBorrowRate r) = uint (sol_avgStableRate (mrStable m1))"
    using r'(1) r(1,4) m' keeps by (simp_all add: reads_reserve_def)
  show ?thesis
    unfolding moved_to_def Let_def T_def [symmetric] sv [symmetric] liq [symmetric] util_def [symmetric]
    using now debts tot rest close(1-3) close4 by auto
qed

end
