(* ===== verification/CheckClaims.thy ===== *)
theory CheckClaims
  imports OracleClaims
begin

text \<open>
  Properties of the integrity check and of the scenario actions and stories that use it.
\<close>

subsection \<open>The integrity check\<close>

text \<open>A reserve and a user close to an expectation: 3 units per number, the rest equal.\<close>

definition near :: "('b \<Rightarrow> int) \<Rightarrow> 'b option \<Rightarrow> 'b option \<Rightarrow> bool" where
  "near ival a e \<longleftrightarrow> \<bar>value_of ival a - value_of ival e\<bar> \<le> 3"

definition close_reserve :: "('b \<Rightarrow> int) \<Rightarrow> 'b ReserveData \<Rightarrow> 'b ReserveData \<Rightarrow> bool" where
  "close_reserve ival e r \<longleftrightarrow>
     address r = address e \<and>
     near ival (totalLiquidity r) (totalLiquidity e) \<and>
     near ival (utilizationRate r) (utilizationRate e) \<and>
     near ival (availableLiquidity r) (availableLiquidity e) \<and>
     near ival (totalStableDebt r) (totalStableDebt e) \<and>
     near ival (totalVariableDebt r) (totalVariableDebt e) \<and>
     near ival (liquidityRate r) (liquidityRate e) \<and>
     near ival (variableBorrowRate r) (variableBorrowRate e) \<and>
     near ival (stableBorrowRate r) (stableBorrowRate e) \<and>
     near ival (averageStableBorrowRate r) (averageStableBorrowRate e) \<and>
     near ival (liquidityIndex r) (liquidityIndex e) \<and>
     near ival (variableBorrowIndex r) (variableBorrowIndex e) \<and>
     near ival (principalStableDebt r) (principalStableDebt e) \<and>
     near ival (scaledVariableDebt r) (scaledVariableDebt e)"

definition close_user :: "('b \<Rightarrow> int) \<Rightarrow> 'b UserReserveData \<Rightarrow> 'b UserReserveData \<Rightarrow> bool" where
  "close_user ival e u \<longleftrightarrow>
     near ival (scaledLTokenBalance u) (scaledLTokenBalance e) \<and>
     near ival (currentLTokenBalance u) (currentLTokenBalance e) \<and>
     near ival (currentStableDebt u) (currentStableDebt e) \<and>
     near ival (currentVariableDebt u) (currentVariableDebt e) \<and>
     near ival (principalStableDebt_u u) (principalStableDebt_u e) \<and>
     near ival (scaledVariableDebt_u u) (scaledVariableDebt_u e) \<and>
     near ival (stableBorrowRate_u u) (stableBorrowRate_u e) \<and>
     near ival (liquidityRate_u u) (liquidityRate_u e) \<and>
     usageAsCollateralEnabled u = usageAsCollateralEnabled e \<and>
     near ival (stableRateLastUpdated u) (stableRateLastUpdated e) \<and>
     near ival (walletBalance u) (walletBalance e)"

lemma entry_present: "present ok v \<Longrightarrow> entry key f v = [(key, f (the v))]"
  by (auto simp: entry_def present_iff)

lemma map_of_entry: "map_of (entry key f v) k = (if k = key then map_option f v else None)"
  by (auto simp: entry_def split: option.splits)

lemma set_entry: "set (entry key f v) = (case v of None \<Rightarrow> {} | Some x \<Rightarrow> {(key, f x)})"
  by (auto simp: entry_def split: option.splits)

lemma accessory_entry: "key \<in> set accessory_keys \<Longrightarrow> list_all (\<lambda>(k, a). k \<in> set accessory_keys \<or> P k a) (entry key f v)"
  by (auto simp: entry_def split: option.splits)

lemma map_of_reserve_object:
  "map_of (reserve_object e) ''totalLiquidity'' = map_option FBig (totalLiquidity e)"
  "map_of (reserve_object e) ''utilizationRate'' = map_option FBig (utilizationRate e)"
  "map_of (reserve_object e) ''availableLiquidity'' = map_option FBig (availableLiquidity e)"
  "map_of (reserve_object e) ''totalStableDebt'' = map_option FBig (totalStableDebt e)"
  "map_of (reserve_object e) ''totalVariableDebt'' = map_option FBig (totalVariableDebt e)"
  "map_of (reserve_object e) ''liquidityRate'' = map_option FBig (liquidityRate e)"
  "map_of (reserve_object e) ''variableBorrowRate'' = map_option FBig (variableBorrowRate e)"
  "map_of (reserve_object e) ''stableBorrowRate'' = map_option FBig (stableBorrowRate e)"
  "map_of (reserve_object e) ''averageStableBorrowRate'' = map_option FBig (averageStableBorrowRate e)"
  "map_of (reserve_object e) ''liquidityIndex'' = map_option FBig (liquidityIndex e)"
  "map_of (reserve_object e) ''variableBorrowIndex'' = map_option FBig (variableBorrowIndex e)"
  "map_of (reserve_object e) ''principalStableDebt'' = map_option FBig (principalStableDebt e)"
  "map_of (reserve_object e) ''scaledVariableDebt'' = map_option FBig (scaledVariableDebt e)"
  "map_of (reserve_object e) ''address'' = map_option FString (address e)"
  by (simp_all add: reserve_object_def map_add_def map_of_entry split: option.splits)

lemma map_of_user_object:
  "map_of (user_object e) ''scaledLTokenBalance'' = map_option FBig (scaledLTokenBalance e)"
  "map_of (user_object e) ''currentLTokenBalance'' = map_option FBig (currentLTokenBalance e)"
  "map_of (user_object e) ''currentStableDebt'' = map_option FBig (currentStableDebt e)"
  "map_of (user_object e) ''currentVariableDebt'' = map_option FBig (currentVariableDebt e)"
  "map_of (user_object e) ''principalStableDebt'' = map_option FBig (principalStableDebt_u e)"
  "map_of (user_object e) ''scaledVariableDebt'' = map_option FBig (scaledVariableDebt_u e)"
  "map_of (user_object e) ''stableBorrowRate'' = map_option FBig (stableBorrowRate_u e)"
  "map_of (user_object e) ''liquidityRate'' = map_option FBig (liquidityRate_u e)"
  "map_of (user_object e) ''usageAsCollateralEnabled'' = map_option FBool (usageAsCollateralEnabled e)"
  "map_of (user_object e) ''stableRateLastUpdated'' = map_option FBig (stableRateLastUpdated e)"
  "map_of (user_object e) ''walletBalance'' = map_option FBig (walletBalance e)"
  by (simp_all add: user_object_def map_add_def map_of_entry split: option.splits)

lemma check_fields_append:
  "check_fields B x (a @ b) = Inr () \<longleftrightarrow> check_fields B x a = Inr () \<and> check_fields B x b = Inr ()"
  by (induction B x a rule: check_fields.induct) (auto split: sum.splits)

lemma check_entry_accessory:
  "key \<in> set accessory_keys \<Longrightarrow> check_fields B x (entry key f v) = Inr ()"
  by (auto simp: entry_def split: option.splits)

lemma check_entry_None [simp]: "check_fields B x (entry key f None) = Inr ()"
  by (simp add: entry_def)

lemma present_any_Some: "present (\<lambda>_. True) v \<longleftrightarrow> (\<exists>x. v = Some x)"
  by (auto simp: present_iff)

context bignumber
begin

lemma check_entry_big:
  assumes "key \<notin> set accessory_keys" "map_of x key = map_option FBig e" "present ok v" "present ok e"
  shows "check_fields B x (entry key FBig v) = Inr () \<longleftrightarrow> near ival v e"
  using assms within_three_iff [of "bnDecimalPlaces B (the v)" "bnDecimalPlaces B (the e)"]
  by (auto simp: present_iff entry_def near_def split: sum.splits)

lemma check_entry_string:
  assumes "key \<notin> set accessory_keys" "map_of x key = map_option FString e"
    "present (\<lambda>_. True) v" "present (\<lambda>_. True) e"
  shows "check_fields B x (entry key FString v) = Inr () \<longleftrightarrow> v = e"
  using assms by (auto simp: present_iff entry_def split: sum.splits if_splits)

lemma check_entry_bool:
  assumes "key \<notin> set accessory_keys" "map_of x key = map_option FBool e"
    "present (\<lambda>_. True) v" "present (\<lambda>_. True) e"
  shows "check_fields B x (entry key FBool v) = Inr () \<longleftrightarrow> v = e"
  using assms by (auto simp: present_iff entry_def split: sum.splits if_splits)

lemma reserve_check_exact:
  assumes "complete_reserve ok r" "comparable_reserve ok e"
  shows "almostEqualOrEqual B (reserve_object e) (reserve_object r) = Inr () \<longleftrightarrow> close_reserve ival e r"
proof -
  note keys = accessory_keys_def
  note fields = assms(1) [unfolded complete_reserve_def] assms(2) [unfolded comparable_reserve_def]
  show ?thesis
    using fields
    by (simp add: almostEqualOrEqual_def reserve_object_def [of r] check_fields_append keys
        check_entry_accessory [unfolded keys] map_of_reserve_object
        check_entry_big [unfolded keys] check_entry_string [unfolded keys] close_reserve_def
        del: complete_reserve_fields) blast
qed

lemma user_check_exact:
  assumes "complete_user ok u" "comparable_user ok e"
    "variableBorrowIndex_u u = None" "principalVariableDebt u = None"
  shows "almostEqualOrEqual B (user_object e) (user_object u) = Inr () \<longleftrightarrow> close_user ival e u"
proof -
  note keys = accessory_keys_def
  note fields = assms(1) [unfolded complete_user_def] assms(2) [unfolded comparable_user_def]
  show ?thesis
    using fields assms(3,4)
    by (simp add: almostEqualOrEqual_def user_object_def [of u] check_fields_append keys
        map_of_user_object check_entry_big [unfolded keys] check_entry_bool [unfolded keys] close_user_def
        del: complete_user_fields)
qed

end

text \<open>C15: The integrity check on reserves is exact.  Against an expectation whose compared fields
  are present, it passes for a reserve read from the chain if and only if the address is equal
  and each of the thirteen compared numbers is within 3 units; it never fails for a reason other
  than an unequal field.\<close>

theorem integrity_check_reserve:
  assumes "bignumber B ok ival" "complete_reserve ok r" "comparable_reserve ok e"
  shows "almostEqualOrEqual B (reserve_object e) (reserve_object r) = Inr () \<longleftrightarrow> close_reserve ival e r"
  by (rule bignumber.reserve_check_exact [OF assms])

definition sample_expectation :: "bnval ReserveData" where
  "sample_expectation = sample_reserve\<lparr>totalLiquidity := Some (Fin 1000003), symbol := None,
     marketStableRate := None, lastUpdateTimestamp := None\<rparr>"

theorem integrity_check_reserve_witness:
  "almostEqualOrEqual bn_reference (reserve_object sample_expectation) (reserve_object sample_reserve) = Inr ()"
proof -
  have "comparable_reserve bn_ok sample_expectation" "close_reserve bn_int sample_expectation sample_reserve"
    by (simp_all add: comparable_reserve_def close_reserve_def near_def sample_expectation_def sample_reserve_def)
  with integrity_check_reserve [OF bn_reference_laws sample_complete(1)] show ?thesis by blast
qed

text \<open>The same for user positions: collateral flag equal, ten numbers within 3 units.\<close>

theorem integrity_check_user:
  assumes "bignumber B ok ival" "complete_user ok u" "comparable_user ok e"
    "variableBorrowIndex_u u = None" "principalVariableDebt u = None"
  shows "almostEqualOrEqual B (user_object e) (user_object u) = Inr () \<longleftrightarrow> close_user ival e u"
  by (rule bignumber.user_check_exact [OF assms])

theorem integrity_check_user_witness:
  "almostEqualOrEqual bn_reference (user_object (sample_user\<lparr>walletBalance := Some (Fin 70004)\<rparr>))
     (user_object sample_user) \<noteq> Inr ()"
proof -
  have "comparable_user bn_ok (sample_user\<lparr>walletBalance := Some (Fin 70004)\<rparr>)"
    "variableBorrowIndex_u sample_user = None" "principalVariableDebt sample_user = None"
    "\<not> close_user bn_int (sample_user\<lparr>walletBalance := Some (Fin 70004)\<rparr>) sample_user"
    by (simp_all add: comparable_user_def close_user_def near_def sample_user_def)
  with integrity_check_user [OF bn_reference_laws sample_complete(2)] show ?thesis by blast
qed

end
