(* ===== verification/ScenarioFacts.thy ===== *)
theory ScenarioFacts
  imports CheckClaims
begin

text \<open>
  What the scenario actions and stories send.  \<open>pure\<close> actions leave the world alone; \<open>steps P m\<close> says that
  every successful run of \<open>m\<close> relates the worlds before and after it by \<open>P\<close>, and its introduction
  rules (\<open>step_intros\<close>) follow the shape of the action functions.
\<close>

subsection \<open>Pure actions, and what a successful action did\<close>

definition pure :: "('d, 'a) action \<Rightarrow> bool" where
  "pure m \<longleftrightarrow> (\<forall>w. snd (m w) = w)"

lemma pure_bindA: "pure m \<Longrightarrow> (\<And>x. pure (f x)) \<Longrightarrow> pure (bindA m f)"
proof -
  assume m: "pure m" and f: "\<And>x. pure (f x)"
  have "snd (bindA m f w) = w" for w
  proof (cases "m w")
    case (Pair v w1)
    with m have "w1 = w" by (metis pure_def snd_conv)
    with Pair f show ?thesis by (cases v) (auto simp: bindA_def pure_def)
  qed
  then show ?thesis by (simp add: pure_def)
qed

lemma pure_thenA: "pure m \<Longrightarrow> pure k \<Longrightarrow> pure (thenA m k)"
  by (simp add: thenA_def pure_bindA)

lemma pure_basic:
  "pure (returnA x)" "pure (throwA e)" "pure (readA f)" "pure (liftA v)" "pure (requireA e o')"
  by (auto simp: pure_def requireA_def split: option.splits)

definition steps :: "('d world \<Rightarrow> 'd world \<Rightarrow> bool) \<Rightarrow> ('d, 'a) action \<Rightarrow> bool" where
  "steps P m \<longleftrightarrow> (\<forall>w u w'. m w = (Inr u, w') \<longrightarrow> P w w')"

lemma stepsD: "steps P m \<Longrightarrow> m w = (Inr u, w') \<Longrightarrow> P w w'"
  by (simp add: steps_def)

lemma steps_pure_bindA: "pure m \<Longrightarrow> (\<And>x. steps P (f x)) \<Longrightarrow> steps P (bindA m f)"
proof -
  assume m: "pure m" and f: "\<And>x. steps P (f x)"
  have "P w w'" if "bindA m f w = (Inr u, w')" for w u w'
  proof -
    from that obtain x w1 where r: "m w = (Inr x, w1)" "f x w1 = (Inr u, w')" by (auto simp: bindA_Inr)
    with m have "w1 = w" by (metis pure_def snd_conv)
    with f r show ?thesis by (auto simp: steps_def)
  qed
  then show ?thesis by (simp add: steps_def)
qed

lemma steps_if: "(c \<Longrightarrow> steps P m) \<Longrightarrow> (\<not> c \<Longrightarrow> steps P k) \<Longrightarrow> steps P (if c then m else k)"
  by simp

lemma steps_throwA: "steps P (throwA e)"
  by (simp add: steps_def)

lemma pure_case_prod: "(\<And>a b. pure (f a b)) \<Longrightarrow> pure (case p of (a, b) \<Rightarrow> f a b)"
  by (simp add: split_beta)

lemma steps_case_prod: "(\<And>a b. steps P (f a b)) \<Longrightarrow> steps P (case p of (a, b) \<Rightarrow> f a b)"
  by (simp add: split_beta)

lemma pure_if: "pure m \<Longrightarrow> pure k \<Longrightarrow> pure (if c then m else k)"
  by simp

lemma pure_readers:
  "pure (contractsData S reserve user sender)" "pure (getReserveAddressFromSymbol D n sy)"
  "pure (convertToCurrencyDecimals S tok a)" "pure (optionalValue S reserve value)"
  "pure (getTxCostAndTimestamp S)" "pure (checkBoth S after er eu)"
  unfolding contractsData_def getContractsData_def getUserData_def getReserveData_def
    getReserveAddressFromSymbol_def convertToCurrencyDecimals_def optionalValue_def
    getTxCostAndTimestamp_def checkBoth_def Let_def
  by (auto intro!: pure_bindA pure_thenA pure_basic)

lemma pure_users: "pure (userA u)" "pure (amountA message amount)"
  by (simp_all add: userA_def amountA_def pure_basic)

lemmas pure_intros = pure_case_prod pure_if pure_bindA pure_thenA pure_basic pure_readers pure_users

subsection \<open>What an action sends\<close>

text \<open>The function of the pool an action calls.\<close>

definition pool_methods :: "(string \<times> string) list" where
  "pool_methods =
   [(''deposit'', ''deposit''), (''withdraw'', ''withdraw''), (''borrow'', ''borrow''),
    (''repay'', ''repay''), (''setUseAsCollateral'', ''setUserUseReserveAsCollateral''),
    (''swapBorrowRateMode'', ''swapBorrowRateMode''),
    (''rebalanceStableBorrowRate'', ''rebalanceStableBorrowRate'')]"

text \<open>Time travel: calls of the test network's provider only.\<close>

definition provider_call :: "tx \<Rightarrow> bool" where
  "provider_call t \<longleftrightarrow> txTo t = Some ''provider'' \<and>
     txMethod t \<in> {''evm_increaseTime'', ''evm_mine'', ''evm_setNextBlockTimestamp''}"

definition provider_only :: "'d world \<Rightarrow> 'd world \<Rightarrow> bool" where
  "provider_only w w' \<longleftrightarrow>
     (\<exists>extra. w' = w\<lparr>sent := sent w @ extra\<rparr> \<and> list_all provider_call extra)"

lemma provider_only_pure: "pure m \<Longrightarrow> steps provider_only m"
proof -
  assume m: "pure m"
  have "provider_only w w'" if "m w = (Inr u, w')" for w u w'
  proof -
    have "w' = w" using m that by (metis pure_def snd_conv)
    then show ?thesis by (auto simp: provider_only_def intro: exI [of _ "[]"])
  qed
  then show ?thesis by (simp add: steps_def)
qed

lemma provider_only_trans: "provider_only w w1 \<Longrightarrow> provider_only w1 w2 \<Longrightarrow> provider_only w w2"
proof -
  assume "provider_only w w1" "provider_only w1 w2"
  then obtain a b where "w1 = w\<lparr>sent := sent w @ a\<rparr>" "w2 = w1\<lparr>sent := sent w1 @ b\<rparr>"
    "list_all provider_call (a @ b)"
    by (auto simp: provider_only_def)
  then show ?thesis unfolding provider_only_def by (intro exI [of _ "a @ b"]) simp
qed

lemma provider_only_thenA: "steps provider_only m \<Longrightarrow> steps provider_only k \<Longrightarrow> steps provider_only (thenA m k)"
  unfolding steps_def by (auto simp: thenA_Inr) (blast intro: provider_only_trans)

lemma provider_only_advance: "steps provider_only (advanceTimeAndBlock S n)"
  by (auto simp: steps_def provider_only_def provider_call_def advanceTimeAndBlock_def run_Inr providerTx_def callTx_def split: option.splits)

lemma provider_only_whenA: "steps provider_only m \<Longrightarrow> steps provider_only (whenA c m)"
  by (simp add: whenA_def provider_only_pure pure_basic)

text \<open>A step that calls the pool once: accepted when the action expects success, apart from time
  travel; not sent otherwise, and refused by the pool when the action expects a revert.\<close>

definition pool_step ::
  "('b, 'd) suite \<Rightarrow> string \<Rightarrow> string \<Rightarrow> string \<Rightarrow> 'd world \<Rightarrow> 'd world \<Rightarrow> bool" where
  "pool_step S method user expected w w' \<longleftrightarrow>
     (\<exists>t. txTo t = Some (suPool S) \<and> txMethod t = method \<and> txSender t = user \<and>
       (if expected = ''success''
        then reverts (suC S) (sent w) t = None \<and> provider_only (w\<lparr>sent := sent w @ [t]\<rparr>) w'
        else w' = w \<and> (expected = ''revert'' \<longrightarrow> reverts (suC S) (sent w) t \<noteq> None)))"

lemma pool_step_success:
  assumes "steps provider_only k" "expected = ''success''"
  shows "steps (pool_step S m user expected) (thenA (sendA (suC S) (callTx (suPool S) m args user)) k)"
  using assms by (auto simp: steps_def pool_step_def run_Inr callTx_def intro!: exI [of _ "callTx (suPool S) m args user"])

lemma pool_step_revert:
  assumes "expected \<noteq> ''success''" "expected = ''revert''"
  shows "steps (pool_step S m user expected) (expectRevertA (suC S) (callTx (suPool S) m args user))"
  using assms by (auto simp: steps_def pool_step_def run_Inr callTx_def intro!: exI [of _ "callTx (suPool S) m args user"])

lemma pool_step_other:
  assumes "expected \<noteq> ''success''" "expected \<noteq> ''revert''"
  shows "steps (pool_step S m user expected) (returnA ())"
  using assms by (auto simp: steps_def pool_step_def intro!: exI [of _ "callTx (suPool S) m [] user"] simp: callTx_def)

lemmas step_intros = steps_case_prod steps_pure_bindA steps_if pool_step_success pool_step_revert pool_step_other
  pure_intros provider_only_pure provider_only_thenA provider_only_advance provider_only_whenA

lemma pool_steps:
  "steps (pool_step S ''deposit'' sender expected) (deposit S sy amount sender onBehalfOf value expected)"
  "steps (pool_step S ''withdraw'' user expected) (withdraw S sy amount user expected)"
  "steps (pool_step S ''borrow'' user expected) (borrow S sy amount mode user onBehalfOf travel expected)"
  "steps (pool_step S ''repay'' user expected) (repay S sy amount mode user onBehalfOf value expected)"
  "steps (pool_step S ''setUserUseReserveAsCollateral'' user expected)
     (setUseAsCollateral S sy user flag expected)"
  "steps (pool_step S ''swapBorrowRateMode'' user expected) (swapBorrowRateMode S sy user mode expected)"
  "steps (pool_step S ''rebalanceStableBorrowRate'' user expected)
     (rebalanceStableBorrowRate S sy user target expected)"
  unfolding deposit_def depositTx_def withdraw_def borrow_def repay_def setUseAsCollateral_def
    swapBorrowRateMode_def rebalanceStableBorrowRate_def Let_def
  by (intro step_intros; assumption?)+

text \<open>The other actions call tokens, not the pool.\<close>

definition token_step :: "'d world \<Rightarrow> 'd world \<Rightarrow> bool" where
  "token_step w w' \<longleftrightarrow>
     (\<exists>ts. w' = w\<lparr>sent := sent w @ ts\<rparr> \<and>
       list_all (\<lambda>t. txMethod t \<in> {''mint'', ''approve'', ''approveDelegation''}) ts)"

lemma token_step_send:
  "m \<in> {''mint'', ''approve'', ''approveDelegation''} \<Longrightarrow> steps token_step (sendA C (callTx a m args s))"
  "m \<in> {''mint'', ''approve'', ''approveDelegation''} \<Longrightarrow> pure k \<Longrightarrow>
   steps token_step (thenA (sendA C (callTx a m args s)) k)"
proof -
  assume m: "m \<in> {''mint'', ''approve'', ''approveDelegation''}"
  then show "steps token_step (sendA C (callTx a m args s))"
    by (auto simp: steps_def token_step_def run_Inr callTx_def)
  assume k: "pure k"
  have "token_step w w'" if r: "thenA (sendA C (callTx a m args s)) k w = (Inr u, w')" for w u w'
  proof -
    from r obtain w1 where "k w1 = (Inr u, w')" "w1 = w\<lparr>sent := sent w @ [callTx a m args s]\<rparr>"
      by (auto simp: run_Inr)
    with k m show ?thesis unfolding token_step_def pure_def
      by (intro exI [of _ "[callTx a m args s]"]) (auto simp: callTx_def dest: spec [of _ w1])
  qed
  then show "steps token_step (thenA (sendA C (callTx a m args s)) k)" by (simp add: steps_def)
qed

lemma token_step_expect: "steps token_step (expectRevertedWithA C t message)"
  by (auto simp: steps_def token_step_def expectRevertedWithA_def sendA_def split: option.splits if_splits
      intro: exI [of _ "[]"])

lemma token_steps:
  "steps token_step (mint S sy amount user)" "steps token_step (approve S sy user)"
  "steps token_step (delegateBorrowAllowance S sy amount mode user receiver expected message)"
  unfolding mint_def approve_def delegateBorrowAllowance_def Let_def
  by (intro steps_pure_bindA steps_if token_step_send token_step_expect pure_intros; simp?)+

subsection \<open>Actions and stories\<close>

definition pool_call :: "tx \<Rightarrow> bool" where
  "pool_call t \<longleftrightarrow> txMethod t \<in> set (map snd pool_methods)"

text \<open>The call of the pool an action is expected to get accepted, if any.\<close>

definition expected_calls ::
  "('b, 'd) suite \<Rightarrow> string list \<Rightarrow> scenario_action \<Rightarrow> (string option \<times> string \<times> string) list" where
  "expected_calls S users act =
     (if actionExpected act = Some ''success''
      then (case map_of pool_methods (the (actionName act)) of
              None \<Rightarrow> []
            | Some method \<Rightarrow> [(Some (suPool S), method, the (user_at users (argUser (actionArgs act))))])
      else [])"

definition calls_made :: "tx list \<Rightarrow> (string option \<times> string \<times> string) list" where
  "calls_made ts = map (\<lambda>t. (txTo t, txMethod t, txSender t)) (filter pool_call ts)"

definition made :: "(string option \<times> string \<times> string) list \<Rightarrow> 'd world \<Rightarrow> 'd world \<Rightarrow> bool" where
  "made calls w w' \<longleftrightarrow> (\<exists>ts. w' = w\<lparr>sent := sent w @ ts\<rparr> \<and> calls_made ts = calls)"

lemma calls_made_simps [simp]:
  "calls_made [] = []" "calls_made (xs @ ys) = calls_made xs @ calls_made ys"
  by (simp_all add: calls_made_def)

lemma calls_made_none: "list_all (\<lambda>t. \<not> pool_call t) ts \<Longrightarrow> calls_made ts = []"
  by (simp add: calls_made_def filter_empty_conv list_all_iff)

lemma made_trans: "made a w w1 \<Longrightarrow> made b w1 w2 \<Longrightarrow> made (a @ b) w w2"
proof -
  assume "made a w w1" "made b w1 w2"
  then obtain s t where "w1 = w\<lparr>sent := sent w @ s\<rparr>" "w2 = w1\<lparr>sent := sent w1 @ t\<rparr>"
    "calls_made s = a" "calls_made t = b"
    by (auto simp: made_def)
  then show ?thesis unfolding made_def by (intro exI [of _ "s @ t"]) simp
qed

lemma pool_step_made:
  assumes "pool_step S m user expected w w'" "m \<in> set (map snd pool_methods)"
  shows "made (if expected = ''success'' then [(Some (suPool S), m, user)] else []) w w'"
proof -
  from assms(1) obtain t where t: "txTo t = Some (suPool S)" "txMethod t = m" "txSender t = user"
    "if expected = ''success''
     then reverts (suC S) (sent w) t = None \<and> provider_only (w\<lparr>sent := sent w @ [t]\<rparr>) w' else w' = w"
    by (auto simp: pool_step_def split: if_splits)
  show ?thesis
  proof (cases "expected = ''success''")
    case True
    with t(4) obtain extra where e: "w' = w\<lparr>sent := sent w @ t # extra\<rparr>" "list_all provider_call extra"
      by (auto simp: provider_only_def)
    from e(2) have "calls_made extra = []"
      by (intro calls_made_none) (auto simp: list_all_iff provider_call_def pool_call_def pool_methods_def)
    then have "calls_made (t # extra) = [(Some (suPool S), m, user)]"
      using t assms(2) by (simp add: calls_made_def pool_call_def)
    with True e(1) show ?thesis unfolding made_def by auto
  next
    case False
    with t show ?thesis by (auto simp: made_def intro: exI [of _ "[]"])
  qed
qed

lemma token_step_made: "token_step w w' \<Longrightarrow> made [] w w'"
proof -
  assume "token_step w w'"
  then obtain ts where e: "w' = w\<lparr>sent := sent w @ ts\<rparr>"
    "list_all (\<lambda>t. txMethod t \<in> {''mint'', ''approve'', ''approveDelegation''}) ts"
    by (auto simp: token_step_def)
  from e(2) have "calls_made ts = []"
    by (intro calls_made_none) (auto simp: list_all_iff pool_call_def pool_methods_def)
  with e(1) show ?thesis unfolding made_def by blast
qed

lemma steps_mono: "steps P m \<Longrightarrow> (\<And>w w'. P w w' \<Longrightarrow> Q w w') \<Longrightarrow> steps Q m"
  by (auto simp: steps_def)

text \<open>Everything an action needs of its JSON description.\<close>

definition well_formed_action :: "scenario_action \<Rightarrow> bool" where
  "well_formed_action act \<longleftrightarrow>
     truthy (actionName act) \<and> truthy (argReserve (actionArgs act)) \<and> truthy (argUser (actionArgs act)) \<and>
     truthy (actionExpected act)"

lemma userA_simps:
  "userA (Some u) = returnA u" "userA None = throwA ''TypeError: Cannot read property of undefined''"
  by (simp_all add: userA_def requireA_def)

lemma dispatch_pool_step:
  assumes "map_of pool_methods name = Some m"
  shows "steps (pool_step S m (the user) expected)
    (dispatch S users name args reserve mode user expected message)"
proof -
  have "(name, m) \<in> set pool_methods" using assms by (rule map_of_SomeD)
  then show ?thesis
    unfolding pool_methods_def list.set insert_iff prod.inject empty_iff
    by (elim disjE conjE FalseE) (cases user; simp add: dispatch_def userA_simps;
        intro conjI impI steps_pure_bindA pool_steps pure_users steps_throwA)+
qed

lemma dispatch_needs_user:
  assumes "map_of pool_methods name = Some m"
  shows "steps (\<lambda>w w'. user \<noteq> None) (dispatch S users name args reserve mode user expected message)"
proof (cases user)
  case None
  have "(name, m) \<in> set pool_methods" using assms by (rule map_of_SomeD)
  with None show ?thesis
    unfolding pool_methods_def list.set insert_iff prod.inject empty_iff
    by (elim disjE conjE FalseE) (simp add: dispatch_def userA_simps;
        intro conjI impI steps_pure_bindA pure_users steps_throwA)+
qed (simp add: steps_def)

lemma dispatch_token_step:
  assumes "map_of pool_methods name = None"
  shows "steps token_step (dispatch S users name args reserve mode user expected message)"
proof -
  have "name \<notin> {''deposit'', ''withdraw'', ''borrow'', ''repay'', ''setUseAsCollateral'',
      ''swapBorrowRateMode'', ''rebalanceStableBorrowRate''}"
    using assms by (auto simp: pool_methods_def split: if_splits)
  then show ?thesis
    by (simp add: dispatch_def)
      (intro conjI impI steps_pure_bindA token_steps pure_users steps_throwA)
qed

lemma executeAction_dispatch:
  assumes "executeAction S users act w = (Inr u, w')"
  shows "well_formed_action act \<and>
    dispatch S users (the (actionName act)) (actionArgs act) (the (argReserve (actionArgs act)))
      (rate_mode_argument (argBorrowRateMode (actionArgs act))) (user_at users (argUser (actionArgs act)))
      (the (actionExpected act)) (actionRevertMessage act) w = (Inr u, w')"
  using assms by (auto simp: executeAction_def well_formed_action_def Let_def split: if_splits)

lemma executeAction_pool_step:
  assumes "executeAction S users act w = (Inr u, w')" "map_of pool_methods (the (actionName act)) = Some m"
  shows "pool_step S m (the (user_at users (argUser (actionArgs act)))) (the (actionExpected act)) w w'"
  using executeAction_dispatch [OF assms(1)] stepsD [OF dispatch_pool_step [OF assms(2)]] by blast

lemma executeAction_made: "steps (made (expected_calls S users act)) (executeAction S users act)"
  unfolding steps_def
proof (intro allI impI)
  fix w u w'
  assume run: "executeAction S users act w = (Inr u, w')"
  show "made (expected_calls S users act) w w'"
  proof (cases "map_of pool_methods (the (actionName act))")
    case None
    with executeAction_dispatch [OF run] stepsD [OF dispatch_token_step [OF None]] have "token_step w w'"
      by blast
    with None show ?thesis by (simp add: expected_calls_def token_step_made)
  next
    case (Some m)
    then have "m \<in> set (map snd pool_methods)" by (auto dest: map_of_SomeD simp: rev_image_eqI)
    with pool_step_made [OF executeAction_pool_step [OF run Some]] executeAction_dispatch [OF run] Some
    show ?thesis
      by (cases "actionExpected act") (auto simp: expected_calls_def well_formed_action_def truthy_def)
  qed
qed

lemma executeStory_made:
  "steps (made (concat (map (expected_calls S users) acts))) (forA acts (executeAction S users))"
proof (induction acts)
  case Nil
  then show ?case by (auto simp: steps_def made_def intro: exI [of _ "[]"])
next
  case (Cons act acts)
  with executeAction_made [of S users act] show ?case
    by (auto simp: steps_def thenA_Inr) (blast intro: made_trans)
qed

end
