(* ===== verification/ScenarioClaims.thy ===== *)
theory ScenarioClaims
  imports ScenarioFacts
begin

text \<open>
  Properties of the scenario actions and stories, and a sample suite on which they run.
\<close>

text \<open>C25: An action that expects a revert.  When one of the seven pool actions passes with the expected
  result \<open>'revert'\<close>, the pool refuses its transaction in the state at hand, and nothing was sent
  or written; when it passes with \<open>'success'\<close>, exactly one call of the pool, made by the acting
  user, was accepted, followed by nothing but time travel.\<close>

theorem pool_action_outcome:
  assumes "executeAction S users act w = (Inr u, w')"
    "map_of pool_methods (the (actionName act)) = Some method"
    "actionExpected act \<in> {Some ''revert'', Some ''success''}"
  shows "\<exists>user t. user_at users (argUser (actionArgs act)) = Some user \<and>
    txTo t = Some (suPool S) \<and> txMethod t = method \<and> txSender t = user \<and>
    (if actionExpected act = Some ''revert'' then w' = w \<and> reverts (suC S) (sent w) t \<noteq> None
     else reverts (suC S) (sent w) t = None \<and>
       (\<exists>extra. w' = w\<lparr>sent := sent w @ t # extra\<rparr> \<and> list_all provider_call extra))"
proof -
  have "user_at users (argUser (actionArgs act)) \<noteq> None"
    using executeAction_dispatch [OF assms(1)] stepsD [OF dispatch_needs_user [OF assms(2)]] by blast
  then obtain user where "user_at users (argUser (actionArgs act)) = Some user" by blast
  with executeAction_pool_step [OF assms(1,2)] assms(3) show ?thesis
    by (auto simp: pool_step_def provider_only_def)
qed

text \<open>C12: A story makes the calls it announces.  When a story passes, the calls of pool functions
  among the transactions it sent are, in order, exactly those of its actions that expect success,
  each to the pool by the user the action names; and it writes nothing to the database or files.\<close>

theorem story_makes_expected_calls:
  assumes "executeStory S users st w = (Inr u, w')"
  shows "\<exists>ts. w' = w\<lparr>sent := sent w @ ts\<rparr> \<and>
    calls_made ts = concat (map (expected_calls S users) (storyActions st))"
  using stepsD [OF executeStory_made assms [unfolded executeStory_def]] by (simp add: made_def)

text \<open>C36: A story stops at its first failing action.  When a story throws, some action throws that very
  error after all actions before it have passed, with the calls they announce made; the rest is
  not executed, and when the failing action is ill-formed it leaves the world as it found it.\<close>

lemma forA_Inl:
  "forA xs f w = (Inl e, w') \<Longrightarrow>
   \<exists>k w1. k < length xs \<and> forA (take k xs) f w = (Inr (), w1) \<and> f (xs ! k) w1 = (Inl e, w')"
proof (induction xs arbitrary: w)
  case (Cons x xs)
  show ?case
  proof (cases "f x w")
    case (Pair v w1)
    show ?thesis
    proof (cases v)
      case (Inl e')
      with Pair Cons.prems show ?thesis by (intro exI [of _ 0]) (simp add: thenA_def bindA_def)
    next
      case (Inr u)
      with Pair Cons.prems have "forA xs f w1 = (Inl e, w')" by (simp add: thenA_def bindA_def)
      from Cons.IH [OF this] obtain k w2 where
        "k < length xs" "forA (take k xs) f w1 = (Inr (), w2)" "f (xs ! k) w2 = (Inl e, w')" by blast
      with Pair Inr show ?thesis by (intro exI [of _ "Suc k"] exI [of _ w2]) (simp add: thenA_def bindA_def)
    qed
  qed
qed simp

theorem story_stops_at_failure:
  assumes "executeStory S users st w = (Inl e, w')"
  shows "\<exists>k w1. k < length (storyActions st) \<and>
    executeStory S users (st\<lparr>storyActions := take k (storyActions st)\<rparr>) w = (Inr (), w1) \<and>
    executeAction S users (storyActions st ! k) w1 = (Inl e, w') \<and>
    (\<exists>ts. w1 = w\<lparr>sent := sent w @ ts\<rparr> \<and>
       calls_made ts = concat (map (expected_calls S users) (take k (storyActions st)))) \<and>
    (\<not> well_formed_action (storyActions st ! k) \<longrightarrow> w' = w1)"
proof -
  from forA_Inl [OF assms [unfolded executeStory_def]] obtain k w1 where k: "k < length (storyActions st)"
    "forA (take k (storyActions st)) (executeAction S users) w = (Inr (), w1)"
    "executeAction S users (storyActions st ! k) w1 = (Inl e, w')" by blast
  have "w' = w1" if "\<not> well_formed_action (storyActions st ! k)"
    using k(3) that by (auto simp: executeAction_def well_formed_action_def Let_def split: if_splits)
  with k stepsD [OF executeStory_made k(2)] show ?thesis
    by (intro exI [of _ k] exI [of _ w1]) (auto simp: executeStory_def made_def)
qed

subsection \<open>A deposit on an accepting chain\<close>

lemma thenA_sendA:
  "thenA (sendA C t) k w =
    (case reverts C (sent w) t of Some e \<Rightarrow> (Inl e, w) | None \<Rightarrow> k (w\<lparr>sent := sent w @ [t]\<rparr>))"
  by (simp add: thenA_def bindA_def sendA_def split: option.splits)

lemma contractsData_complete:
  assumes "bignumber (suB S) ok ival" "contractsData S reserve user sender w = (Inr c, w')"
  shows "complete_reserve ok (cdReserve c) \<and> complete_user ok (cdUser c) \<and>
    address (cdReserve c) = Some reserve \<and>
    variableBorrowIndex_u (cdUser c) = None \<and> principalVariableDebt (cdUser c) = None"
proof -
  from assms(2) obtain u w1 r w2 where
    u: "getUserData (suB S) (suR S) (suHelper S) reserve user (if truthy sender then sender else Some user) w = (Inr u, w1)" and
    r: "getReserveData (suB S) (suR S) (suD S) (suNetwork S) (suHelper S) reserve w1 = (Inr r, w2)" and
    c: "cdReserve c = r" "cdUser c = u"
    by (auto simp: contractsData_def getContractsData_def run_Inr)
  have "variableBorrowIndex_u u = None \<and> principalVariableDebt u = None"
    using u by (auto simp: getUserData_def Let_def)
  with bignumber.getReserveData_complete [OF assms(1) r] bignumber.getUserData_complete [OF assms(1) u] c
  show ?thesis by simp
qed

lemma checkBoth_iff:
  assumes "bignumber (suB S) ok ival" "contractsData S reserve user sender w = (Inr after, w)"
    "comparable_reserve ok e" "comparable_user ok eu" "\<not> suSkipIntegrityCheck S"
  shows "checkBoth S after (Some e) (Some eu) w1 = (Inr (), w') \<longleftrightarrow>
    w' = w1 \<and> close_reserve ival e (cdReserve after) \<and> close_user ival eu (cdUser after)"
proof -
  note c = contractsData_complete [OF assms(1,2)]
  note reserve = bignumber.reserve_check_exact [OF assms(1) c [THEN conjunct1] assms(3)]
  note user = bignumber.user_check_exact [OF assms(1) _ assms(4), of "cdUser after"]
  show ?thesis
    using c by (auto simp: checkBoth_def run_Inr requireA_def thenA_def expectEqual_def assms(5) reserve user)
qed

lemma deposit_run_iff:
  assumes B: "bignumber (suB S) ok ival" and skip: "\<not> suSkipIntegrityCheck S"
    and a: "getReserveAddressFromSymbol (suD S) (suNetwork S) sy w = (Inr reserve, w)"
    and n: "convertToCurrencyDecimals S reserve amount w = (Inr n, w)" "0 < n"
    and prior: "contractsData S reserve onBehalfOf (Some sender) w = (Inr prior, w)"
    and w1: "w1 = w\<lparr>sent := sent w @ [depositTx S reserve n onBehalfOf None sender]\<rparr>"
    and after: "contractsData S reserve onBehalfOf (Some sender) w1 = (Inr after, w1)"
    and cost: "getTxCostAndTimestamp S w1 = (Inr (cost, t), w1)"
    and r: "configured (suParams S) (the (symbol (cdReserve prior)))"
      "sound_reserve ival (cdReserve prior) (ival t)"
  shows "\<exists>e eu.
    calcExpectedReserveDataAfterDeposit (suB S) (suParams S) (decimal n) (cdReserve prior) t = Some e \<and>
    calcExpectedUserDataAfterDeposit (suB S) (decimal n) (cdReserve prior) e (cdUser prior) t
      (cdTimestamp after) cost = Some eu \<and>
    (deposit S sy amount sender onBehalfOf None ''success'' w = (Inr (), w1) \<longleftrightarrow>
       reverts (suC S) (sent w) (depositTx S reserve n onBehalfOf None sender) = None \<and>
       close_reserve ival e (cdReserve after) \<and> close_user ival eu (cdUser after))"
proof -
  have t: "ok t"
    using cost bignumber.of_number [OF B] by (auto simp: getTxCostAndTimestamp_def Let_def)
  note c = contractsData_complete [OF B prior]
  from bignumber.deposit_reserve [OF B _ r(1) t r(2), of "decimal n"] n(2) c obtain e where
    e: "calcExpectedReserveDataAfterDeposit (suB S) (suParams S) (decimal n) (cdReserve prior) t = Some e"
    "comparable_reserve ok e" "accrued ival (cdReserve prior) e (ival t)"
    by auto
  from bignumber.deposit_user [OF B _ _ bignumber.reserve_after_okI [OF B e(2,3) r(2)] t, of "cdUser prior"
      "cdReserve prior" "decimal n" "cdTimestamp after" cost] c obtain eu where
    eu: "calcExpectedUserDataAfterDeposit (suB S) (decimal n) (cdReserve prior) e (cdUser prior) t
      (cdTimestamp after) cost = Some eu" "comparable_user ok eu"
    by auto
  have "deposit S sy amount sender onBehalfOf None ''success'' w = (Inr (), w1) \<longleftrightarrow>
      reverts (suC S) (sent w) (depositTx S reserve n onBehalfOf None sender) = None \<and>
      checkBoth S after (Some e) (Some eu) w1 = (Inr (), w1)"
    by (simp add: deposit_def bindA_def a n(1) prior after cost optionalValue_def truthy_def thenA_sendA e(1) eu(1) Let_def w1 [symmetric]
        split: option.splits)
  with checkBoth_iff [OF B after e(2) eu(2) skip] e(1) eu(1) show ?thesis by auto
qed

text \<open>C16: A deposit passes exactly when it should.  Given the readings before it, a positive amount and a
  configured, sound reserve, the oracle has an expectation, and the deposit action with the
  expected result \<open>'success'\<close> passes if and only if the pool accepts the deposit of that amount
  and the readings after it are within 3 units of the expectation.\<close>

theorem deposit_passes_iff:
  assumes B: "bignumber (suB S) ok ival" and skip: "\<not> suSkipIntegrityCheck S"
    and a: "getReserveAddressFromSymbol (suD S) (suNetwork S) sy w = (Inr reserve, w)"
    and n: "convertToCurrencyDecimals S reserve amount w = (Inr n, w)" "0 < n"
    and prior: "contractsData S reserve onBehalfOf (Some sender) w = (Inr prior, w)"
    and w1: "w1 = w\<lparr>sent := sent w @ [depositTx S reserve n onBehalfOf None sender]\<rparr>"
    and after: "contractsData S reserve onBehalfOf (Some sender) w1 = (Inr after, w1)"
    and cost: "getTxCostAndTimestamp S w1 = (Inr (cost, t), w1)"
    and r: "configured (suParams S) (the (symbol (cdReserve prior)))"
      "sound_reserve ival (cdReserve prior) (ival t)"
  shows "\<exists>e eu.
    calcExpectedReserveDataAfterDeposit (suB S) (suParams S) (decimal n) (cdReserve prior) t = Some e \<and>
    calcExpectedUserDataAfterDeposit (suB S) (decimal n) (cdReserve prior) e (cdUser prior) t
      (cdTimestamp after) cost = Some eu \<and>
    (deposit S sy amount sender onBehalfOf None ''success'' w = (Inr (), w1) \<longleftrightarrow>
       reverts (suC S) (sent w) (depositTx S reserve n onBehalfOf None sender) = None \<and>
       close_reserve ival e (cdReserve after) \<and> close_user ival eu (cdUser after))"
  by (rule deposit_run_iff [OF assms])

subsection \<open>A sample suite\<close>

text \<open>One reserve without debt, whose balances follow the deposits sent; a pool that refuses withdrawals.\<close>

definition sample_deposits :: "tx list \<Rightarrow> nat" where
  "sample_deposits ts = length (filter (\<lambda>t. txMethod t = ''deposit'') ts)"

definition sample_readers :: readers_api where
  "sample_readers =
   \<lparr>rdReserveData = \<lambda>ts helper reserve.
      \<lparr>rawAvailableLiquidity = (if sample_deposits ts = 0 then 650000 else 651000),
       rawTotalStableDebt = 0, rawTotalVariableDebt = 0, rawLiquidityRate = 0, rawVariableBorrowRate = 0,
       rawStableBorrowRate = 39000000000000000000000000, rawAverageStableBorrowRate = 0,
       rawLiquidityIndex = 1020000000000000000000000000,
       rawVariableBorrowIndex = 1040000000000000000000000000, rawLastUpdateTimestamp = 16\<rparr>,
    rdTokens = \<lambda>ts helper reserve.
      \<lparr>lTokenOf = ''0xl'', stableDebtTokenOf = ''0xs'', variableDebtTokenOf = ''0xv''\<rparr>,
    rdPrincipalSupply = \<lambda>ts token. 0, rdSupplyLastUpdated = \<lambda>ts token. 16,
    rdScaledTotalSupply = \<lambda>ts token. 0, rdMarketBorrowRate = \<lambda>ts rateOracle reserve. 39000000000000000000000000,
    rdSymbol = \<lambda>ts reserve. ''DAI'', rdDecimals = \<lambda>ts reserve. 0,
    rdUserReserveData = \<lambda>ts helper reserve user.
      \<lparr>rawCurrentLTokenBalance = (if sample_deposits ts = 0 then 5100 else 6100), rawCurrentStableDebt = 0,
       rawCurrentVariableDebt = 0, rawPrincipalStableDebt = 0, rawScaledVariableDebt = 0,
       rawUserStableBorrowRate = 0, rawUserLiquidityRate = 0, rawStableRateLastUpdated = 0,
       rawUsageAsCollateralEnabled = True\<rparr>,
    rdScaledBalanceOf = \<lambda>ts token user. if sample_deposits ts = 0 then 5000 else 5980,
    rdBalanceOf = \<lambda>ts token user. if sample_deposits ts = 0 then 70000 else 69000,
    rdTimeLatest = \<lambda>ts. 16\<rparr>"

definition sample_suite :: "(bnval, json_db) suite" where
  "sample_suite =
   \<lparr>suB = bn_reference, suR = sample_readers,
    suC = \<lparr>reverts = \<lambda>ts t. if txMethod t = ''withdraw'' then Some ''6'' else None, created = \<lambda>ts t. ''0xC''\<rparr>,
    suD = json_file, suNetwork = ''hardhat'', suPool = ''0x9001'', suHelper = ''0x4E1'',
    suParams = sample_params, suSkipIntegrityCheck = False,
    suParseUnits = \<lambda>s d. case read_int s of None \<Rightarrow> Inl ''invalid decimal value'' | Some n \<Rightarrow> Inr (n * 10 ^ d),
    suTxTimestamp = \<lambda>ts. 16, suGasUsed = \<lambda>ts. 0, suGasPrice = \<lambda>ts. 0,
    suBlock = \<lambda>ts. Some 16, suBorrowAllowance = \<lambda>ts token user receiver. 0\<rparr>"

definition sample_world :: "json_db world" where
  "sample_world =
   \<lparr>sent = [],
    db = [(''DAI'', [(''hardhat'', \<lparr>entryAddress = ''0xDA1'', entryDeployer = None, entrySalt = None\<rparr>)]),
          (''LendingRateOracle'', [(''hardhat'', \<lparr>entryAddress = ''0x04AC'', entryDeployer = None, entrySalt = None\<rparr>)])],
    files = []\<rparr>"

definition sample_reading :: "int \<Rightarrow> bnval contracts_data" where
  "sample_reading n =
   \<lparr>cdReserve =
      \<lparr>address = Some ''0xDA1'', symbol = Some ''DAI'', decimals = Some (Fin 0),
       totalLiquidity = Some (Fin (650000 + n)), availableLiquidity = Some (Fin (650000 + n)),
       totalStableDebt = Some (Fin 0), totalVariableDebt = Some (Fin 0), principalStableDebt = Some (Fin 0),
       scaledVariableDebt = Some (Fin 0), averageStableBorrowRate = Some (Fin 0),
       variableBorrowRate = Some (Fin 0), stableBorrowRate = Some (Fin 39000000000000000000000000),
       utilizationRate = Some (Fin 0), liquidityIndex = Some (Fin 1020000000000000000000000000),
       variableBorrowIndex = Some (Fin 1040000000000000000000000000), lTokenAddress = Some ''0xl'',
       marketStableRate = Some (Fin 39000000000000000000000000), lastUpdateTimestamp = Some (Fin 16),
       totalStableDebtLastUpdated = Some (Fin 16), liquidityRate = Some (Fin 0)\<rparr>,
    cdUser =
      \<lparr>scaledLTokenBalance = Some (Fin (if n = 0 then 5000 else 5980)),
       currentLTokenBalance = Some (Fin (5100 + n)), currentStableDebt = Some (Fin 0),
       currentVariableDebt = Some (Fin 0), principalStableDebt_u = Some (Fin 0),
       scaledVariableDebt_u = Some (Fin 0), liquidityRate_u = Some (Fin 0),
       stableBorrowRate_u = Some (Fin 0), stableRateLastUpdated = Some (Fin 0),
       usageAsCollateralEnabled = Some True, walletBalance = Some (Fin (70000 - n)),
       variableBorrowIndex_u = None, principalVariableDebt = None\<rparr>,
    cdTimestamp = Fin 16\<rparr>"

definition sample_deposit_tx :: tx where
  "sample_deposit_tx = depositTx sample_suite ''0xDA1'' 1000 ''0xA11CE'' None ''0xA11CE''"

abbreviation sample_after :: "json_db world" where
  "sample_after \<equiv> sample_world\<lparr>sent := sent sample_world @ [sample_deposit_tx]\<rparr>"

lemma sample_readings:
  "sent w = sent sample_world @ ts \<Longrightarrow> db w = db sample_world \<Longrightarrow> sample_deposits ts \<le> 1 \<Longrightarrow>
   contractsData sample_suite ''0xDA1'' ''0xA11CE'' (Some ''0xA11CE'') w =
     (Inr (sample_reading (1000 * int (sample_deposits ts))), w)"
  by (cases "sample_deposits ts = 0")
    (simp_all add: contractsData_def getContractsData_def getUserData_def getReserveData_def bindA_def
      requireA_def sample_suite_def sample_world_def sample_readers_def truthy_def Let_def json_file_def
      json_get_def entry_path_def getLTokenUserData_def sample_reading_def bnOfUint_def bn_reference_def
      rayDiv_def bn_eq_def RAY_def del: bn.bnOfUint_spec)

context bignumber
begin

text \<open>The fields a deposit leaves as they are.\<close>

lemma deposit_keeps:
  assumes r: "complete_reserve ok r" "configured params (the (symbol r))"
    and t: "ok t" "sound_reserve ival r (ival t)" and n: "canonical s" "0 < num s"
    and e: "calcExpectedReserveDataAfterDeposit B params s r t = Some e"
  shows "address e = address r \<and> averageStableBorrowRate e = averageStableBorrowRate r \<and>
    principalStableDebt e = principalStableDebt r \<and> scaledVariableDebt e = scaledVariableDebt r"
proof -
  have pos: "value_of ival (totalLiquidity r) + num s \<noteq> 0"
    using t(2) n by (simp add: sound_reserve_def)
  show ?thesis
    using r t(1) n(1) pos e
    by (auto simp: calcExpectedReserveDataAfterDeposit_def calcExpectedTotalVariableDebt_def Let_def empty_reserve_def)
qed

lemma deposit_user_keeps:
  assumes u: "complete_user ok u" "complete_reserve ok r" "reserve_after_ok ok ival e"
    and t: "ok t" and s: "canonical s"
    and w: "calcExpectedUserDataAfterDeposit B s r e u t now txCost = Some w"
  shows "stableBorrowRate_u w = stableBorrowRate_u u \<and> stableRateLastUpdated w = stableRateLastUpdated u"
  using u t s w
  by (auto simp: calcExpectedUserDataAfterDeposit_def Let_def empty_user_def)

end

lemma sample_reading_ok:
  "complete_reserve bn_ok (cdReserve (sample_reading n))" "complete_user bn_ok (cdUser (sample_reading n))"
  "configured sample_params (the (symbol (cdReserve (sample_reading n))))"
  "0 \<le> n \<Longrightarrow> sound_reserve bn_int (cdReserve (sample_reading n)) (bn_int (Fin 16))" "bn_ok (Fin 16)"
  by (simp_all add: complete_reserve_def complete_user_def sample_reading_def configured_def strategy_of_def sample_params_def
      sample_strategy_def sane_params_def sound_reserve_def ray_unit_def
      del: bn.complete_reserve_fields bn.complete_user_fields)

lemma sample_values:
  "address (cdReserve (sample_reading n)) = Some ''0xDA1''"
  "value_of bn_int (totalLiquidity (cdReserve (sample_reading n))) = 650000 + n"
  "value_of bn_int (availableLiquidity (cdReserve (sample_reading n))) = 650000 + n"
  "value_of bn_int (totalStableDebt (cdReserve (sample_reading n))) = 0"
  "value_of bn_int (totalVariableDebt (cdReserve (sample_reading n))) = 0"
  "value_of bn_int (principalStableDebt (cdReserve (sample_reading n))) = 0"
  "value_of bn_int (scaledVariableDebt (cdReserve (sample_reading n))) = 0"
  "value_of bn_int (averageStableBorrowRate (cdReserve (sample_reading n))) = 0"
  "value_of bn_int (variableBorrowRate (cdReserve (sample_reading n))) = 0"
  "value_of bn_int (stableBorrowRate (cdReserve (sample_reading n))) = 39000000000000000000000000"
  "value_of bn_int (marketStableRate (cdReserve (sample_reading n))) = 39000000000000000000000000"
  "value_of bn_int (utilizationRate (cdReserve (sample_reading n))) = 0"
  "value_of bn_int (liquidityIndex (cdReserve (sample_reading n))) = 1020000000000000000000000000"
  "value_of bn_int (variableBorrowIndex (cdReserve (sample_reading n))) = 1040000000000000000000000000"
  "value_of bn_int (liquidityRate (cdReserve (sample_reading n))) = 0"
  "value_of bn_int (lastUpdateTimestamp (cdReserve (sample_reading n))) = 16"
  "value_of bn_int (scaledLTokenBalance (cdUser (sample_reading n))) = (if n = 0 then 5000 else 5980)"
  "value_of bn_int (currentLTokenBalance (cdUser (sample_reading n))) = 5100 + n"
  "value_of bn_int (currentStableDebt (cdUser (sample_reading n))) = 0"
  "value_of bn_int (currentVariableDebt (cdUser (sample_reading n))) = 0"
  "value_of bn_int (principalStableDebt_u (cdUser (sample_reading n))) = 0"
  "value_of bn_int (scaledVariableDebt_u (cdUser (sample_reading n))) = 0"
  "value_of bn_int (liquidityRate_u (cdUser (sample_reading n))) = 0"
  "value_of bn_int (stableBorrowRate_u (cdUser (sample_reading n))) = 0"
  "value_of bn_int (stableRateLastUpdated (cdUser (sample_reading n))) = 0"
  "value_of bn_int (walletBalance (cdUser (sample_reading n))) = 70000 - n"
  "usageAsCollateralEnabled (cdUser (sample_reading n)) = Some True"
  by (simp_all add: sample_reading_def value_of_def)

lemma sample_reserve_expected:
  assumes e: "calcExpectedReserveDataAfterDeposit bn_reference sample_params (decimal 1000)
     (cdReserve (sample_reading 0)) (Fin 16) = Some e"
  shows "close_reserve bn_int e (cdReserve (sample_reading 1000))"
    "reserve_after_ok bn_ok bn_int e" "value_of bn_int (liquidityIndex e) = 1020000000000000000000000000"
    "value_of bn_int (liquidityRate e) = 0"
proof -
  let ?r = "cdReserve (sample_reading 0)"
  have ok: "complete_reserve bn_ok ?r" "configured sample_params (the (symbol ?r))" "bn_ok (Fin 16)"
    "sound_reserve bn_int ?r (bn_int (Fin 16))" "canonical (decimal 1000)" "0 < num (decimal 1000)"
    by (simp_all add: sample_reading_ok del: bn_int.simps)
  from bn.deposit_reserve [OF ok] e have d: "comparable_reserve bn_ok e" "accrued bn_int ?r e (bn_int (Fin 16))"
    "settled bn_int (strategy_of sample_params (the (symbol ?r))) (marketStableRate ?r) e"
    "value_of bn_int (totalLiquidity e) = value_of bn_int (totalLiquidity ?r) + num (decimal 1000)"
    "value_of bn_int (availableLiquidity e) = value_of bn_int (availableLiquidity ?r) + num (decimal 1000)"
    "value_of bn_int (totalStableDebt e) = total_stable_at bn_int ?r (bn_int (Fin 16))"
    "value_of bn_int (totalVariableDebt e) =
      ray_mul (value_of bn_int (scaledVariableDebt ?r)) (variable_index_at bn_int ?r (bn_int (Fin 16)))"
    unfolding e option.inject by blast+
  note k = bn.deposit_keeps [OF ok e]
  note sr = sample_values [of 0]
  have v: "value_of bn_int (totalLiquidity e) = 651000" "value_of bn_int (availableLiquidity e) = 651000"
    "value_of bn_int (totalStableDebt e) = 0" "value_of bn_int (totalVariableDebt e) = 0"
    "value_of bn_int (averageStableBorrowRate e) = 0"
    "value_of bn_int (liquidityIndex e) = 1020000000000000000000000000"
    "value_of bn_int (variableBorrowIndex e) = 1040000000000000000000000000"
    subgoal using d(4) by (simp add: sr)
    subgoal using d(5) by (simp add: sr)
    subgoal using d(6) by (simp add: sr total_stable_at_def total_stable_def)
    subgoal using d(7) by (simp add: sr)
    subgoal using k by (simp add: sr)
    subgoal using d(2) by (simp add: accrued_def liquidity_index_at_def sr)
    subgoal using d(2) by (simp add: accrued_def variable_index_at_def sr)
    done
  have u: "value_of bn_int (utilizationRate e) = 0"
    using d(3) v by (simp add: settled_def utilization_def ray_div_def fixed_div_def)
  have p: "num (optimalUtilizationRate (strategy (strategy_of sample_params (the (symbol ?r))))) = 8 * 10 ^ 26"
    "num (baseVariableBorrowRate (strategy (strategy_of sample_params (the (symbol ?r))))) = 0"
    "value_of bn_int (marketStableRate ?r) = 39000000000000000000000000"
    by (simp_all add: strategy_of_def sample_params_def sample_strategy_def sample_reading_def value_of_def)
  have rates: "value_of bn_int (liquidityRate e) = 0" "value_of bn_int (variableBorrowRate e) = 0"
    "value_of bn_int (stableBorrowRate e) = 39000000000000000000000000"
    subgoal using d(3) u v(3,4) by (simp add: settled_def liquidity_rate_of_def percent_mul_def fixed_mul_def overall_rate_def sdiv_nonneg)
    subgoal using d(3) u p by (simp add: settled_def variable_rate_of_def variable_curve_def)
    subgoal using d(3) u p by (simp add: settled_def stable_rate_of_def stable_curve_def)
    done
  show "close_reserve bn_int e (cdReserve (sample_reading 1000))"
    unfolding close_reserve_def near_def sample_values v u rates using k by (simp add: sr sample_values)
  show "reserve_after_ok bn_ok bn_int e"
    by (rule bn.reserve_after_okI [OF d(1,2) ok(4)])
  show "value_of bn_int (liquidityIndex e) = 1020000000000000000000000000" "value_of bn_int (liquidityRate e) = 0"
    by fact+
qed

lemma sample_user_expected:
  assumes e: "calcExpectedReserveDataAfterDeposit bn_reference sample_params (decimal 1000)
     (cdReserve (sample_reading 0)) (Fin 16) = Some e"
    and w: "calcExpectedUserDataAfterDeposit bn_reference (decimal 1000) (cdReserve (sample_reading 0)) e
     (cdUser (sample_reading 0)) (Fin 16) now cost = Some w"
  shows "close_user bn_int w (cdUser (sample_reading 1000))"
proof -
  let ?r = "cdReserve (sample_reading 0)"
  let ?u = "cdUser (sample_reading 0)"
  note after = sample_reserve_expected [OF e]
  have ok: "complete_user bn_ok ?u" "complete_reserve bn_ok ?r" "reserve_after_ok bn_ok bn_int e"
    "bn_ok (Fin 16)" "canonical (decimal 1000)"
    by (simp_all add: sample_reading_ok after)
  from bn.deposit_user [OF ok, of now cost] have d:
    "value_of bn_int (walletBalance w) = value_of bn_int (walletBalance ?u) - num (decimal 1000)"
    "value_of bn_int (currentLTokenBalance w) = user_balance_at bn_int ?r ?u (bn_int (Fin 16)) + num (decimal 1000)"
    "value_of bn_int (scaledLTokenBalance w) =
      value_of bn_int (scaledLTokenBalance ?u) + ray_div (num (decimal 1000)) (value_of bn_int (liquidityIndex e))"
    "usageAsCollateralEnabled w =
      (if value_of bn_int (currentLTokenBalance ?u) = 0 then Some True else usageAsCollateralEnabled ?u)"
    "value_of bn_int (currentStableDebt w) = user_stable_at bn_int ?u (bn_int (Fin 16))"
    "value_of bn_int (currentVariableDebt w) = user_variable_at bn_int ?r ?u (bn_int (Fin 16))"
    "value_of bn_int (principalStableDebt_u w) = user_variable_at bn_int ?r ?u (bn_int (Fin 16))"
    "scaledVariableDebt_u w = scaledVariableDebt_u ?u" "liquidityRate_u w = liquidityRate e"
    unfolding w option.inject by blast+
  note k = bn.deposit_user_keeps [OF ok w]
  note sr = sample_values [of 0, simplified]
  have "user_balance_at bn_int ?r ?u 16 = 5100"
    by (simp add: user_balance_at_def normalized_income_def sr ray_mul_def fixed_mul_def ray_unit_def)
  moreover have "user_variable_at bn_int ?r ?u 16 = 0" "user_stable_at bn_int ?u 16 = 0"
    by (simp_all add: user_variable_at_def user_stable_at_def stable_balance_def sr)
  moreover have "ray_div 1000 1020000000000000000000000000 = 980"
    by (simp add: ray_div_def fixed_div_def ray_unit_def)
  ultimately show ?thesis
    unfolding close_user_def near_def sample_values using d k after(3,4)
    by (simp add: sr)
qed

lemma sample_db:
  "getReserveAddressFromSymbol (suD sample_suite) (suNetwork sample_suite) ''DAI'' sample_world = (Inr ''0xDA1'', sample_world)"
  "convertToCurrencyDecimals sample_suite ''0xDA1'' (decimal 1000) sample_world = (Inr 1000, sample_world)"
  by (simp_all add: getReserveAddressFromSymbol_def convertToCurrencyDecimals_def bindA_def requireA_def sample_suite_def
      sample_world_def sample_readers_def json_file_def json_get_def entry_path_def Let_def read_int_decimal)

lemma sample_setting:
  "contractsData sample_suite ''0xDA1'' ''0xA11CE'' (Some ''0xA11CE'') sample_world =
     (Inr (sample_reading 0), sample_world)"
  "contractsData sample_suite ''0xDA1'' ''0xA11CE'' (Some ''0xA11CE'') sample_after =
     (Inr (sample_reading 1000), sample_after)"
  "suB sample_suite = bn_reference" "\<not> suSkipIntegrityCheck sample_suite" "suParams sample_suite = sample_params"
  "getTxCostAndTimestamp sample_suite sample_after = (Inr (Fin 0, Fin 16), sample_after)"
  "reverts (suC sample_suite) (sent sample_world) sample_deposit_tx = None"
  "bignumber (suB sample_suite) bn_ok bn_int"
  "configured (suParams sample_suite) (the (symbol (cdReserve (sample_reading 0))))"
proof -
  have n: "sample_deposits (sent sample_world) = 0" "sample_deposits (sent sample_after) = 1"
    by (simp_all add: sample_deposits_def sample_world_def sample_deposit_tx_def depositTx_def callTx_def)
  have zero: "decimal 0 = ''0''" "bn_of_string ''0'' = Fin 0"
    by (simp add: zero_decimal) (simp only: zero_decimal bn_of_string_decimal)
  show "contractsData sample_suite ''0xDA1'' ''0xA11CE'' (Some ''0xA11CE'') sample_world =
      (Inr (sample_reading 0), sample_world)"
    "contractsData sample_suite ''0xDA1'' ''0xA11CE'' (Some ''0xA11CE'') sample_after =
      (Inr (sample_reading 1000), sample_after)"
    using sample_readings [of sample_world "[]"] sample_readings [of sample_after "[sample_deposit_tx]"] n
    by (simp_all add: sample_world_def)
  show s: "suB sample_suite = bn_reference" "\<not> suSkipIntegrityCheck sample_suite" "suParams sample_suite = sample_params"
    "getTxCostAndTimestamp sample_suite sample_after = (Inr (Fin 0, Fin 16), sample_after)"
    "reverts (suC sample_suite) (sent sample_world) sample_deposit_tx = None"
    by (simp_all add: sample_suite_def getTxCostAndTimestamp_def bn_reference_def sample_deposit_tx_def
        depositTx_def callTx_def zero)
  show "bignumber (suB sample_suite) bn_ok bn_int" by (simp add: s bn_reference_laws)
  show "configured (suParams sample_suite) (the (symbol (cdReserve (sample_reading 0))))"
    by (simp add: s sample_reading_ok)
qed

lemma sample_deposit_runs:
  "deposit sample_suite ''DAI'' (decimal 1000) ''0xA11CE'' ''0xA11CE'' None ''success'' sample_world =
     (Inr (), sample_after)"
proof -
  have r: "sound_reserve bn_int (cdReserve (sample_reading 0)) (bn_int (Fin 16))"
    by (simp add: sample_reading_ok del: bn_int.simps)
  note run = deposit_run_iff [OF sample_setting(8,4) sample_db(1,2) _ sample_setting(1) _ sample_setting(2,6,9) r]
  from run obtain e eu where
    e: "calcExpectedReserveDataAfterDeposit bn_reference sample_params (decimal 1000)
      (cdReserve (sample_reading 0)) (Fin 16) = Some e"
    and eu: "calcExpectedUserDataAfterDeposit bn_reference (decimal 1000) (cdReserve (sample_reading 0)) e
      (cdUser (sample_reading 0)) (Fin 16) (cdTimestamp (sample_reading 1000)) (Fin 0) = Some eu"
    and i: "deposit sample_suite ''DAI'' (decimal 1000) ''0xA11CE'' ''0xA11CE'' None ''success'' sample_world =
      (Inr (), sample_after) \<longleftrightarrow> reverts (suC sample_suite) (sent sample_world) sample_deposit_tx = None \<and>
      close_reserve bn_int e (cdReserve (sample_reading 1000)) \<and> close_user bn_int eu (cdUser (sample_reading 1000))"
    unfolding sample_setting(3,5) by (auto simp: sample_deposit_tx_def)
  with sample_reserve_expected(1) [OF e] sample_user_expected [OF e eu] sample_setting(7) show ?thesis by blast
qed

theorem deposit_passes_iff_witness:
  "\<exists>e. calcExpectedReserveDataAfterDeposit bn_reference sample_params (decimal 1000)
       (cdReserve (sample_reading 0)) (Fin 16) = Some e \<and>
     close_reserve bn_int e (cdReserve (sample_reading 1000))"
proof -
  have r: "sound_reserve bn_int (cdReserve (sample_reading 0)) (bn_int (Fin 16))"
    by (simp add: sample_reading_ok del: bn_int.simps)
  from deposit_passes_iff [OF sample_setting(8,4) sample_db(1,2) _ sample_setting(1) _ sample_setting(2,6,9) r]
  show ?thesis
    unfolding sample_setting(3,5) using sample_deposit_runs by (auto simp: sample_deposit_tx_def)
qed

definition sample_action :: "string \<Rightarrow> string \<Rightarrow> scenario_action" where
  "sample_action name expected =
   \<lparr>actionName = Some name,
    actionArgs = \<lparr>argReserve = Some ''DAI'', argUser = Some ''0'', argBorrowRateMode = None,
      argAmount = Some (decimal 1000), argSendValue = None, argOnBehalfOf = None, argToUser = None,
      argTimeTravel = None, argUseAsCollateral = None, argTarget = None\<rparr>,
    actionExpected = Some expected, actionRevertMessage = None\<rparr>"

definition sample_story :: "scenario_action list \<Rightarrow> story" where
  "sample_story acts = \<lparr>storyDescription = ''A user deposits, cannot withdraw, and asks for nonsense'',
     storyActions = acts\<rparr>"

lemma sample_user_at: "user_at [''0xA11CE''] (Some ''0'') = Some ''0xA11CE''"
  by (simp add: user_at_def parseInt_def parse_digits_def array_get_def digit_value_def)

lemma sample_executes:
  "executeAction sample_suite [''0xA11CE''] (sample_action ''deposit'' ''success'') w =
     deposit sample_suite ''DAI'' (decimal 1000) ''0xA11CE'' ''0xA11CE'' None ''success'' w"
  "executeAction sample_suite [''0xA11CE''] (sample_action ''withdraw'' ''revert'') w =
     withdraw sample_suite ''DAI'' (decimal 1000) ''0xA11CE'' ''revert'' w"
  "executeAction sample_suite [''0xA11CE''] (sample_action ''steal'' ''success'') w =
     (Inl ''Invalid action requested: steal'', w)"
proof -
  have t: "truthy (Some (decimal 1000))" by (simp add: truthy_def decimal_def digits_of.simps)
  show "executeAction sample_suite [''0xA11CE''] (sample_action ''deposit'' ''success'') w =
     deposit sample_suite ''DAI'' (decimal 1000) ''0xA11CE'' ''0xA11CE'' None ''success'' w"
   "executeAction sample_suite [''0xA11CE''] (sample_action ''withdraw'' ''revert'') w =
     withdraw sample_suite ''DAI'' (decimal 1000) ''0xA11CE'' ''revert'' w"
  "executeAction sample_suite [''0xA11CE''] (sample_action ''steal'' ''success'') w =
     (Inl ''Invalid action requested: steal'', w)"
    using t by (simp_all add: executeAction_def sample_action_def dispatch_def sample_user_at amountA_def userA_simps
        truthy_def [of None] truthy_def [of "Some (x # xs)" for x xs])
qed

lemma sample_withdraw_runs:
  "withdraw sample_suite ''DAI'' (decimal 1000) ''0xA11CE'' ''revert'' sample_after = (Inr (), sample_after)"
proof -
  have "sample_deposits (sent sample_after) = 1"
    by (simp add: sample_deposits_def sample_world_def sample_deposit_tx_def depositTx_def callTx_def)
  then have c: "contractsData sample_suite ''0xDA1'' ''0xA11CE'' None sample_after = (Inr (sample_reading 1000), sample_after)"
    using sample_setting(2) by (simp add: contractsData_def getContractsData_def truthy_def)
  have a: "getReserveAddressFromSymbol (suD sample_suite) (suNetwork sample_suite) ''DAI'' sample_after =
      (Inr ''0xDA1'', sample_after)"
    "convertToCurrencyDecimals sample_suite ''0xDA1'' (decimal 1000) sample_after = (Inr 1000, sample_after)"
    using sample_db by (auto simp: getReserveAddressFromSymbol_def convertToCurrencyDecimals_def bindA_def
        requireA_def sample_suite_def sample_readers_def split: option.splits)
  have "decimal 1000 \<noteq> ''-1''" by (simp add: decimal_def digits_of.simps digit_char_def)
  then show ?thesis
    by (simp add: withdraw_def bindA_def a c Let_def expectRevertA_def sendA_def)
      (simp add: sample_suite_def callTx_def)
qed

lemma sample_story_runs:
  "executeStory sample_suite [''0xA11CE''] (sample_story [sample_action ''deposit'' ''success'',
     sample_action ''withdraw'' ''revert'']) sample_world = (Inr (), sample_after)"
  "executeStory sample_suite [''0xA11CE''] (sample_story [sample_action ''deposit'' ''success'',
     sample_action ''steal'' ''success'']) sample_world = (Inl ''Invalid action requested: steal'', sample_after)"
  by (simp_all add: executeStory_def sample_story_def sample_executes thenA_def bindA_def
      sample_deposit_runs sample_withdraw_runs)

theorem pool_action_outcome_witness:
  "\<exists>t. txMethod t = ''withdraw'' \<and> txSender t = ''0xA11CE'' \<and>
     reverts (suC sample_suite) (sent sample_after) t \<noteq> None"
proof -
  have "executeAction sample_suite [''0xA11CE''] (sample_action ''withdraw'' ''revert'') sample_after =
      (Inr (), sample_after)"
    by (simp add: sample_executes sample_withdraw_runs)
  from pool_action_outcome [OF this, of "''withdraw''"] show ?thesis
    by (auto simp: sample_action_def pool_methods_def sample_user_at)
qed

theorem story_makes_expected_calls_witness:
  "calls_made (sent sample_after) = [(Some ''0x9001'', ''deposit'', ''0xA11CE'')]"
proof -
  from story_makes_expected_calls [OF sample_story_runs(1)] obtain ts where
    "sample_after = sample_world\<lparr>sent := sent sample_world @ ts\<rparr>"
    "calls_made ts = [(Some (suPool sample_suite), ''deposit'', ''0xA11CE'')]"
    by (auto simp: sample_story_def expected_calls_def sample_action_def pool_methods_def sample_user_at)
  moreover from this(1) have "sent sample_after = sent (sample_world\<lparr>sent := sent sample_world @ ts\<rparr>)"
    by (rule arg_cong)
  ultimately show ?thesis by (simp add: sample_world_def sample_suite_def)
qed

theorem story_stops_at_failure_witness:
  "\<exists>k w1. executeAction sample_suite [''0xA11CE'']
     ([sample_action ''deposit'' ''success'', sample_action ''steal'' ''success''] ! k) w1 =
     (Inl ''Invalid action requested: steal'', sample_after)"
  using story_stops_at_failure [OF sample_story_runs(2)] by (auto simp: sample_story_def)

subsection \<open>Readings\<close>

lemma ray_div_le_unit: "0 \<le> a \<Longrightarrow> a \<le> b \<Longrightarrow> 0 < b \<Longrightarrow> ray_div a b \<le> ray_unit"
proof -
  assume a: "0 \<le> a" "a \<le> b" "0 < b"
  have half: "b div 2 < b" using a(3) by simp
  have "b div 2 + a * ray_unit < (ray_unit + 1) * b"
    using mult_right_mono [OF a(2) less_imp_le [OF ray_unit_pos]] half
    unfolding distrib_right mult.commute [of ray_unit b] mult_1 by linarith
  moreover have "((b div 2 + a * ray_unit) div b) * b \<le> b div 2 + a * ray_unit"
    using a(3) div_mult_mod_eq [of "b div 2 + a * ray_unit" b] pos_mod_sign [of b "b div 2 + a * ray_unit"]
    by linarith
  ultimately have "((b div 2 + a * ray_unit) div b) * b < (ray_unit + 1) * b" by linarith
  then have "(b div 2 + a * ray_unit) div b < ray_unit + 1" using a(3) by simp
  then show ?thesis using a by (simp add: ray_div_def fixed_div_def sdiv_nonneg)
qed

lemma utilization_le_unit: "0 \<le> a \<Longrightarrow> 0 \<le> s \<Longrightarrow> 0 \<le> v \<Longrightarrow> utilization s v (a + s + v) \<le> ray_unit"
  using ray_div_le_unit [of "s + v" "a + s + v"] by (auto simp: utilization_def)

lemma uint256_range: "uint (x :: uint256) \<in> {0..<2 ^ 256}"
  using unsigned_less [of x] by simp

context bignumber
begin

lemma getReserveData_range:
  assumes "getReserveData B R D network helper reserve w = (Inr r, w')"
  shows "value_of ival (availableLiquidity r) \<in> {0..<2 ^ 256} \<and>
    value_of ival (totalStableDebt r) \<in> {0..<2 ^ 256} \<and> value_of ival (totalVariableDebt r) \<in> {0..<2 ^ 256}"
proof -
  from assms obtain x y z where "availableLiquidity r = Some (bnOfUint B x)"
    "totalStableDebt r = Some (bnOfUint B y)" "totalVariableDebt r = Some (bnOfUint B z)"
    by (auto simp: getReserveData_def bindA_Inr requireA_Inr Let_def)
  with uint256_range [of x] uint256_range [of y] uint256_range [of z] show ?thesis
    by (simp add: value_of_def)
qed

lemma getUserData_range:
  assumes "getUserData B R helper reserve user sender w = (Inr u, w')"
  shows "value_of ival (currentLTokenBalance u) \<in> {0..<2 ^ 256} \<and> value_of ival (walletBalance u) \<in> {0..<2 ^ 256}"
proof -
  from assms obtain x y where "currentLTokenBalance u = Some (bnOfUint B x)" "walletBalance u = Some (bnOfUint B y)"
    by (auto simp: getUserData_def Let_def)
  with uint256_range [of x] uint256_range [of y] show ?thesis by (simp add: value_of_def)
qed

end



end
