(* ===== verification/PoolOperations.thy ===== *)
theory PoolOperations
  imports PoolFacts ScenarioClaims
begin

text \<open>
  The oracle against the whole pool: what a deposit and a withdrawal in Solidity change of the tokens,
  a reserve and a user, and that what is read afterwards agrees with the oracle's expectations.
\<close>

subsection \<open>Tokens moved by an operation\<close>

lemma transfer_exact:
  assumes "sol_transfer_tokens t sender recipient n = Inr t'" "sender \<noteq> recipient"
  shows "uint (sol_balances t' recipient) = uint (sol_balances t recipient) + uint n"
    "uint (sol_balances t' sender) = uint (sol_balances t sender) - uint n"
  using assms by (auto simp: sol_transfer_tokens_def Let_def dest!: sol_add_exact sol_sub_or_exact)

lemma callOptionalReturn_Inr [simp]:
  "sol_callOptionalReturn E token v = Inr x \<longleftrightarrow> hasCode E token \<and> v = Inr x"
  by (cases v) (auto simp: sol_callOptionalReturn_def)

lemma transferFrom_balances:
  "sol_transferFrom spender t sender recipient n = Inr t' \<Longrightarrow>
   \<exists>t1. sol_transfer_tokens t sender recipient n = Inr t1 \<and> sol_balances t' = sol_balances t1"
  by (auto simp: sol_transferFrom_def)

lemma updateInterestRates_keeps:
  assumes "sol_updateInterestRates E asset m a k = Inr m'"
  shows "mrStrategy m' = mrStrategy m \<and> mrStable m' = mrStable m \<and> mrVariable m' = mrVariable m \<and>
    mrAsset m' = mrAsset m \<and> mrLToken m' = mrLToken m \<and> mrTreasury m' = mrTreasury m \<and>
    same_static (mrData m) (mrData m') \<and> sol_liquidityIndex (mrData m') = sol_liquidityIndex (mrData m) \<and>
    sol_lastUpdateTimestamp (mrData m') = sol_lastUpdateTimestamp (mrData m)"
  by (rule sol_updateInterestRates_result [OF assms]) (simp add: same_static_def)

text \<open>What a successful deposit consists of.\<close>

lemma sol_deposit_parts:
  assumes "sol_deposit E p asset n who = Inr p'" "msgSender E \<noteq> sol_lTokenAddress (mrData (lpReserves p asset))"
  obtains m1 m2 where
    "sol_updateState E (lpReserves p asset) = Inr m1" "sol_updateInterestRates E asset m1 n 0 = Inr m2"
    "mrData (lpReserves p' asset) = mrData m2" "mrStable (lpReserves p' asset) = mrStable (lpReserves p asset)"
    "mrVariable (lpReserves p' asset) = mrVariable (lpReserves p asset)"
    "uint (sol_balances (mrAsset (lpReserves p' asset)) (sol_lTokenAddress (mrData (lpReserves p asset)))) =
      uint (sol_balances (mrAsset (lpReserves p asset)) (sol_lTokenAddress (mrData (lpReserves p asset)))) + uint n"
    "uint (sol_balances (mrAsset (lpReserves p' asset)) (msgSender E)) =
      uint (sol_balances (mrAsset (lpReserves p asset)) (msgSender E)) - uint n"
    "n \<noteq> 0"
proof -
  from assms(1) obtain m1 m2 a m3 first where
    us: "sol_updateState E (lpReserves p asset) = Inr m1" and ui: "sol_updateInterestRates E asset m1 n 0 = Inr m2"
    and tr: "sol_transferFrom (poolAddress E) (mrAsset m2) (msgSender E)
      (sol_lTokenAddress (mrData (lpReserves p asset))) n = Inr a"
    and mint: "sol_lToken_mint (m2\<lparr>mrAsset := a\<rparr>) who n (ucast (sol_liquidityIndex (mrData m2))) = Inr (m3, first)"
    and p': "(if first then sol_setCollateralFlag (p\<lparr>lpReserves := (lpReserves p)(asset := m3)\<rparr>) asset who True
      else Inr (p\<lparr>lpReserves := (lpReserves p)(asset := m3)\<rparr>)) = Inr p'"
    and n: "n \<noteq> 0"
    by (auto simp: sol_deposit_def Let_def sol_safeTransferFrom_def sol_validateDeposit_def)
  have m': "lpReserves p' asset = m3"
    using p' by (auto simp: sol_setCollateralFlag_def split: if_splits)
  have m3: "mrData m3 = mrData m2" "mrStable m3 = mrStable m2" "mrVariable m3 = mrVariable m2" "mrAsset m3 = a"
    using mint by (auto simp: sol_lToken_mint_def Let_def)
  from transferFrom_balances [OF tr] transfer_exact [OF _ assms(2)]
  have "uint (sol_balances a (sol_lTokenAddress (mrData (lpReserves p asset)))) =
      uint (sol_balances (mrAsset m2) (sol_lTokenAddress (mrData (lpReserves p asset)))) + uint n"
    "uint (sol_balances a (msgSender E)) = uint (sol_balances (mrAsset m2) (msgSender E)) - uint n"
    by auto
  with us ui m' m3 n that show thesis
    using sol_updateState_keeps [OF us] updateInterestRates_keeps [OF ui] by simp
qed

subsection \<open>A deposit\<close>

text \<open>Two records of a reserve agree up to the rounding of the variable rate: every field the integrity
  check compares is the same, but the variable rate, which is within 2 units, and the liquidity rate,
  which is the same when the variable rates are.\<close>

definition agrees :: "('b \<Rightarrow> int) \<Rightarrow> IReserveParams \<Rightarrow> 'b ReserveData \<Rightarrow> 'b ReserveData \<Rightarrow> bool" where
  "agrees ival ps e r \<longleftrightarrow>
     value_of ival (totalLiquidity r) = value_of ival (totalLiquidity e) \<and>
     value_of ival (utilizationRate r) = value_of ival (utilizationRate e) \<and>
     value_of ival (availableLiquidity r) = value_of ival (availableLiquidity e) \<and>
     value_of ival (totalStableDebt r) = value_of ival (totalStableDebt e) \<and>
     value_of ival (totalVariableDebt r) = value_of ival (totalVariableDebt e) \<and>
     value_of ival (stableBorrowRate r) = value_of ival (stableBorrowRate e) \<and>
     value_of ival (averageStableBorrowRate r) = value_of ival (averageStableBorrowRate e) \<and>
     value_of ival (liquidityIndex r) = value_of ival (liquidityIndex e) \<and>
     value_of ival (variableBorrowIndex r) = value_of ival (variableBorrowIndex e) \<and>
     value_of ival (principalStableDebt r) = value_of ival (principalStableDebt e) \<and>
     value_of ival (scaledVariableDebt r) = value_of ival (scaledVariableDebt e) \<and>
     \<bar>value_of ival (variableBorrowRate r) - value_of ival (variableBorrowRate e)\<bar> \<le> 2 \<and>
     (value_of ival (utilizationRate r) = 0 \<or>
      num (optimalUtilizationRate (strategy ps)) < value_of ival (utilizationRate r) \<longrightarrow>
        value_of ival (variableBorrowRate r) = value_of ival (variableBorrowRate e)) \<and>
     (value_of ival (variableBorrowRate r) = value_of ival (variableBorrowRate e) \<longrightarrow>
        value_of ival (liquidityRate r) = value_of ival (liquidityRate e))"

lemma deposit_kept:
  assumes "calcExpectedReserveDataAfterDeposit B params s r t = Some e"
  shows "principalStableDebt e = principalStableDebt r" "scaledVariableDebt e = scaledVariableDebt r"
    "averageStableBorrowRate e = averageStableBorrowRate r" "address e = address r"
  using assms by (auto simp: calcExpectedReserveDataAfterDeposit_def Let_def split: Option.bind_splits)

lemma withdraw_kept:
  assumes "calcExpectedReserveDataAfterWithdraw B params s r u t = Some e"
  shows "principalStableDebt e = principalStableDebt r" "scaledVariableDebt e = scaledVariableDebt r"
    "averageStableBorrowRate e = averageStableBorrowRate r"
  using assms by (auto simp: calcExpectedReserveDataAfterWithdraw_def Let_def split: Option.bind_splits)

text \<open>No interest is booked between the reading before an operation and the operation.\<close>

definition no_debt_accrued :: "('b \<Rightarrow> int) \<Rightarrow> 'b ReserveData \<Rightarrow> int \<Rightarrow> bool" where
  "no_debt_accrued ival r now \<longleftrightarrow>
     total_stable_at ival r now = value_of ival (totalStableDebt r) \<and>
     ray_mul (value_of ival (scaledVariableDebt r)) (variable_index_at ival r now) =
       value_of ival (totalVariableDebt r)"

lemma agreesI:
  assumes e: "accrued ival r e now" "settled ival ps (marketStableRate r) e"
      "value_of ival (availableLiquidity e) = value_of ival (availableLiquidity r) + delta"
      "value_of ival (totalStableDebt e) = total_stable_at ival r now"
      "value_of ival (totalVariableDebt e) =
        ray_mul (value_of ival (scaledVariableDebt r)) (variable_index_at ival r now)"
      "value_of ival (totalLiquidity e) = value_of ival (availableLiquidity e) +
        value_of ival (totalStableDebt e) + value_of ival (totalVariableDebt e)"
    and kept: "principalStableDebt e = principalStableDebt r" "scaledVariableDebt e = scaledVariableDebt r"
      "averageStableBorrowRate e = averageStableBorrowRate r"
    and r': "moved_to ival ps r now delta r'"
  shows "agrees ival ps e r'"
proof -
  define s v a where "s = value_of ival (totalStableDebt e)" and "v = value_of ival (totalVariableDebt e)"
    and "a = value_of ival (availableLiquidity e)"
  have tot: "value_of ival (totalLiquidity e) = a + s + v" using e(6) by (simp add: s_def v_def a_def)
  have set: "value_of ival (utilizationRate e) = utilization s v (a + s + v)"
    "value_of ival (liquidityRate e) =
      liquidity_rate_of ps (value_of ival (utilizationRate e)) s v (value_of ival (averageStableBorrowRate r))"
    "value_of ival (stableBorrowRate e) =
      stable_rate_of ps (value_of ival (marketStableRate r)) (value_of ival (utilizationRate e))"
    "value_of ival (variableBorrowRate e) = variable_rate_of ps (value_of ival (utilizationRate e))"
    using e(2) kept(3) tot unfolding settled_def s_def [symmetric] v_def [symmetric] by simp_all
  have idx: "value_of ival (liquidityIndex e) = liquidity_index_at ival r now"
    "value_of ival (variableBorrowIndex e) = variable_index_at ival r now"
    using e(1) by (simp_all add: accrued_def)
  note m = r' [unfolded moved_to_def Let_def, folded e(3) e(4) e(5), folded s_def v_def a_def, folded set(1)]
  show ?thesis
    unfolding agrees_def
    using m set idx tot kept by (auto simp: s_def [symmetric] v_def [symmetric] a_def [symmetric] abs_minus_commute)
qed

lemma deposit_agrees:
  assumes B: "bignumber B ok ival" and r: "complete_reserve ok r" "map_of params (the (symbol r)) = Some ps"
    and t: "ok t" "ival t = uint (blockTimestamp E)"
    and m: "configured_as ps (lpReserves p asset)" "initialised (blockTimestamp E) (lpReserves p asset)"
    and before: "reads_reserve E0 asset (lpReserves p asset) ival r" "earning ival r"
      "marketBorrowRate E0 asset = marketBorrowRate E asset"
    and tx: "sol_deposit E p asset n who = Inr p'" "msgSender E \<noteq> sol_lTokenAddress (mrData (lpReserves p asset))"
    and after: "reads_reserve E' asset (lpReserves p' asset) ival r'" "blockTimestamp E' = blockTimestamp E"
  shows "\<exists>e. calcExpectedReserveDataAfterDeposit B params (decimal (uint n)) r t = Some e \<and>
    value_of ival (totalLiquidity r') - value_of ival (totalLiquidity e) =
      total_stable_at ival r (ival t) - value_of ival (totalStableDebt r) +
      (ray_mul (value_of ival (scaledVariableDebt r)) (variable_index_at ival r (ival t)) -
        value_of ival (totalVariableDebt r)) \<and>
    (no_debt_accrued ival r (ival t) \<longrightarrow> agrees ival ps e r')"
proof -
  from tx obtain m1 m2 where parts:
    "sol_updateState E (lpReserves p asset) = Inr m1" "sol_updateInterestRates E asset m1 n 0 = Inr m2"
    "mrData (lpReserves p' asset) = mrData m2" "mrStable (lpReserves p' asset) = mrStable (lpReserves p asset)"
    "mrVariable (lpReserves p' asset) = mrVariable (lpReserves p asset)"
    "uint (sol_balances (mrAsset (lpReserves p' asset)) (sol_lTokenAddress (mrData (lpReserves p asset)))) =
      uint (sol_balances (mrAsset (lpReserves p asset)) (sol_lTokenAddress (mrData (lpReserves p asset)))) + uint n"
    "n \<noteq> 0"
    by (rule sol_deposit_parts)
  have sound: "sound_reserve ival r (ival t)"
    using reads_sound [OF before(1) m(2)] t(2) by simp
  have conf: "configured params (the (symbol r))" "strategy_of params (the (symbol r)) = ps"
    using r(2) m(1) by (simp_all add: configured_def strategy_of_def configured_as_def)
  have n: "canonical (decimal (uint n))" "0 < num (decimal (uint n))"
    using uint_pos [OF parts(7)] by simp_all
  from bignumber.deposit_reserve [OF B r(1) conf(1) t(1) sound n] conf(2) obtain e where e:
    "calcExpectedReserveDataAfterDeposit B params (decimal (uint n)) r t = Some e"
    "accrued ival r e (ival t)" "settled ival ps (marketStableRate r) e"
    "value_of ival (totalLiquidity e) = value_of ival (totalLiquidity r) + uint n"
    "value_of ival (availableLiquidity e) = value_of ival (availableLiquidity r) + uint n"
    "value_of ival (totalStableDebt e) = total_stable_at ival r (ival t)"
    "value_of ival (totalVariableDebt e) =
      ray_mul (value_of ival (scaledVariableDebt r)) (variable_index_at ival r (ival t))"
    by auto
  have moved: "moved_to ival ps r (ival t) (uint n) r'"
    using settled_reads [OF m(1) parts(1,2) before(1) m(2) before(2,3) parts(3-5) _ after] parts(6) t(2) by simp
  have total: "value_of ival (totalLiquidity r) = value_of ival (availableLiquidity r) +
      value_of ival (totalStableDebt r) + value_of ival (totalVariableDebt r)"
    using before(1) by (simp only: reads_reserve_def)
  have "agrees ival ps e r'" if "no_debt_accrued ival r (ival t)"
    using that e total by (intro agreesI [OF e(2,3,5-7) _ deposit_kept(1-3) [OF e(1)] moved]) (simp add: no_debt_accrued_def)
  moreover have "value_of ival (totalLiquidity r') = value_of ival (availableLiquidity r) + uint n +
      total_stable_at ival r (ival t) +
      ray_mul (value_of ival (scaledVariableDebt r)) (variable_index_at ival r (ival t))"
    using moved by (simp only: moved_to_def Let_def)
  ultimately show ?thesis using e(1,4) total by auto
qed

subsection \<open>A withdrawal\<close>

lemma normalizedIncome_exact:
  assumes "sol_getNormalizedIncome E r = Inr i" "uint (blockTimestamp E) < 2 ^ 40"
  shows "uint i = normalized_income (uint (sol_currentLiquidityRate r)) (uint (sol_liquidityIndex r))
    (uint (blockTimestamp E) - uint (sol_lastUpdateTimestamp r))"
proof (cases "sol_lastUpdateTimestamp r = ucast (blockTimestamp E)")
  case True
  then have "uint (blockTimestamp E) - uint (sol_lastUpdateTimestamp r) = 0"
    using assms(2) by (simp add: uint_ucast_time)
  moreover have "i = ucast (sol_liquidityIndex r)"
    using assms(1) True by (simp add: sol_getNormalizedIncome_def)
  ultimately show ?thesis by (simp add: normalized_income_def linear_interest_def uint_up)
next
  case False
  with assms(1) obtain x where x: "sol_calculateLinearInterest (ucast (sol_currentLiquidityRate r))
      (ucast (sol_lastUpdateTimestamp r)) (blockTimestamp E) = Inr x"
    "sol_rayMul x (ucast (sol_liquidityIndex r)) = Inr i"
    by (auto simp: sol_getNormalizedIncome_def)
  from sol_calculateLinearInterest_exact [OF x(1)] sol_rayMul_exact [OF x(2)] show ?thesis
    by (simp add: normalized_income_def linear_interest_def uint_up)
qed

lemma lToken_balance_exact:
  assumes "sol_lToken_balanceOf E m user = Inr b" "uint (blockTimestamp E) < 2 ^ 40"
    "reads_reserve E0 asset m ival r"
    "value_of ival (scaledLTokenBalance u) = uint (sol_balances (mrLToken m) user)"
  shows "uint b = user_balance_at ival r u (uint (blockTimestamp E))"
  using assms by (auto simp: sol_lToken_balanceOf_def user_balance_at_def reads_reserve_def
      dest!: normalizedIncome_exact sol_rayMul_exact)

lemma sol_withdraw_parts:
  assumes "sol_withdraw E p asset amount to = Inr (p', n)" "to \<noteq> sol_lTokenAddress (mrData (lpReserves p asset))"
  obtains m1 m2 b where
    "sol_lToken_balanceOf E (lpReserves p asset) (msgSender E) = Inr b" "n = (if amount = max_uint then b else amount)"
    "sol_updateState E (lpReserves p asset) = Inr m1" "sol_updateInterestRates E asset m1 0 n = Inr m2"
    "mrData (lpReserves p' asset) = mrData m2" "mrStable (lpReserves p' asset) = mrStable (lpReserves p asset)"
    "mrVariable (lpReserves p' asset) = mrVariable (lpReserves p asset)"
    "uint (sol_balances (mrAsset (lpReserves p' asset)) (sol_lTokenAddress (mrData (lpReserves p asset)))) =
      uint (sol_balances (mrAsset (lpReserves p asset)) (sol_lTokenAddress (mrData (lpReserves p asset)))) - uint n"
proof -
  from assms(1) obtain b m1 m2 p2 m3 where
    b: "sol_lToken_balanceOf E (lpReserves p asset) (msgSender E) = Inr b"
    and us: "sol_updateState E (lpReserves p asset) = Inr m1"
    and ui: "sol_updateInterestRates E asset m1 0 (if amount = max_uint then b else amount) = Inr m2"
    and burn: "sol_lToken_burn E asset m2 (msgSender E) to (if amount = max_uint then b else amount)
      (ucast (sol_liquidityIndex (mrData m2))) = Inr m3"
    and p': "p' = p2\<lparr>lpReserves := (lpReserves p2)(asset := m3)\<rparr>" "n = (if amount = max_uint then b else amount)"
    unfolding sol_withdraw_def Let_def by (auto simp only: andThen_Inr require_Inr sum.inject prod.inject)
  have lt: "sol_lTokenAddress (mrData m2) = sol_lTokenAddress (mrData (lpReserves p asset))"
    using sol_updateState_keeps [OF us] updateInterestRates_keeps [OF ui] by (simp add: same_static_def)
  from burn obtain t a where a: "sol_transfer_tokens (mrAsset m2) (sol_lTokenAddress (mrData m2)) to n = Inr a"
    "m3 = m2\<lparr>mrLToken := t, mrAsset := a\<rparr>"
    using p'(2) by (auto simp: sol_lToken_burn_def sol_safeTransfer_def)
  from transfer_exact(2) [OF a(1)] assms(2) lt
  have "uint (sol_balances a (sol_lTokenAddress (mrData (lpReserves p asset)))) =
      uint (sol_balances (mrAsset m2) (sol_lTokenAddress (mrData (lpReserves p asset)))) - uint n"
    by simp
  with b us ui p' a(2) that show thesis
    using sol_updateState_keeps [OF us] updateInterestRates_keeps [OF ui] by simp
qed

lemma amount_or_uint: "amount_or (decimal (uint (n :: uint256))) whole = (if n = max_uint then whole else uint n)"
proof -
  have "decimal (uint n) = MAX_UINT_AMOUNT \<longleftrightarrow> n = max_uint"
    by (metis MAX_UINT_AMOUNT_decimal canonical_decimal(2) uint_max word_uint_eqI)
  then show ?thesis by (simp add: amount_or_def)
qed

lemma withdraw_agrees:
  assumes B: "bignumber B ok ival" and r: "complete_reserve ok r" "map_of params (the (symbol r)) = Some ps"
    and u: "complete_user ok u" "value_of ival (scaledLTokenBalance u) = uint (sol_balances (mrLToken (lpReserves p asset)) (msgSender E))"
    and t: "ok t" "ival t = uint (blockTimestamp E)"
    and m: "configured_as ps (lpReserves p asset)" "initialised (blockTimestamp E) (lpReserves p asset)"
    and before: "reads_reserve E0 asset (lpReserves p asset) ival r" "earning ival r"
      "marketBorrowRate E0 asset = marketBorrowRate E asset"
    and tx: "sol_withdraw E p asset amount to = Inr (p', n)" "to \<noteq> sol_lTokenAddress (mrData (lpReserves p asset))"
    and after: "reads_reserve E' asset (lpReserves p' asset) ival r'" "blockTimestamp E' = blockTimestamp E"
  shows "\<exists>e. calcExpectedReserveDataAfterWithdraw B params (decimal (uint amount)) r u t = Some e \<and> agrees ival ps e r' \<and>
    uint n = amount_or (decimal (uint amount)) (user_balance_at ival r u (ival t))"
proof -
  from tx obtain m1 m2 b where parts:
    "sol_lToken_balanceOf E (lpReserves p asset) (msgSender E) = Inr b" "n = (if amount = max_uint then b else amount)"
    "sol_updateState E (lpReserves p asset) = Inr m1" "sol_updateInterestRates E asset m1 0 n = Inr m2"
    "mrData (lpReserves p' asset) = mrData m2" "mrStable (lpReserves p' asset) = mrStable (lpReserves p asset)"
    "mrVariable (lpReserves p' asset) = mrVariable (lpReserves p asset)"
    "uint (sol_balances (mrAsset (lpReserves p' asset)) (sol_lTokenAddress (mrData (lpReserves p asset)))) =
      uint (sol_balances (mrAsset (lpReserves p asset)) (sol_lTokenAddress (mrData (lpReserves p asset)))) - uint n"
    by (rule sol_withdraw_parts)
  have sound: "sound_reserve ival r (ival t)"
    using reads_sound [OF before(1) m(2)] t(2) by simp
  have conf: "configured params (the (symbol r))" "strategy_of params (the (symbol r)) = ps"
    using r(2) m(1) by (simp_all add: configured_def strategy_of_def configured_as_def)
  have now: "uint (blockTimestamp E) < 2 ^ 40" using m(2) by (simp only: initialised_def)
  have n: "uint n = amount_or (decimal (uint amount)) (user_balance_at ival r u (ival t))"
    using lToken_balance_exact [OF parts(1) now before(1) u(2)] parts(2) t(2) by (simp add: amount_or_uint)
  have moved: "moved_to ival ps r (ival t) (- uint n) r'"
    using settled_reads [OF m(1) parts(3,4) before(1) m(2) before(2,3) parts(5-7) _ after] parts(8) t(2) by simp
  have le: "uint n \<le> value_of ival (availableLiquidity r)"
    using before(1) parts(8) uint_ge_0 [of "sol_balances (mrAsset (lpReserves p' asset)) (sol_lTokenAddress (mrData (lpReserves p asset)))"]
    by (simp only: reads_reserve_def)
  from bignumber.withdraw_reserve [OF B r(1) u(1) conf(1) t(1) sound _ le [unfolded n]] conf(2) n obtain e where e:
    "calcExpectedReserveDataAfterWithdraw B params (decimal (uint amount)) r u t = Some e"
    "accrued ival r e (ival t)" "balanced ival e" "settled ival ps (marketStableRate r) e"
    "value_of ival (availableLiquidity e) = value_of ival (availableLiquidity r) + - uint n"
    "value_of ival (totalStableDebt e) = total_stable_at ival r (ival t)"
    "value_of ival (totalVariableDebt e) =
      ray_mul (value_of ival (scaledVariableDebt r)) (variable_index_at ival r (ival t))"
    by auto
  have "agrees ival ps e r'"
    using e(3) by (intro agreesI [OF e(2,4-7) _ withdraw_kept [OF e(1)] moved]) (simp add: balanced_def)
  with e(1) n show ?thesis by blast
qed

subsection \<open>The user of a deposit\<close>

text \<open>The record of a user holds what the contracts answer; the wallet may be another account's.\<close>

definition reads_user ::
  "sol_env \<Rightarrow> lending_pool \<Rightarrow> address \<Rightarrow> address \<Rightarrow> address \<Rightarrow> ('b \<Rightarrow> int) \<Rightarrow> 'b UserReserveData \<Rightarrow> bool" where
  "reads_user E p asset user wallet ival u \<longleftrightarrow>
     (let m = lpReserves p asset in
      (\<exists>b v s f. sol_lToken_balanceOf E m user = Inr b \<and> sol_variable_balanceOf E m user = Inr v \<and>
         sol_stable_balanceOf E (mrStable m) user = Inr s \<and>
         sol_isUsingAsCollateral (lpUsersConfig p user) (unat (sol_id (mrData m))) = Inr f \<and>
         value_of ival (currentLTokenBalance u) = uint b \<and> value_of ival (currentVariableDebt u) = uint v \<and>
         value_of ival (currentStableDebt u) = uint s \<and> usageAsCollateralEnabled u = Some f) \<and>
      value_of ival (scaledLTokenBalance u) = uint (sol_balances (mrLToken m) user) \<and>
      value_of ival (principalStableDebt_u u) = uint (sol_balances (mrStable m) user) \<and>
      value_of ival (scaledVariableDebt_u u) = uint (sol_balances (mrVariable m) user) \<and>
      value_of ival (stableBorrowRate_u u) = uint (sol_usersStableRate (mrStable m) user) \<and>
      value_of ival (liquidityRate_u u) = uint (sol_currentLiquidityRate (mrData m)) \<and>
      value_of ival (stableRateLastUpdated u) = uint (sol_timestamps (mrStable m) user) \<and>
      value_of ival (walletBalance u) = uint (sol_balances (mrAsset m) wallet))"

definition answers_user ::
  "readers_api \<Rightarrow> tx list \<Rightarrow> string \<Rightarrow> string \<Rightarrow> string \<Rightarrow> string \<Rightarrow> sol_env \<Rightarrow> lending_pool \<Rightarrow> address \<Rightarrow>
   address \<Rightarrow> address \<Rightarrow> bool" where
  "answers_user R ts helper reserve userName walletName E p asset user wallet \<longleftrightarrow>
     sol_getUserReserveData E p asset user = Inr (rdUserReserveData R ts helper reserve userName) \<and>
     rdScaledBalanceOf R ts (lTokenOf (rdTokens R ts helper reserve)) userName =
       sol_balances (mrLToken (lpReserves p asset)) user \<and>
     rdBalanceOf R ts reserve walletName = sol_balances (mrAsset (lpReserves p asset)) wallet"

context bignumber
begin

lemma getUserData_reads:
  assumes u: "getUserData B R helper reserve userName (Some walletName) w = (Inr u, w')" "walletName \<noteq> []"
    and a: "answers_user R (sent w) helper reserve userName walletName E p asset user wallet"
  shows "reads_user E p asset user wallet ival u"
proof -
  define raw where "raw = rdUserReserveData R (sent w) helper reserve userName"
  have raw: "sol_getUserReserveData E p asset user = Inr raw" using a by (simp add: raw_def answers_user_def)
  then obtain b v s f where bvs: "sol_lToken_balanceOf E (lpReserves p asset) user = Inr b"
    "sol_variable_balanceOf E (lpReserves p asset) user = Inr v"
    "sol_stable_balanceOf E (mrStable (lpReserves p asset)) user = Inr s"
    "sol_isUsingAsCollateral (lpUsersConfig p user) (unat (sol_id (mrData (lpReserves p asset)))) = Inr f"
    by (auto simp: sol_getUserReserveData_def Let_def)
  with raw have raw_fields: "rawCurrentLTokenBalance raw = b" "rawCurrentVariableDebt raw = v"
    "rawCurrentStableDebt raw = s" "rawUsageAsCollateralEnabled raw = f"
    "rawPrincipalStableDebt raw = sol_balances (mrStable (lpReserves p asset)) user"
    "rawScaledVariableDebt raw = sol_balances (mrVariable (lpReserves p asset)) user"
    "rawUserStableBorrowRate raw = sol_usersStableRate (mrStable (lpReserves p asset)) user"
    "uint (rawUserLiquidityRate raw) = uint (sol_currentLiquidityRate (mrData (lpReserves p asset)))"
    "int (rawStableRateLastUpdated raw) = uint (sol_timestamps (mrStable (lpReserves p asset)) user)"
    by (auto simp: sol_getUserReserveData_def Let_def uint_up)
  have "value_of ival (currentLTokenBalance u) = uint (rawCurrentLTokenBalance raw) \<and>
    value_of ival (currentVariableDebt u) = uint (rawCurrentVariableDebt raw) \<and>
    value_of ival (currentStableDebt u) = uint (rawCurrentStableDebt raw) \<and>
    usageAsCollateralEnabled u = Some (rawUsageAsCollateralEnabled raw) \<and>
    value_of ival (scaledLTokenBalance u) = uint (sol_balances (mrLToken (lpReserves p asset)) user) \<and>
    value_of ival (principalStableDebt_u u) = uint (rawPrincipalStableDebt raw) \<and>
    value_of ival (scaledVariableDebt_u u) = uint (rawScaledVariableDebt raw) \<and>
    value_of ival (stableBorrowRate_u u) = uint (rawUserStableBorrowRate raw) \<and>
    value_of ival (liquidityRate_u u) = uint (rawUserLiquidityRate raw) \<and>
    value_of ival (stableRateLastUpdated u) = int (rawStableRateLastUpdated raw) \<and>
    value_of ival (walletBalance u) = uint (sol_balances (mrAsset (lpReserves p asset)) wallet)"
    using u a unfolding raw_def
    by (auto simp: getUserData_def getLTokenUserData_def Let_def answers_user_def truthy_def)
  with raw_fields bvs show ?thesis unfolding reads_user_def Let_def by auto
qed

end

lemma sol_deposit_user:
  fixes asset p p' who
  defines "m \<equiv> lpReserves p asset" and "m' \<equiv> lpReserves p' asset"
  assumes "sol_deposit E p asset n who = Inr p'" "who \<noteq> mrTreasury m"
  shows "\<exists>q. sol_rayDiv n (ucast (sol_liquidityIndex (mrData m'))) = Inr q \<and>
      uint (sol_balances (mrLToken m') who) = uint (sol_balances (mrLToken m) who) + uint q \<and>
      sol_id (mrData m') = sol_id (mrData m) \<and>
      (if sol_balances (mrLToken m) who = 0
       then sol_setUsingAsCollateral (lpUsersConfig p who) (unat (sol_id (mrData m))) True = Inr (lpUsersConfig p' who)
       else lpUsersConfig p' = lpUsersConfig p)"
proof -
  from assms(3) obtain m1 m2 a m3 first where
    us: "sol_updateState E m = Inr m1" and ui: "sol_updateInterestRates E asset m1 n 0 = Inr m2"
    and mint: "sol_lToken_mint (m2\<lparr>mrAsset := a\<rparr>) who n (ucast (sol_liquidityIndex (mrData m2))) = Inr (m3, first)"
    and p': "(if first then sol_setCollateralFlag (p\<lparr>lpReserves := (lpReserves p)(asset := m3)\<rparr>) asset who True
      else Inr (p\<lparr>lpReserves := (lpReserves p)(asset := m3)\<rparr>)) = Inr p'"
    by (auto simp: sol_deposit_def Let_def m_def)
  have m': "m' = m3" using p' by (auto simp: m'_def sol_setCollateralFlag_def split: if_splits)
  note keeps = sol_updateState_keeps [OF us] updateInterestRates_keeps [OF ui]
  have balance: "sol_balances (mrLToken m2) who = sol_balances (mrLToken m) who"
    using keeps assms(4) by simp
  from mint obtain q t where q: "sol_rayDiv n (ucast (sol_liquidityIndex (mrData m2))) = Inr q"
    "sol_mint (mrLToken m2) who q = Inr t" "m3 = m2\<lparr>mrAsset := a, mrLToken := t\<rparr>"
    "first = (sol_balances (mrLToken m2) who = 0)"
    by (auto simp: sol_lToken_mint_def Let_def)
  have ids: "sol_id (mrData m3) = sol_id (mrData m)" using keeps q(3) by (simp add: same_static_def)
  show ?thesis
    using q sol_mint_account [OF q(2)] balance p' ids unfolding m'
    by (intro exI [of _ q]) (auto simp: sol_setCollateralFlag_def split: if_splits)
qed

lemma collateral_flag_set:
  assumes "sol_setUsingAsCollateral data i True = Inr data'" shows "sol_isUsingAsCollateral data' i = Inr True"
proof -
  have i: "i < 128" and d: "data' = (data AND NOT (push_bit (i * 2 + 1) 1)) OR push_bit (i * 2 + 1) 1"
    using assms by (auto simp: sol_setUsingAsCollateral_def)
  have "bit (drop_bit (i * 2 + 1) data' AND 1) 0"
    using i by (simp add: d bit_simps)
  then have "drop_bit (i * 2 + 1) data' AND 1 \<noteq> 0" by (metis bit_0_eq bot_apply bot_bool_def)
  with i show ?thesis by (simp only: sol_isUsingAsCollateral_def require_def if_True not_False_eq_True)
qed

text \<open>Depositing at an index up to four rays credits the amount within 3 units.\<close>

lemma deposit_rounding:
  assumes "0 \<le> s" "0 \<le> n" "ray_unit \<le> i" "i \<le> 4 * ray_unit"
  shows "\<bar>ray_mul (s + ray_div n i) i - (ray_mul s i + n)\<bar> \<le> 3"
proof -
  define R q a b where "R = ray_unit" and "q = ray_div n i" and "a = ray_mul (s + q) i" and "b = ray_mul s i"
  have R: "0 < R" "R \<le> i" "i \<le> 4 * R" using assms by (simp_all add: R_def)
  have q: "0 \<le> q" "\<bar>2 * i * q - 2 * (n * R)\<bar> \<le> i"
    using assms ray_div_error [of n i] ray_div_nonneg [of n i] less_le_trans [OF ray_unit_pos assms(3)]
    by (simp_all add: q_def R_def)
  have "\<bar>2 * R * a - 2 * ((s + q) * i)\<bar> \<le> R" "\<bar>2 * R * b - 2 * (s * i)\<bar> \<le> R"
    using assms q(1) R ray_mul_error [of "s + q" i] ray_mul_error [of s i] ray_unit_pos
    by (simp_all add: a_def b_def R_def)
  with q(2) R have "\<bar>2 * R * a - 2 * R * b - 2 * R * n\<bar> \<le> 6 * R"
    by (simp add: algebra_simps abs_le_iff)
  moreover have "2 * R * a - 2 * R * b - 2 * R * n = (2 * R) * (a - (b + n))" by (simp add: algebra_simps)
  ultimately have "(2 * R) * \<bar>a - (b + n)\<bar> \<le> (2 * R) * 3" using R by (simp add: abs_mult)
  then have "\<bar>a - (b + n)\<bar> \<le> 3" using R by (simp only: mult_le_cancel_left_pos)
  then show ?thesis by (simp add: a_def b_def q_def)
qed

lemma user_deposit_kept:
  assumes "calcExpectedUserDataAfterDeposit B s r e u t now txCost = Some w"
  shows "stableBorrowRate_u w = stableBorrowRate_u u" "stableRateLastUpdated w = stableRateLastUpdated u"
    "scaledVariableDebt_u w = scaledVariableDebt_u u"
  using assms by (auto simp: calcExpectedUserDataAfterDeposit_def Let_def split: Option.bind_splits)

lemma balance_zero:
  assumes "sol_lToken_balanceOf E m user = Inr b" "uint (blockTimestamp E) < 2 ^ 40"
    "ray_unit \<le> uint (sol_liquidityIndex (mrData m))"
    "uint (sol_lastUpdateTimestamp (mrData m)) \<le> uint (blockTimestamp E)"
  shows "uint b = 0 \<longleftrightarrow> sol_balances (mrLToken m) user = 0"
proof -
  from assms(1) obtain i where i: "sol_getNormalizedIncome E (mrData m) = Inr i"
    "sol_rayMul (sol_balances (mrLToken m) user) i = Inr b"
    by (auto simp: sol_lToken_balanceOf_def)
  have "ray_unit \<le> uint i"
    using normalizedIncome_exact [OF i(1) assms(2)] assms(3,4)
      order_trans [OF assms(3) ray_mul_ge_right]
    by (auto simp: normalized_income_def linear_interest_ge)
  then have "uint (sol_balances (mrLToken m) user) \<le> uint b"
    using ray_mul_ge sol_rayMul_exact [OF i(2)] by simp
  moreover have "uint b = 0" if "uint (sol_balances (mrLToken m) user) = 0"
    using that sol_rayMul_exact [OF i(2)] by simp
  ultimately show ?thesis
    using uint_ge_0 [of "sol_balances (mrLToken m) user"] by (auto simp del: uint_ge_0)
qed

text \<open>A user without debt in the reserve.\<close>

definition debt_free :: "market_reserve \<Rightarrow> address \<Rightarrow> bool" where
  "debt_free m user \<longleftrightarrow> sol_balances (mrStable m) user = 0 \<and> sol_balances (mrVariable m) user = 0"

lemma deposit_user_close:
  fixes asset p who
  defines "m \<equiv> lpReserves p asset"
  assumes B: "bignumber B ok ival" and ok: "complete_reserve ok r" "complete_user ok u" "reserve_after_ok ok ival e" "ok t"
    and t: "ival t = uint (blockTimestamp E)" "blockTimestamp E' = blockTimestamp E"
      "uint (blockTimestamp E0) \<le> uint (blockTimestamp E)" "initialised (blockTimestamp E0) m"
      "initialised (blockTimestamp E) m"
    and before: "reads_reserve E0 asset m ival r" "earning ival r" "reads_user E0 p asset who (msgSender E) ival u"
    and tx: "sol_deposit E p asset n who = Inr p'" "msgSender E \<noteq> sol_lTokenAddress (mrData m)" "who \<noteq> mrTreasury m"
      "debt_free m who"
    and after: "reads_reserve E' asset (lpReserves p' asset) ival r'" "reads_user E' p' asset who (msgSender E) ival u'"
    and e: "value_of ival (liquidityIndex e) = liquidity_index_at ival r (ival t)" "agrees ival ps e r'"
      "value_of ival (liquidityIndex e) \<le> 4 * ray_unit"
    and w: "calcExpectedUserDataAfterDeposit B (decimal (uint n)) r e u t now txCost = Some w"
  shows "close_user ival w u' \<longleftrightarrow> near ival (liquidityRate r') (liquidityRate e)"
proof -
  define m' where "m' = lpReserves p' asset"
  note fee = tx(3) [unfolded m_def]
  from sol_deposit_parts [OF tx(1) tx(2) [unfolded m_def]] obtain m1 m2 where parts:
    "sol_updateState E m = Inr m1" "sol_updateInterestRates E asset m1 n 0 = Inr m2" "mrData m' = mrData m2"
    "mrStable m' = mrStable m" "mrVariable m' = mrVariable m"
    "uint (sol_balances (mrAsset m') (msgSender E)) = uint (sol_balances (mrAsset m) (msgSender E)) - uint n"
    unfolding m_def m'_def by metis
  from sol_deposit_user [OF tx(1) fee] obtain q where q:
    "sol_rayDiv n (ucast (sol_liquidityIndex (mrData m'))) = Inr q"
    "uint (sol_balances (mrLToken m') who) = uint (sol_balances (mrLToken m) who) + uint q"
    "sol_id (mrData m') = sol_id (mrData m)"
    "if sol_balances (mrLToken m) who = 0
     then sol_setUsingAsCollateral (lpUsersConfig p who) (unat (sol_id (mrData m))) True = Inr (lpUsersConfig p' who)
     else lpUsersConfig p' = lpUsersConfig p"
    unfolding m_def m'_def by blast
  define i where "i = uint (sol_liquidityIndex (mrData m'))"
  have i: "value_of ival (liquidityIndex e) = i" "value_of ival (liquidityIndex r') = i"
    using e(2) after(1) by (simp_all add: agrees_def reads_reserve_def m'_def i_def)
  have sound: "sound_reserve ival r (ival t)" using reads_sound [OF before(1) t(5)] t(1) by simp
  have ge: "ray_unit \<le> i"
    using liquidity_index_ge [OF sound] sound e(1) i by (simp add: sound_reserve_def)
  have q2: "uint q = ray_div (uint n) i" using sol_rayDiv_exact [OF q(1)] by (simp add: i_def uint_up)
  obtain w2 where w2: "w2 = w" "comparable_user ok w2"
    "value_of ival (walletBalance w2) = value_of ival (walletBalance u) - uint n"
    "value_of ival (currentLTokenBalance w2) = user_balance_at ival r u (ival t) + uint n"
    "value_of ival (scaledLTokenBalance w2) = value_of ival (scaledLTokenBalance u) + ray_div (uint n) i"
    "usageAsCollateralEnabled w2 =
      (if value_of ival (currentLTokenBalance u) = 0 then Some True else usageAsCollateralEnabled u)"
    "value_of ival (currentStableDebt w2) = user_stable_at ival u (ival t)"
    "value_of ival (currentVariableDebt w2) = user_variable_at ival r u (ival t)"
    "value_of ival (principalStableDebt_u w2) = user_variable_at ival r u (ival t)"
    "liquidityRate_u w2 = liquidityRate e"
    using bignumber.deposit_user [OF B ok(2,1,3,4), of "decimal (uint n)" now txCost] w i by auto
  note kept = user_deposit_kept [OF w]
  define b0 where "b0 = uint (sol_balances (mrLToken m) who)"
  have u: "value_of ival (scaledLTokenBalance u) = b0" "value_of ival (principalStableDebt_u u) = 0"
    "value_of ival (scaledVariableDebt_u u) = 0"
    "value_of ival (stableBorrowRate_u u) = uint (sol_usersStableRate (mrStable m) who)"
    "value_of ival (stableRateLastUpdated u) = uint (sol_timestamps (mrStable m) who)"
    "value_of ival (walletBalance u) = uint (sol_balances (mrAsset m) (msgSender E))"
    using before(3) tx(4) by (simp_all add: reads_user_def Let_def m_def debt_free_def b0_def)
  have income: "normalized_income (value_of ival (liquidityRate r)) (value_of ival (liquidityIndex r))
      (ival t - value_of ival (lastUpdateTimestamp r)) = i"
    using before(2) e(1) i(1) by (simp add: normalized_income_def liquidity_index_at_def earning_def)
  have debts: "user_stable_at ival u (ival t) = 0" "user_variable_at ival r u (ival t) = 0"
    using u by (simp_all add: user_stable_at_def user_variable_at_def stable_balance_def)
  from after(2) obtain b' f where u': "sol_lToken_balanceOf E' m' who = Inr b'"
    "sol_isUsingAsCollateral (lpUsersConfig p' who) (unat (sol_id (mrData m'))) = Inr f"
    "value_of ival (currentLTokenBalance u') = uint b'" "usageAsCollateralEnabled u' = Some f"
    "value_of ival (currentStableDebt u') = 0" "value_of ival (currentVariableDebt u') = 0"
    "value_of ival (scaledLTokenBalance u') = b0 + ray_div (uint n) i"
    "value_of ival (principalStableDebt_u u') = 0" "value_of ival (scaledVariableDebt_u u') = 0"
    "value_of ival (stableBorrowRate_u u') = uint (sol_usersStableRate (mrStable m) who)"
    "value_of ival (stableRateLastUpdated u') = uint (sol_timestamps (mrStable m) who)"
    "value_of ival (walletBalance u') = uint (sol_balances (mrAsset m) (msgSender E)) - uint n"
    "value_of ival (liquidityRate_u u') = uint (sol_currentLiquidityRate (mrData m'))"
    using parts(4,5,6) tx(4) q(2) q2
    by (auto simp: reads_user_def Let_def m'_def [symmetric] debt_free_def b0_def sol_variable_balanceOf_def
        sol_stable_balanceOf_def)
  have "sol_lastUpdateTimestamp (mrData m') = ucast (blockTimestamp E')"
    using sol_updateState_keeps [OF parts(1)] sol_updateIndexes_rates(4) updateInterestRates_keeps [OF parts(2)]
      parts(3) t(2) by metis
  then have b': "uint b' = ray_mul (b0 + ray_div (uint n) i) i"
    using u'(1) q(2) q2 by (auto simp: sol_lToken_balanceOf_def sol_getNormalizedIncome_def uint_up i_def [symmetric]
        b0_def [symmetric] dest!: sol_rayMul_exact)
  have balance: "near ival (currentLTokenBalance u') (currentLTokenBalance w)"
    using deposit_rounding [of b0 "uint n" i] ge e(3) i(1) u'(3) b' w2(1,4) u(1) income
    by (simp add: near_def user_balance_at_def b0_def)
  have flag: "usageAsCollateralEnabled u' = usageAsCollateralEnabled w"
  proof -
    from before(3) obtain b f0 where b: "sol_lToken_balanceOf E0 m who = Inr b"
      "value_of ival (currentLTokenBalance u) = uint b"
      "sol_isUsingAsCollateral (lpUsersConfig p who) (unat (sol_id (mrData m))) = Inr f0"
      "usageAsCollateralEnabled u = Some f0"
      by (auto simp: reads_user_def Let_def m_def)
    from balance_zero [OF b(1)] t(4) have "uint b = 0 \<longleftrightarrow> sol_balances (mrLToken m) who = 0"
      by (simp add: initialised_def)
    with b q(3,4) u'(2,4) w2(1,6) collateral_flag_set show ?thesis
      by (cases "sol_balances (mrLToken m) who = 0") (auto simp del: word_zero_uint)
  qed
  have rate: "near ival (liquidityRate_u u') (liquidityRate_u w) \<longleftrightarrow> near ival (liquidityRate r') (liquidityRate e)"
    using u'(13) w2(1,10) after(1) by (simp add: near_def reads_reserve_def m'_def)
  show ?thesis
    unfolding close_user_def
    using balance flag rate w2 u u' debts kept by (simp add: near_def)
qed

lemma agrees_close:
  assumes "agrees ival ps e r" "address r = address e"
  shows "close_reserve ival e r \<longleftrightarrow> near ival (liquidityRate r) (liquidityRate e)"
    "value_of ival (utilizationRate r) = 0 \<or>
      num (optimalUtilizationRate (strategy ps)) < value_of ival (utilizationRate r) \<Longrightarrow> close_reserve ival e r"
  using assms by (auto simp: agrees_def close_reserve_def near_def)

lemma contractsData_parts:
  assumes "contractsData S reserve user (Some sender) w = (Inr c, w)" "sender \<noteq> []"
  shows "getUserData (suB S) (suR S) (suHelper S) reserve user (Some sender) w = (Inr (cdUser c), w)"
    "getReserveData (suB S) (suR S) (suD S) (suNetwork S) (suHelper S) reserve w = (Inr (cdReserve c), w)"
proof -
  from assms obtain u w1 r w2 where
    u: "getUserData (suB S) (suR S) (suHelper S) reserve user (Some sender) w = (Inr u, w1)" and
    r: "getReserveData (suB S) (suR S) (suD S) (suNetwork S) (suHelper S) reserve w1 = (Inr r, w2)" and
    c: "cdReserve c = r" "cdUser c = u" "w2 = w"
    by (auto simp: contractsData_def getContractsData_def run_Inr truthy_def)
  with sent_readers [OF u] show "getUserData (suB S) (suR S) (suHelper S) reserve user (Some sender) w = (Inr (cdUser c), w)"
    "getReserveData (suB S) (suR S) (suD S) (suNetwork S) (suHelper S) reserve w = (Inr (cdReserve c), w)"
    by simp_all
qed

end
