(* ===== verification/PoolSamples.thy ===== *)
theory PoolSamples
  imports PoolOperations
begin

text \<open>
  Runs of the pool in Solidity, on which the properties are applied: a deposit while nothing is lent,
  as in the sample suite, and a deposit and a withdrawal a year after the last operation on a reserve
  of which a quarter is lent.
\<close>

subsection \<open>Running the contracts\<close>

text \<open>Evaluation goes step by step: what follows a call is not looked at before the call has a result.\<close>

lemma andThen_weak: "m = m' \<Longrightarrow> andThen m f = andThen m' f" by simp
lemma require_weak: "c = c' \<Longrightarrow> require c s r = require c' s r" by simp
lemma require_run: "require True s r = r" "require False s r = Inl s" by (simp_all add: require_def)
lemmas runs_by = require_run Let_def sol_add_def sol_sub_def sol_mul_def sol_sub_or_def sol_rayMul_def sol_rayDiv_def
  sol_RAY_def sol_halfRAY_def max_uint_def sol_SECONDS_PER_YEAR_def sol_calculateLinearInterest_def
  sol_calculateCompoundedInterest_def sol_percentMul_def sol_HALF_PERCENT_def sol_PERCENTAGE_FACTOR_def
  sol_wadToRay_def sol_WAD_RAY_RATIO_def

lemma ucast_max: "ucast (- 1 :: 128 word) = (340282366920938463463374607431768211455 :: uint256)"
  by code_simp

subsection \<open>A pool\<close>

definition sample_pool_strategy :: sol_strategy where
  "sample_pool_strategy = \<lparr>OPTIMAL_UTILIZATION_RATE = 8 * 10 ^ 26, EXCESS_UTILIZATION_RATE = 2 * 10 ^ 26,
     sol_baseVariableBorrowRate = 0, sol_variableRateSlope1 = 4 * 10 ^ 25,
     sol_variableRateSlope2 = 75 * 10 ^ 25, sol_stableRateSlope1 = 2 * 10 ^ 25,
     sol_stableRateSlope2 = 75 * 10 ^ 25\<rparr>"

definition sample_reserve_data :: reserve_data where
  "sample_reserve_data =
   \<lparr>sol_liquidityIndex = 1020000000000000000000000000, sol_variableBorrowIndex = 1040000000000000000000000000,
    sol_currentLiquidityRate = 0, sol_currentVariableBorrowRate = 0, sol_lastUpdateTimestamp = 16,
    sol_configuration = 2 ^ 56 + 1000 * 2 ^ 64, sol_currentStableBorrowRate = 39000000000000000000000000,
    sol_lTokenAddress = 0x1, sol_id = 0\<rparr>"

definition sample_market :: market_reserve where
  "sample_market =
   \<lparr>mrData = sample_reserve_data, mrStrategy = sample_pool_strategy,
    mrLToken = \<lparr>sol_balances = (\<lambda>a. if a = 0xA11CE then 5000 else 0), sol_totalSupply = 5000, sol_allowances = \<lambda>_ _. 0\<rparr>,
    mrTreasury = 0x7EA,
    mrStable = \<lparr>sol_balances = \<lambda>_. 0, sol_totalSupply = 0, sol_allowances = \<lambda>_ _. 0, sol_avgStableRate = 0,
      sol_timestamps = \<lambda>_. 0, sol_usersStableRate = \<lambda>_. 0, sol_totalSupplyTimestamp = 16\<rparr>,
    mrVariable = \<lparr>sol_balances = \<lambda>_. 0, sol_totalSupply = 0, sol_allowances = \<lambda>_ _. 0\<rparr>,
    mrAsset = \<lparr>sol_balances = (\<lambda>a. if a = 0xA11CE then 70000 else if a = 0x1 then 650000 else 0),
      sol_totalSupply = 720000, sol_allowances = \<lambda>owner spender. if owner = 0xA11CE then 100000 else 0\<rparr>\<rparr>"

definition sample_pool :: lending_pool where
  "sample_pool =
   \<lparr>lpPaused = False, lpReserves = \<lambda>_. sample_market, lpReservesList = [0xDA1],
    lpUsersConfig = \<lambda>user. if user = 0xA11CE then 2 else 0, lpMaxStableRateBorrowSizePercent = 2500\<rparr>"

definition sample_env :: sol_env where
  "sample_env =
   \<lparr>blockTimestamp = 16, msgSender = 0xA11CE, poolAddress = 0x9001,
    marketBorrowRate = \<lambda>_. 39000000000000000000000000, assetPrice = \<lambda>_. 1, hasCode = \<lambda>_. True\<rparr>"

definition paid_asset :: sol_token where
  "paid_asset =
   \<lparr>sol_balances = (sol_balances (mrAsset sample_market))(0xA11CE := 69000, 0x1 := 651000), sol_totalSupply = 720000,
    sol_allowances = (sol_allowances (mrAsset sample_market))
      (0xA11CE := (sol_allowances (mrAsset sample_market) 0xA11CE)(0x9001 := 99000))\<rparr>"

lemma sample_paid:
  "hasCode sample_env 0xDA1 \<and> sol_transferFrom 0x9001 (mrAsset sample_market) 0xA11CE 0x1 1000 = Inr paid_asset \<and>
   poolAddress sample_env = 0x9001"
  by (simp add: sol_transferFrom_def sol_transfer_tokens_def paid_asset_def sample_market_def sample_env_def runs_by
      cong: andThen_weak require_weak del: andThen_Inr word_zero_uint)

text \<open>The same pool with a quarter of the liquidity lent, and the environment a year later.\<close>

definition lent_market :: market_reserve where
  "lent_market = sample_market
   \<lparr>mrData := sample_reserve_data\<lparr>sol_currentLiquidityRate := 10000000000000000000000000,
      sol_currentVariableBorrowRate := 20000000000000000000000000\<rparr>,
    mrVariable := \<lparr>sol_balances = (\<lambda>a. if a = 0xB0B then 200000 else 0), sol_totalSupply = 200000, sol_allowances = \<lambda>_ _. 0\<rparr>\<rparr>"

definition lent_pool :: lending_pool where
  "lent_pool = sample_pool\<lparr>lpReserves := \<lambda>_. lent_market\<rparr>"

definition later_env :: sol_env where
  "later_env = sample_env\<lparr>blockTimestamp := 31536016\<rparr>"

subsection \<open>Accruing a year, and a withdrawal of the whole balance\<close>

lemma lent_interest:
  "sol_calculateLinearInterest 10000000000000000000000000 16 31536016 = Inr 1010000000000000000000000000"
  "sol_calculateCompoundedInterest 20000000000000000000000000 16 31536016 = Inr 1020199999993627485825496000"
  "sol_rayMul 1010000000000000000000000000 1020000000000000000000000000 = Inr 1030200000000000000000000000"
  "sol_rayMul 1020199999993627485825496000 1040000000000000000000000000 = Inr 1061007999993372585258515840"
  by (simp_all add: runs_by cong: andThen_weak require_weak del: andThen_Inr word_zero_uint)

definition lent_accrued :: market_reserve where
  "lent_accrued = lent_market
   \<lparr>mrData := (mrData lent_market)\<lparr>sol_liquidityIndex := 1030200000000000000000000000,
      sol_variableBorrowIndex := 1061007999993372585258515840, sol_lastUpdateTimestamp := 31536016\<rparr>,
    mrLToken := (mrLToken lent_market)\<lparr>sol_totalSupply := 5408,
      sol_balances := (sol_balances (mrLToken lent_market))(0x7EA := 408)\<rparr>\<rparr>"

lemma lent_updateIndexes:
  "sol_updateIndexes 31536016 (mrData lent_market) 200000 1020000000000000000000000000 1040000000000000000000000000 16 =
   Inr (mrData lent_accrued, 1030200000000000000000000000, 1061007999993372585258515840)"
  by (simp add: sol_updateIndexes_def ucast_max lent_interest require_run Let_def lent_accrued_def lent_market_def sample_market_def
     sample_reserve_data_def cong: andThen_weak require_weak del: andThen_Inr word_zero_uint)

lemmas lent_simps = lent_market_def sample_market_def sample_reserve_data_def later_env_def sample_env_def

lemma lent_updateState: "sol_updateState later_env lent_market = Inr lent_accrued"
proof -
  have "sol_mintToTreasury later_env (lent_market\<lparr>mrData := mrData lent_accrued\<rparr>) 200000
    1040000000000000000000000000 1030200000000000000000000000 1061007999993372585258515840 16 = Inr lent_accrued"
    by (simp add: sol_mintToTreasury_def sol_mintToTreasury_lToken_def sol_mint_def sol_calcTotalSupply_def
      sol_getReserveFactor_def sol_RESERVE_FACTOR_MASK_def lent_simps lent_accrued_def runs_by
      cong: andThen_weak require_weak del: andThen_Inr word_zero_uint)
  with lent_updateIndexes show ?thesis
    by (simp add: sol_updateState_def lent_simps del: andThen_Inr word_zero_uint)
qed

definition lent_settled :: market_reserve where
  "lent_settled = lent_accrued
   \<lparr>mrData := (mrData lent_accrued)\<lparr>sol_currentLiquidityRate := 2758659680287754170988657,
      sol_currentVariableBorrowRate := 12379776699402952683095871,
      sol_currentStableBorrowRate := 45189888349701476341547936\<rparr>\<rparr>"

lemma lent_rates: "sol_calculateInterestRates sample_pool_strategy 39000000000000000000000000 644849 0 212202 0 1000 =
    Inr (2758659680287754170988657, 45189888349701476341547936, 12379776699402952683095871)"
  unfolding sample_pool_strategy_def by code_simp

lemma lent_updateInterestRates: "sol_updateInterestRates later_env 0xDA1 lent_accrued 0 5151 = Inr lent_settled"
  by (simp add: sol_updateInterestRates_def sol_calculateInterestRatesAt_def lent_rates ucast_max
      sol_calcTotalSupply_def sol_getReserveFactor_def sol_RESERVE_FACTOR_MASK_def
      lent_simps lent_accrued_def lent_settled_def runs_by
      cong: andThen_weak require_weak del: andThen_Inr word_zero_uint)

definition lent_left :: market_reserve where
  "lent_left = lent_settled
   \<lparr>mrLToken := \<lparr>sol_balances = (sol_balances (mrLToken lent_settled))(0xA11CE := 0), sol_totalSupply = 408,
      sol_allowances = \<lambda>_ _. 0\<rparr>,
    mrAsset := (mrAsset lent_settled)\<lparr>sol_balances := (sol_balances (mrAsset lent_settled))
      (0x1 := 644849, 0xA11CE := 75151)\<rparr>\<rparr>"

definition lent_pool_after :: lending_pool where
  "lent_pool_after = lent_pool
   \<lparr>lpUsersConfig := (lpUsersConfig lent_pool)(0xA11CE := 0),
    lpReserves := (\<lambda>_. lent_market)(0xDA1 := lent_left)\<rparr>"

lemma lent_balance:
  "sol_lToken_balanceOf sample_env lent_market 0xA11CE = Inr 5100"
  "sol_lToken_balanceOf later_env lent_market 0xA11CE = Inr 5151"
  by (simp_all add: sol_lToken_balanceOf_def sol_getNormalizedIncome_def lent_simps runs_by
      cong: andThen_weak require_weak del: andThen_Inr word_zero_uint)

lemma lent_burn: "sol_lToken_burn later_env 0xDA1 lent_settled 0xA11CE 0xA11CE 5151 1030200000000000000000000000 = Inr lent_left"
  by (simp add: sol_lToken_burn_def sol_burn_def sol_safeTransfer_def sol_callOptionalReturn_def sol_transfer_tokens_def
      lent_left_def lent_settled_def lent_accrued_def lent_simps runs_by
      cong: andThen_weak require_weak del: andThen_Inr word_zero_uint)

lemma lent_withdraw:
  "sol_withdraw later_env lent_pool 0xDA1 max_uint 0xA11CE = Inr (lent_pool_after, 5151)"
proof -
  have p: "lpReserves lent_pool = (\<lambda>_. lent_market)" "\<not> lpPaused lent_pool" "msgSender later_env = 0xA11CE"
    "lpUsersConfig lent_pool 0xA11CE = 2" "sol_id (mrData lent_settled) = 0"
    "sol_getActive (sol_configuration (mrData lent_market))"
    "sol_liquidityIndex (mrData lent_settled) = 1030200000000000000000000000"
    by (simp_all add: lent_pool_def sample_pool_def later_env_def sample_env_def lent_settled_def lent_accrued_def
        lent_market_def sample_market_def sample_reserve_data_def sol_getActive_def sol_ACTIVE_MASK_def)
  have "sol_validateWithdraw later_env lent_pool 0xDA1 5151 5151 = Inr ()"
    by (simp add: sol_validateWithdraw_def sol_balanceDecreaseAllowed_def sol_isBorrowingAny_def p require_run Let_def
        cong: andThen_weak require_weak del: andThen_Inr word_zero_uint)
  moreover have "sol_setUsingAsCollateral 2 0 False = Inr 0"
    by (simp add: sol_setUsingAsCollateral_def require_run cong: require_weak)
  ultimately show ?thesis
    by (simp add: sol_withdraw_def p lent_balance lent_updateState lent_updateInterestRates lent_burn
        sol_setCollateralFlag_def require_run Let_def lent_pool_after_def
        cong: andThen_weak require_weak del: andThen_Inr word_zero_uint)
qed

subsection \<open>A deposit after a year\<close>

definition lent_settled_up :: market_reserve where
  "lent_settled_up = lent_accrued
   \<lparr>mrData := (mrData lent_accrued)\<lparr>sol_currentLiquidityRate := 2719484473056017015715904,
      sol_currentVariableBorrowRate := 12291560955604829460543419,
      sol_currentStableBorrowRate := 45145780477802414730271709\<rparr>\<rparr>"

lemma lent_rates_up: "sol_calculateInterestRates sample_pool_strategy 39000000000000000000000000 651000 0 212202 0 1000 =
    Inr (2719484473056017015715904, 45145780477802414730271709, 12291560955604829460543419)"
  unfolding sample_pool_strategy_def by code_simp

lemma lent_updateInterestRates_up: "sol_updateInterestRates later_env 0xDA1 lent_accrued 1000 0 = Inr lent_settled_up"
  by (simp add: sol_updateInterestRates_def sol_calculateInterestRatesAt_def lent_rates_up ucast_max
      sol_calcTotalSupply_def sol_getReserveFactor_def sol_RESERVE_FACTOR_MASK_def
      lent_simps lent_accrued_def lent_settled_up_def runs_by
      cong: andThen_weak require_weak del: andThen_Inr word_zero_uint)

definition lent_grown :: market_reserve where
  "lent_grown = lent_settled_up
   \<lparr>mrLToken := (mrLToken lent_settled_up)\<lparr>sol_totalSupply := 6379,
      sol_balances := (sol_balances (mrLToken lent_settled_up))(0xA11CE := 5971)\<rparr>,
    mrAsset := paid_asset\<rparr>"

definition lent_pool_grown :: lending_pool where
  "lent_pool_grown = lent_pool\<lparr>lpReserves := (\<lambda>_. lent_market)(0xDA1 := lent_grown)\<rparr>"

lemma lent_mint:
  "sol_lToken_mint (lent_settled_up\<lparr>mrAsset := paid_asset\<rparr>) 0xA11CE 1000 1030200000000000000000000000 =
     Inr (lent_grown, False)"
  by (simp add: sol_lToken_mint_def sol_mint_def lent_grown_def lent_settled_up_def lent_accrued_def lent_simps runs_by
      cong: andThen_weak require_weak del: andThen_Inr word_zero_uint)

lemma lent_deposit: "sol_deposit later_env lent_pool 0xDA1 1000 0xA11CE = Inr lent_pool_grown"
proof -
  have p: "lpReserves lent_pool = (\<lambda>_. lent_market)" "\<not> lpPaused lent_pool" "msgSender later_env = 0xA11CE"
    "sol_validateDeposit (sol_configuration (mrData lent_market)) 1000 = Inr ()"
    "sol_lTokenAddress (mrData lent_market) = 0x1" "mrAsset lent_settled_up = mrAsset sample_market"
    "sol_liquidityIndex (mrData lent_settled_up) = 1030200000000000000000000000"
    by (simp_all add: lent_pool_def sample_pool_def later_env_def sample_env_def lent_settled_up_def lent_accrued_def
        lent_market_def sample_market_def sample_reserve_data_def sol_validateDeposit_def sol_getActive_def
        sol_ACTIVE_MASK_def sol_getFrozen_def sol_FROZEN_MASK_def require_run)
  have "sol_safeTransferFrom later_env 0xDA1 (mrAsset sample_market) 0xA11CE 0x1 1000 = Inr paid_asset"
    using sample_paid by (simp add: sol_safeTransferFrom_def sol_callOptionalReturn_def later_env_def)
  then show ?thesis
    by (simp add: sol_deposit_def p lent_updateState lent_updateInterestRates_up lent_mint require_run Let_def
        lent_pool_grown_def cong: andThen_weak require_weak del: andThen_Inr word_zero_uint)
qed

subsection \<open>A deposit while nothing is lent\<close>

definition sample_grown :: market_reserve where
  "sample_grown = sample_market
   \<lparr>mrLToken := (mrLToken sample_market)\<lparr>sol_totalSupply := 5980,
      sol_balances := (sol_balances (mrLToken sample_market))(0xA11CE := 5980)\<rparr>,
    mrAsset := paid_asset\<rparr>"

definition sample_pool_grown :: lending_pool where
  "sample_pool_grown = sample_pool\<lparr>lpReserves := (\<lambda>_. sample_market)(0xDA1 := sample_grown)\<rparr>"

lemma sample_updateState: "sol_updateState sample_env sample_market = Inr sample_market"
  by (simp add: sol_updateState_def sol_updateIndexes_def sol_mintToTreasury_def sol_mintToTreasury_lToken_def
      sol_calcTotalSupply_def sol_getReserveFactor_def sol_RESERVE_FACTOR_MASK_def sample_env_def sample_market_def
      sample_reserve_data_def runs_by cong: andThen_weak require_weak del: andThen_Inr word_zero_uint)

lemma sample_updateInterestRates: "sol_updateInterestRates sample_env 0xDA1 sample_market 1000 0 = Inr sample_market"
  by (simp add: sol_updateInterestRates_def sol_calculateInterestRatesAt_def ucast_max sol_calculateInterestRates_def
      sol_getOverallBorrowRate_def sol_calcTotalSupply_def sol_getReserveFactor_def sol_RESERVE_FACTOR_MASK_def
      sample_pool_strategy_def sample_env_def sample_market_def sample_reserve_data_def runs_by
      cong: andThen_weak require_weak del: andThen_Inr word_zero_uint)

lemma sample_deposit_pool: "sol_deposit sample_env sample_pool 0xDA1 1000 0xA11CE = Inr sample_pool_grown"
proof -
  have p: "lpReserves sample_pool = (\<lambda>_. sample_market)" "\<not> lpPaused sample_pool" "msgSender sample_env = 0xA11CE"
    "sol_validateDeposit (sol_configuration (mrData sample_market)) 1000 = Inr ()"
    "sol_lTokenAddress (mrData sample_market) = 0x1"
    "sol_liquidityIndex (mrData sample_market) = 1020000000000000000000000000"
    by (simp_all add: sample_pool_def sample_env_def sample_market_def sample_reserve_data_def sol_validateDeposit_def
        sol_getActive_def sol_ACTIVE_MASK_def sol_getFrozen_def sol_FROZEN_MASK_def require_run)
  have "sol_safeTransferFrom sample_env 0xDA1 (mrAsset sample_market) 0xA11CE 0x1 1000 = Inr paid_asset"
    using sample_paid by (simp add: sol_safeTransferFrom_def sol_callOptionalReturn_def)
  moreover have "sol_lToken_mint (sample_market\<lparr>mrAsset := paid_asset\<rparr>) 0xA11CE 1000 1020000000000000000000000000 =
      Inr (sample_grown, False)"
    by (simp add: sol_lToken_mint_def sol_mint_def sample_grown_def sample_market_def runs_by
      cong: andThen_weak require_weak del: andThen_Inr word_zero_uint)
  ultimately show ?thesis
    by (simp add: sol_deposit_def p sample_updateState sample_updateInterestRates require_run Let_def
        sample_pool_grown_def cong: andThen_weak require_weak del: andThen_Inr word_zero_uint)
qed

subsection \<open>What is read from the pool\<close>

text \<open>The suite's readers as seen on the lent pool, with what they answer after a transaction.\<close>

definition lent_raw :: raw_reserve where
  "lent_raw =
   \<lparr>rawAvailableLiquidity = 650000, rawTotalStableDebt = 0, rawTotalVariableDebt = 208000,
    rawLiquidityRate = 10000000000000000000000000, rawVariableBorrowRate = 20000000000000000000000000,
    rawStableBorrowRate = 39000000000000000000000000, rawAverageStableBorrowRate = 0,
    rawLiquidityIndex = 1020000000000000000000000000,
    rawVariableBorrowIndex = 1040000000000000000000000000, rawLastUpdateTimestamp = 16\<rparr>"

definition lent_raw_after :: "uint256 \<Rightarrow> uint256 \<Rightarrow> uint256 \<Rightarrow> uint256 \<Rightarrow> raw_reserve" where
  "lent_raw_after available l sr vr =
   \<lparr>rawAvailableLiquidity = available, rawTotalStableDebt = 0, rawTotalVariableDebt = 212202,
    rawLiquidityRate = l, rawVariableBorrowRate = vr, rawStableBorrowRate = sr, rawAverageStableBorrowRate = 0,
    rawLiquidityIndex = 1030200000000000000000000000,
    rawVariableBorrowIndex = 1061007999993372585258515840, rawLastUpdateTimestamp = 31536016\<rparr>"

definition lent_readers :: "raw_reserve \<Rightarrow> readers_api" where
  "lent_readers next = sample_readers
   \<lparr>rdReserveData := \<lambda>ts helper reserve. if ts = [] then lent_raw else next,
    rdScaledTotalSupply := \<lambda>ts token. 200000,
    rdUserReserveData := \<lambda>ts helper reserve user.
      (rdUserReserveData sample_readers [] helper reserve user)\<lparr>rawUserLiquidityRate := 10000000000000000000000000\<rparr>\<rparr>"

abbreviation grown_raw :: raw_reserve where
  "grown_raw \<equiv> lent_raw_after 651000 2719484473056017015715904 45145780477802414730271709 12291560955604829460543419"

abbreviation left_raw :: raw_reserve where
  "left_raw \<equiv> lent_raw_after 644849 2758659680287754170988657 45189888349701476341547936 12379776699402952683095871"

lemma ucast_time: "ucast (31536016 :: uint256) = (31536016 :: 40 word)" "ucast (16 :: uint256) = (16 :: 40 word)"
  by simp_all

lemma lent_answers:
  "answers_reserve (lent_readers next) [] helper reserve sample_env 0xDA1 (lpReserves lent_pool 0xDA1)"
  "answers_user (lent_readers next) [] helper reserve user wallet sample_env lent_pool 0xDA1 0xA11CE 0xA11CE"
  by (simp_all add: answers_reserve_def answers_user_def lent_readers_def sample_readers_def sol_getReserveData_def
      sol_getUserReserveData_def lent_pool_def sample_pool_def sol_lToken_balanceOf_def sol_getNormalizedIncome_def lent_raw_def sol_calcTotalSupply_def
      sol_variable_totalSupply_def sol_getNormalizedDebt_def sol_variable_balanceOf_def sol_stable_balanceOf_def
      sol_isUsingAsCollateral_def lent_simps runs_by sample_deposits_def
      cong: andThen_weak require_weak del: andThen_Inr word_zero_uint)

lemma lent_debt: "sol_rayMul 200000 1061007999993372585258515840 = Inr 212202"
  by (simp add: runs_by cong: andThen_weak require_weak del: andThen_Inr word_zero_uint)

lemma lent_answers_after:
  "ts \<noteq> [] \<Longrightarrow> answers_reserve (lent_readers grown_raw) ts helper reserve later_env 0xDA1 (lpReserves lent_pool_grown 0xDA1)"
  "ts \<noteq> [] \<Longrightarrow> answers_reserve (lent_readers left_raw) ts helper reserve later_env 0xDA1 (lpReserves lent_pool_after 0xDA1)"
  by (simp_all add: answers_reserve_def lent_readers_def sample_readers_def sol_getReserveData_def lent_debt
      sol_calcTotalSupply_def sol_variable_totalSupply_def sol_getNormalizedDebt_def lent_raw_after_def
      lent_pool_grown_def lent_grown_def lent_settled_up_def paid_asset_def
      lent_pool_after_def lent_left_def lent_settled_def lent_accrued_def lent_simps Let_def
      cong: andThen_weak require_weak del: andThen_Inr word_zero_uint)

lemma sample_answers:
  "answers_reserve sample_readers [] helper reserve sample_env 0xDA1 (lpReserves sample_pool 0xDA1)"
  "answers_user sample_readers [] helper reserve user wallet sample_env sample_pool 0xDA1 0xA11CE 0xA11CE"
  by (simp_all add: answers_reserve_def answers_user_def sample_readers_def sol_getReserveData_def
      sol_getUserReserveData_def sample_pool_def sol_lToken_balanceOf_def sol_getNormalizedIncome_def sol_calcTotalSupply_def
      sol_variable_totalSupply_def sol_getNormalizedDebt_def sol_variable_balanceOf_def sol_stable_balanceOf_def
      sol_isUsingAsCollateral_def sample_env_def sample_market_def sample_reserve_data_def runs_by sample_deposits_def
      cong: andThen_weak require_weak del: andThen_Inr word_zero_uint)

lemma sample_answers_after:
  "answers_reserve sample_readers [sample_deposit_tx] helper reserve sample_env 0xDA1 (lpReserves sample_pool_grown 0xDA1)"
  "answers_user sample_readers [sample_deposit_tx] helper reserve user wallet sample_env sample_pool_grown 0xDA1 0xA11CE 0xA11CE"
proof -
  have n: "sample_deposits [sample_deposit_tx] = 1"
    by (simp add: sample_deposits_def sample_deposit_tx_def depositTx_def callTx_def)
  show "answers_reserve sample_readers [sample_deposit_tx] helper reserve sample_env 0xDA1 (lpReserves sample_pool_grown 0xDA1)"
    "answers_user sample_readers [sample_deposit_tx] helper reserve user wallet sample_env sample_pool_grown 0xDA1 0xA11CE 0xA11CE"
    by (simp_all add: n answers_reserve_def answers_user_def sample_readers_def sol_getReserveData_def
      sol_getUserReserveData_def sample_pool_grown_def sample_grown_def paid_asset_def sample_pool_def
      sol_lToken_balanceOf_def sol_getNormalizedIncome_def sol_calcTotalSupply_def
      sol_variable_totalSupply_def sol_getNormalizedDebt_def sol_variable_balanceOf_def sol_stable_balanceOf_def
      sol_isUsingAsCollateral_def sample_env_def sample_market_def sample_reserve_data_def runs_by
      cong: andThen_weak require_weak del: andThen_Inr word_zero_uint)
qed

definition lent_reading :: "bnval ReserveData" where
  "lent_reading = (cdReserve (sample_reading 0))
   \<lparr>totalLiquidity := Some (Fin 858000), totalVariableDebt := Some (Fin 208000), scaledVariableDebt := Some (Fin 200000),
    variableBorrowRate := Some (Fin 20000000000000000000000000),
    liquidityRate := Some (Fin 10000000000000000000000000),
    utilizationRate := Some (Fin 242424242424242424242424242)\<rparr>"

definition lent_user :: "bnval UserReserveData" where
  "lent_user = (cdUser (sample_reading 0))\<lparr>liquidityRate_u := Some (Fin 10000000000000000000000000)\<rparr>"

lemmas reading_simps = getUserData_def getReserveData_def bindA_def requireA_def sample_world_def sample_readers_def
  truthy_def Let_def json_file_def json_get_def entry_path_def getLTokenUserData_def sample_reading_def bnOfUint_def
  bn_reference_def rayDiv_def bn_eq_def RAY_def

lemma lent_readings:
  "getReserveData bn_reference (lent_readers next) json_file ''hardhat'' ''0x4E1'' ''0xDA1'' sample_world =
     (Inr lent_reading, sample_world)"
  "getUserData bn_reference (lent_readers next) ''0x4E1'' ''0xDA1'' ''0xA11CE'' (Some ''0xA11CE'') sample_world =
     (Inr lent_user, sample_world)"
  by (simp_all add: reading_simps lent_readers_def lent_raw_def lent_reading_def lent_user_def sample_deposits_def sdiv_nonneg
      del: bn.bnOfUint_spec)

lemma lent_readings_after:
  "\<exists>r. getReserveData bn_reference (lent_readers (lent_raw_after a l sr vr)) json_file ''hardhat'' ''0x4E1'' ''0xDA1'' sample_after =
     (Inr r, sample_after)"
  by (simp add: reading_simps lent_readers_def lent_raw_after_def del: bn.bnOfUint_spec)

lemma sample_configured:
  "map_of sample_params ''DAI'' = Some (strategy_of sample_params ''DAI'')"
  "configured_as (strategy_of sample_params ''DAI'') sample_market"
  "configured_as (strategy_of sample_params ''DAI'') lent_market"
  by (simp_all add: configured_as_def sample_params_def strategy_of_def sample_strategy_def sane_params_def
      small_params_def ray_unit_def deployed_def sample_pool_strategy_def sample_market_def lent_market_def
      sample_reserve_data_def sol_getReserveFactor_def sol_RESERVE_FACTOR_MASK_def
      sol_constructor_def sol_sub_def andThen_def require_def sol_RAY_def word_le_def)

lemma lent_setting:
  "symbol lent_reading = Some ''DAI''" "earning bn_int lent_reading" "lpReserves lent_pool 0xDA1 = lent_market"
  "initialised (blockTimestamp later_env) lent_market" "bn_int (Fin 31536016) = uint (blockTimestamp later_env)"
  "marketBorrowRate sample_env 0xDA1 = marketBorrowRate later_env 0xDA1"
  "msgSender later_env = 0xA11CE" "sol_lTokenAddress (mrData lent_market) = 0x1"
  by (simp_all add: lent_reading_def sample_reading_def earning_def value_of_def lent_pool_def later_env_def sample_env_def
      initialised_def lent_market_def sample_market_def sample_reserve_data_def ray_unit_def)

lemma lent_accrual:
  "total_stable_at bn_int lent_reading 31536016 = 0"
  "ray_mul 200000 (variable_index_at bn_int lent_reading 31536016) = 212202"
proof -
  have "ray_mul (compounded_interest 20000000000000000000000000 31536000) 1040000000000000000000000000 =
      1061007999993372585258515840"
    using sol_calculateCompoundedInterest_exact [OF lent_interest(2)] sol_rayMul_exact [OF lent_interest(4)] by simp
  then show "ray_mul 200000 (variable_index_at bn_int lent_reading 31536016) = 212202"
    using sol_rayMul_exact [OF lent_debt]
    by (simp add: lent_reading_def sample_reading_def value_of_def variable_index_at_def)
  show "total_stable_at bn_int lent_reading 31536016 = 0"
    by (simp add: lent_reading_def sample_reading_def value_of_def total_stable_at_def total_stable_def)
qed

lemma lent_values:
  "value_of bn_int (totalStableDebt lent_reading) = 0" "value_of bn_int (totalVariableDebt lent_reading) = 208000"
  "value_of bn_int (scaledVariableDebt lent_reading) = 200000" "bn_ok (Fin 31536016)"
  by (simp_all add: lent_reading_def sample_reading_def value_of_def)

end
