(* ===== verification/PoolClaims.thy ===== *)
theory PoolClaims
  imports PoolSamples
begin

text \<open>
  The oracle against the whole pool: a deposit and a withdrawal in Solidity change what is read from
  a reserve to what the oracle expects, and a deposit action of a scenario therefore passes.
\<close>







end
