(* ===== verification/PoolSteps.thy ===== *)
theory PoolSteps
  imports PoolOperations
begin

text \<open>
  The pool in Solidity over time: the calls of the users, the pools reachable by them as an inductive
  relation, and the steps every call consists of.  What each step keeps of a reserve is proved by rule
  induction, and holds of every reachable pool through the locale \<open>reserve_invariant\<close>, interpreted for
  the supplies of the tokens and for what a depositor holds.
\<close>

subsection \<open>Calls and reachable pools\<close>

datatype pool_call =
    CallDeposit address uint256 address
  | CallWithdraw address uint256 address
  | CallCollateral address bool
  | CallBorrow address uint256 uint256 address
  | CallRepay address uint256 uint256 address
  | CallSwap address uint256
  | CallRebalance address address
  | CallTransfer address address uint256

fun sol_call :: "sol_env \<Rightarrow> lending_pool \<Rightarrow> pool_call \<Rightarrow> string + lending_pool" where
  "sol_call E p (CallDeposit asset amount onBehalfOf) = sol_deposit E p asset amount onBehalfOf"
| "sol_call E p (CallWithdraw asset amount to) = andThen (sol_withdraw E p asset amount to) (\<lambda>(p', _). Inr p')"
| "sol_call E p (CallCollateral asset flag) = sol_setUserUseReserveAsCollateral E p asset flag"
| "sol_call E p (CallBorrow asset amount mode onBehalfOf) = sol_borrow E p asset amount mode onBehalfOf"
| "sol_call E p (CallRepay asset amount mode onBehalfOf) =
     andThen (sol_repay E p asset amount mode onBehalfOf) (\<lambda>(p', _). Inr p')"
| "sol_call E p (CallSwap asset mode) = sol_swapBorrowRateMode E p asset mode"
| "sol_call E p (CallRebalance asset user) = sol_rebalanceStableBorrowRate E p asset user"
| "sol_call E p (CallTransfer asset recipient amount) =
     andThen (sol_transfer_tokens (mrAsset (lpReserves p asset)) (msgSender E) recipient amount) (\<lambda>a.
     Inr (p\<lparr>lpReserves := (lpReserves p)(asset := (lpReserves p asset)\<lparr>mrAsset := a\<rparr>)\<rparr>))"

text \<open>A pool reachable by calls that satisfy \<open>Q\<close>; a call that reverts only lets time pass.\<close>

inductive pool_reaches ::
  "(sol_env \<Rightarrow> pool_call \<Rightarrow> bool) \<Rightarrow> uint256 \<Rightarrow> lending_pool \<Rightarrow> uint256 \<Rightarrow> lending_pool \<Rightarrow> bool" for Q t0 p0 where
  start: "pool_reaches Q t0 p0 t0 p0"
| call: "pool_reaches Q t0 p0 t p \<Longrightarrow> t \<le> blockTimestamp E \<Longrightarrow> uint (blockTimestamp E) < 2 ^ 40 \<Longrightarrow> Q E c \<Longrightarrow>
    sol_call E p c = Inr p' \<Longrightarrow> pool_reaches Q t0 p0 (blockTimestamp E) p'"
| revert: "pool_reaches Q t0 p0 t p \<Longrightarrow> t \<le> blockTimestamp E \<Longrightarrow> uint (blockTimestamp E) < 2 ^ 40 \<Longrightarrow>
    sol_call E p c = Inl e \<Longrightarrow> pool_reaches Q t0 p0 (blockTimestamp E) p"

fun call_asset :: "pool_call \<Rightarrow> address" where
  "call_asset (CallDeposit asset n who) = asset"
| "call_asset (CallWithdraw asset n to) = asset"
| "call_asset (CallCollateral asset flag) = asset"
| "call_asset (CallBorrow asset n mode who) = asset"
| "call_asset (CallRepay asset n mode who) = asset"
| "call_asset (CallSwap asset mode) = asset"
| "call_asset (CallRebalance asset user) = asset"
| "call_asset (CallTransfer asset to n) = asset"

text \<open>A withdrawal of a user from a reserve.\<close>

definition withdraws :: "address \<Rightarrow> address \<Rightarrow> sol_env \<Rightarrow> pool_call \<Rightarrow> bool" where
  "withdraws asset user E c \<longleftrightarrow> (\<exists>n to. c = CallWithdraw asset n to) \<and> msgSender E = user"

text \<open>What every call keeps of a reserve holds of it in every reachable pool.\<close>

locale reserve_invariant =
  fixes Q :: "sol_env \<Rightarrow> pool_call \<Rightarrow> bool" and I :: "uint256 \<Rightarrow> market_reserve \<Rightarrow> bool" and asset :: address
  assumes later: "I s m \<Longrightarrow> s \<le> t \<Longrightarrow> uint t < 2 ^ 40 \<Longrightarrow> I t m"
    and call_keeps: "sol_call E p c = Inr p' \<Longrightarrow> uint (blockTimestamp E) < 2 ^ 40 \<Longrightarrow> Q E c \<Longrightarrow>
      I (blockTimestamp E) (lpReserves p asset) \<Longrightarrow> I (blockTimestamp E) (lpReserves p' asset)"
begin

lemma reachable: "pool_reaches Q t0 p0 t p \<Longrightarrow> I t0 (lpReserves p0 asset) \<Longrightarrow> I t (lpReserves p asset)"
  by (induction rule: pool_reaches.induct) (blast intro: later call_keeps)+

end

subsection \<open>The parts of a call\<close>

lemma sum_balances_upd:
  "(\<Sum>u\<in>UNIV. uint ((f(a := x)) u)) = (\<Sum>u\<in>UNIV. uint (f u)) - uint (f a) + uint x" for f :: "address \<Rightarrow> uint256"
proof -
  have "(\<Sum>u\<in>UNIV. uint ((f(a := x)) u)) = uint x + (\<Sum>u\<in>UNIV - {a}. uint (f u))"
    by (subst sum.remove [of _ a]) (auto intro!: sum.cong)
  moreover have "(\<Sum>u\<in>UNIV. uint (f u)) = uint (f a) + (\<Sum>u\<in>UNIV - {a}. uint (f u))"
    by (rule sum.remove) auto
  ultimately show ?thesis by simp
qed

definition supply_adds_up :: "'r sol_token_scheme \<Rightarrow> bool" where
  "supply_adds_up t \<longleftrightarrow> (\<Sum>u\<in>UNIV. uint (sol_balances t u)) = uint (sol_totalSupply t)"

lemma mint_adds_up: "sol_mint t u n = Inr t' \<Longrightarrow> supply_adds_up t \<Longrightarrow> supply_adds_up t'"
  by (auto simp: sol_mint_def supply_adds_up_def sum_balances_upd simp del: fun_upd_apply dest!: sol_add_exact)

lemma burn_adds_up: "sol_burn t u n = Inr t' \<Longrightarrow> supply_adds_up t \<Longrightarrow> supply_adds_up t'"
  by (auto simp: sol_burn_def supply_adds_up_def sum_balances_upd simp del: fun_upd_apply dest!: sol_sub_exact sol_sub_or_exact)

lemma transfer_adds_up: "sol_transfer_tokens t a b n = Inr t' \<Longrightarrow> supply_adds_up t \<Longrightarrow> supply_adds_up t'"
  by (auto simp: sol_transfer_tokens_def Let_def supply_adds_up_def sum_balances_upd simp del: fun_upd_apply dest!: sol_add_exact sol_sub_or_exact)

lemma transferFrom_adds_up: "sol_transferFrom s t a b n = Inr t' \<Longrightarrow> supply_adds_up t \<Longrightarrow> supply_adds_up t'"
  by (auto simp: sol_transferFrom_def supply_adds_up_def dest: transfer_adds_up [unfolded supply_adds_up_def])

definition reserve_adds_up :: "market_reserve \<Rightarrow> bool" where
  "reserve_adds_up m \<longleftrightarrow> supply_adds_up (mrLToken m) \<and> supply_adds_up (mrVariable m) \<and> supply_adds_up (mrAsset m)"

text \<open>Whatever a call does to a reserve, it does in these steps, which redeem lTokens of the users \<open>R\<close>
  only, lend at the variable rate to the users \<open>V\<close> only, and take the underlying from \<open>S\<close> only.\<close>

inductive reserve_steps ::
  "sol_env \<Rightarrow> address set \<Rightarrow> address set \<Rightarrow> address set \<Rightarrow> market_reserve \<Rightarrow> market_reserve \<Rightarrow> bool"
  for E R V S m where
  none: "reserve_steps E R V S m m"
| accrue: "sol_updateState E m1 = Inr m2 \<Longrightarrow> reserve_steps E R V S m m1 \<Longrightarrow> reserve_steps E R V S m m2"
| settle: "sol_updateInterestRates E asset m1 x y = Inr m2 \<Longrightarrow> reserve_steps E R V S m m1 \<Longrightarrow>
    sol_lastUpdateTimestamp (mrData m1) = ucast (blockTimestamp E) \<Longrightarrow> reserve_steps E R V S m m2"
| credit: "sol_lToken_mint m1 u n i = Inr (m2, f) \<Longrightarrow> reserve_steps E R V S m m1 \<Longrightarrow> reserve_steps E R V S m m2"
| redeem: "sol_lToken_burn E asset m1 u r n i = Inr m2 \<Longrightarrow> reserve_steps E R V S m m1 \<Longrightarrow>
    u \<in> R \<Longrightarrow> sol_lTokenAddress (mrData m1) \<in> S \<Longrightarrow> reserve_steps E R V S m m2"
| lend: "sol_variable_mint m1 u w n i = Inr (m2, f) \<Longrightarrow> reserve_steps E R V S m m1 \<Longrightarrow> w \<in> V \<Longrightarrow>
    reserve_steps E R V S m m2"
| repaid: "sol_variable_burn m1 u n i = Inr m2 \<Longrightarrow> reserve_steps E R V S m m1 \<Longrightarrow> reserve_steps E R V S m m2"
| lend_stable: "sol_stable_mint E m1 u w n i = Inr (m2, f) \<Longrightarrow> reserve_steps E R V S m m1 \<Longrightarrow>
    reserve_steps E R V S m m2"
| repaid_stable: "sol_stable_burn E m1 u n = Inr m2 \<Longrightarrow> reserve_steps E R V S m m1 \<Longrightarrow> reserve_steps E R V S m m2"
| pay: "sol_transfer_tokens (mrAsset m1) s r n = Inr a \<Longrightarrow> reserve_steps E R V S m m1 \<Longrightarrow> s \<in> S \<Longrightarrow>
    reserve_steps E R V S m (m1\<lparr>mrAsset := a\<rparr>)"
| paid: "sol_transferFrom b (mrAsset m1) s r n = Inr a \<Longrightarrow> reserve_steps E R V S m m1 \<Longrightarrow> s \<in> S \<Longrightarrow>
    reserve_steps E R V S m (m1\<lparr>mrAsset := a\<rparr>)"

text \<open>The users a call may redeem lTokens of, lend to, and take the underlying from.\<close>

definition redeems :: "sol_env \<Rightarrow> pool_call \<Rightarrow> address set" where
  "redeems E c = (case c of CallWithdraw asset n to \<Rightarrow> {msgSender E} | _ \<Rightarrow> {})"

definition lends :: "sol_env \<Rightarrow> lending_pool \<Rightarrow> pool_call \<Rightarrow> address set" where
  "lends E p c = (case c of
     CallBorrow asset n mode who \<Rightarrow>
       {w. w = who \<and> (who = msgSender E \<or> n \<le> sol_allowances (mrVariable (lpReserves p asset)) who (msgSender E))}
   | CallSwap asset mode \<Rightarrow> {msgSender E} | _ \<Rightarrow> {})"

definition takes :: "sol_env \<Rightarrow> lending_pool \<Rightarrow> pool_call \<Rightarrow> address set" where
  "takes E p c = (case c of
     CallDeposit asset n who \<Rightarrow> {msgSender E} | CallRepay asset n mode who \<Rightarrow> {msgSender E}
   | CallTransfer asset to n \<Rightarrow> {msgSender E}
   | CallWithdraw asset n to \<Rightarrow> {sol_lTokenAddress (mrData (lpReserves p asset))}
   | CallBorrow asset n mode who \<Rightarrow> {sol_lTokenAddress (mrData (lpReserves p asset))} | _ \<Rightarrow> {})"

lemmas parties = redeems_def lends_def takes_def

abbreviation steps_of :: "sol_env \<Rightarrow> lending_pool \<Rightarrow> pool_call \<Rightarrow> market_reserve \<Rightarrow> market_reserve \<Rightarrow> bool" where
  "steps_of E p c \<equiv> reserve_steps E (redeems E c) (lends E p c) (takes E p c)"

lemma flag_reserves:
  "sol_setCollateralFlag p asset u f = Inr p' \<Longrightarrow> lpReserves p' = lpReserves p"
  "sol_setBorrowingFlag p asset u f = Inr p' \<Longrightarrow> lpReserves p' = lpReserves p"
  by (auto simp: sol_setCollateralFlag_def sol_setBorrowingFlag_def)

lemmas run_simps = andThen_Inr require_Inr callOptionalReturn_Inr sol_safeTransfer_def sol_safeTransferFrom_def sum.inject prod.inject
  case_prod_conv Let_def

text \<open>Minting and burning stable debt change the stable debt token only, and date it.\<close>

lemma stable_only:
  "sol_stable_mint E m u w n r = Inr (m', f) \<Longrightarrow>
     \<exists>t. m' = m\<lparr>mrStable := t\<rparr> \<and> sol_totalSupplyTimestamp t = ucast (blockTimestamp E)"
  "sol_stable_burn E m u n = Inr m' \<Longrightarrow>
     \<exists>t. m' = m\<lparr>mrStable := t\<rparr> \<and> sol_totalSupplyTimestamp t = ucast (blockTimestamp E)"
proof -
  show "sol_stable_mint E m u w n r = Inr (m', f) \<Longrightarrow>
     \<exists>t. m' = m\<lparr>mrStable := t\<rparr> \<and> sol_totalSupplyTimestamp t = ucast (blockTimestamp E)"
    unfolding sol_stable_mint_def case_prod_beta Let_def andThen_Inr require_Inr sum.inject prod.inject
    by (elim exE conjE, rule exI, rule conjI, erule sym, simp (no_asm))
  assume "sol_stable_burn E m u n = Inr m'"
  then have "\<exists>i t1. (if n < i
     then andThen (sol_sub i n) (\<lambda>k. andThen (sol_add (sol_balances t1 u) k) (\<lambda>b.
       Inr (m\<lparr>mrStable := t1\<lparr>sol_balances := (sol_balances t1)(u := b)\<rparr>\<rparr>)))
     else andThen (sol_sub n i) (\<lambda>k. andThen (sol_sub_or ''80'' (sol_balances t1 u) k) (\<lambda>b.
       Inr (m\<lparr>mrStable := t1\<lparr>sol_balances := (sol_balances t1)(u := b)\<rparr>\<rparr>)))) = Inr m' \<and>
     sol_totalSupplyTimestamp t1 = ucast (blockTimestamp E)"
    unfolding sol_stable_burn_def case_prod_beta Let_def andThen_Inr
    by - (elim exE conjE, intro exI conjI, assumption, simp (no_asm))
  then show "\<exists>t. m' = m\<lparr>mrStable := t\<rparr> \<and> sol_totalSupplyTimestamp t = ucast (blockTimestamp E)"
    by (auto split: if_splits)
qed

text \<open>Tokens are minted and burned without touching the record of the reserve, and accruing dates it.\<close>

lemma tokens_keep_data:
  "sol_variable_mint m u w n i = Inr (m', f) \<Longrightarrow> mrData m' = mrData m"
  "sol_variable_burn m u n i = Inr m' \<Longrightarrow> mrData m' = mrData m"
  "sol_stable_mint E m u w n i = Inr (m', f) \<Longrightarrow> mrData m' = mrData m"
  "sol_stable_burn E m u n = Inr m' \<Longrightarrow> mrData m' = mrData m"
  by (auto simp: sol_variable_mint_def sol_variable_burn_def Let_def dest: stable_only)

lemma updateState_time:
  assumes "sol_updateState E m = Inr m'" shows "sol_lastUpdateTimestamp (mrData m') = ucast (blockTimestamp E)"
  using sol_updateState_keeps [OF assms] by (blast dest: sol_updateIndexes_rates(4))

lemmas dated = tokens_keep_data updateState_time

lemma variable_mint_allowed:
  "sol_variable_mint m u w n i = Inr (m', f) \<Longrightarrow> w = u \<or> n \<le> sol_allowances (mrVariable m) w u"
  by (auto simp: sol_variable_mint_def sol_decreaseBorrowAllowance_def sol_sub_or_def split: if_splits)

lemma deposit_steps:
  assumes "sol_deposit E p asset n who = Inr p'"
  shows "\<exists>m'. steps_of E p (CallDeposit asset n who) (lpReserves p asset) m' \<and> lpReserves p' = (lpReserves p)(asset := m')"
proof -
  from assms obtain m1 m2 a m3 f where
    "sol_updateState E (lpReserves p asset) = Inr m1" "sol_updateInterestRates E asset m1 n 0 = Inr m2"
    "sol_transferFrom (poolAddress E) (mrAsset m2) (msgSender E) (sol_lTokenAddress (mrData (lpReserves p asset))) n = Inr a"
    "sol_lToken_mint (m2\<lparr>mrAsset := a\<rparr>) who n (ucast (sol_liquidityIndex (mrData m2))) = Inr (m3, f)"
    "(if f then sol_setCollateralFlag (p\<lparr>lpReserves := (lpReserves p)(asset := m3)\<rparr>) asset who True
      else Inr (p\<lparr>lpReserves := (lpReserves p)(asset := m3)\<rparr>)) = Inr p'"
    unfolding sol_deposit_def by (auto simp only: run_simps)
  then show ?thesis
    by (intro exI [of _ m3]) (auto simp: parties dated intro!: credit [OF _ paid [OF _ settle [OF _ accrue [OF _ none]]]] dest!: flag_reserves split: if_splits)
qed

lemma withdraw_steps:
  assumes "sol_withdraw E p asset n to = Inr (p', k)"
  shows "\<exists>m'. steps_of E p (CallWithdraw asset n to) (lpReserves p asset) m' \<and> lpReserves p' = (lpReserves p)(asset := m')"
proof -
  from assms obtain b m1 m2 p2 m3 where
    "sol_updateState E (lpReserves p asset) = Inr m1" "sol_updateInterestRates E asset m1 0 k = Inr m2"
    "sol_lToken_burn E asset m2 (msgSender E) to k (ucast (sol_liquidityIndex (mrData m2))) = Inr m3"
    "(if k = b then sol_setCollateralFlag (p\<lparr>lpReserves := (lpReserves p)(asset := m2)\<rparr>) asset (msgSender E) False
      else Inr (p\<lparr>lpReserves := (lpReserves p)(asset := m2)\<rparr>)) = Inr p2"
    "p' = p2\<lparr>lpReserves := (lpReserves p2)(asset := m3)\<rparr>"
    unfolding sol_withdraw_def by (auto simp only: run_simps)
  moreover from sol_updateState_keeps [OF this(1)] updateInterestRates_keeps [OF this(2)]
  have "sol_lTokenAddress (mrData m2) = sol_lTokenAddress (mrData (lpReserves p asset))" by (simp add: same_static_def)
  ultimately show ?thesis
    by (intro exI [of _ m3]) (auto simp: parties dated intro!: redeem [OF _ settle [OF _ accrue [OF _ none]]] dest!: flag_reserves split: if_splits)
qed

lemma borrow_steps:
  assumes "sol_borrow E p asset n mode who = Inr p'"
  shows "\<exists>m'. steps_of E p (CallBorrow asset n mode who) (lpReserves p asset) m' \<and> lpReserves p' = (lpReserves p)(asset := m')"
proof -
  define u where "u = msgSender E"
  from assms obtain m1 m2 f p1 m3 a where
    "sol_updateState E (lpReserves p asset) = Inr m1"
    "(if mode = 1 then sol_stable_mint E m1 u who n (ucast (sol_currentStableBorrowRate (mrData m1)))
      else sol_variable_mint m1 u who n (ucast (sol_variableBorrowIndex (mrData m1)))) = Inr (m2, f)"
    "(if f then sol_setBorrowingFlag p asset who True else Inr p) = Inr p1"
    "sol_updateInterestRates E asset m2 0 n = Inr m3"
    "sol_transfer_tokens (mrAsset m3) (sol_lTokenAddress (mrData (lpReserves p asset))) u n = Inr a"
    "p' = p1\<lparr>lpReserves := (lpReserves p1)(asset := m3\<lparr>mrAsset := a\<rparr>)\<rparr>"
    unfolding sol_borrow_def sol_rateMode_def u_def by (auto simp only: run_simps)
  moreover from sol_updateState_keeps [OF this(1)] have "mrVariable m1 = mrVariable (lpReserves p asset)" by blast
  moreover from calculation have "steps_of E p (CallBorrow asset n mode who) (lpReserves p asset) m2"
  proof (cases "mode = 1")
    case True
    with calculation show ?thesis by (auto intro!: lend_stable [OF _ accrue [OF _ none]])
  next
    case False
    with calculation show ?thesis
      by (auto simp: parties u_def dest: variable_mint_allowed intro!: lend [OF _ accrue [OF _ none]])
  qed
  ultimately show ?thesis
    by (intro exI [of _ "m3\<lparr>mrAsset := a\<rparr>"])
      (auto simp: parties dated intro!: pay [OF _ settle] dest!: flag_reserves split: if_splits)
qed

lemma repay_steps:
  assumes "sol_repay E p asset n mode who = Inr (p', k)"
  shows "\<exists>m'. steps_of E p (CallRepay asset n mode who) (lpReserves p asset) m' \<and> lpReserves p' = (lpReserves p)(asset := m')"
proof -
  from assms obtain m1 m2 b p1 m3 a where
    "sol_updateState E (lpReserves p asset) = Inr m1"
    "(if mode = 1 then sol_stable_burn E m1 who k
      else sol_variable_burn m1 who k (ucast (sol_variableBorrowIndex (mrData m1)))) = Inr m2"
    "sol_updateInterestRates E asset m2 k 0 = Inr m3"
    "(if b = (0 :: uint256) then sol_setBorrowingFlag p asset who False else Inr p) = Inr p1"
    "sol_transferFrom (poolAddress E) (mrAsset m3) (msgSender E) (sol_lTokenAddress (mrData (lpReserves p asset))) k = Inr a"
    "p' = p1\<lparr>lpReserves := (lpReserves p1)(asset := m3\<lparr>mrAsset := a\<rparr>)\<rparr>"
    unfolding sol_repay_def sol_rateMode_def by (auto simp only: run_simps split_paired_Ex)
  moreover from calculation have "steps_of E p (CallRepay asset n mode who) (lpReserves p asset) m2"
  proof (cases "mode = 1")
    case True
    with calculation show ?thesis by (auto intro!: repaid_stable [OF _ accrue [OF _ none]])
  next
    case False
    with calculation show ?thesis by (auto intro!: repaid [OF _ accrue [OF _ none]])
  qed
  ultimately show ?thesis
    by (intro exI [of _ "m3\<lparr>mrAsset := a\<rparr>"])
      (auto simp: parties dated intro!: paid [OF _ settle] dest!: flag_reserves split: if_splits)
qed

lemma swap_steps:
  assumes "sol_swapBorrowRateMode E p asset mode = Inr p'"
  shows "\<exists>m'. steps_of E p (CallSwap asset mode) (lpReserves p asset) m' \<and> lpReserves p' = (lpReserves p)(asset := m')"
proof -
  define u where "u = msgSender E"
  from assms obtain s v m1 m3 f m4 where
    "sol_updateState E (lpReserves p asset) = Inr m1"
    "(if mode = 1 then andThen (sol_stable_burn E m1 u s)
         (\<lambda>m2. sol_variable_mint m2 u u s (ucast (sol_variableBorrowIndex (mrData m2))))
      else andThen (sol_variable_burn m1 u v (ucast (sol_variableBorrowIndex (mrData m1))))
         (\<lambda>m2. sol_stable_mint E m2 u u v (ucast (sol_currentStableBorrowRate (mrData m2))))) = Inr (m3, f)"
    "sol_updateInterestRates E asset m3 0 0 = Inr m4" "p' = p\<lparr>lpReserves := (lpReserves p)(asset := m4)\<rparr>"
    unfolding sol_swapBorrowRateMode_def sol_rateMode_def u_def
    by (auto simp only: run_simps split_paired_Ex)
  moreover from calculation have "steps_of E p (CallSwap asset mode) (lpReserves p asset) m3"
  proof (cases "mode = 1")
    case True
    with calculation show ?thesis
      by (auto simp: parties u_def intro!: lend [OF _ repaid_stable [OF _ accrue [OF _ none]]])
  next
    case False
    with calculation show ?thesis by (auto intro!: lend_stable [OF _ repaid [OF _ accrue [OF _ none]]])
  qed
  ultimately show ?thesis by (auto simp: dated intro!: settle split: if_splits)
qed

lemma rebalance_steps:
  assumes "sol_rebalanceStableBorrowRate E p asset user = Inr p'"
  shows "\<exists>m'. steps_of E p (CallRebalance asset user) (lpReserves p asset) m' \<and> lpReserves p' = (lpReserves p)(asset := m')"
proof -
  from assms obtain s m1 m2 m3 f m4 where
    "sol_updateState E (lpReserves p asset) = Inr m1" "sol_stable_burn E m1 user s = Inr m2"
    "sol_stable_mint E m2 user user s (ucast (sol_currentStableBorrowRate (mrData m2))) = Inr (m3, f)"
    "sol_updateInterestRates E asset m3 0 0 = Inr m4" "p' = p\<lparr>lpReserves := (lpReserves p)(asset := m4)\<rparr>"
    unfolding sol_rebalanceStableBorrowRate_def by (auto simp only: run_simps split_paired_Ex)
  then show ?thesis
    by (intro exI [of _ m4]) (auto simp: dated intro!: settle [OF _ lend_stable [OF _ repaid_stable [OF _ accrue [OF _ none]]]])
qed

lemma call_steps:
  assumes "sol_call E p c = Inr p'"
  shows "\<exists>m'. steps_of E p c (lpReserves p (call_asset c)) m' \<and> lpReserves p' = (lpReserves p)(call_asset c := m')"
proof (cases c)
  case (CallTransfer asset to n)
  with assms show ?thesis by (auto simp: parties intro!: pay [OF _ none])
next
  case (CallCollateral asset f)
  with assms show ?thesis
    by (intro exI [of _ "lpReserves p asset"]) (auto simp: sol_setUserUseReserveAsCollateral_def flag_reserves intro: none)
qed (use assms in \<open>auto dest: deposit_steps withdraw_steps borrow_steps repay_steps swap_steps rebalance_steps\<close>)

lemma call_moves:
  assumes "sol_call E p c = Inr p'"
  obtains "call_asset c \<noteq> a" "lpReserves p' a = lpReserves p a"
    | "call_asset c = a" "steps_of E p c (lpReserves p a) (lpReserves p' a)"
  using call_steps [OF assms] by (cases "call_asset c = a") auto

subsection \<open>Supplies\<close>

lemma mintToTreasury_adds_up:
  assumes "sol_mintToTreasury E m s a l v t = Inr m'" "reserve_adds_up m" shows "reserve_adds_up m'"
proof -
  have "sol_mintToTreasury_lToken m n l = Inr m' \<Longrightarrow> ?thesis" for n
    using assms(2) by (auto simp: sol_mintToTreasury_lToken_def reserve_adds_up_def dest: mint_adds_up split: if_splits)
  with assms show ?thesis by (auto simp: sol_mintToTreasury_def Let_def split: if_splits)
qed

lemma steps_add_up: "reserve_steps E R V S m m' \<Longrightarrow> reserve_adds_up m \<Longrightarrow> reserve_adds_up m'"
proof (induction rule: reserve_steps.induct)
  case (accrue m1 m2)
  moreover have "reserve_adds_up (m1\<lparr>mrData := d\<rparr>) = reserve_adds_up m1" for d by (simp add: reserve_adds_up_def)
  ultimately show ?case by (auto simp: sol_updateState_def Let_def dest: mintToTreasury_adds_up)
next
  case (settle asset m1 x y m2)
  then show ?case using updateInterestRates_keeps by (simp add: reserve_adds_up_def)
next
  case (lend m1 u w n i m2 f)
  moreover have "sol_decreaseBorrowAllowance t a b k = Inr t' \<Longrightarrow> supply_adds_up t' = supply_adds_up t"
    for t t' :: sol_token and a b k
    by (auto simp: sol_decreaseBorrowAllowance_def supply_adds_up_def)
  ultimately show ?case
    by (auto simp: sol_variable_mint_def Let_def reserve_adds_up_def dest!: mint_adds_up split: if_splits)
qed (auto simp: sol_lToken_mint_def sol_lToken_burn_def sol_variable_burn_def sol_safeTransfer_def Let_def reserve_adds_up_def
    dest!: stable_only dest: mint_adds_up burn_adds_up transfer_adds_up transferFrom_adds_up)

interpretation supplies: reserve_invariant "\<lambda>_ _. True" "\<lambda>_. reserve_adds_up" asset
  by unfold_locales (auto elim!: call_moves [of _ _ _ _ asset] dest: steps_add_up)

subsection \<open>What a depositor holds\<close>

text \<open>A user holds at least \<open>s\<close> scaled lTokens, each worth at least \<open>i\<close> now.\<close>

definition income_at :: "uint256 \<Rightarrow> market_reserve \<Rightarrow> int" where
  "income_at now m = normalized_income (uint (sol_currentLiquidityRate (mrData m))) (uint (sol_liquidityIndex (mrData m)))
     (uint now - uint (sol_lastUpdateTimestamp (mrData m)))"

definition held :: "address \<Rightarrow> int \<Rightarrow> int \<Rightarrow> uint256 \<Rightarrow> market_reserve \<Rightarrow> bool" where
  "held user s i now m \<longleftrightarrow> initialised now m \<and> i \<le> income_at now m \<and> s \<le> uint (sol_balances (mrLToken m) user)"

lemma updateIndexes_accrues:
  assumes "sol_updateIndexes t r s (ucast (sol_liquidityIndex r)) (ucast (sol_variableBorrowIndex r))
    (sol_lastUpdateTimestamp r) = Inr (r', a, b)"
  shows "uint (sol_liquidityIndex r') = normalized_income (uint (sol_currentLiquidityRate r)) (uint (sol_liquidityIndex r))
      (uint t - uint (sol_lastUpdateTimestamp r)) \<and>
    uint (sol_liquidityIndex r) \<le> uint (sol_liquidityIndex r') \<and>
    uint (sol_variableBorrowIndex r) \<le> uint (sol_variableBorrowIndex r')"
proof (cases "sol_currentLiquidityRate r = 0")
  case True
  then show ?thesis
    using assms by (auto simp: sol_updateIndexes_def normalized_income_def linear_interest_def)
next
  case False
  have linear: "uint t - uint u \<ge> 0 \<and> uint k = ray_mul (linear_interest (uint x) (uint t - uint u)) (uint i) \<and> uint i \<le> uint k"
    if "sol_calculateLinearInterest x u t = Inr j" "sol_rayMul j i = Inr k" for x u i j k
    using sol_calculateLinearInterest_exact [OF that(1)] sol_rayMul_exact [OF that(2)]
    by (simp add: ray_mul_ge_right linear_interest_ge)
  have compound: "uint i \<le> uint k" if "sol_calculateCompoundedInterest x u t = Inr j" "sol_rayMul j i = Inr k" for x u i j k
    using sol_calculateCompoundedInterest_exact [OF that(1)] sol_rayMul_exact [OF that(2)]
    by (simp add: ray_mul_ge_right compounded_interest_ge)
  from False have pos: "sol_currentLiquidityRate r > 0" by (simp add: word_greater_zero_iff)
  from assms obtain j k r1 where
    new: "sol_calculateLinearInterest (ucast (sol_currentLiquidityRate r)) (ucast (sol_lastUpdateTimestamp r)) t = Inr j"
    "sol_rayMul j (ucast (sol_liquidityIndex r)) = Inr k" "k \<le> ucast (- 1 :: 128 word)"
    "r1 = r\<lparr>sol_liquidityIndex := ucast k\<rparr>"
    and rest: "(s = 0 \<and> r' = r1\<lparr>sol_lastUpdateTimestamp := ucast t\<rparr>) \<or>
      (\<exists>c v. sol_calculateCompoundedInterest (ucast (sol_currentVariableBorrowRate r)) (ucast (sol_lastUpdateTimestamp r)) t = Inr c \<and>
        sol_rayMul c (ucast (sol_variableBorrowIndex r)) = Inr v \<and> v \<le> ucast (- 1 :: 128 word) \<and>
        r' = r1\<lparr>sol_variableBorrowIndex := ucast v, sol_lastUpdateTimestamp := ucast t\<rparr>)"
    unfolding sol_updateIndexes_def by (simp add: pos Let_def split: if_splits) blast+
  have "linear_interest 0 d = ray_unit" for d by (simp add: linear_interest_def)
  with new(3-) rest linear [OF new(1,2)] show ?thesis
    by (auto simp: normalized_income_def uint_up uint_ucast_fits dest!: compound)
qed

lemma mint_grows: "sol_mint t a n = Inr t' \<Longrightarrow> uint (sol_balances t u) \<le> uint (sol_balances t' u)"
  by (auto simp: sol_mint_def dest: sol_add_exact)

lemma burn_shrinks:
  "sol_burn t a n = Inr t' \<Longrightarrow> uint (sol_balances t' u) \<le> uint (sol_balances t u) \<and>
     (u \<noteq> a \<longrightarrow> sol_balances t' u = sol_balances t u)"
  by (auto simp: sol_burn_def dest: sol_sub_or_exact)

lemma transfer_others: "sol_transfer_tokens t a b n = Inr t' \<Longrightarrow> u \<noteq> a \<Longrightarrow> uint (sol_balances t u) \<le> uint (sol_balances t' u)"
  by (auto simp: sol_transfer_tokens_def Let_def dest!: sol_add_exact)

lemma mintToTreasury_grows:
  assumes "sol_mintToTreasury E m s p l v t = Inr m'" shows "uint (sol_balances (mrLToken m) u) \<le> uint (sol_balances (mrLToken m') u)"
proof -
  have "sol_mintToTreasury_lToken m a l = Inr m' \<Longrightarrow> ?thesis" for a
    by (auto simp: sol_mintToTreasury_lToken_def dest: mint_grows split: if_splits)
  with assms show ?thesis
    by (auto simp: sol_mintToTreasury_def Let_def split: if_splits)
qed

lemma accrue_lToken:
  assumes "sol_updateState E m = Inr m'" shows "uint (sol_balances (mrLToken m) u) \<le> uint (sol_balances (mrLToken m') u)"
proof -
  from assms obtain r s p l v t where "sol_mintToTreasury E (m\<lparr>mrData := r\<rparr>) s p l v t = Inr m'"
    by (auto simp: sol_updateState_def Let_def)
  from mintToTreasury_grows [OF this] show ?thesis by simp
qed

lemma variable_mint_others:
  assumes "sol_variable_mint m u w n i = Inr (m', f)"
  shows "mrLToken m' = mrLToken m \<and> mrAsset m' = mrAsset m \<and>
    (x \<noteq> w \<longrightarrow> sol_balances (mrVariable m') x = sol_balances (mrVariable m) x)"
proof -
  have "sol_decreaseBorrowAllowance t a b k = Inr t' \<Longrightarrow> sol_balances t' = sol_balances t"
    for t t' :: sol_token and a b k
    by (auto simp: sol_decreaseBorrowAllowance_def)
  with assms show ?thesis
    by (auto simp: sol_variable_mint_def Let_def sol_mint_other split: if_splits)
qed

lemma steps_balances:
  assumes "reserve_steps E R V S m m'"
  shows "(user \<notin> R \<longrightarrow> uint (sol_balances (mrLToken m) user) \<le> uint (sol_balances (mrLToken m') user)) \<and>
    (user \<notin> V \<longrightarrow> uint (sol_balances (mrVariable m') user) \<le> uint (sol_balances (mrVariable m) user)) \<and>
    (user \<notin> S \<longrightarrow> uint (sol_balances (mrAsset m) user) \<le> uint (sol_balances (mrAsset m') user))"
  using assms
proof (induction rule: reserve_steps.induct)
  case (accrue m1 m2)
  then show ?case using sol_updateState_keeps [OF accrue(1)] accrue_lToken [OF accrue(1), of user] by auto
next
  case (settle asset m1 x y m2)
  then show ?case using updateInterestRates_keeps [OF settle(1)] by simp
next
  case (credit m1 u n i m2 f)
  then show ?case by (auto simp: sol_lToken_mint_def Let_def dest!: mint_grows [of _ _ _ _ user])
next
  case (redeem asset m1 u r n i m2)
  then show ?case
    by (auto simp: sol_lToken_burn_def sol_safeTransfer_def dest!: burn_shrinks [of _ _ _ _ user] transfer_others [of _ _ _ _ _ user])
next
  case (lend m1 u w n i m2 f)
  then have "user \<notin> V \<longrightarrow> user \<noteq> w" by auto
  with lend variable_mint_others [OF lend(1), of user] show ?case by auto
next
  case (repaid m1 u n i m2)
  then show ?case by (auto simp: sol_variable_burn_def dest!: burn_shrinks [of _ _ _ _ user])
next
  case (lend_stable m1 u w n i m2 f)
  then show ?case by (auto dest!: stable_only)
next
  case (repaid_stable m1 u n m2)
  then show ?case by (auto dest!: stable_only)
next
  case (pay m1 s r n a)
  then show ?case by (auto dest!: transfer_others [of _ _ _ _ _ user])
next
  case (paid b m1 s r n a)
  then show ?case by (auto simp: sol_transferFrom_def dest!: transfer_others [of _ _ _ _ _ user])
qed simp

lemma income_at_mono:
  assumes "initialised s m" "s \<le> t" shows "income_at s m \<le> income_at t m"
proof -
  have "linear_interest (uint x) (uint s - k) \<le> linear_interest (uint x) (uint t - k)" if "k \<le> uint s" for k and x :: "128 word"
    using assms(2) that by (intro linear_interest_mono) (simp_all add: word_le_def)
  with assms(1) show ?thesis
    by (auto simp: income_at_def normalized_income_def initialised_def linear_interest_ge word_le_def
        intro!: ray_mul_mono_left order_trans [OF ray_unit_nonneg])
qed

lemma income_now:
  assumes "sol_lastUpdateTimestamp (mrData m) = ucast now" "uint now < 2 ^ 40"
  shows "income_at now m = uint (sol_liquidityIndex (mrData m))"
  using assms by (simp add: income_at_def normalized_income_def linear_interest_def uint_ucast_time)

text \<open>Accruing makes the income the index, and dates the reserve.\<close>

lemma accrue_income:
  assumes "sol_updateState E m = Inr m'" "initialised (blockTimestamp E) m"
  shows "initialised (blockTimestamp E) m' \<and> income_at (blockTimestamp E) m' = income_at (blockTimestamp E) m"
proof -
  note keeps = sol_updateState_keeps [OF assms(1)]
  then obtain a b where idx: "sol_updateIndexes (blockTimestamp E) (mrData m) (sol_totalSupply (mrVariable m))
      (ucast (sol_liquidityIndex (mrData m))) (ucast (sol_variableBorrowIndex (mrData m)))
      (sol_lastUpdateTimestamp (mrData m)) = Inr (mrData m', a, b)" by blast
  note time = sol_updateIndexes_rates(4) [OF idx]
  have "initialised (blockTimestamp E) m'"
    using assms(2) keeps updateIndexes_accrues [OF idx] time
    by (auto simp: initialised_def uint_ucast_time)
  moreover have "income_at (blockTimestamp E) m' = income_at (blockTimestamp E) m"
    using income_now [OF time] assms(2) updateIndexes_accrues [OF idx] by (simp add: initialised_def income_at_def)
  ultimately show ?thesis ..
qed

lemma steps_income:
  assumes "reserve_steps E R V S m m'" "initialised (blockTimestamp E) m"
  shows "initialised (blockTimestamp E) m' \<and> income_at (blockTimestamp E) m' = income_at (blockTimestamp E) m"
  using assms
proof (induction rule: reserve_steps.induct)
  case (accrue m1 m2)
  then show ?case using accrue_income [OF accrue(1)] by simp
next
  case (settle asset m1 x y m2)
  then have "sol_lastUpdateTimestamp (mrData m2) = ucast (blockTimestamp E)"
    "sol_liquidityIndex (mrData m2) = sol_liquidityIndex (mrData m1)"
    using updateInterestRates_keeps [OF settle(1)] by auto
  moreover have "initialised (blockTimestamp E) m2"
    by (rule sol_updateInterestRates_result [OF settle(1)]) (use settle in \<open>simp add: initialised_def\<close>)
  ultimately show ?case using settle by (simp add: income_now initialised_def)
next
  case (lend m1 u w n i m2 f)
  then show ?case by (auto simp: sol_variable_mint_def Let_def initialised_def income_at_def split: if_splits)
next
  case (lend_stable m1 u w n r m2 f)
  from stable_only(1) [OF lend_stable(1)] lend_stable show ?case
    by (auto simp: initialised_def income_at_def uint_ucast_time)
next
  case (repaid_stable m1 u n m2)
  from stable_only(2) [OF repaid_stable(1)] repaid_stable show ?case
    by (auto simp: initialised_def income_at_def uint_ucast_time)
qed (auto simp: sol_lToken_mint_def sol_lToken_burn_def sol_variable_burn_def Let_def initialised_def income_at_def)

interpretation holdings: reserve_invariant "\<lambda>E c. \<not> withdraws asset user E c" "held user s i" asset
proof
  fix a b :: uint256 and m
  assume *: "held user s i a m" "a \<le> b" "uint b < 2 ^ 40"
  then have "initialised b m" by (auto simp: held_def initialised_def word_le_def)
  with * income_at_mono [of a m b] show "held user s i b m" by (simp add: held_def)
next
  fix E p c p'
  assume *: "sol_call E p c = Inr p'" "\<not> withdraws asset user E c" "held user s i (blockTimestamp E) (lpReserves p asset)"
  from *(1) show "held user s i (blockTimestamp E) (lpReserves p' asset)"
  proof (rule call_moves [of _ _ _ _ asset])
    assume here: "call_asset c = asset" "steps_of E p c (lpReserves p asset) (lpReserves p' asset)"
    with *(2) have "user \<notin> redeems E c" by (cases c) (auto simp: withdraws_def redeems_def)
    with * steps_income [OF here(2)] steps_balances [OF here(2), of user] show ?thesis by (simp add: held_def)
  qed (use * in simp)
qed

lemma income_nonneg: "initialised now m \<Longrightarrow> 0 \<le> income_at now m"
  using order_trans [OF ray_unit_nonneg linear_interest_ge [of "uint (sol_currentLiquidityRate (mrData m))"]]
  by (simp add: income_at_def normalized_income_def initialised_def)

text \<open>A balance read later is at least the one read now.\<close>

lemma balance_reads:
  assumes "sol_lToken_balanceOf E m user = Inr b" "uint (blockTimestamp E) < 2 ^ 40"
  shows "uint b = ray_mul (uint (sol_balances (mrLToken m) user)) (income_at (blockTimestamp E) m)"
  using assms by (auto simp: sol_lToken_balanceOf_def income_at_def dest!: normalizedIncome_exact sol_rayMul_exact)

lemma held_balance:
  assumes "held user s i (blockTimestamp E) m" "sol_lToken_balanceOf E m user = Inr b" "0 \<le> s" "0 \<le> i"
  shows "ray_mul s i \<le> uint b"
  using assms balance_reads [OF assms(2)] by (auto simp: held_def initialised_def ray_mul_def intro!: fixed_mul_mono)

end
