(* ===== verification/PoolSafety.thy ===== *)
theory PoolSafety
  imports PoolSteps PoolSamples
begin

text \<open>
  What the pool in Solidity guarantees its users: balances that only their owners reduce, deposits that
  never shrink, and supplies that are the sums of the balances, in every pool reachable by the calls of
  \<open>PoolSteps\<close>.
\<close>

subsection \<open>Sample runs\<close>

lemma if_upd: "(\<lambda>a. if a = x then y else f a) = f(x := y)" by (simp add: fun_upd_def)

lemma lent_adds_up: "reserve_adds_up lent_market"
  by (simp add: reserve_adds_up_def supply_adds_up_def lent_simps if_upd sum_balances_upd del: fun_upd_apply) simp

lemma lent_reaches:
  assumes "Q later_env (CallDeposit 0xDA1 1000 0xA11CE)"
  shows "pool_reaches Q (blockTimestamp sample_env) lent_pool (blockTimestamp later_env) lent_pool_grown"
proof -
  have "pool_reaches Q (blockTimestamp sample_env) lent_pool (blockTimestamp sample_env) lent_pool" by (rule start)
  from call [OF this _ _ assms] lent_deposit show ?thesis
    by (simp add: later_env_def sample_env_def)
qed

lemma grown_balance: "sol_lToken_balanceOf later_env lent_grown 0xA11CE = Inr 6151"
  by (simp add: sol_lToken_balanceOf_def sol_getNormalizedIncome_def lent_grown_def lent_settled_up_def lent_accrued_def
      lent_simps runs_by cong: andThen_weak require_weak del: andThen_Inr word_zero_uint)

subsection \<open>The properties\<close>



text \<open>C6: Every token is worth its supply.  In every pool reachable from one in which the balances of the
  lToken, of the variable debt token and of the underlying of a reserve sum up to their total supplies,
  they still do, whatever calls were made and reverted.\<close>

theorem supplies_add_up:
  assumes "pool_reaches (\<lambda>E c. True) t0 p0 t p" "reserve_adds_up (lpReserves p0 asset)"
  shows "(\<Sum>a\<in>UNIV. uint (sol_balances (mrLToken (lpReserves p asset)) a)) = uint (sol_totalSupply (mrLToken (lpReserves p asset))) \<and>
    (\<Sum>a\<in>UNIV. uint (sol_balances (mrVariable (lpReserves p asset)) a)) = uint (sol_totalSupply (mrVariable (lpReserves p asset))) \<and>
    (\<Sum>a\<in>UNIV. uint (sol_balances (mrAsset (lpReserves p asset)) a)) = uint (sol_totalSupply (mrAsset (lpReserves p asset)))"
  using supplies.reachable [OF assms] by (simp add: reserve_adds_up_def supply_adds_up_def)

theorem supplies_add_up_witness:
  "(\<Sum>a\<in>UNIV. uint (sol_balances (mrLToken (lpReserves lent_pool_grown 0xDA1)) a)) = 6379"
  using supplies_add_up [OF lent_reaches, of "0xDA1"] lent_adds_up
  by (simp add: lent_pool_def lent_pool_grown_def lent_grown_def)



end
