(* ===== verification/SolidityErrors.thy ===== *)
theory SolidityErrors
  imports Types "HOL-Library.Sublist"
begin

text \<open>
  The error codes the contracts revert with, \<open>libraries/helpers/Errors.sol\<close>, and their agreement
  with the \<open>ProtocolErrors\<close> the TypeScript code expects.
\<close>

definition sol_Errors :: "string obj" where
  "sol_Errors =
   [(''CALLER_NOT_POOL_ADMIN'', ''33''),
    (''BORROW_ALLOWANCE_NOT_ENOUGH'', ''59''),
    (''VL_INVALID_AMOUNT'', ''1''),
    (''VL_NO_ACTIVE_RESERVE'', ''2''),
    (''VL_RESERVE_FROZEN'', ''3''),
    (''VL_CURRENT_AVAILABLE_LIQUIDITY_NOT_ENOUGH'', ''4''),
    (''VL_NOT_ENOUGH_AVAILABLE_USER_BALANCE'', ''5''),
    (''VL_TRANSFER_NOT_ALLOWED'', ''6''),
    (''VL_BORROWING_NOT_ENABLED'', ''7''),
    (''VL_INVALID_INTEREST_RATE_MODE_SELECTED'', ''8''),
    (''VL_COLLATERAL_BALANCE_IS_0'', ''9''),
    (''VL_HEALTH_FACTOR_LOWER_THAN_LIQUIDATION_THRESHOLD'', ''10''),
    (''VL_COLLATERAL_CANNOT_COVER_NEW_BORROW'', ''11''),
    (''VL_STABLE_BORROWING_NOT_ENABLED'', ''12''),
    (''VL_COLLATERAL_SAME_AS_BORROWING_CURRENCY'', ''13''),
    (''VL_AMOUNT_BIGGER_THAN_MAX_LOAN_SIZE_STABLE'', ''14''),
    (''VL_NO_DEBT_OF_SELECTED_TYPE'', ''15''),
    (''VL_NO_EXPLICIT_AMOUNT_TO_REPAY_ON_BEHALF'', ''16''),
    (''VL_NO_STABLE_RATE_LOAN_IN_RESERVE'', ''17''),
    (''VL_NO_VARIABLE_RATE_LOAN_IN_RESERVE'', ''18''),
    (''VL_UNDERLYING_BALANCE_NOT_GREATER_THAN_0'', ''19''),
    (''VL_DEPOSIT_ALREADY_IN_USE'', ''20''),
    (''LP_NOT_ENOUGH_STABLE_BORROW_BALANCE'', ''21''),
    (''LP_INTEREST_RATE_REBALANCE_CONDITIONS_NOT_MET'', ''22''),
    (''LP_LIQUIDATION_CALL_FAILED'', ''23''),
    (''LP_NOT_ENOUGH_LIQUIDITY_TO_BORROW'', ''24''),
    (''LP_REQUESTED_AMOUNT_TOO_SMALL'', ''25''),
    (''LP_INCONSISTENT_PROTOCOL_ACTUAL_BALANCE'', ''26''),
    (''LP_CALLER_NOT_LENDING_POOL_CONFIGURATOR'', ''27''),
    (''LP_INCONSISTENT_FLASHLOAN_PARAMS'', ''28''),
    (''CT_CALLER_MUST_BE_LENDING_POOL'', ''29''),
    (''CT_CANNOT_GIVE_ALLOWANCE_TO_HIMSELF'', ''30''),
    (''CT_TRANSFER_AMOUNT_NOT_GT_0'', ''31''),
    (''RL_RESERVE_ALREADY_INITIALIZED'', ''32''),
    (''LPC_RESERVE_LIQUIDITY_NOT_0'', ''34''),
    (''LPC_INVALID_LTOKEN_POOL_ADDRESS'', ''35''),
    (''LPC_INVALID_STABLE_DEBT_TOKEN_POOL_ADDRESS'', ''36''),
    (''LPC_INVALID_VARIABLE_DEBT_TOKEN_POOL_ADDRESS'', ''37''),
    (''LPC_INVALID_STABLE_DEBT_TOKEN_UNDERLYING_ADDRESS'', ''38''),
    (''LPC_INVALID_VARIABLE_DEBT_TOKEN_UNDERLYING_ADDRESS'', ''39''),
    (''LPC_INVALID_ADDRESSES_PROVIDER_ID'', ''40''),
    (''LPC_INVALID_CONFIGURATION'', ''75''),
    (''LPC_CALLER_NOT_EMERGENCY_ADMIN'', ''76''),
    (''LPAPR_PROVIDER_NOT_REGISTERED'', ''41''),
    (''LPCM_HEALTH_FACTOR_NOT_BELOW_THRESHOLD'', ''42''),
    (''LPCM_COLLATERAL_CANNOT_BE_LIQUIDATED'', ''43''),
    (''LPCM_SPECIFIED_CURRENCY_NOT_BORROWED_BY_USER'', ''44''),
    (''LPCM_NOT_ENOUGH_LIQUIDITY_TO_LIQUIDATE'', ''45''),
    (''LPCM_NO_ERRORS'', ''46''),
    (''LP_INVALID_FLASHLOAN_MODE'', ''47''),
    (''MATH_MULTIPLICATION_OVERFLOW'', ''48''),
    (''MATH_ADDITION_OVERFLOW'', ''49''),
    (''MATH_DIVISION_BY_ZERO'', ''50''),
    (''RL_LIQUIDITY_INDEX_OVERFLOW'', ''51''),
    (''RL_VARIABLE_BORROW_INDEX_OVERFLOW'', ''52''),
    (''RL_LIQUIDITY_RATE_OVERFLOW'', ''53''),
    (''RL_VARIABLE_BORROW_RATE_OVERFLOW'', ''54''),
    (''RL_STABLE_BORROW_RATE_OVERFLOW'', ''55''),
    (''CT_INVALID_MINT_AMOUNT'', ''56''),
    (''LP_FAILED_REPAY_WITH_COLLATERAL'', ''57''),
    (''CT_INVALID_BURN_AMOUNT'', ''58''),
    (''LP_FAILED_COLLATERAL_SWAP'', ''60''),
    (''LP_INVALID_EQUAL_ASSETS_TO_SWAP'', ''61''),
    (''LP_REENTRANCY_NOT_ALLOWED'', ''62''),
    (''LP_CALLER_MUST_BE_AN_LTOKEN'', ''63''),
    (''LP_IS_PAUSED'', ''64''),
    (''LP_NO_MORE_RESERVES_ALLOWED'', ''65''),
    (''LP_INVALID_FLASH_LOAN_EXECUTOR_RETURN'', ''66''),
    (''RC_INVALID_LTV'', ''67''),
    (''RC_INVALID_LIQ_THRESHOLD'', ''68''),
    (''RC_INVALID_LIQ_BONUS'', ''69''),
    (''RC_INVALID_DECIMALS'', ''70''),
    (''RC_INVALID_RESERVE_FACTOR'', ''71''),
    (''LPAPR_INVALID_ADDRESSES_PROVIDER_ID'', ''72''),
    (''VL_INCONSISTENT_FLASHLOAN_PARAMS'', ''73''),
    (''LP_INCONSISTENT_PARAMS_LENGTH'', ''74''),
    (''UL_INVALID_INDEX'', ''77''),
    (''LP_NOT_CONTRACT'', ''78''),
    (''SDT_STABLE_DEBT_OVERFLOW'', ''79''),
    (''SDT_BURN_EXCEEDS_BALANCE'', ''80'')]"

text \<open>Names without a counterpart of the same name in \<open>Errors.sol\<close>.\<close>

definition unmatched_errors :: "string list" where
  "unmatched_errors =
     [''LP_BORROW_ALLOWANCE_NOT_ENOUGH'', ''INVALID_FROM_BALANCE_AFTER_TRANSFER'',
      ''INVALID_TO_BALANCE_AFTER_TRANSFER'', ''INVALID_OWNER_REVERT_MSG'', ''INVALID_HF'',
      ''TRANSFER_AMOUNT_EXCEEDS_BALANCE'', ''SAFEERC20_LOWLEVEL_CALL'']"

lemma shared_errors_in_order:
  "subseq (filter (\<lambda>(k, v). k \<notin> set unmatched_errors) ProtocolErrors) sol_Errors"
  by code_simp

lemma distinct_codes: "distinct (obj_values sol_Errors)"
  by code_simp

text \<open>The error table matches the contracts.  Apart from seven names, six of which are messages
  and not codes, every entry of \<open>ProtocolErrors\<close> is a constant of \<open>Errors.sol\<close> with the same code;
  the seventh, \<open>LP_BORROW_ALLOWANCE_NOT_ENOUGH\<close>, has the code of the contracts'
  \<open>BORROW_ALLOWANCE_NOT_ENOUGH\<close>; and no two constants of the contracts share a code.\<close>

theorem error_codes_match_contracts:
  "set (filter (\<lambda>(k, v). k \<notin> set unmatched_errors) ProtocolErrors) \<subseteq> set sol_Errors \<and>
   error_code ''LP_BORROW_ALLOWANCE_NOT_ENOUGH'' = map_of sol_Errors ''BORROW_ALLOWANCE_NOT_ENOUGH'' \<and>
   distinct (obj_values sol_Errors)"
proof -
  have "set xs \<subseteq> set ys" if "subseq xs ys" for xs ys :: "(string \<times> string) list"
    using that by (induction rule: list_emb.induct) auto
  moreover have "error_code ''LP_BORROW_ALLOWANCE_NOT_ENOUGH'' = map_of sol_Errors ''BORROW_ALLOWANCE_NOT_ENOUGH''"
    by code_simp
  ultimately show ?thesis using shared_errors_in_order distinct_codes by blast
qed

end
