(* ===== verification/Collections.thy ===== *)
theory Collections
  imports Types
begin

text \<open>
  The collection helpers of \<open>helpers/misc-utils.ts\<close> and \<open>helpers/mock-helpers.ts\<close>: \<open>chunk\<close>,
  \<open>filterMapBy\<close>, \<open>omit\<close>, \<open>notFalsyOrZeroAddress\<close>, and the address maps of deployed mocks.  The
  address predicates are functions of ethers and ethereumjs-util, hence parameters.
\<close>

subsection \<open>Chunks\<close>

text \<open>\<open>arr.reduce((prev, curr, i, array) => !(i % size) ? prev.concat([array.slice(i, i + size)]) : prev, [])\<close>.
  With size 0 the remainder is \<open>NaN\<close>, so every index starts a slice.\<close>

definition chunk :: "'a list \<Rightarrow> nat \<Rightarrow> 'a list list" where
  "chunk arr chunkSize =
     foldl (\<lambda>prevVal currIndx.
         if chunkSize = 0 \<or> currIndx mod chunkSize = 0
         then prevVal @ [take chunkSize (drop currIndx arr)] else prevVal)
       [] [0..<length arr]"

text \<open>The same by recursion, for reasoning.\<close>

fun chunks_of :: "nat \<Rightarrow> 'a list \<Rightarrow> 'a list list" where
  "chunks_of 0 xs = []"
| "chunks_of n [] = []"
| "chunks_of n (x # xs) = take n (x # xs) # chunks_of n (drop n (x # xs))"

lemma chunk_filter:
  "chunk arr n = map (\<lambda>i. take n (drop i arr)) (filter (\<lambda>i. n = 0 \<or> i mod n = 0) [0..<length arr])"
proof -
  have "foldl (\<lambda>prev i. if P i then prev @ [f i] else prev) acc is = acc @ map f (filter P is)"
    for P f and acc :: "'a list list" and "is" :: "nat list"
    by (induction "is" arbitrary: acc) simp_all
  then show ?thesis by (simp add: chunk_def)
qed

lemma multiples_step:
  assumes "0 < n" "0 < m"
  shows "filter (\<lambda>i. i mod n = 0) [0..<m] =
    0 # map (\<lambda>i. i + n) (filter (\<lambda>i. i mod n = 0) [0..<m - n])"
proof -
  have low: "filter (\<lambda>i. i mod n = 0) [0..<k] = [0]" if "0 < k" "k \<le> n" for k
  proof -
    have "filter (\<lambda>i. i mod n = 0) [1..<k] = []"
      using that by (auto simp: filter_empty_conv)
    with that show ?thesis by (simp add: upt_conv_Cons)
  qed
  show ?thesis
  proof (cases "m \<le> n")
    case True
    with assms low [of m] show ?thesis by simp
  next
    case False
    then have split: "[0..<m] = [0..<n] @ map (\<lambda>i. i + n) [0..<m - n]"
      using upt_add_eq_append [of 0 n "m - n"] by (simp add: map_add_upt)
    have "filter (\<lambda>i. i mod n = 0) (map (\<lambda>i. i + n) [0..<m - n]) =
        map (\<lambda>i. i + n) (filter (\<lambda>i. i mod n = 0) [0..<m - n])"
      by (simp add: filter_map o_def)
    with assms low [of n] show ?thesis by (simp add: split)
  qed
qed

lemma chunk_step:
  assumes "0 < n" "arr \<noteq> []"
  shows "chunk arr n = take n arr # chunk (drop n arr) n"
  using assms by (simp add: chunk_filter multiples_step o_def add.commute)

lemma chunk_chunks_of: "0 < n \<Longrightarrow> chunk arr n = chunks_of n arr"
proof (induction n arr rule: chunks_of.induct)
  case (3 n x xs)
  then show ?case using chunk_step [of "Suc n" "x # xs"] by simp
qed (simp_all add: chunk_def)

lemma chunks_of_nonempty: "c \<in> set (chunks_of n xs) \<Longrightarrow> c \<noteq> [] \<and> length c \<le> n"
  by (induction n xs rule: chunks_of.induct) auto

lemma concat_chunks_of: "0 < n \<Longrightarrow> concat (chunks_of n xs) = xs"
  by (induction n xs rule: chunks_of.induct) (auto simp del: drop_Suc_Cons take_Suc_Cons)

lemma map_chunks_of: "map (map f) (chunks_of n xs) = chunks_of n (map f xs)"
  by (induction n xs rule: chunks_of.induct) (simp_all add: take_map drop_map)

lemma length_chunks_of: "0 < n \<Longrightarrow> length (chunks_of n xs) = (length xs + n - 1) div n"
proof (induction n xs rule: chunks_of.induct)
  case (3 n x xs)
  have "Suc (length xs + n) div Suc n = Suc (length xs div Suc n)"
    using div_add_self2 [of "Suc n" "length xs"] by simp
  with 3 show ?case by (cases "length xs \<le> n") simp_all
qed simp_all

subsection \<open>Objects\<close>

text \<open>\<open>Object.keys(raw).filter(fn)\<close> copied key by key.\<close>

definition filterMapBy :: "'v obj \<Rightarrow> (string \<Rightarrow> bool) \<Rightarrow> 'v obj" where
  "filterMapBy raw fn =
     foldl (\<lambda>obj key. case map_of raw key of None \<Rightarrow> obj | Some v \<Rightarrow> obj_set obj key v)
       [] (filter fn (obj_keys raw))"

definition omit :: "'v obj \<Rightarrow> string list \<Rightarrow> 'v obj" where
  "omit obj keys =
     foldl (\<lambda>acc curr. if curr \<in> set keys then acc
              else (case map_of obj curr of None \<Rightarrow> acc | Some v \<Rightarrow> obj_set acc curr v))
       [] (obj_keys obj)"

lemma foldl_copy:
  assumes "\<And>k. k \<in> set ks \<Longrightarrow> map_of raw k \<noteq> None"
  shows "map_of (foldl (\<lambda>obj key. if P key then (case map_of raw key of None \<Rightarrow> obj
      | Some v \<Rightarrow> obj_set obj key v) else obj) acc ks) k =
    (if k \<in> set ks \<and> P k then map_of raw k else map_of acc k)"
  using assms
proof (induction ks arbitrary: acc)
  case (Cons j js)
  from Cons.prems [of j] obtain v where "map_of raw j = Some v" by auto
  with Cons show ?case by (simp add: map_of_obj_set)
qed simp

lemma foldl_if_filter:
  "foldl (\<lambda>acc k. if P k then f acc k else acc) acc ks = foldl f acc (filter P ks)"
  by (induction ks arbitrary: acc) simp_all

lemma keys_present: "k \<in> set (obj_keys raw) \<longleftrightarrow> map_of raw k \<noteq> None"
  by (simp add: obj_keys_def map_of_eq_None_iff)

lemma filterMapBy_lookup:
  "map_of (filterMapBy raw fn) k = (if fn k then map_of raw k else None)"
  using foldl_copy [of "filter fn (obj_keys raw)" raw "\<lambda>_. True" "[]" k]
  by (auto simp: filterMapBy_def keys_present)

lemma omit_lookup: "map_of (omit obj keys) k = (if k \<in> set keys then None else map_of obj k)"
proof -
  have "omit obj keys = foldl (\<lambda>acc curr. if curr \<notin> set keys then (case map_of obj curr of None \<Rightarrow> acc
      | Some v \<Rightarrow> obj_set acc curr v) else acc) [] (obj_keys obj)"
    by (auto simp: omit_def intro!: foldl_cong)
  then show ?thesis
    using foldl_copy [of "obj_keys obj" obj "\<lambda>c. c \<notin> set keys" "[]" k] by (auto simp: keys_present)
qed

lemma obj_set_new: "k \<notin> set (map fst obj) \<Longrightarrow> obj_set obj k v = obj @ [(k, v)]"
  by (induction obj k v rule: obj_set.induct) auto

text \<open>With distinct keys both keep the entries they do not drop, in order.\<close>

lemma foldl_copy_entries:
  assumes "distinct (map fst (acc @ es))" "\<And>k v. (k, v) \<in> set es \<Longrightarrow> map_of raw k = Some v"
  shows "foldl (\<lambda>obj key. if P key then (case map_of raw key of None \<Rightarrow> obj
      | Some v \<Rightarrow> obj_set obj key v) else obj) acc (map fst es) = acc @ filter (\<lambda>(k, v). P k) es"
  using assms
proof (induction es arbitrary: acc)
  case (Cons e es)
  obtain k v where e: "e = (k, v)" by (cases e)
  have step: "map_of raw k = Some v" "obj_set acc k v = acc @ [(k, v)]"
    using Cons.prems e by (auto intro: obj_set_new)
  have es: "map_of raw j = Some u" if "(j, u) \<in> set es" for j u
    using Cons.prems(2) that by simp
  have "distinct (map fst ((acc @ [(k, v)]) @ es))" "distinct (map fst (acc @ es))"
    using Cons.prems(1) e by auto
  from this [THEN Cons.IH, OF es] step show ?case by (simp add: e)
qed simp

lemma omit_entries:
  assumes "distinct (map fst obj)"
  shows "omit obj keys = filter (\<lambda>(k, v). k \<notin> set keys) obj"
proof -
  have "omit obj keys = foldl (\<lambda>acc curr. if curr \<notin> set keys then (case map_of obj curr of None \<Rightarrow> acc
      | Some v \<Rightarrow> obj_set acc curr v) else acc) [] (map fst obj)"
    by (auto simp: omit_def obj_keys_def intro!: foldl_cong)
  then show ?thesis using foldl_copy_entries [of "[]" obj obj] assms by simp
qed

lemma filterMapBy_entries:
  assumes "distinct (map fst raw)"
  shows "filterMapBy raw fn = filter (\<lambda>(k, v). fn k) raw"
proof -
  have "filterMapBy raw fn = foldl (\<lambda>obj key. if fn key then (case map_of raw key of None \<Rightarrow> obj
      | Some v \<Rightarrow> obj_set obj key v) else obj) [] (map fst raw)"
    by (simp add: filterMapBy_def obj_keys_def foldl_if_filter)
  then show ?thesis using foldl_copy_entries [of "[]" raw raw] assms by simp
qed

subsection \<open>Addresses\<close>

record address_api =
  isAddress :: "string \<Rightarrow> bool"
  isZeroAddress :: "string \<Rightarrow> bool"

definition notFalsyOrZeroAddress :: "address_api \<Rightarrow> string option \<Rightarrow> bool" where
  "notFalsyOrZeroAddress api address =
     (case address of None \<Rightarrow> False
      | Some a \<Rightarrow> if a = [] then False else isAddress api a \<and> \<not> isZeroAddress api a)"

lemma notFalsyOrZeroAddress_Some:
  "notFalsyOrZeroAddress api a \<longleftrightarrow> (\<exists>s. a = Some s \<and> s \<noteq> [] \<and> isAddress api s \<and> \<not> isZeroAddress api s)"
  by (auto simp: notFalsyOrZeroAddress_def split: option.splits)

subsection \<open>Deployed mocks\<close>

text \<open>\<open>{ ...accum, [symbol]: contract.address }\<close> over the entries; a contract is its address.\<close>

definition getAllTokenAddresses :: "string obj \<Rightarrow> string obj" where
  "getAllTokenAddresses mockTokens =
     foldl (\<lambda>accum (tokenSymbol, tokenContract). obj_set accum tokenSymbol tokenContract) [] mockTokens"

definition getAllAggregatorsAddresses :: "string obj \<Rightarrow> string obj" where
  "getAllAggregatorsAddresses mockAggregators =
     foldl (\<lambda>accum (tokenSymbol, aggregator). obj_set accum tokenSymbol aggregator) [] mockAggregators"

end
