(* ===== verification/Markets.thy ===== *)
theory Markets
  imports Constants
begin

text \<open>
  The Palmy market: \<open>markets/palmy/rateStrategies.ts\<close>, \<open>reservesConfigs.ts\<close>, \<open>commons.ts\<close> and
  \<open>index.ts\<close>.  Rates are written \<open>new BigNumber(d).multipliedBy(oneRay).toFixed()\<close> in the source: an
  exact product, here \<open>ray_times digits places\<close> for the factor \<open>digits / 10^places\<close>.
  Per-network objects list their computed keys in source order.
\<close>

subsection \<open>Interest rate strategies\<close>

definition ray_times :: "int \<Rightarrow> nat \<Rightarrow> string" where
  "ray_times digits places = multiplied oneRay digits places"

definition rateStrategyStable :: IInterestRateStrategyParams where
  "rateStrategyStable =
   \<lparr>strategyName = ''rateStrategyStable'',
    optimalUtilizationRate = ray_times 9 1,
    baseVariableBorrowRate = ray_times 0 0,
    variableRateSlope1 = ray_times 4 2,
    variableRateSlope2 = ray_times 6 1,
    stableRateSlope1 = ray_times 2 2,
    stableRateSlope2 = ray_times 6 1\<rparr>"

definition rateStrategyWBTC :: IInterestRateStrategyParams where
  "rateStrategyWBTC =
   \<lparr>strategyName = ''rateStrategyWBTC'',
    optimalUtilizationRate = ray_times 65 2,
    baseVariableBorrowRate = ray_times 0 0,
    variableRateSlope1 = ray_times 7 2,
    variableRateSlope2 = ray_times 1 0,
    stableRateSlope1 = ray_times 1 1,
    stableRateSlope2 = ray_times 6 1\<rparr>"

definition rateStrategyWETH :: IInterestRateStrategyParams where
  "rateStrategyWETH =
   \<lparr>strategyName = ''rateStrategyWETH'',
    optimalUtilizationRate = ray_times 65 2,
    baseVariableBorrowRate = ray_times 0 0,
    variableRateSlope1 = ray_times 8 2,
    variableRateSlope2 = ray_times 1 0,
    stableRateSlope1 = ray_times 1 1,
    stableRateSlope2 = ray_times 1 0\<rparr>"

definition rateStrategyWOAS :: IInterestRateStrategyParams where
  "rateStrategyWOAS =
   \<lparr>strategyName = ''rateStrategyWOAS'',
    optimalUtilizationRate = ray_times 45 2,
    baseVariableBorrowRate = ray_times 0 0,
    variableRateSlope1 = ray_times 7 2,
    variableRateSlope2 = ray_times 3 0,
    stableRateSlope1 = ray_times 1 1,
    stableRateSlope2 = ray_times 3 0\<rparr>"

definition rateStrategyStableTwo :: IInterestRateStrategyParams where
  "rateStrategyStableTwo =
   \<lparr>strategyName = ''rateStrategyStableTwo'',
    optimalUtilizationRate = ray_times 8 1,
    baseVariableBorrowRate = ray_times 0 0,
    variableRateSlope1 = ray_times 4 2,
    variableRateSlope2 = ray_times 75 2,
    stableRateSlope1 = ray_times 2 2,
    stableRateSlope2 = ray_times 75 2\<rparr>"

definition rateStrategyMCHC :: IInterestRateStrategyParams where
  "rateStrategyMCHC =
   \<lparr>strategyName = ''rateStrategyMCHC'',
    optimalUtilizationRate = ray_times 45 2,
    baseVariableBorrowRate = ray_times 0 0,
    variableRateSlope1 = ray_times 7 2,
    variableRateSlope2 = ray_times 3 0,
    stableRateSlope1 = ray_times 1 1,
    stableRateSlope2 = ray_times 3 0\<rparr>"

subsection \<open>Reserve parameters\<close>

definition strategyUSDC :: IReserveParams where
  "strategyUSDC =
   \<lparr>strategy = rateStrategyStable,
    baseLTVAsCollateral = ''8000'',
    liquidationThreshold = ''8500'',
    liquidationBonus = ''10500'',
    borrowingEnabled = True,
    stableBorrowRateEnabled = False,
    reserveDecimals = ''6'',
    lTokenImpl = ''LToken'',
    reserveFactor = ''1000''\<rparr>"

definition strategyUSDT :: IReserveParams where
  "strategyUSDT =
   \<lparr>strategy = rateStrategyStable,
    baseLTVAsCollateral = ''8000'',
    liquidationThreshold = ''8500'',
    liquidationBonus = ''10500'',
    borrowingEnabled = True,
    stableBorrowRateEnabled = False,
    reserveDecimals = ''18'',
    lTokenImpl = ''LToken'',
    reserveFactor = ''1000''\<rparr>"

definition strategyWBTC :: IReserveParams where
  "strategyWBTC =
   \<lparr>strategy = rateStrategyWBTC,
    baseLTVAsCollateral = ''7000'',
    liquidationThreshold = ''7500'',
    liquidationBonus = ''11000'',
    borrowingEnabled = True,
    stableBorrowRateEnabled = False,
    reserveDecimals = ''18'',
    lTokenImpl = ''LToken'',
    reserveFactor = ''2000''\<rparr>"

definition strategyDAIForTest :: IReserveParams where
  "strategyDAIForTest =
   \<lparr>strategy = rateStrategyStableTwo,
    baseLTVAsCollateral = ''7500'',
    liquidationThreshold = ''8000'',
    liquidationBonus = ''10500'',
    borrowingEnabled = True,
    stableBorrowRateEnabled = True,
    reserveDecimals = ''18'',
    lTokenImpl = ''LToken'',
    reserveFactor = ''1000''\<rparr>"

definition strategyWETH :: IReserveParams where
  "strategyWETH =
   \<lparr>strategy = rateStrategyWETH,
    baseLTVAsCollateral = ''8000'',
    liquidationThreshold = ''8500'',
    liquidationBonus = ''10500'',
    borrowingEnabled = True,
    stableBorrowRateEnabled = False,
    reserveDecimals = ''18'',
    lTokenImpl = ''LToken'',
    reserveFactor = ''1000''\<rparr>"

definition strategyWOAS :: IReserveParams where
  "strategyWOAS =
   \<lparr>strategy = rateStrategyWOAS,
    baseLTVAsCollateral = ''0'',
    liquidationThreshold = ''5500'',
    liquidationBonus = ''11500'',
    borrowingEnabled = True,
    stableBorrowRateEnabled = False,
    reserveDecimals = ''18'',
    lTokenImpl = ''LToken'',
    reserveFactor = ''2000''\<rparr>"

definition strategyMCHC :: IReserveParams where
  "strategyMCHC =
   \<lparr>strategy = rateStrategyMCHC,
    baseLTVAsCollateral = ''0'',
    liquidationThreshold = ''0'',
    liquidationBonus = ''0'',
    borrowingEnabled = True,
    stableBorrowRateEnabled = False,
    reserveDecimals = ''18'',
    lTokenImpl = ''LToken'',
    reserveFactor = ''2000''\<rparr>"

subsection \<open>The market\<close>

definition CommonsConfig :: PoolConfiguration where
  "CommonsConfig =
   \<lparr>MarketId = ''Commons'',
    LTokenNamePrefix = ''Palmy interest bearing'',
    StableDebtTokenNamePrefix = ''Palmy stable debt bearing'',
    VariableDebtTokenNamePrefix = ''Palmy variable debt bearing'',
    SymbolPrefix = '''',
    ProviderId = 0,
    OracleQuoteCurrency = ''USD'',
    OracleQuoteUnit = decimal oneUsd,
    ProtocolGlobalParams =
     \<lparr>MockUsdPriceInWei = ''5848466240000000'', UsdAddress = ''0x10F7Fc1F91Ba351f9C629c5947AD69bD03C05b96'', NilAddress = ''0x0000000000000000000000000000000000000000'', OneAddress = ''0x0000000000000000000000000000000000000001'', PalmyReferral = ''0''\<rparr>,
    AllAssetsInitialPrices = MOCK_PRICE_AGGREGATORS_PRICES,
    LendingRateOracleRatesCommon =
     [(''WETH'', \<lparr>borrowRate = ray_times 3 2\<rparr>),
      (''WOAS'', \<lparr>borrowRate = ray_times 39 3\<rparr>),
      (''USDT'', \<lparr>borrowRate = ray_times 39 3\<rparr>),
      (''USDC'', \<lparr>borrowRate = ray_times 39 3\<rparr>),
      (''WBTC'', \<lparr>borrowRate = ray_times 3 2\<rparr>)],
    PoolAdmin =
     [(''buidlerevm'', None),
      (''coverage'', None),
      (''hardhat'', None),
      (''tenderly'', None),
      (''testnet'', Some ''0x21AFfDf04c787EB34f6Eda911d67CbA5D75d7773''),
      (''oasys'', Some ''0x21AFfDf04c787EB34f6Eda911d67CbA5D75d7773'')],
    PoolAdminIndex = 0,
    EmergencyAdmin =
     [(''buidlerevm'', None),
      (''coverage'', None),
      (''hardhat'', None),
      (''tenderly'', None),
      (''testnet'', Some ''0x21AFfDf04c787EB34f6Eda911d67CbA5D75d7773''),
      (''oasys'', Some ''0x8c44Be9aA5da85A6d0FC57afF12CE33CA2f01C6c'')],
    EmergencyAdminIndex = 1,
    ProviderRegistryOwner =
     [(''buidlerevm'', ''''),
      (''coverage'', ''''),
      (''hardhat'', ''''),
      (''tenderly'', ''0xB9062896ec3A615a4e4444DF183F0531a77218AE''),
      (''testnet'', ''0x21AFfDf04c787EB34f6Eda911d67CbA5D75d7773''),
      (''oasys'', ''0x21AFfDf04c787EB34f6Eda911d67CbA5D75d7773'')],
    DIAAggregator =
     [(''buidlerevm'', []),
      (''coverage'', []),
      (''hardhat'', []),
      (''tenderly'', []),
      (''testnet'', [(''WETH'', ''0x7C7dDDB4DD58300168DC652e2c2fB787B6f6aE54''),
        (''WOAS'', ''0x5200000000000000000000000000000000000001''),
        (''WBTC'', ''0xB9F1fb5c7dd67F3F249E42025E4255F402B535a0''),
        (''USDC'', ''0xA36bb2502E4a8Af486ee99388b6033FBfc466a4f'')]),
      (''oasys'', [(''WETH'', ''0x5801E5a61164024Be2554248E33127c6ebC8C113''),
        (''WOAS'', ''0x5200000000000000000000000000000000000001''),
        (''WBTC'', ''0xdd30c42D57a0f14DD44c809F59836D57392FDbC9''),
        (''USDC'', ''0x4D17C0609B77e456Fb98Ea99a62bCeF09adae32D''),
        (''MCHC'', ''0x5B1CC635E524cAbb63a581c050C895534755F297'')])],
    ReserveAssets =
     [(''buidlerevm'', []),
      (''coverage'', []),
      (''hardhat'', []),
      (''tenderly'', []),
      (''testnet'', []),
      (''oasys'', [])],
    ReservesConfig = [],
    LTokenDomainSeparator =
     [(''buidlerevm'', ''0xbae024d959c6a022dc5ed37294cd39c141034b2ae5f02a955cce75c930a81bf5''),
      (''coverage'', ''0x95b73a72c6ecf4ccbbba5178800023260bad8e75cdccdb8e4827a2977a37c820''),
      (''hardhat'', ''0xbae024d959c6a022dc5ed37294cd39c141034b2ae5f02a955cce75c930a81bf5''),
      (''tenderly'', ''''),
      (''testnet'', ''''),
      (''oasys'', '''')],
    WETH =
     [(''buidlerevm'', ''''),
      (''coverage'', ''''),
      (''hardhat'', ''''),
      (''tenderly'', ''0xc02aaa39b223fe8d0a0e5c4f27ead9083c756cc2''),
      (''testnet'', ''''),
      (''oasys'', '''')],
    WrappedNativeToken =
     [(''buidlerevm'', ''''),
      (''coverage'', ''''),
      (''hardhat'', ''''),
      (''tenderly'', ''0xc02aaa39b223fe8d0a0e5c4f27ead9083c756cc2''),
      (''testnet'', ''0x5200000000000000000000000000000000000001''),
      (''oasys'', ''0x5200000000000000000000000000000000000001'')],
    ReserveFactorTreasuryAddress =
     [(''buidlerevm'', ''0x464c71f6c2f760dda6093dcb91c24c39e5d6e18c''),
      (''coverage'', ''0x464c71f6c2f760dda6093dcb91c24c39e5d6e18c''),
      (''hardhat'', ''0x464c71f6c2f760dda6093dcb91c24c39e5d6e18c''),
      (''tenderly'', ''0x464c71f6c2f760dda6093dcb91c24c39e5d6e18c''),
      (''testnet'', ''0x21AFfDf04c787EB34f6Eda911d67CbA5D75d7773''),
      (''oasys'', ''0x922E396E1bFD3FD9B3171324cEfD8bC82A5e6271'')],
    IncentivesController =
     [(''buidlerevm'', ZERO_ADDRESS),
      (''coverage'', ZERO_ADDRESS),
      (''hardhat'', ZERO_ADDRESS),
      (''tenderly'', ZERO_ADDRESS),
      (''testnet'', ''0x00B0Bb2936aE698C2580f7044C4d8b49ac21DA62''),
      (''oasys'', ''0x29C903EBEdAD12C813D4ce6f0fFfEd540d13Dc38'')],
    StakedOas =
     [(''buidlerevm'', ZERO_ADDRESS),
      (''coverage'', ZERO_ADDRESS),
      (''hardhat'', ZERO_ADDRESS),
      (''tenderly'', ZERO_ADDRESS),
      (''testnet'', ''0xA1C7de66b1eF4Da8dA3542D9Cb9C750107Dea479''),
      (''oasys'', ''0x7bBd0c193Be214630F9489D6C7CD883ae3155701'')],
    OracleSenderAddress =
     [(''buidlerevm'', ZERO_ADDRESS),
      (''coverage'', ZERO_ADDRESS),
      (''hardhat'', ZERO_ADDRESS),
      (''tenderly'', ZERO_ADDRESS),
      (''testnet'', ZERO_ADDRESS),
      (''oasys'', ''0x99c3bbb8e936c56bb4defd50b3f2ed3ff0b07f1b'')],
    OraclePriceKey =
     [(''buidlerevm'', []),
      (''coverage'', []),
      (''hardhat'', []),
      (''tenderly'', []),
      (''testnet'', []),
      (''oasys'', [(''WETH'', ''0x4FE47F7E105547B9A614C8C538BF3CE9B031A1436C4C8B0389D361083C019650''),
        (''WOAS'', ''0x5683FFA73EA2E859693C40468AD5B829C0D9828528BD8401FAFCC0675F472F18''),
        (''WBTC'', ''0x617A8A9849153666D89D0F28F297E348EBAB0184C643F5DE260AE3EDA23A870E''),
        (''USDC'', ''0xC70308B3A6D5F1C999CD393F5D3078413441854F0B68D28E9B375CE6F2893C5D''),
        (''MCHC'', ''0xD66498633007E239AF2F4482F88AB0FF3C622A1C974FF6E9986062B02FB0B568'')])],
    LendingPoolConfigurator =
     [(''buidlerevm'', ZERO_ADDRESS),
      (''coverage'', ZERO_ADDRESS),
      (''hardhat'', ZERO_ADDRESS),
      (''tenderly'', ZERO_ADDRESS),
      (''testnet'', ZERO_ADDRESS),
      (''oasys'', ''0xBA55b646837190e293989643197D3ce3dDFe1Ab4'')]\<rparr>"

text \<open>\<open>{ ...CommonsConfig, ... }\<close>: the spread is a record update.\<close>

definition PalmyConfig :: PoolConfiguration where
  "PalmyConfig =
   CommonsConfig\<lparr>
    MarketId := ''Palmy genesis market'',
    ProviderId := 1,
    ReservesConfig :=
     [(''WETH'', strategyWETH),
      (''WOAS'', strategyWOAS),
      (''USDC'', strategyUSDC),
      (''USDT'', strategyUSDT),
      (''WBTC'', strategyWBTC),
      (''MCHC'', strategyMCHC)],
    ReserveAssets :=
     [(''buidlerevm'', []),
      (''hardhat'', []),
      (''coverage'', []),
      (''tenderly'', []),
      (''testnet'', [(''WETH'', ''0x7C7dDDB4DD58300168DC652e2c2fB787B6f6aE54''),
        (''WOAS'', ''0x5200000000000000000000000000000000000001''),
        (''WBTC'', ''0xB9F1fb5c7dd67F3F249E42025E4255F402B535a0''),
        (''USDC'', ''0xA36bb2502E4a8Af486ee99388b6033FBfc466a4f'')]),
      (''oasys'', [(''WOAS'', ''0x5200000000000000000000000000000000000001''),
        (''WETH'', ''0x5801E5a61164024Be2554248E33127c6ebC8C113''),
        (''WBTC'', ''0xdd30c42D57a0f14DD44c809F59836D57392FDbC9''),
        (''USDC'', ''0x4D17C0609B77e456Fb98Ea99a62bCeF09adae32D''),
        (''MCHC'', ''0x5B1CC635E524cAbb63a581c050C895534755F297'')])]\<rparr>"

end
