(* ===== verification/Runtime.thy ===== *)
theory Runtime
  imports Effects Collections Markets
begin

text \<open>
  What every task and helper reads of the Hardhat runtime environment, and the helpers built
  directly on it: per-network parameters and the deployment database
  (\<open>helpers/contracts-helpers.ts\<close>), the market configurations (\<open>helpers/configuration.ts\<close>) and the
  network tables (\<open>helper-hardhat-config.ts\<close>).  The chain, lowdb, the address predicates and the
  hash of \<open>toSalt\<close> belong to packages and are parameters, collected in one record.
\<close>

text \<open>Compiled artifacts, as far as linking reads them.\<close>

record fixup =
  fixStart :: nat
  fixLength :: nat

record artifact =
  bytecode :: string
  linkReferences :: "fixup list obj obj"

record 'd runtime =
  rtChain :: chain_api
  rtStore :: "'d lowdb_api"
  rtEnv :: environment
  rtSigners :: "string list"          \<comment> \<open>addresses of \<open>ethers.getSigners()\<close>\<close>
  rtAddresses :: address_api
  rtSalt :: "string \<Rightarrow> string"         \<comment> \<open>\<open>hexlify(sha256(toUtf8Bytes(s)))\<close>\<close>
  rtArtifact :: "string \<Rightarrow> string + artifact"        \<comment> \<open>\<open>readArtifact(id)\<close>\<close>
  rtCallData :: "string \<Rightarrow> arg list \<Rightarrow> string"
    \<comment> \<open>\<open>getContractFactory(name).getDeployTransaction(...args).data\<close>\<close>
  rtDeploymentAddress :: "tx list \<Rightarrow> string \<Rightarrow> string \<Rightarrow> string"
    \<comment> \<open>\<open>getDeploymentAddress(callData, salt)\<close> of the permissioned contract factory\<close>

abbreviation thisNetwork :: "'d runtime \<Rightarrow> string" where
  "thisNetwork R \<equiv> networkName (rtEnv R)"

text \<open>\<open>process.env.FORK ? process.env.FORK : DRE.network.name\<close>\<close>

definition forkOrNetwork :: "environment \<Rightarrow> string" where
  "forkOrNetwork e = (if truthy (envFORK e) then the (envFORK e) else networkName e)"

subsection \<open>Parameters per network and per pool\<close>

text \<open>A parameter that is \<open>undefined\<close> cannot be destructured; a network without entry, or outside
  the switch, gives \<open>undefined\<close>.\<close>

definition getParamPerNetwork :: "environment \<Rightarrow> 'v obj option \<Rightarrow> string \<Rightarrow> string + 'v option" where
  "getParamPerNetwork e param network =
     (case param of
        None \<Rightarrow> Inl ''Cannot destructure property of undefined''
      | Some p \<Rightarrow>
          if truthy (envFORK e) then Inr (map_of p (the (envFORK e)))
          else if network = eEthereumNetwork_value Coverage then Inr (map_of p ''coverage'')
          else if network = eEthereumNetwork_value Buidlerevm then Inr (map_of p ''buidlerevm'')
          else if network = eEthereumNetwork_value Hardhat then Inr (map_of p ''buidlerevm'')
          else if network = eEthereumNetwork_value Tenderly then Inr (map_of p ''tenderly'')
          else if network = eOasysNetwork_value Testnet then Inr (map_of p ''testnet'')
          else if network = eOasysNetwork_value Oasys then Inr (map_of p ''oasys'')
          else Inr None)"

definition getOptionalParamAddressPerNetwork ::
  "environment \<Rightarrow> string obj option \<Rightarrow> string \<Rightarrow> string + string option" where
  "getOptionalParamAddressPerNetwork e param network =
     (case param of None \<Rightarrow> Inr (Some ZERO_ADDRESS) | Some p \<Rightarrow> getParamPerNetwork e (Some p) network)"

definition getParamPerPool :: "'v iParamsPerPool \<Rightarrow> PalmyPools \<Rightarrow> 'v option" where
  "getParamPerPool param pool = (case pool of Proto \<Rightarrow> map_of param (PalmyPools_value Proto))"

subsection \<open>Market configurations\<close>

datatype ConfigNames = ConfigCommons | ConfigPalmy

fun ConfigNames_value :: "ConfigNames \<Rightarrow> string" where
  "ConfigNames_value ConfigCommons = ''Commons''"
| "ConfigNames_value ConfigPalmy = ''Palmy''"

definition loadPoolConfig :: "string \<Rightarrow> string + PoolConfiguration" where
  "loadPoolConfig configName =
     (if configName = ConfigNames_value ConfigPalmy then Inr PalmyConfig
      else if configName = ConfigNames_value ConfigCommons then Inr CommonsConfig
      else Inl (''Unsupported pool configuration: '' @ configName @
        '' is not one of the supported configs Commons,Palmy''))"

definition getReservesConfigByPool :: "PalmyPools \<Rightarrow> IReserveParams obj option" where
  "getReservesConfigByPool pool =
     getParamPerPool [(PalmyPools_value Proto, ReservesConfig PalmyConfig)] pool"

text \<open>\<open>poolConfig[id]\<close> for a contract id: only the per-network address objects can be hit.\<close>

definition config_entry :: "PoolConfiguration \<Rightarrow> string \<Rightarrow> string obj option" where
  "config_entry config key =
     map_of
       [(''ProviderRegistryOwner'', ProviderRegistryOwner config),
        (''LTokenDomainSeparator'', LTokenDomainSeparator config), (''WETH'', WETH config),
        (''WrappedNativeToken'', WrappedNativeToken config),
        (''ReserveFactorTreasuryAddress'', ReserveFactorTreasuryAddress config),
        (''IncentivesController'', IncentivesController config), (''StakedOas'', StakedOas config),
        (''OracleSenderAddress'', OracleSenderAddress config),
        (''LendingPoolConfigurator'', LendingPoolConfigurator config)] key"

definition flatten :: "'v option option \<Rightarrow> 'v option" where
  "flatten v = (case v of None \<Rightarrow> None | Some x \<Rightarrow> x)"

text \<open>\<open>addressList[index]\<close>, \<open>undefined\<close> past the end.\<close>

definition at_index :: "'a list \<Rightarrow> nat \<Rightarrow> 'a option" where
  "at_index xs i = (if i < length xs then Some (xs ! i) else None)"

definition getEthersSignersAddresses :: "'d runtime \<Rightarrow> string list" where
  "getEthersSignersAddresses R = rtSigners R"

definition getGenesisPoolAdmin :: "'d runtime \<Rightarrow> PoolConfiguration \<Rightarrow> string + string option" where
  "getGenesisPoolAdmin R config =
     andThen (getParamPerNetwork (rtEnv R) (Some (PoolAdmin config)) (forkOrNetwork (rtEnv R)))
      (\<lambda>targetAddress.
        if truthy (flatten targetAddress) then Inr (flatten targetAddress)
        else Inr (at_index (getEthersSignersAddresses R) (PoolAdminIndex config)))"

definition getEmergencyAdmin :: "'d runtime \<Rightarrow> PoolConfiguration \<Rightarrow> string + string option" where
  "getEmergencyAdmin R config =
     andThen (getParamPerNetwork (rtEnv R) (Some (EmergencyAdmin config)) (forkOrNetwork (rtEnv R)))
      (\<lambda>targetAddress.
        if truthy (flatten targetAddress) then Inr (flatten targetAddress)
        else Inr (at_index (getEthersSignersAddresses R) (EmergencyAdminIndex config)))"

definition getTreasuryAddress :: "'d runtime \<Rightarrow> PoolConfiguration \<Rightarrow> string + string option" where
  "getTreasuryAddress R config =
     getParamPerNetwork (rtEnv R) (Some (ReserveFactorTreasuryAddress config)) (forkOrNetwork (rtEnv R))"

definition getLTokenDomainSeparatorPerNetwork ::
  "'d runtime \<Rightarrow> string \<Rightarrow> PoolConfiguration \<Rightarrow> string + string option" where
  "getLTokenDomainSeparatorPerNetwork R network config =
     getParamPerNetwork (rtEnv R) (Some (LTokenDomainSeparator config)) network"

text \<open>The filter reads \<open>Object.keys(ReserveAssets[network])\<close> once per rate.\<close>

definition getLendingRateOracles :: "'d runtime \<Rightarrow> PoolConfiguration \<Rightarrow> string + IMarketRates obj" where
  "getLendingRateOracles R poolConfig =
     (case map_of (ReserveAssets poolConfig) (forkOrNetwork (rtEnv R)) of
        None \<Rightarrow> if LendingRateOracleRatesCommon poolConfig = [] then Inr []
                else Inl ''Cannot convert undefined or null to object''
      | Some assets \<Rightarrow>
          Inr (filterMapBy (LendingRateOracleRatesCommon poolConfig) (\<lambda>key. key \<in> set (obj_keys assets))))"

subsection \<open>The deployment database\<close>

definition writeDb :: "'d runtime \<Rightarrow> string \<Rightarrow> db_entry \<Rightarrow> ('d, unit) action" where
  "writeDb R contractId e =
     (\<lambda>w. (Inr (), w\<lparr>db := dbSet (rtStore R) (db w) (entry_path contractId (thisNetwork R)) e\<rparr>))"

definition readDb :: "'d runtime \<Rightarrow> string \<Rightarrow> 'd world \<Rightarrow> db_entry option" where
  "readDb R contractId w = dbGet (rtStore R) (db w) (entry_path contractId (thisNetwork R))"

definition registerContractAddressInJsonDb ::
  "'d runtime \<Rightarrow> string \<Rightarrow> string \<Rightarrow> string \<Rightarrow> ('d, unit) action" where
  "registerContractAddressInJsonDb R contractId addr deployer =
     writeDb R contractId \<lparr>entryAddress = addr, entryDeployer = Some deployer, entrySalt = None\<rparr>"

definition registerContractAddressAndSaltInJsonDb ::
  "'d runtime \<Rightarrow> string \<Rightarrow> string \<Rightarrow> string \<Rightarrow> string \<Rightarrow> ('d, unit) action" where
  "registerContractAddressAndSaltInJsonDb R contractId addr deployer salt =
     writeDb R contractId \<lparr>entryAddress = addr, entryDeployer = Some deployer, entrySalt = Some salt\<rparr>"

text \<open>The instance is given by its address and the sender of its creation; the console output is
  not modelled.\<close>

definition registerContractInJsonDb ::
  "'d runtime \<Rightarrow> string \<Rightarrow> string \<Rightarrow> string \<Rightarrow> ('d, unit) action" where
  "registerContractInJsonDb R contractId addr deployer =
     writeDb R contractId \<lparr>entryAddress = addr, entryDeployer = Some deployer, entrySalt = None\<rparr>"

definition insertContractAddressInDb :: "'d runtime \<Rightarrow> string \<Rightarrow> string \<Rightarrow> ('d, unit) action" where
  "insertContractAddressInDb R contractId addr =
     writeDb R contractId \<lparr>entryAddress = addr, entryDeployer = None, entrySalt = None\<rparr>"

definition rawInsertContractAddressInDb :: "'d runtime \<Rightarrow> string \<Rightarrow> string \<Rightarrow> ('d, unit) action" where
  "rawInsertContractAddressInDb R contractId addr =
     writeDb R contractId \<lparr>entryAddress = addr, entryDeployer = None, entrySalt = None\<rparr>"

definition toSalt :: "'d runtime \<Rightarrow> string \<Rightarrow> string" where
  "toSalt R contractId = rtSalt R (contractId @ ''palmy-fi'')"

definition getOasysDeploymentAddress :: "'d runtime \<Rightarrow> string \<Rightarrow> string \<Rightarrow> ('d, string) action" where
  "getOasysDeploymentAddress R contractId callData =
     readA (\<lambda>w. rtDeploymentAddress R (sent w) callData (toSalt R contractId))"

definition callDataFile :: "string \<Rightarrow> string \<Rightarrow> string" where
  "callDataFile network contractId = ''.deployments/calldata/'' @ network @ ''/'' @ contractId @ ''.calldata''"

definition saveDeploymentCallData :: "'d runtime \<Rightarrow> string \<Rightarrow> string \<Rightarrow> ('d, unit) action" where
  "saveDeploymentCallData R contractId callData =
     thenA (\<lambda>w. (Inr (), w\<lparr>files := obj_set (files w) (callDataFile (thisNetwork R) contractId) callData\<rparr>))
      (whenA (thisNetwork R = eOasysNetwork_value Oasys)
        (bindA (getOasysDeploymentAddress R contractId callData) (\<lambda>addr.
          registerContractAddressAndSaltInJsonDb R contractId addr '''' (toSalt R contractId))))"

definition getContractAddressWithJsonFallback :: "'d runtime \<Rightarrow> string \<Rightarrow> string \<Rightarrow> ('d, string) action" where
  "getContractAddressWithJsonFallback R contractId pool =
     checkA (\<lambda>w.
       andThen (loadPoolConfig pool) (\<lambda>poolConfig.
       andThen (getOptionalParamAddressPerNetwork (rtEnv R) (config_entry poolConfig contractId)
         (thisNetwork R)) (\<lambda>contractAtMarketConfig.
       if notFalsyOrZeroAddress (rtAddresses R) contractAtMarketConfig
       then Inr (the contractAtMarketConfig)
       else (case readDb R contractId w of
          Some contractAtDb \<Rightarrow>
            if entryAddress contractAtDb \<noteq> [] then Inr (entryAddress contractAtDb)
            else Inl (''Missing contract address '' @ contractId @ '' at Market config and JSON local db'')
        | None \<Rightarrow>
            Inl (''Missing contract address '' @ contractId @ '' at Market config and JSON local db'')))))"

subsection \<open>Linking\<close>

definition apply_fixup :: "string \<Rightarrow> string \<Rightarrow> fixup \<Rightarrow> string" where
  "apply_fixup addr code f =
     take (2 + fixStart f * 2) code @ drop 2 addr @ drop (2 + (fixStart f + fixLength f) * 2) code"

definition linkBytecode :: "artifact \<Rightarrow> string obj \<Rightarrow> string" where
  "linkBytecode a libraries =
     foldl (\<lambda>code (fileName, fileReferences).
         foldl (\<lambda>code (libName, fixups).
             case map_of libraries libName of
               None \<Rightarrow> code
             | Some addr \<Rightarrow> foldl (apply_fixup addr) code fixups)
           code fileReferences)
       (bytecode a) (linkReferences a)"

subsection \<open>Networks\<close>

definition GWEI :: nat where "GWEI = 1000 * 1000 * 1000"

definition NETWORKS_RPC_URL :: "string obj" where
  "NETWORKS_RPC_URL =
     [(''coverage'', ''http://localhost:8555''), (''hardhat'', ''http://localhost:8545''),
      (''buidlerevm'', ''http://localhost:8545''), (''tenderly'', ''https://rpc.tenderly.co/fork/''),
      (''testnet'', ''https://rpc.testnet.oasys.games''), (''oasys'', ''https://rpc.mainnet.oasys.games'')]"

definition NETWORKS_DEFAULT_GAS :: "nat obj" where
  "NETWORKS_DEFAULT_GAS =
     [(''coverage'', 65 * GWEI), (''hardhat'', 65 * GWEI), (''buidlerevm'', 65 * GWEI),
      (''tenderly'', 1 * GWEI), (''testnet'', 65 * GWEI), (''oasys'', 100 * GWEI)]"

definition BLOCK_TO_FORK :: "nat option obj" where
  "BLOCK_TO_FORK =
     [(''coverage'', None), (''hardhat'', None), (''buidlerevm'', None), (''tenderly'', None),
      (''testnet'', None), (''oasys'', None)]"

record fork_config =
  forkUrl :: "string option"
  forkBlockNumber :: "nat option"

text \<open>\<open>forkBlock\<close> is \<open>FORK_BLOCK_NUMBER\<close>, 0 when the variable is not set.\<close>

definition buildForkConfig :: "string \<Rightarrow> nat \<Rightarrow> fork_config option" where
  "buildForkConfig fork forkBlock =
     (if fork = [] then None
      else Some
       \<lparr>forkUrl = map_of NETWORKS_RPC_URL fork,
        forkBlockNumber =
          (if forkBlock \<noteq> 0 then Some forkBlock else flatten (map_of BLOCK_TO_FORK fork))\<rparr>)"

end
