(* ===== verification/Deployments.thy ===== *)
theory Deployments
  imports Runtime
begin

text \<open>
  \<open>helpers/contracts-deployments.ts\<close>: one definition per deployment function.  A deployed instance
  is its address; deploying sends a creation transaction from the first signer, registers the
  address in the database under its contract id and, on request, verifies it.
\<close>

subsection \<open>Signers, verification, saving\<close>

definition getFirstSigner :: "'d runtime \<Rightarrow> string option" where
  "getFirstSigner R = at_index (rtSigners R) 0"

definition deployFrom :: "'d runtime \<Rightarrow> string \<Rightarrow> arg list \<Rightarrow> ('d, string) action" where
  "deployFrom R contract args =
     bindA (requireA ''sending a transaction requires a signer'' (getFirstSigner R)) (\<lambda>signer.
     deployA (rtChain R) contract args signer)"

definition callFrom :: "'d runtime \<Rightarrow> string \<Rightarrow> string \<Rightarrow> arg list \<Rightarrow> ('d, unit) action" where
  "callFrom R target method args =
     bindA (requireA ''sending a transaction requires a signer'' (getFirstSigner R)) (\<lambda>signer.
     sendA (rtChain R) (callTx target method args signer))"

definition SUPPORTED_ETHERSCAN_NETWORKS :: "string list" where
  "SUPPORTED_ETHERSCAN_NETWORKS = [''testnet'', ''oasys'']"

text \<open>Only the two guards can throw: what the verification task raises is caught.\<close>

definition verifyEtherscanContract :: "'d runtime \<Rightarrow> string \<Rightarrow> arg list \<Rightarrow> ('d, unit) action" where
  "verifyEtherscanContract R addr constructorArguments =
     (if \<not> truthy (envETHERSCAN_KEY (rtEnv R)) then throwA ''Missing process.env.ETHERSCAN_KEY.''
      else if thisNetwork R \<notin> set SUPPORTED_ETHERSCAN_NETWORKS
      then throwA (''Current network '' @ thisNetwork R @
        '' not supported. Please change to one of the next networks: testnet,oasys'')
      else returnA ())"

definition verifyContract :: "'d runtime \<Rightarrow> string \<Rightarrow> string \<Rightarrow> arg list \<Rightarrow> ('d, unit) action" where
  "verifyContract R contractId contractAddress args = verifyEtherscanContract R contractAddress args"

definition withSaveAndVerify :: "'d runtime \<Rightarrow> string \<Rightarrow> string \<Rightarrow> arg list \<Rightarrow> bool \<Rightarrow> ('d, string) action" where
  "withSaveAndVerify R inst contractId args verify =
     thenA (registerContractInJsonDb R contractId inst (the (getFirstSigner R)))
      (thenA (whenA verify (verifyContract R contractId inst args))
        (returnA inst))"

definition deployContract :: "'d runtime \<Rightarrow> string \<Rightarrow> arg list \<Rightarrow> ('d, string) action" where
  "deployContract R contractName args =
     bindA (deployFrom R contractName args) (\<lambda>contract.
     thenA (registerContractInJsonDb R contractName contract (the (getFirstSigner R)))
       (returnA contract))"

subsection \<open>Registries, providers, oracles\<close>

definition deployUiIncentiveDataProviderV2 :: "'d runtime \<Rightarrow> bool \<Rightarrow> ('d, string) action" where
  "deployUiIncentiveDataProviderV2 R verify =
     bindA (deployFrom R ''UiIncentiveDataProviderV2'' []) (\<lambda>inst.
     withSaveAndVerify R inst ''UiIncentiveDataProviderV2'' [] verify)"

definition deployUiPoolDataProviderV2 :: "'d runtime \<Rightarrow> bool \<Rightarrow> ('d, string) action" where
  "deployUiPoolDataProviderV2 R verify =
     bindA (deployFrom R ''UiPoolDataProviderV2'' []) (\<lambda>inst.
     withSaveAndVerify R inst ''UiPoolDataProviderV2'' [] verify)"

definition deployLendingPoolAddressesProvider :: "'d runtime \<Rightarrow> string \<Rightarrow> string \<Rightarrow> bool \<Rightarrow> ('d, string) action" where
  "deployLendingPoolAddressesProvider R marketId initialOwner verify =
     bindA (deployFrom R ''LendingPoolAddressesProvider'' [AString marketId, AAddress initialOwner]) (\<lambda>inst.
     withSaveAndVerify R inst ''LendingPoolAddressesProvider'' [AString marketId, AAddress initialOwner] verify)"

definition deployLendingPoolAddressesProviderRegistry :: "'d runtime \<Rightarrow> string \<Rightarrow> bool \<Rightarrow> ('d, string) action" where
  "deployLendingPoolAddressesProviderRegistry R initialOwner verify =
     bindA (deployFrom R ''LendingPoolAddressesProviderRegistry'' [AAddress initialOwner]) (\<lambda>inst.
     withSaveAndVerify R inst ''LendingPoolAddressesProviderRegistry'' [AAddress initialOwner] verify)"

definition deployLendingPoolConfigurator :: "'d runtime \<Rightarrow> bool \<Rightarrow> ('d, string) action" where
  "deployLendingPoolConfigurator R verify =
     bindA (deployFrom R ''LendingPoolConfigurator'' []) (\<lambda>impl.
     thenA (insertContractAddressInDb R ''LendingPoolConfiguratorImpl'' impl)
      (withSaveAndVerify R impl ''LendingPoolConfigurator'' [] verify))"

definition deployReserveLogicLibrary :: "'d runtime \<Rightarrow> bool \<Rightarrow> ('d, string) action" where
  "deployReserveLogicLibrary R verify =
     bindA (deployFrom R ''ReserveLogic'' []) (\<lambda>inst.
     withSaveAndVerify R inst ''ReserveLogic'' [] verify)"

definition deployPriceOracle :: "'d runtime \<Rightarrow> bool \<Rightarrow> ('d, string) action" where
  "deployPriceOracle R verify =
     bindA (deployFrom R ''PriceOracle'' []) (\<lambda>inst.
     withSaveAndVerify R inst ''PriceOracle'' [] verify)"

definition deployPalmyFallbackOracle :: "'d runtime \<Rightarrow> string \<Rightarrow> bool \<Rightarrow> ('d, string) action" where
  "deployPalmyFallbackOracle R initialOwner verify =
     bindA (deployFrom R ''PalmyFallbackOracle'' [AAddress initialOwner]) (\<lambda>inst.
     withSaveAndVerify R inst ''PalmyFallbackOracle'' [] verify)"

definition deployLendingRateOracle :: "'d runtime \<Rightarrow> string \<Rightarrow> bool \<Rightarrow> ('d, string) action" where
  "deployLendingRateOracle R initialOwner verify =
     bindA (deployFrom R ''LendingRateOracle'' [AAddress initialOwner]) (\<lambda>inst.
     withSaveAndVerify R inst ''LendingRateOracle'' [] verify)"

definition deployMockAggregator ::
  "'d runtime \<Rightarrow> string list \<times> string list \<Rightarrow> bool \<Rightarrow> ('d, string) action" where
  "deployMockAggregator R args verify =
     bindA (deployFrom R ''MockAggregator''
       [AList (map AAddress (fst args)), AList (map AString (snd args))]) (\<lambda>inst.
     withSaveAndVerify R inst ''MockAggregator''
       [AList (map AAddress (fst args)), AList (map AString (snd args))] verify)"

definition deployPalmyOracle ::
  "'d runtime \<Rightarrow> string \<times> string \<times> string \<Rightarrow> bool \<Rightarrow> ('d, string) action" where
  "deployPalmyOracle R args verify =
     (case args of (quoteCurrency, quoteUnit, owner) \<Rightarrow>
     bindA (deployFrom R ''PalmyOracle'' [AAddress quoteCurrency, AString quoteUnit, AAddress owner])
      (\<lambda>inst.
     withSaveAndVerify R inst ''PalmyOracle''
       [AAddress quoteCurrency, AString quoteUnit, AAddress owner] verify))"

definition deployLendingPoolCollateralManager :: "'d runtime \<Rightarrow> bool \<Rightarrow> ('d, string) action" where
  "deployLendingPoolCollateralManager R verify =
     bindA (deployFrom R ''LendingPoolCollateralManager'' []) (\<lambda>impl.
     thenA (insertContractAddressInDb R ''LendingPoolCollateralManagerImpl'' impl)
      (withSaveAndVerify R impl ''LendingPoolCollateralManager'' [] verify))"

definition deployInitializableAdminUpgradeabilityProxy :: "'d runtime \<Rightarrow> bool \<Rightarrow> ('d, string) action" where
  "deployInitializableAdminUpgradeabilityProxy R verify =
     bindA (deployFrom R ''InitializableAdminUpgradeabilityProxy'' []) (\<lambda>inst.
     withSaveAndVerify R inst ''InitializableAdminUpgradeabilityProxy'' [] verify)"

definition deployMockFlashLoanReceiver :: "'d runtime \<Rightarrow> string \<Rightarrow> bool \<Rightarrow> ('d, string) action" where
  "deployMockFlashLoanReceiver R addressesProvider verify =
     bindA (deployFrom R ''MockFlashLoanReceiver'' [AAddress addressesProvider]) (\<lambda>inst.
     withSaveAndVerify R inst ''MockFlashLoanReceiver'' [AAddress addressesProvider] verify)"

definition deployWalletBalancerProvider :: "'d runtime \<Rightarrow> bool \<Rightarrow> ('d, string) action" where
  "deployWalletBalancerProvider R verify =
     bindA (deployFrom R ''WalletBalanceProvider'' []) (\<lambda>inst.
     withSaveAndVerify R inst ''WalletBalanceProvider'' [] verify)"

definition deployPalmyProtocolDataProvider :: "'d runtime \<Rightarrow> bool \<Rightarrow> ('d, string) action" where
  "deployPalmyProtocolDataProvider R verify =
     bindA (deployFrom R ''PalmyProtocolDataProvider'' []) (\<lambda>inst.
     withSaveAndVerify R inst ''PalmyProtocolDataProvider'' [] verify)"

definition deployMintableERC20 ::
  "'d runtime \<Rightarrow> string \<times> string \<times> string \<Rightarrow> bool \<Rightarrow> ('d, string) action" where
  "deployMintableERC20 R args verify =
     (case args of (tokenName, tokenSymbol, tokenDecimals) \<Rightarrow>
     bindA (deployFrom R ''MintableERC20'' [AString tokenName, AString tokenSymbol, AString tokenDecimals])
      (\<lambda>inst.
     withSaveAndVerify R inst ''MintableERC20''
       [AString tokenName, AString tokenSymbol, AString tokenDecimals] verify))"

definition deployMintableDelegationERC20 ::
  "'d runtime \<Rightarrow> string \<times> string \<times> string \<Rightarrow> bool \<Rightarrow> ('d, string) action" where
  "deployMintableDelegationERC20 R args verify =
     (case args of (tokenName, tokenSymbol, tokenDecimals) \<Rightarrow>
     bindA (deployFrom R ''MintableDelegationERC20'' [AString tokenName, AString tokenSymbol, AString tokenDecimals])
      (\<lambda>inst.
     withSaveAndVerify R inst ''MintableDelegationERC20''
       [AString tokenName, AString tokenSymbol, AString tokenDecimals] verify))"

definition deployDefaultReserveInterestRateStrategy ::
  "'d runtime \<Rightarrow> arg list \<Rightarrow> bool \<Rightarrow> ('d, string) action" where
  "deployDefaultReserveInterestRateStrategy R args verify =
     bindA (deployFrom R ''DefaultReserveInterestRateStrategy'' args) (\<lambda>inst.
     withSaveAndVerify R inst ''DefaultReserveInterestRateStrategy'' args verify)"

subsection \<open>Libraries and the lending pool\<close>

definition linkedFactory :: "'d runtime \<Rightarrow> string \<Rightarrow> string obj \<Rightarrow> string + string" where
  "linkedFactory R contractId libraries =
     andThen (rtArtifact R contractId) (\<lambda>a. Inr (linkBytecode a libraries))"

definition getGenericLogicContractFactory :: "'d runtime \<Rightarrow> string \<Rightarrow> string + string" where
  "getGenericLogicContractFactory R reserveLogicAddress =
     linkedFactory R ''GenericLogic'' [(''ReserveLogic'', reserveLogicAddress)]"

definition deployGenericLogic :: "'d runtime \<Rightarrow> string \<Rightarrow> bool \<Rightarrow> ('d, string) action" where
  "deployGenericLogic R reserveLogic verify =
     bindA (liftA (getGenericLogicContractFactory R reserveLogic)) (\<lambda>code.
     bindA (deployFrom R ''GenericLogic'' [AString code]) (\<lambda>genericLogic.
     withSaveAndVerify R genericLogic ''GenericLogic'' [] verify))"

definition getValidationLogicContractFactory :: "'d runtime \<Rightarrow> string \<Rightarrow> string \<Rightarrow> string + string" where
  "getValidationLogicContractFactory R reserveLogicAddress genericLogicAddress =
     linkedFactory R ''ValidationLogic''
       [(''ReserveLogic'', reserveLogicAddress), (''GenericLogic'', genericLogicAddress)]"

definition deployValidationLogic :: "'d runtime \<Rightarrow> string \<Rightarrow> string \<Rightarrow> bool \<Rightarrow> ('d, string) action" where
  "deployValidationLogic R reserveLogic genericLogic verify =
     bindA (liftA (getValidationLogicContractFactory R reserveLogic genericLogic)) (\<lambda>code.
     bindA (deployFrom R ''ValidationLogic'' [AString code]) (\<lambda>validationLogic.
     withSaveAndVerify R validationLogic ''ValidationLogic'' [] verify))"

definition toPalmyLibs :: "string \<Rightarrow> string \<Rightarrow> string obj" where
  "toPalmyLibs validationLogicAddress reserveLogicAddress =
     [(''__$22cd43a9dda9ce44e9b92ba393b88fb9ac$__'', reserveLogicAddress),
      (''__$de8c0cf1a7d7c36c802af9a64fb9d86036$__'', validationLogicAddress)]"

definition deployPalmyLibraries :: "'d runtime \<Rightarrow> bool \<Rightarrow> ('d, string obj) action" where
  "deployPalmyLibraries R verify =
     bindA (deployReserveLogicLibrary R verify) (\<lambda>reserveLogic.
     bindA (deployGenericLogic R reserveLogic verify) (\<lambda>genericLogic.
     bindA (deployValidationLogic R reserveLogic genericLogic verify) (\<lambda>validationLogic.
     returnA (toPalmyLibs validationLogic reserveLogic))))"

text \<open>The factory's placeholder map, the first constructor argument of the model's transaction.\<close>

definition linked :: "string obj \<Rightarrow> arg" where
  "linked libs = AList (map (\<lambda>(placeholder, addr). AList [AString placeholder, AAddress addr]) libs)"

definition deployLendingPool :: "'d runtime \<Rightarrow> bool \<Rightarrow> ('d, string) action" where
  "deployLendingPool R verify =
     bindA (deployPalmyLibraries R verify) (\<lambda>libraries.
     bindA (deployFrom R ''LendingPool'' [linked libraries]) (\<lambda>lendingPoolImpl.
     thenA (insertContractAddressInDb R ''LendingPoolImpl'' lendingPoolImpl)
      (withSaveAndVerify R lendingPoolImpl ''LendingPool'' [] verify)))"

definition deployLendingPoolTmp :: "'d runtime \<Rightarrow> bool \<Rightarrow> ('d, string) action" where
  "deployLendingPoolTmp R verify =
     bindA (deployPalmyLibraries R verify) (\<lambda>libraries.
     bindA (deployFrom R ''LendingPoolTmp'' [linked libraries]) (\<lambda>lendingPoolImpl.
     thenA (insertContractAddressInDb R ''LendingPoolTmpImpl'' lendingPoolImpl)
      (withSaveAndVerify R lendingPoolImpl ''LendingPoolTmpImpl'' [] verify)))"

definition deployLendingPoolV4 :: "'d runtime \<Rightarrow> bool \<Rightarrow> ('d, string) action" where
  "deployLendingPoolV4 R verify =
     bindA (deployPalmyLibraries R verify) (\<lambda>libraries.
     bindA (deployFrom R ''LendingPoolV4'' [linked libraries]) (\<lambda>lendingPoolImpl.
     thenA (insertContractAddressInDb R ''LendingPoolV4Impl'' lendingPoolImpl)
      (withSaveAndVerify R lendingPoolImpl ''LendingPoolV4Impl'' [] verify)))"

subsection \<open>Tokens\<close>

definition deployStableDebtToken ::
  "'d runtime \<Rightarrow> string \<times> string \<times> string \<times> string \<times> string \<Rightarrow> bool \<Rightarrow> ('d, string) action" where
  "deployStableDebtToken R args verify =
     (case args of (a0, a1, a2, a3, a4) \<Rightarrow>
     bindA (deployFrom R ''StableDebtToken'' []) (\<lambda>inst.
     bindA (withSaveAndVerify R inst ''StableDebtToken'' [] verify) (\<lambda>inst.
     thenA (callFrom R inst ''initialize''
       [AAddress a0, AAddress a1, AAddress a2, AString ''18'', AString a3, AString a4, AString ''0x10''])
      (returnA inst))))"

definition deployVariableDebtToken ::
  "'d runtime \<Rightarrow> string \<times> string \<times> string \<times> string \<times> string \<Rightarrow> bool \<Rightarrow> ('d, string) action" where
  "deployVariableDebtToken R args verify =
     (case args of (a0, a1, a2, a3, a4) \<Rightarrow>
     bindA (deployFrom R ''VariableDebtToken'' []) (\<lambda>inst.
     bindA (withSaveAndVerify R inst ''VariableDebtToken'' [] verify) (\<lambda>inst.
     thenA (callFrom R inst ''initialize''
       [AAddress a0, AAddress a1, AAddress a2, AString ''18'', AString a3, AString a4, AString ''0x10''])
      (returnA inst))))"

definition deployChainsightOracle :: "'d runtime \<Rightarrow> string \<Rightarrow> bool \<Rightarrow> ('d, string) action" where
  "deployChainsightOracle R tokenSymbol verify =
     bindA (deployFrom R ''ChainsightOracle'' []) (\<lambda>inst.
     withSaveAndVerify R inst (''ChainsightOracle'' @ tokenSymbol) [] verify)"

definition deployGenericStableDebtToken :: "'d runtime \<Rightarrow> bool \<Rightarrow> ('d, string) action" where
  "deployGenericStableDebtToken R verify =
     bindA (deployFrom R ''StableDebtToken'' []) (\<lambda>inst.
     withSaveAndVerify R inst ''StableDebtToken'' [] verify)"

definition deployGenericVariableDebtToken :: "'d runtime \<Rightarrow> bool \<Rightarrow> ('d, string) action" where
  "deployGenericVariableDebtToken R verify =
     bindA (deployFrom R ''VariableDebtToken'' []) (\<lambda>inst.
     withSaveAndVerify R inst ''VariableDebtToken'' [] verify)"

definition deployGenericLToken ::
  "'d runtime \<Rightarrow> string \<times> string \<times> string \<times> string \<times> string \<times> string \<Rightarrow> bool \<Rightarrow>
   ('d, string) action" where
  "deployGenericLToken R args verify =
     (case args of
        (poolAddress, underlyingAssetAddress, treasuryAddress, incentivesController, tokenName, tokenSymbol) \<Rightarrow>
     bindA (deployFrom R ''LToken'' []) (\<lambda>inst.
     bindA (withSaveAndVerify R inst ''LToken'' [] verify) (\<lambda>inst.
     thenA (callFrom R inst ''initialize''
       [AAddress poolAddress, AAddress treasuryAddress, AAddress underlyingAssetAddress,
        AAddress incentivesController, AString ''18'', AString tokenName, AString tokenSymbol,
        AString ''0x10''])
      (returnA inst))))"

definition deployGenericLTokenImpl :: "'d runtime \<Rightarrow> bool \<Rightarrow> ('d, string) action" where
  "deployGenericLTokenImpl R verify =
     bindA (deployFrom R ''LToken'' []) (\<lambda>inst.
     withSaveAndVerify R inst ''LToken'' [] verify)"

definition deployDelegationAwareLToken ::
  "'d runtime \<Rightarrow> string \<times> string \<times> string \<times> string \<times> string \<times> string \<Rightarrow> bool \<Rightarrow>
   ('d, string) action" where
  "deployDelegationAwareLToken R args verify =
     (case args of
        (poolAddress, underlyingAssetAddress, treasuryAddress, incentivesController, tokenName, tokenSymbol) \<Rightarrow>
     bindA (deployFrom R ''DelegationAwareLToken'' []) (\<lambda>inst.
     bindA (withSaveAndVerify R inst ''DelegationAwareLToken'' [] verify) (\<lambda>inst.
     thenA (callFrom R inst ''initialize''
       [AAddress poolAddress, AAddress treasuryAddress, AAddress underlyingAssetAddress,
        AAddress incentivesController, AString ''18'', AString tokenName, AString tokenSymbol,
        AString ''0x10''])
      (returnA inst))))"

definition deployDelegationAwareLTokenImpl :: "'d runtime \<Rightarrow> bool \<Rightarrow> ('d, string) action" where
  "deployDelegationAwareLTokenImpl R verify =
     bindA (deployFrom R ''DelegationAwareLToken'' []) (\<lambda>inst.
     withSaveAndVerify R inst ''DelegationAwareLToken'' [] verify)"

definition deployWETHMocked :: "'d runtime \<Rightarrow> bool \<Rightarrow> ('d, string) action" where
  "deployWETHMocked R verify =
     bindA (deployFrom R ''WETH9Mocked'' []) (\<lambda>inst.
     withSaveAndVerify R inst ''WOASMocked'' [] verify)"

definition deployMockStableDebtToken ::
  "'d runtime \<Rightarrow> string \<times> string \<times> string \<times> string \<times> string \<times> string \<Rightarrow> bool \<Rightarrow>
   ('d, string) action" where
  "deployMockStableDebtToken R args verify =
     (case args of (a0, a1, a2, a3, a4, a5) \<Rightarrow>
     bindA (deployFrom R ''MockStableDebtToken'' []) (\<lambda>inst.
     bindA (withSaveAndVerify R inst ''MockStableDebtToken'' [] verify) (\<lambda>inst.
     thenA (callFrom R inst ''initialize''
       [AAddress a0, AAddress a1, AAddress a2, AString ''18'', AString a3, AString a4, AString a5])
      (returnA inst))))"

definition deployMockVariableDebtToken ::
  "'d runtime \<Rightarrow> string \<times> string \<times> string \<times> string \<times> string \<times> string \<Rightarrow> bool \<Rightarrow>
   ('d, string) action" where
  "deployMockVariableDebtToken R args verify =
     (case args of (a0, a1, a2, a3, a4, a5) \<Rightarrow>
     bindA (deployFrom R ''MockVariableDebtToken'' []) (\<lambda>inst.
     bindA (withSaveAndVerify R inst ''MockVariableDebtToken'' [] verify) (\<lambda>inst.
     thenA (callFrom R inst ''initialize''
       [AAddress a0, AAddress a1, AAddress a2, AString ''18'', AString a3, AString a4, AString a5])
      (returnA inst))))"

definition deployMockLToken ::
  "'d runtime \<Rightarrow> string \<times> string \<times> string \<times> string \<times> string \<times> string \<times> string \<Rightarrow> bool \<Rightarrow>
   ('d, string) action" where
  "deployMockLToken R args verify =
     (case args of (a0, a1, a2, a3, a4, a5, a6) \<Rightarrow>
     bindA (deployFrom R ''MockLToken'' []) (\<lambda>inst.
     bindA (withSaveAndVerify R inst ''MockLToken'' [] verify) (\<lambda>inst.
     thenA (callFrom R inst ''initialize''
       [AAddress a0, AAddress a2, AAddress a1, AAddress a3, AString ''18'', AString a4, AString a5,
        AString a6])
      (returnA inst))))"

definition deploySelfdestructTransferMock :: "'d runtime \<Rightarrow> bool \<Rightarrow> ('d, string) action" where
  "deploySelfdestructTransferMock R verify =
     bindA (deployFrom R ''SelfdestructTransfer'' []) (\<lambda>inst.
     withSaveAndVerify R inst ''SelfdestructTransferMock'' [] verify)"

subsection \<open>Helpers, gateway, price adapters\<close>

definition deployStableAndVariableTokensHelper :: "'d runtime \<Rightarrow> string \<Rightarrow> bool \<Rightarrow> ('d, string) action" where
  "deployStableAndVariableTokensHelper R initialOwner verify =
     bindA (deployFrom R ''StableAndVariableTokensHelper'' [AAddress initialOwner]) (\<lambda>inst.
     withSaveAndVerify R inst ''StableAndVariableTokensHelper'' [] verify)"

definition deployLTokensAndRatesHelper :: "'d runtime \<Rightarrow> string \<Rightarrow> bool \<Rightarrow> ('d, string) action" where
  "deployLTokensAndRatesHelper R initialOwner verify =
     bindA (deployFrom R ''LTokensAndRatesHelper'' [AAddress initialOwner]) (\<lambda>inst.
     withSaveAndVerify R inst ''LTokensAndRatesHelper'' [] verify)"

definition deployWETHGateway ::
  "'d runtime \<Rightarrow> string \<times> string \<Rightarrow> bool \<Rightarrow> ('d, string) action" where
  "deployWETHGateway R args verify =
     bindA (deployFrom R ''WETHGateway'' [AAddress (fst args), AAddress (snd args)]) (\<lambda>inst.
     withSaveAndVerify R inst ''WETHGateway'' [AAddress (fst args), AAddress (snd args)] verify)"

definition authorizeWETHGateway :: "'d runtime \<Rightarrow> string \<Rightarrow> string \<Rightarrow> ('d, unit) action" where
  "authorizeWETHGateway R wethGateWay lendingPool =
     callFrom R wethGateWay ''authorizeLendingPool'' [AAddress lendingPool]"

definition deployPriceAggregatorChainsightImpl :: "'d runtime \<Rightarrow> string \<Rightarrow> bool \<Rightarrow> ('d, string) action" where
  "deployPriceAggregatorChainsightImpl R initialOwner verify =
     bindA (deployFrom R ''PriceAggregatorAdapterChainsightImpl'' [AAddress initialOwner]) (\<lambda>inst.
     withSaveAndVerify R inst ''PriceAggregatorAdapterChainsightImpl'' [] verify)"

definition deployStakeUIHelper :: "'d runtime \<Rightarrow> bool \<Rightarrow> ('d, string) action" where
  "deployStakeUIHelper R verify =
     bindA (deployFrom R ''StakeUIHelper'' []) (\<lambda>inst.
     withSaveAndVerify R inst ''StakeUIHelper'' [] verify)"

definition deployRateStrategy ::
  "'d runtime \<Rightarrow> string \<Rightarrow> arg list \<Rightarrow> bool \<Rightarrow> ('d, string) action" where
  "deployRateStrategy R name args verify = deployDefaultReserveInterestRateStrategy R args verify"

subsection \<open>Configuration that may deploy\<close>

text \<open>The two functions of \<open>helpers/configuration.ts\<close> that deploy a mocked wrapped token when the
  network has none, and the quote currency.\<close>

definition getWethAddress :: "'d runtime \<Rightarrow> PoolConfiguration \<Rightarrow> ('d, string) action" where
  "getWethAddress R config =
     bindA (liftA (getParamPerNetwork (rtEnv R) (Some (WETH config)) (forkOrNetwork (rtEnv R))))
      (\<lambda>wethAddress.
       if truthy wethAddress then returnA (the wethAddress) else deployWETHMocked R False)"

text \<open>\<open>currentNetwork.includes('oasys')\<close>\<close>

fun includes_string :: "string \<Rightarrow> string \<Rightarrow> bool" where
  "includes_string s pat = (take (length pat) s = pat \<or> (case s of [] \<Rightarrow> False | _ # t \<Rightarrow> includes_string t pat))"

declare includes_string.simps [simp del]

definition getWrappedNativeTokenAddress :: "'d runtime \<Rightarrow> PoolConfiguration \<Rightarrow> ('d, string) action" where
  "getWrappedNativeTokenAddress R config =
     (let currentNetwork = (if envMAINNET_FORK (rtEnv R) = Some ''true'' then ''main'' else thisNetwork R)
      in bindA (liftA (getParamPerNetwork (rtEnv R) (Some (WrappedNativeToken config)) currentNetwork))
       (\<lambda>wethAddress.
        if truthy wethAddress then returnA (the wethAddress)
        else if includes_string currentNetwork ''oasys''
        then throwA ''WOAS not set at oasys configuration.''
        else deployWETHMocked R False))"

definition getQuoteCurrency :: "'d runtime \<Rightarrow> PoolConfiguration \<Rightarrow> ('d, string) action" where
  "getQuoteCurrency R config =
     (if OracleQuoteCurrency config = ''ETH'' \<or> OracleQuoteCurrency config = ''WETH''
      then getWethAddress R config
      else if OracleQuoteCurrency config = ''USD''
      then returnA (UsdAddress (ProtocolGlobalParams config))
      else throwA (''Quote '' @ OracleQuoteCurrency config @
        '' currency not set. Add a new case to getQuoteCurrency switch''))"

subsection \<open>Deployment call data\<close>

definition address_arg :: "string option \<Rightarrow> arg" where
  "address_arg v = (case v of None \<Rightarrow> AUndefined | Some a \<Rightarrow> AAddress a)"

definition getDeployArgs :: "'d runtime \<Rightarrow> string \<Rightarrow> ('d, arg list) action" where
  "getDeployArgs R contractId =
     bindA (liftA (loadPoolConfig (ConfigNames_value ConfigPalmy))) (\<lambda>config.
     bindA (liftA (getGenesisPoolAdmin R config)) (\<lambda>genesisAdmin.
     if contractId = ''LendingPoolAddressesProvider''
     then returnA [AString (MarketId PalmyConfig), address_arg genesisAdmin]
     else if contractId \<in> {''LendingPoolAddressesProviderRegistry'', ''StableAndVariableTokensHelper'',
       ''LTokensAndRatesHelper'', ''PriceAggregatorAdapterChainsightImpl'', ''LendingRateOracle'',
       ''PalmyFallbackOracle''}
     then returnA [address_arg genesisAdmin]
     else if contractId = ''PalmyOracle''
     then bindA (getQuoteCurrency R config) (\<lambda>quoteCurrency.
       returnA [AAddress quoteCurrency, AString (OracleQuoteUnit config), address_arg genesisAdmin])
     else if contractId = ''WETHGateway''
     then bindA (getWrappedNativeTokenAddress R config) (\<lambda>weth.
       returnA [AAddress weth, address_arg genesisAdmin])
     else returnA []))"

definition getDeploymentCallData :: "'d runtime \<Rightarrow> string \<Rightarrow> ('d, string) action" where
  "getDeploymentCallData R contractName =
     bindA (getDeployArgs R contractName) (\<lambda>args. returnA (rtCallData R contractName args))"

definition exportDeploymentCallData :: "'d runtime \<Rightarrow> string \<Rightarrow> ('d, string) action" where
  "exportDeploymentCallData R contractId = getDeploymentCallData R contractId"

definition exportGenericLogicDeploymentCallData :: "'d runtime \<Rightarrow> string \<Rightarrow> ('d, string) action" where
  "exportGenericLogicDeploymentCallData R reserveLogicAddress =
     liftA (getGenericLogicContractFactory R reserveLogicAddress)"

definition exportValidationLogicDeploymentCallData ::
  "'d runtime \<Rightarrow> string \<Rightarrow> string \<Rightarrow> ('d, string) action" where
  "exportValidationLogicDeploymentCallData R reserveLogicAddress genericLogicAddress =
     liftA (getValidationLogicContractFactory R reserveLogicAddress genericLogicAddress)"

definition poolLibraries :: "'d runtime \<Rightarrow> ('d, string obj) action" where
  "poolLibraries R =
     bindA (getContractAddressWithJsonFallback R ''ReserveLogic'' (ConfigNames_value ConfigPalmy))
      (\<lambda>reserveLogicAddress.
     bindA (getContractAddressWithJsonFallback R ''ValidationLogic'' (ConfigNames_value ConfigPalmy))
      (\<lambda>validationLogicAddress.
     returnA (toPalmyLibs validationLogicAddress reserveLogicAddress)))"

definition exportLendingPoolCallData :: "'d runtime \<Rightarrow> ('d, string) action" where
  "exportLendingPoolCallData R =
     bindA (poolLibraries R) (\<lambda>libs. returnA (rtCallData R ''LendingPool'' [linked libs]))"

definition exportLendingPoolTmpAndV4CallData :: "'d runtime \<Rightarrow> ('d, string \<times> string) action" where
  "exportLendingPoolTmpAndV4CallData R =
     bindA (poolLibraries R) (\<lambda>libs.
     returnA (rtCallData R ''LendingPoolTmp'' [linked libs], rtCallData R ''LendingPoolV4'' [linked libs]))"

subsection \<open>Mock tokens and token implementations\<close>

definition TokenContractId :: "string list" where
  "TokenContractId = [''WETH'', ''USD'', ''WOAS'', ''USDC'', ''USDT'', ''WBTC'']"

definition upper :: "string \<Rightarrow> string" where
  "upper s = map (\<lambda>c. let n = of_char c :: nat in if 97 \<le> n \<and> n \<le> 122 then char_of (n - 32) else c) s"

definition mockDecimals :: "string \<Rightarrow> string" where
  "mockDecimals tokenSymbol =
     (case getReservesConfigByPool Proto of
        None \<Rightarrow> ''18''
      | Some protoConfigData \<Rightarrow>
          (case map_of protoConfigData tokenSymbol of
             None \<Rightarrow> ''18'' | Some configData \<Rightarrow> reserveDecimals configData))"

definition deployAllMockTokens :: "'d runtime \<Rightarrow> bool \<Rightarrow> ('d, string obj) action" where
  "deployAllMockTokens R verify =
     mapA (\<lambda>tokenSymbol.
       bindA (if tokenSymbol = ''WOAS'' then deployWETHMocked R False
              else deployMintableERC20 R (tokenSymbol, tokenSymbol, mockDecimals tokenSymbol) verify)
        (\<lambda>token.
       thenA (registerContractInJsonDb R (upper tokenSymbol) token (the (getFirstSigner R)))
        (returnA (tokenSymbol, token))))
      TokenContractId"

definition chooseLTokenDeployment :: "'d runtime \<Rightarrow> string \<Rightarrow> string + (bool \<Rightarrow> ('d, string) action)" where
  "chooseLTokenDeployment R contractId =
     (if contractId = ''LToken'' then Inr (deployGenericLTokenImpl R)
      else if contractId = ''DelegationAwareLToken'' then Inr (deployDelegationAwareLTokenImpl R)
      else Inl (''Missing lToken implementation deployment script for: '' @ contractId))"

text \<open>\<open>Set\<close> keeps the first insertion of each value.\<close>

definition set_of :: "'a list \<Rightarrow> 'a list" where
  "set_of xs = foldl (\<lambda>acc x. if x \<in> set acc then acc else acc @ [x]) [] xs"

definition deployLTokenImplementations ::
  "'d runtime \<Rightarrow> string \<Rightarrow> IReserveParams obj \<Rightarrow> bool \<Rightarrow> ('d, unit) action" where
  "deployLTokenImplementations R pool reservesConfig verify =
     bindA (liftA (loadPoolConfig pool)) (\<lambda>poolConfig.
     let lTokenImplementations = set_of (map (\<lambda>(_, entry). lTokenImpl entry) reservesConfig)
     in thenA
       (forA lTokenImplementations (\<lambda>impl.
         bindA (liftA (getOptionalParamAddressPerNetwork (rtEnv R) (config_entry poolConfig impl)
           (thisNetwork R))) (\<lambda>lTokenAddress.
         whenA (\<not> notFalsyOrZeroAddress (rtAddresses R) lTokenAddress)
          (bindA (liftA (chooseLTokenDeployment R impl)) (\<lambda>deployImplementationMethod.
           bindA (deployImplementationMethod verify) (\<lambda>_. returnA ()))))))
       (bindA (deployGenericStableDebtToken R verify) (\<lambda>_.
        bindA (deployGenericVariableDebtToken R verify) (\<lambda>_. returnA ()))))"

end
