(* ===== verification/Getters.thy ===== *)
theory Getters
  imports Deployments
begin

text \<open>
  \<open>helpers/contracts-getters.ts\<close>: contract instances by address or from the deployment database,
  the mocked tokens and the pairs of assets and price aggregators.  Connecting an instance reads
  nothing of the chain, so a getter returns the address it connects to; a missing database entry
  throws on reading \<open>.address\<close>.
\<close>

subsection \<open>Instances\<close>

text \<open>\<open>address || (await getDb().get(`${id}.${network}`).value()).address\<close>\<close>

definition databaseAddress :: "'d runtime \<Rightarrow> string \<Rightarrow> ('d, string) action" where
  "databaseAddress R contractId =
     checkA (\<lambda>w. case readDb R contractId w of
       None \<Rightarrow> Inl ''Cannot read properties of undefined (reading address)''
     | Some e \<Rightarrow> Inr (entryAddress e))"

definition connectedAddress :: "'d runtime \<Rightarrow> string \<Rightarrow> string option \<Rightarrow> ('d, string) action" where
  "connectedAddress R contractId addr =
     (if truthy addr then returnA (the addr) else databaseAddress R contractId)"

definition getLendingPoolAddressesProvider :: "'d runtime \<Rightarrow> string option \<Rightarrow> ('d, string) action" where
  "getLendingPoolAddressesProvider R addr = connectedAddress R ''LendingPoolAddressesProvider'' addr"

definition getLendingPoolConfiguratorProxy :: "'d runtime \<Rightarrow> string option \<Rightarrow> ('d, string) action" where
  "getLendingPoolConfiguratorProxy R addr = connectedAddress R ''LendingPoolConfigurator'' addr"

definition getLendingPool :: "'d runtime \<Rightarrow> string option \<Rightarrow> ('d, string) action" where
  "getLendingPool R addr = connectedAddress R ''LendingPool'' addr"

definition getPriceOracle :: "'d runtime \<Rightarrow> string option \<Rightarrow> ('d, string) action" where
  "getPriceOracle R addr = connectedAddress R ''PriceOracle'' addr"

definition getPalmyFallbackOracle :: "'d runtime \<Rightarrow> string option \<Rightarrow> ('d, string) action" where
  "getPalmyFallbackOracle R addr = connectedAddress R ''PalmyFallbackOracle'' addr"

definition getLToken :: "'d runtime \<Rightarrow> string option \<Rightarrow> ('d, string) action" where
  "getLToken R addr = connectedAddress R ''LToken'' addr"

definition getStableDebtToken :: "'d runtime \<Rightarrow> string option \<Rightarrow> ('d, string) action" where
  "getStableDebtToken R addr = connectedAddress R ''StableDebtToken'' addr"

definition getVariableDebtToken :: "'d runtime \<Rightarrow> string option \<Rightarrow> ('d, string) action" where
  "getVariableDebtToken R addr = connectedAddress R ''VariableDebtToken'' addr"

definition getMintableERC20 :: "'d runtime \<Rightarrow> string option \<Rightarrow> ('d, string) action" where
  "getMintableERC20 R addr = connectedAddress R ''MintableERC20'' addr"

definition getIErc20Detailed :: "'d runtime \<Rightarrow> string option \<Rightarrow> ('d, string) action" where
  "getIErc20Detailed R addr = connectedAddress R ''IERC20Detailed'' addr"

definition getPalmyProtocolDataProvider :: "'d runtime \<Rightarrow> string option \<Rightarrow> ('d, string) action" where
  "getPalmyProtocolDataProvider R addr = connectedAddress R ''PalmyProtocolDataProvider'' addr"

definition getInterestRateStrategy :: "'d runtime \<Rightarrow> string option \<Rightarrow> ('d, string) action" where
  "getInterestRateStrategy R addr = connectedAddress R ''DefaultReserveInterestRateStrategy'' addr"

definition getMockFlashLoanReceiver :: "'d runtime \<Rightarrow> string option \<Rightarrow> ('d, string) action" where
  "getMockFlashLoanReceiver R addr = connectedAddress R ''MockFlashLoanReceiver'' addr"

definition getLendingRateOracle :: "'d runtime \<Rightarrow> string option \<Rightarrow> ('d, string) action" where
  "getLendingRateOracle R addr = connectedAddress R ''LendingRateOracle'' addr"

definition getReserveLogic :: "'d runtime \<Rightarrow> string option \<Rightarrow> ('d, string) action" where
  "getReserveLogic R addr = connectedAddress R ''ReserveLogic'' addr"

definition getGenericLogic :: "'d runtime \<Rightarrow> string option \<Rightarrow> ('d, string) action" where
  "getGenericLogic R addr = connectedAddress R ''GenericLogic'' addr"

definition getStableAndVariableTokensHelper :: "'d runtime \<Rightarrow> string option \<Rightarrow> ('d, string) action" where
  "getStableAndVariableTokensHelper R addr = connectedAddress R ''StableAndVariableTokensHelper'' addr"

definition getLTokensAndRatesHelper :: "'d runtime \<Rightarrow> string option \<Rightarrow> ('d, string) action" where
  "getLTokensAndRatesHelper R addr = connectedAddress R ''LTokensAndRatesHelper'' addr"

definition getWETHGateway :: "'d runtime \<Rightarrow> string option \<Rightarrow> ('d, string) action" where
  "getWETHGateway R addr = connectedAddress R ''WETHGateway'' addr"

definition getWETHMocked :: "'d runtime \<Rightarrow> string option \<Rightarrow> ('d, string) action" where
  "getWETHMocked R addr = connectedAddress R ''WOASMocked'' addr"

definition getMockLToken :: "'d runtime \<Rightarrow> string option \<Rightarrow> ('d, string) action" where
  "getMockLToken R addr = connectedAddress R ''MockLToken'' addr"

definition getMockVariableDebtToken :: "'d runtime \<Rightarrow> string option \<Rightarrow> ('d, string) action" where
  "getMockVariableDebtToken R addr = connectedAddress R ''MockVariableDebtToken'' addr"

definition getMockStableDebtToken :: "'d runtime \<Rightarrow> string option \<Rightarrow> ('d, string) action" where
  "getMockStableDebtToken R addr = connectedAddress R ''MockStableDebtToken'' addr"

definition getSelfdestructTransferMock :: "'d runtime \<Rightarrow> string option \<Rightarrow> ('d, string) action" where
  "getSelfdestructTransferMock R addr = connectedAddress R ''SelfdestructTransferMock'' addr"

definition getLendingPoolImpl :: "'d runtime \<Rightarrow> string option \<Rightarrow> ('d, string) action" where
  "getLendingPoolImpl R addr = connectedAddress R ''LendingPoolImpl'' addr"

definition getLendingPoolTmpImpl :: "'d runtime \<Rightarrow> string option \<Rightarrow> ('d, string) action" where
  "getLendingPoolTmpImpl R addr = connectedAddress R ''LendingPoolTmpImpl'' addr"

definition getLendingPoolV4Impl :: "'d runtime \<Rightarrow> string option \<Rightarrow> ('d, string) action" where
  "getLendingPoolV4Impl R addr = connectedAddress R ''LendingPoolV4Impl'' addr"

definition getLendingPoolConfiguratorImpl :: "'d runtime \<Rightarrow> string option \<Rightarrow> ('d, string) action" where
  "getLendingPoolConfiguratorImpl R addr = connectedAddress R ''LendingPoolConfiguratorImpl'' addr"

definition getLendingPoolCollateralManagerImpl :: "'d runtime \<Rightarrow> string option \<Rightarrow> ('d, string) action" where
  "getLendingPoolCollateralManagerImpl R addr = connectedAddress R ''LendingPoolCollateralManagerImpl'' addr"

definition getWalletProvider :: "'d runtime \<Rightarrow> string option \<Rightarrow> ('d, string) action" where
  "getWalletProvider R addr = connectedAddress R ''WalletBalanceProvider'' addr"

definition getLendingPoolCollateralManager :: "'d runtime \<Rightarrow> string option \<Rightarrow> ('d, string) action" where
  "getLendingPoolCollateralManager R addr = connectedAddress R ''LendingPoolCollateralManager'' addr"

definition getStakeUIHelper :: "'d runtime \<Rightarrow> string option \<Rightarrow> ('d, string) action" where
  "getStakeUIHelper R addr = connectedAddress R ''StakeUIHelper'' addr"

definition getPalmyOracle :: "'d runtime \<Rightarrow> string option \<Rightarrow> ('d, string) action" where
  "getPalmyOracle R addr = connectedAddress R ''PalmyOracle'' addr"

definition getPriceAggregator :: "'d runtime \<Rightarrow> string option \<Rightarrow> ('d, string) action" where
  "getPriceAggregator R addr = connectedAddress R ''PriceAggregatorAdapterChainsightImpl'' addr"

definition getLendingPoolAddressesProviderRegistry :: "'d runtime \<Rightarrow> string option \<Rightarrow> ('d, string) action" where
  "getLendingPoolAddressesProviderRegistry R addr =
     (if notFalsyOrZeroAddress (rtAddresses R) addr then returnA (the addr)
      else databaseAddress R ''LendingPoolAddressesProviderRegistry'')"

definition getChainsightOracle :: "'d runtime \<Rightarrow> string \<Rightarrow> string option \<Rightarrow> ('d, string) action" where
  "getChainsightOracle R tokenSymbol addr = connectedAddress R (''ChainsightOracle'' @ tokenSymbol) addr"

definition getProxy :: "'d runtime \<Rightarrow> string \<Rightarrow> ('d, string) action" where
  "getProxy R addr = returnA addr"

definition getAddressById :: "'d runtime \<Rightarrow> string \<Rightarrow> 'd world \<Rightarrow> string option" where
  "getAddressById R contractId w =
     (case readDb R contractId w of
        None \<Rightarrow> None | Some e \<Rightarrow> if entryAddress e = [] then None else Some (entryAddress e))"

subsection \<open>Mocked tokens\<close>

definition mockedToken :: "'d runtime \<Rightarrow> string \<Rightarrow> ('d, string \<times> string) action" where
  "mockedToken R tokenSymbol =
     bindA (databaseAddress R (upper tokenSymbol)) (\<lambda>addr.
     bindA (getMintableERC20 R (Some addr)) (\<lambda>token. returnA (tokenSymbol, token)))"

definition getMockedTokens :: "'d runtime \<Rightarrow> PoolConfiguration \<Rightarrow> ('d, string obj) action" where
  "getMockedTokens R config = mapA (mockedToken R) (obj_keys (ReservesConfig config))"

definition getAllMockedTokens :: "'d runtime \<Rightarrow> ('d, string obj) action" where
  "getAllMockedTokens R = mapA (mockedToken R) TokenContractId"

subsection \<open>Assets and aggregators\<close>

definition getQuoteCurrencies :: "string \<Rightarrow> string list" where
  "getQuoteCurrencies oracleQuoteCurrency =
     (if oracleQuoteCurrency = ''USD'' then [''USD''] else [''ETH'', ''WETH''])"

text \<open>A symbol without aggregator makes the destructuring of \<open>undefined\<close> throw.\<close>

definition getPairsTokenAggregator ::
  "string obj \<Rightarrow> string obj \<Rightarrow> string \<Rightarrow> string + (string list \<times> string list)" where
  "getPairsTokenAggregator allAssetsAddresses aggregatorsAddresses oracleQuoteCurrency =
     (let assetsWithoutQuoteCurrency = omit allAssetsAddresses (getQuoteCurrencies oracleQuoteCurrency)
      in if list_all (\<lambda>(tokenSymbol, _). find_entry aggregatorsAddresses tokenSymbol \<noteq> None)
           assetsWithoutQuoteCurrency
         then
          (let pairs = map (\<lambda>(tokenSymbol, tokenAddress).
                 (tokenAddress, snd (the (find_entry aggregatorsAddresses tokenSymbol))))
               assetsWithoutQuoteCurrency
           in Inr (map fst pairs, map snd pairs))
         else Inl ''undefined is not iterable'')"

text \<open>The variant of \<open>init-helpers.ts\<close> drops \<open>ETH\<close>, \<open>USD\<close> and \<open>WETH\<close> whatever the quote currency.\<close>

definition getPairsTokenAggregator_init :: "string obj \<Rightarrow> string obj \<Rightarrow> string + (string list \<times> string list)" where
  "getPairsTokenAggregator_init allAssetsAddresses aggregatorsAddresses =
     (let assetsAddressesWithoutEth = omit allAssetsAddresses [''ETH'', ''USD'', ''WETH'']
      in if list_all (\<lambda>(tokenSymbol, _). find_entry aggregatorsAddresses tokenSymbol \<noteq> None)
           assetsAddressesWithoutEth
         then
          (let pairs = map (\<lambda>(tokenSymbol, tokenAddress).
                 (tokenAddress, snd (the (find_entry aggregatorsAddresses tokenSymbol))))
               assetsAddressesWithoutEth
           in Inr (map fst pairs, map snd pairs))
         else Inl ''undefined is not iterable'')"

end
