(* ===== verification/OracleSetup.thy ===== *)
theory OracleSetup
  imports Getters
begin

text \<open>
  \<open>helpers/oracles-helpers.ts\<close>: initial borrow rates and prices of the oracles.  Contract instances
  are addresses, and their transactions come from the first signer, which the getters connect.
\<close>

text \<open>\<open>Object.entries(assetsAddresses)[Object.keys(assetsAddresses).findIndex(...)]\<close>, destructured.\<close>

definition addressOf :: "string obj \<Rightarrow> string \<Rightarrow> string + string" where
  "addressOf assetsAddresses assetSymbol =
     (case find_entry assetsAddresses assetSymbol of
        None \<Rightarrow> Inl ''undefined is not iterable'' | Some (_, assetAddress) \<Rightarrow> Inr assetAddress)"

text \<open>The symbols are collected too, for the console.\<close>

definition setInitialMarketRatesInRatesOracleByHelper ::
  "'d runtime \<Rightarrow> IMarketRates obj \<Rightarrow> string obj \<Rightarrow> string \<Rightarrow> string \<Rightarrow> ('d, unit) action" where
  "setInitialMarketRatesInRatesOracleByHelper R marketRates assetsAddresses lendingRateOracleInstance admin =
     bindA (getStableAndVariableTokensHelper R None) (\<lambda>stableAndVariableTokenHelper.
     bindA (liftA (mapR (\<lambda>(assetSymbol, rates).
         andThen (addressOf assetsAddresses assetSymbol) (\<lambda>assetAddress.
         Inr (assetAddress, borrowRate rates))) marketRates)) (\<lambda>rows.
     let ratesChunks = 20;
         chunkedTokens = chunk (map fst rows) ratesChunks;
         chunkedRates = chunk (map snd rows) ratesChunks
     in thenA (callFrom R lendingRateOracleInstance ''transferOwnership''
          [AAddress stableAndVariableTokenHelper])
       (thenA (forA [0..<length chunkedTokens] (\<lambda>chunkIndex.
          callFrom R stableAndVariableTokenHelper ''setOracleBorrowRates''
            [AList (map AAddress (chunkedTokens ! chunkIndex)),
             AList (map AString (chunkedRates ! chunkIndex)), AAddress lendingRateOracleInstance]))
        (callFrom R stableAndVariableTokenHelper ''setOracleOwnership''
          [AAddress lendingRateOracleInstance, AAddress admin]))))"

definition setInitialAssetPricesInOracle ::
  "'d runtime \<Rightarrow> string obj \<Rightarrow> string obj \<Rightarrow> string \<Rightarrow> ('d, unit) action" where
  "setInitialAssetPricesInOracle R prices assetsAddresses priceOracleInstance =
     forA prices (\<lambda>(assetSymbol, price).
       bindA (liftA (addressOf assetsAddresses assetSymbol)) (\<lambda>assetAddress.
       callFrom R priceOracleInstance ''setAssetPrice'' [AAddress assetAddress, AString price]))"

definition setAssetPricesInOracle ::
  "'d runtime \<Rightarrow> string obj \<Rightarrow> string obj \<Rightarrow> string \<Rightarrow> ('d, unit) action" where
  "setAssetPricesInOracle R prices assetsAddresses priceOracleInstance =
     forA prices (\<lambda>(assetSymbol, price).
       bindA (liftA (addressOf assetsAddresses assetSymbol)) (\<lambda>assetAddress.
       callFrom R priceOracleInstance ''setAssetPrice'' [AAddress assetAddress, AString price]))"

definition pricedAssets :: "string obj \<Rightarrow> string obj \<Rightarrow> string + (string \<times> string) list" where
  "pricedAssets prices assetsAddresses =
     mapR (\<lambda>(assetSymbol, price).
       andThen (addressOf assetsAddresses assetSymbol) (\<lambda>assetAddress. Inr (assetAddress, price))) prices"

definition setAssetPricesInFallbackOracle ::
  "'d runtime \<Rightarrow> string obj \<Rightarrow> string obj \<Rightarrow> string \<Rightarrow> ('d, unit) action" where
  "setAssetPricesInFallbackOracle R prices assetsAddresses priceOracleInstance =
     bindA (liftA (pricedAssets prices assetsAddresses)) (\<lambda>rows.
     callFrom R priceOracleInstance ''submitPrices''
       [AList (map (AAddress \<circ> fst) rows), AList (map (AString \<circ> snd) rows)])"

definition deployMockAggregators ::
  "'d runtime \<Rightarrow> string obj \<Rightarrow> string obj \<Rightarrow> bool \<Rightarrow> ('d, string) action" where
  "deployMockAggregators R prices assetsAddresses verify =
     bindA (liftA (pricedAssets prices assetsAddresses)) (\<lambda>rows.
     deployMockAggregator R (map fst rows, map snd rows) verify)"

end
