(* ===== verification/ReserveInit.thy ===== *)
theory ReserveInit
  imports OracleSetup
begin

text \<open>
  \<open>helpers/init-helpers.ts\<close>: deploying the interest rate strategies, initialising the reserves of a
  market and configuring them, and the etherscan retry loop of \<open>helpers/etherscan-verification.ts\<close>.
\<close>

subsection \<open>Initialisation\<close>

record init_input =
  inLTokenImpl :: string
  inStableDebtTokenImpl :: string
  inVariableDebtTokenImpl :: string
  inUnderlyingAssetDecimals :: string
  inInterestRateStrategyAddress :: string
  inUnderlyingAsset :: string
  inTreasury :: string
  inIncentivesController :: string
  inUnderlyingAssetName :: string
  inLTokenName :: string
  inLTokenSymbol :: string
  inVariableDebtTokenName :: string
  inVariableDebtTokenSymbol :: string
  inStableDebtTokenName :: string
  inStableDebtTokenSymbol :: string
  inParams :: string

definition init_arg :: "init_input \<Rightarrow> arg" where
  "init_arg i =
     AList
      [AAddress (inLTokenImpl i), AAddress (inStableDebtTokenImpl i), AAddress (inVariableDebtTokenImpl i),
       AString (inUnderlyingAssetDecimals i), AAddress (inInterestRateStrategyAddress i),
       AAddress (inUnderlyingAsset i), AAddress (inTreasury i), AAddress (inIncentivesController i),
       AString (inUnderlyingAssetName i), AString (inLTokenName i), AString (inLTokenSymbol i),
       AString (inVariableDebtTokenName i), AString (inVariableDebtTokenSymbol i),
       AString (inStableDebtTokenName i), AString (inStableDebtTokenSymbol i), AString (inParams i)]"

definition getLTokenExtraParams :: "string \<Rightarrow> string \<Rightarrow> string" where
  "getLTokenExtraParams lTokenName tokenAddress = ''0x10''"

text \<open>What is the same for every reserve of one call.\<close>

record market_names =
  lTokenNamePrefix :: string
  stableDebtTokenNamePrefix :: string
  variableDebtTokenNamePrefix :: string
  symbolPrefix :: string
  treasuryAddress :: string
  incentivesController :: string
  poolName :: string

definition guardA :: "bool \<Rightarrow> string \<Rightarrow> ('d, unit) action" where
  "guardA c message = (if c then returnA () else throwA message)"

text \<open>The deployed strategies so far, with the one of this reserve: created when its name is new.\<close>

definition ensureStrategy ::
  "'d runtime \<Rightarrow> string \<Rightarrow> bool \<Rightarrow> IInterestRateStrategyParams \<Rightarrow> string obj \<Rightarrow> ('d, string obj) action" where
  "ensureStrategy R addressProvider verify st strategies =
     (if truthy (map_of strategies (strategyName st)) then returnA strategies
      else
       bindA (deployRateStrategy R (strategyName st)
         [AAddress addressProvider, AString (optimalUtilizationRate st),
          AString (baseVariableBorrowRate st), AString (variableRateSlope1 st),
          AString (variableRateSlope2 st), AString (stableRateSlope1 st), AString (stableRateSlope2 st)]
         verify) (\<lambda>addr.
       thenA (rawInsertContractAddressInDb R (strategyName st) addr)
        (returnA (obj_set strategies (strategyName st) addr))))"

definition initInput ::
  "'d runtime \<Rightarrow> market_names \<Rightarrow> string obj \<Rightarrow> string obj \<Rightarrow> string \<Rightarrow> IReserveParams \<Rightarrow>
   ('d, init_input) action" where
  "initInput R M tokenAddresses strategies sy params =
     (let valid = notFalsyOrZeroAddress (rtAddresses R);
          token = map_of tokenAddresses sy;
          strategyAddress = map_of strategies (strategyName (strategy params))
      in thenA (guardA (valid token) (''token address of '' @ sy @ '' is not defined''))
        (thenA (guardA (valid strategyAddress)
          (''strategy address of '' @ the strategyAddress @ '' is not defined''))
        (bindA (getContractAddressWithJsonFallback R (lTokenImpl params) (poolName M)) (\<lambda>lTokenImplAddress.
         thenA (guardA (valid (Some lTokenImplAddress)) ''address of lTokenImpl is not defined'')
        (bindA (getContractAddressWithJsonFallback R ''StableDebtToken'' (poolName M)) (\<lambda>sdTokenImplAddress.
         thenA (guardA (valid (Some sdTokenImplAddress)) ''address of sdTokenImpl is not defined'')
        (bindA (getContractAddressWithJsonFallback R ''VariableDebtToken'' (poolName M)) (\<lambda>vdTokenImplAddress.
         thenA (guardA (valid (Some vdTokenImplAddress)) ''address of lTokenImpl is not defined'')
        (thenA (guardA (valid token) (''underlying asset address of '' @ the token @ '' is not defined''))
        (thenA (guardA (valid (Some (treasuryAddress M))) ''treasury address is not defined'')
        (returnA
          \<lparr>inLTokenImpl = lTokenImplAddress, inStableDebtTokenImpl = sdTokenImplAddress,
           inVariableDebtTokenImpl = vdTokenImplAddress,
           inUnderlyingAssetDecimals = reserveDecimals params,
           inInterestRateStrategyAddress = the strategyAddress, inUnderlyingAsset = the token,
           inTreasury = treasuryAddress M, inIncentivesController = incentivesController M,
           inUnderlyingAssetName = sy, inLTokenName = lTokenNamePrefix M @ '' '' @ sy,
           inLTokenSymbol = ''l'' @ symbolPrefix M @ sy,
           inVariableDebtTokenName = variableDebtTokenNamePrefix M @ '' '' @ symbolPrefix M @ sy,
           inVariableDebtTokenSymbol = ''vd'' @ symbolPrefix M @ sy,
           inStableDebtTokenName = stableDebtTokenNamePrefix M @ '' '' @ sy,
           inStableDebtTokenSymbol = ''sd'' @ symbolPrefix M @ sy,
           inParams = getLTokenExtraParams (lTokenImpl params) (the token)\<rparr>)))))))))))"

fun initInputs ::
  "'d runtime \<Rightarrow> string \<Rightarrow> bool \<Rightarrow> market_names \<Rightarrow> string obj \<Rightarrow> string obj \<Rightarrow> IReserveParams obj \<Rightarrow>
   ('d, init_input list) action" where
  "initInputs R addressProvider verify M tokenAddresses strategies [] = returnA []"
| "initInputs R addressProvider verify M tokenAddresses strategies ((sy, params) # reserves) =
     (if \<not> truthy (map_of tokenAddresses sy)
      then initInputs R addressProvider verify M tokenAddresses strategies reserves
      else
       bindA (ensureStrategy R addressProvider verify (strategy params) strategies) (\<lambda>strategies'.
       bindA (initInput R M tokenAddresses strategies' sy params) (\<lambda>input.
       bindA (initInputs R addressProvider verify M tokenAddresses strategies' reserves) (\<lambda>inputs.
       returnA (input # inputs)))))"

definition initReservesByHelper ::
  "'d runtime \<Rightarrow> IReserveParams obj \<Rightarrow> string obj \<Rightarrow> market_names \<Rightarrow> bool \<Rightarrow> string option \<Rightarrow>
   string option \<Rightarrow> string obj option \<Rightarrow> ('d, unit) action" where
  "initReservesByHelper R reservesParams tokenAddresses M verify providerAddress configuratorAddress
       strategyAddresses =
     bindA (getLendingPoolAddressesProvider R providerAddress) (\<lambda>addressProvider.
     let initChunks = 1; strategies = (case strategyAddresses of None \<Rightarrow> [] | Some s \<Rightarrow> s)
     in bindA (initInputs R addressProvider verify M tokenAddresses strategies reservesParams)
       (\<lambda>initInputParams.
        let chunkedInitInputParams = chunk initInputParams initChunks
        in bindA (getLendingPoolConfiguratorProxy R configuratorAddress) (\<lambda>configurator.
           forA [0..<length chunkedInitInputParams] (\<lambda>chunkIndex.
             callFrom R configurator ''batchInitReserve''
               [AList (map init_arg (chunkedInitInputParams ! chunkIndex))]))))"

subsection \<open>Configuration\<close>

record config_input =
  cfAsset :: string
  cfBaseLTV :: string
  cfLiquidationThreshold :: string
  cfLiquidationBonus :: string
  cfReserveFactor :: string
  cfStableBorrowingEnabled :: bool
  cfBorrowingEnabled :: bool

definition config_arg :: "config_input \<Rightarrow> arg" where
  "config_arg c =
     AList
      [AAddress (cfAsset c), AString (cfBaseLTV c), AString (cfLiquidationThreshold c),
       AString (cfLiquidationBonus c), AString (cfReserveFactor c), ABool (cfStableBorrowingEnabled c),
       ABool (cfBorrowingEnabled c)]"

text \<open>\<open>enabled\<close> is \<open>usageAsCollateralEnabled\<close> of \<open>getReserveConfigurationData\<close> for a token.\<close>

fun configInputs ::
  "address_api \<Rightarrow> (string \<Rightarrow> bool) \<Rightarrow> string obj \<Rightarrow> IReserveParams obj \<Rightarrow> string + config_input list" where
  "configInputs api enabled tokenAddresses [] = Inr []"
| "configInputs api enabled tokenAddresses ((assetSymbol, params) # reserves) =
     (if \<not> truthy (map_of tokenAddresses assetSymbol) \<or> baseLTVAsCollateral params = ''-1''
      then configInputs api enabled tokenAddresses reserves
      else
       andThen (addressOf tokenAddresses assetSymbol) (\<lambda>tokenAddress.
       if enabled tokenAddress then configInputs api enabled tokenAddresses reserves
       else if \<not> notFalsyOrZeroAddress api (Some tokenAddress)
       then Inl (''token address of '' @ assetSymbol @ '' is not defined'')
       else
        andThen (configInputs api enabled tokenAddresses reserves) (\<lambda>inputs.
        Inr (\<lparr>cfAsset = tokenAddress, cfBaseLTV = baseLTVAsCollateral params,
              cfLiquidationThreshold = liquidationThreshold params,
              cfLiquidationBonus = liquidationBonus params, cfReserveFactor = reserveFactor params,
              cfStableBorrowingEnabled = stableBorrowRateEnabled params,
              cfBorrowingEnabled = borrowingEnabled params\<rparr> # inputs))))"

definition configureReservesByHelper ::
  "'d runtime \<Rightarrow> (tx list \<Rightarrow> string \<Rightarrow> bool) \<Rightarrow> IReserveParams obj \<Rightarrow> string obj \<Rightarrow> string \<Rightarrow>
   string option \<Rightarrow> string option \<Rightarrow> ('d, unit) action" where
  "configureReservesByHelper R enabled reservesParams tokenAddresses admin providerAddress helperAddress =
     bindA (getLendingPoolAddressesProvider R providerAddress) (\<lambda>addressProvider.
     bindA (getLTokensAndRatesHelper R helperAddress) (\<lambda>ltokenAndRatesDeployer.
     bindA (checkA (\<lambda>w. configInputs (rtAddresses R) (enabled (sent w)) tokenAddresses reservesParams))
      (\<lambda>inputParams.
     let enableChunks = 20; chunkedInputParams = chunk inputParams enableChunks
     in whenA (inputParams \<noteq> [])
      (thenA (callFrom R addressProvider ''setPoolAdmin'' [AAddress ltokenAndRatesDeployer])
       (thenA (forA [0..<length chunkedInputParams] (\<lambda>chunkIndex.
          callFrom R ltokenAndRatesDeployer ''configureReserves''
            [AList (map config_arg (chunkedInputParams ! chunkIndex))]))
        (callFrom R addressProvider ''setPoolAdmin'' [AAddress admin]))))))"

subsection \<open>Verification retries\<close>

definition okErrors :: "string list" where
  "okErrors = [''Contract source code already verified'']"

definition fatalErrors :: "string list" where
  "fatalErrors =
     [''The address provided as argument contains a contract, but its bytecode'',
      ''Daily limit of 100 source code submissions reached'',
      ''has no bytecode. Is the contract deployed to this network'', ''The constructor for'']"

definition unableVerifyError :: string where "unableVerifyError = ''Fail - Unable to verify''"

text \<open>The attempts made so far, each with whether \<open>relatedSources\<close> was still set, and the number of
  calls of \<open>cleanup\<close>.  \<open>run\<close> is the verification task: the message it throws, if any.\<close>

record retry_log =
  attempts :: "bool list"
  cleanups :: nat

fun runTaskWithRetry :: "(bool list \<Rightarrow> bool \<Rightarrow> string option) \<Rightarrow> bool \<Rightarrow> nat \<Rightarrow> retry_log \<Rightarrow> retry_log" where
  "runTaskWithRetry run relatedSources 0 log = log\<lparr>cleanups := cleanups log + 1\<rparr>"
| "runTaskWithRetry run relatedSources (Suc counter) log =
     (let related = (if counter = 0 then False else relatedSources);
          log' = log\<lparr>attempts := attempts log @ [related]\<rparr>
      in case run (attempts log) related of
           None \<Rightarrow> log'\<lparr>cleanups := cleanups log' + 1\<rparr>
         | Some message \<Rightarrow>
             if list_ex (includes_string message) okErrors \<or> list_ex (includes_string message) fatalErrors
             then log'
             else runTaskWithRetry run (if includes_string message unableVerifyError then False else related)
                    counter log')"

text \<open>The exit code of \<open>checkVerification\<close>, if it exits.\<close>

definition checkVerification :: "'d runtime \<Rightarrow> nat option" where
  "checkVerification R =
     (if \<not> truthy (envETHERSCAN_KEY (rtEnv R)) then Some 3
      else if thisNetwork R \<notin> set SUPPORTED_ETHERSCAN_NETWORKS then Some 5 else None)"

end
