(* ===== verification/Tasks.thy ===== *)
theory Tasks
  imports ReserveInit
begin

text \<open>
  The tasks that initialise the deployed market: \<open>tasks/initializations/\<close> and
  \<open>tasks/operations/list-token.ts\<close>.  What contracts answer is a parameter, functions of the
  transactions sent so far; console output is not modelled.
\<close>

record views =
  vwLendingPool :: "tx list \<Rightarrow> string \<Rightarrow> string"              \<comment> \<open>\<open>provider.getLendingPool()\<close>\<close>
  vwLendingPoolConfigurator :: "tx list \<Rightarrow> string \<Rightarrow> string"  \<comment> \<open>\<open>provider.getLendingPoolConfigurator()\<close>\<close>
  vwInitEvents :: "tx list \<Rightarrow> (string \<times> string) list"
    \<comment> \<open>first two arguments of each event of the last receipt\<close>
  vwCollateralEnabled :: "tx list \<Rightarrow> string \<Rightarrow> bool"
    \<comment> \<open>\<open>usageAsCollateralEnabled\<close> of \<open>getReserveConfigurationData\<close>\<close>

definition signerA :: "'d runtime \<Rightarrow> ('d, string) action" where
  "signerA R = requireA ''Cannot read properties of undefined'' (getFirstSigner R)"

definition paramA :: "'d runtime \<Rightarrow> 'v obj \<Rightarrow> ('d, 'v option) action" where
  "paramA R param = liftA (getParamPerNetwork (rtEnv R) (Some param) (thisNetwork R))"

subsection \<open>Addresses provider\<close>

definition initializeAddressProvider :: "'d runtime \<Rightarrow> ('d, unit) action" where
  "initializeAddressProvider R =
     bindA (liftA (loadPoolConfig (ConfigNames_value ConfigPalmy))) (\<lambda>poolConfig.
     bindA (getLendingPoolAddressesProviderRegistry R None) (\<lambda>registryAddress.
     thenA (guardA (notFalsyOrZeroAddress (rtAddresses R) (Some registryAddress))
       ''Provider Registry not deployed'')
     (bindA (getLendingPoolAddressesProvider R None) (\<lambda>addressesProvider.
      bindA (getLendingPoolAddressesProviderRegistry R (Some registryAddress)) (\<lambda>registry.
      thenA (callFrom R registry ''registerAddressesProvider''
        [AAddress addressesProvider, AInt (int (ProviderId poolConfig))])
      (bindA (liftA (getGenesisPoolAdmin R poolConfig)) (\<lambda>admin.
       thenA (callFrom R addressesProvider ''setPoolAdmin'' [address_arg admin])
       (bindA (liftA (getEmergencyAdmin R poolConfig)) (\<lambda>emergencyAdmin.
        callFrom R addressesProvider ''setEmergencyAdmin'' [address_arg emergencyAdmin])))))))))"

subsection \<open>Lending pool\<close>

definition initializeLendingPool :: "'d runtime \<Rightarrow> views \<Rightarrow> ('d, unit) action" where
  "initializeLendingPool R V =
     bindA (getLendingPoolImpl R None) (\<lambda>lendingPoolImpl.
     bindA (getLendingPoolAddressesProvider R None) (\<lambda>addressProvider.
     thenA (callFrom R addressProvider ''setLendingPoolImpl'' [AAddress lendingPoolImpl])
     (bindA (readA (\<lambda>w. vwLendingPool V (sent w) addressProvider)) (\<lambda>lendingPoolAddress.
      thenA (insertContractAddressInDb R ''LendingPool'' lendingPoolAddress)
      (bindA (getLendingPoolConfiguratorImpl R None) (\<lambda>configuratorImplAddress.
       thenA (callFrom R addressProvider ''setLendingPoolConfiguratorImpl'' [AAddress configuratorImplAddress])
       (bindA (readA (\<lambda>w. vwLendingPoolConfigurator V (sent w) addressProvider)) (\<lambda>configuratorAddress.
        thenA (insertContractAddressInDb R ''LendingPoolConfigurator'' configuratorAddress)
        (bindA (getStableAndVariableTokensHelper R None) (\<lambda>stableAndVariableTokensHelper.
         thenA (guardA (notFalsyOrZeroAddress (rtAddresses R) (Some stableAndVariableTokensHelper))
           ''missing stableAndVariableTokensHelper'')
         (thenA (callFrom R stableAndVariableTokensHelper ''initialize''
            [AAddress lendingPoolAddress, AAddress addressProvider])
          (bindA (getLTokensAndRatesHelper R None) (\<lambda>ltokenAndRatesHelper.
           thenA (guardA (notFalsyOrZeroAddress (rtAddresses R) (Some ltokenAndRatesHelper))
             ''missing ltokenAndRatesHelper'')
           (callFrom R ltokenAndRatesHelper ''initialize''
             [AAddress lendingPoolAddress, AAddress addressProvider, AAddress configuratorAddress]))))))))))))))"

subsection \<open>Oracles\<close>

text \<open>\<open>Object.entries(v)\<close> of a parameter that may be \<open>undefined\<close>.\<close>

definition entriesOf :: "'v obj option \<Rightarrow> string + 'v obj" where
  "entriesOf v = (case v of None \<Rightarrow> Inl ''Cannot convert undefined or null to object'' | Some o' \<Rightarrow> Inr o')"

text \<open>\<open>Object.keys(feedTokens).map((key) => oraclePriceKey[key])\<close>\<close>

definition priceKeys :: "string obj option \<Rightarrow> string list \<Rightarrow> string + arg list" where
  "priceKeys oraclePriceKey keys =
     mapR (\<lambda>key. case oraclePriceKey of
         None \<Rightarrow> Inl ''Cannot read properties of undefined''
       | Some o' \<Rightarrow> Inr (case map_of o' key of None \<Rightarrow> AUndefined | Some k \<Rightarrow> AString k)) keys"

definition initializeOracle :: "'d runtime \<Rightarrow> ('d, unit) action" where
  "initializeOracle R =
     bindA (liftA (loadPoolConfig (ConfigNames_value ConfigPalmy))) (\<lambda>poolConfig.
     bindA (paramA R (DIAAggregator poolConfig)) (\<lambda>feeds.
     bindA (getChainsightOracle R '''' None) (\<lambda>chainsightOracle.
     bindA (paramA R (OracleSenderAddress poolConfig)) (\<lambda>oracleSenderAddress.
     bindA (paramA R (OraclePriceKey poolConfig)) (\<lambda>oraclePriceKey.
     bindA (getPriceAggregator R None) (\<lambda>aggregator.
     bindA (liftA (entriesOf feeds)) (\<lambda>feedTokens.
     bindA (liftA (priceKeys oraclePriceKey (obj_keys feedTokens))) (\<lambda>keys.
     thenA (callFrom R aggregator ''setAssetSources''
       [AList (map (AAddress \<circ> snd) feedTokens),
        AList (map (\<lambda>_. AAddress chainsightOracle) feedTokens),
        AList (map (\<lambda>_. address_arg oracleSenderAddress) feedTokens), AList keys])
     (bindA (getPalmyFallbackOracle R None) (\<lambda>fallbackOracle.
      bindA (signerA R) (\<lambda>signer.
      thenA (callFrom R fallbackOracle ''authorizeSybil'' [AAddress signer])
      (bindA (paramA R (ReserveAssets poolConfig)) (\<lambda>reserveAssets.
       let tokensToWatch = obj_set (case reserveAssets of None \<Rightarrow> [] | Some o' \<Rightarrow> o') ''USD''
             (UsdAddress (ProtocolGlobalParams poolConfig));
           tokensAddressesWithoutUsd = omit tokensToWatch [''USD'']
       in
       bindA (getPalmyOracle R None) (\<lambda>palmyOracle.
       thenA (callFrom R palmyOracle ''initialize'' [AAddress aggregator, AAddress fallbackOracle])
       (bindA (getLendingRateOracle R None) (\<lambda>lendingRateOracle.
        thenA (callFrom R palmyOracle ''setPriceAggregator'' [AAddress aggregator])
        (bindA (liftA (getLendingRateOracles R poolConfig)) (\<lambda>lendingRateOracles.
         thenA (setInitialMarketRatesInRatesOracleByHelper R lendingRateOracles tokensAddressesWithoutUsd
           lendingRateOracle signer)
         (bindA (getLendingPoolAddressesProvider R None) (\<lambda>addressProvider.
          thenA (callFrom R addressProvider ''setPriceOracle'' [AAddress palmyOracle])
          (callFrom R addressProvider ''setLendingRateOracle'' [AAddress lendingRateOracle])))))))))))))))))))))"

definition initializeDataProvider :: "'d runtime \<Rightarrow> ('d, unit) action" where
  "initializeDataProvider R =
     bindA (getPalmyProtocolDataProvider R None) (\<lambda>dataProvider.
     bindA (getLendingPoolAddressesProvider R None) (\<lambda>addressesProvider.
     callFrom R dataProvider ''initialize'' [AAddress addressesProvider]))"

definition initializeWethGateway :: "'d runtime \<Rightarrow> ('d, unit) action" where
  "initializeWethGateway R = returnA ()"

subsection \<open>Launching reserves\<close>

text \<open>The first half of \<open>6_misc.ts\<close> and all of \<open>list-token.ts\<close>, which differ only in the reserves they
  take.  The rates of each strategy, in the order of the tuple.\<close>

definition strategy_rates :: "IInterestRateStrategyParams \<Rightarrow> arg" where
  "strategy_rates s =
     AList (map AString [optimalUtilizationRate s, baseVariableBorrowRate s, variableRateSlope1 s,
       variableRateSlope2 s, stableRateSlope1 s, stableRateSlope2 s])"

definition initRateDeploymentParam :: "string obj \<Rightarrow> IReserveParams obj \<Rightarrow> string + arg list" where
  "initRateDeploymentParam reserveAssets reservesConfig =
     mapR (\<lambda>(tokenSymbol, config).
       if truthy (map_of reserveAssets tokenSymbol)
       then Inr (AList [AAddress (the (map_of reserveAssets tokenSymbol)), strategy_rates (strategy config)])
       else Inl (''Address of '' @ tokenSymbol @ '' is undefined. Check ReserveAssets configuration at config directory''))
     reservesConfig"

text \<open>The event at position \<open>i\<close> belongs to the \<open>i\<close>-th symbol; past the end the symbol is \<open>undefined\<close>.\<close>

definition lTokensAndStrategies :: "(string \<times> string) list \<Rightarrow> IReserveParams obj \<Rightarrow> (string option \<times> string \<times> string) list" where
  "lTokensAndStrategies events reservesConfig =
     map (\<lambda>i. (at_index (obj_keys reservesConfig) i, fst (events ! i), snd (events ! i))) [0..<length events]"

definition in_template :: "string option \<Rightarrow> string" where
  "in_template v = (case v of None \<Rightarrow> ''undefined'' | Some s \<Rightarrow> s)"

record implementations =
  implLToken :: string
  implStable :: string
  implVariable :: string

text \<open>One input of \<open>batchInitReserve\<close>.  The source looks the reserve up with
  \<open>find(([symbol]) => symbol === symbol)\<close>, whose parameter shadows the symbol: the condition holds for
  every entry, and the first one is taken.\<close>

definition launchInput ::
  "PoolConfiguration \<Rightarrow> string obj \<Rightarrow> IReserveParams obj \<Rightarrow> implementations \<Rightarrow> string option \<Rightarrow> string option \<Rightarrow>
   string option \<times> string \<times> string \<Rightarrow> string + arg" where
  "launchInput poolConfig reserveAssets reservesConfig impl treasury incentives row =
     (case row of (tokenSymbol, lToken, strategyAddress) \<Rightarrow>
      case reservesConfig of
        [] \<Rightarrow> Inl ''undefined is not iterable''
      | (_, params) # _ \<Rightarrow>
          let name = in_template tokenSymbol;
              underlyingAsset = Option.bind tokenSymbol (map_of reserveAssets);
              named = (\<lambda>prefix. AString (prefix @ '' '' @ name));
              symboled = (\<lambda>letter. AString (letter @ SymbolPrefix poolConfig @ name))
          in Inr (AList
            [AAddress (implLToken impl), AAddress (implStable impl), AAddress (implVariable impl),
             AString (reserveDecimals params), AAddress strategyAddress, address_arg underlyingAsset,
             address_arg treasury, address_arg incentives,
             (case tokenSymbol of None \<Rightarrow> AUndefined | Some s \<Rightarrow> AString s),
             named (LTokenNamePrefix poolConfig), symboled ''l'',
             named (VariableDebtTokenNamePrefix poolConfig), symboled ''vd'',
             named (StableDebtTokenNamePrefix poolConfig), symboled ''$vd'', AString ''0x10'']))"

definition launchReserves ::
  "'d runtime \<Rightarrow> views \<Rightarrow> PoolConfiguration \<Rightarrow> string obj \<Rightarrow> IReserveParams obj \<Rightarrow> ('d, unit) action" where
  "launchReserves R V poolConfig reserveAssets reservesConfig =
     bindA (getLTokensAndRatesHelper R None) (\<lambda>lTokensAndRatesHelper.
     bindA (liftA (initRateDeploymentParam reserveAssets reservesConfig)) (\<lambda>params.
     thenA (callFrom R lTokensAndRatesHelper ''initDeployment'' [AList params])
     (bindA (readA (\<lambda>w. vwInitEvents V (sent w))) (\<lambda>events.
      bindA (getContractAddressWithJsonFallback R ''LToken'' ''Palmy'') (\<lambda>lTokenImpl.
      bindA (getContractAddressWithJsonFallback R ''StableDebtToken'' ''Palmy'') (\<lambda>stableImpl.
      bindA (getContractAddressWithJsonFallback R ''VariableDebtToken'' ''Palmy'') (\<lambda>variableImpl.
      bindA (liftA (getTreasuryAddress R poolConfig)) (\<lambda>treasury.
      bindA (paramA R (IncentivesController poolConfig)) (\<lambda>incentives.
      bindA (liftA (mapR (launchInput poolConfig reserveAssets reservesConfig
          \<lparr>implLToken = lTokenImpl, implStable = stableImpl, implVariable = variableImpl\<rparr> treasury incentives)
        (lTokensAndStrategies events reservesConfig))) (\<lambda>initInputParams.
      bindA (getLendingPoolConfiguratorProxy R None) (\<lambda>configurator.
      thenA (callFrom R configurator ''batchInitReserve'' [AList initInputParams])
      (bindA (getPalmyProtocolDataProvider R None) (\<lambda>dataProvider.
       bindA (signerA R) (\<lambda>signer.
       configureReservesByHelper R (vwCollateralEnabled V) reservesConfig reserveAssets signer None None))))))))))))))"

definition listToken :: "'d runtime \<Rightarrow> views \<Rightarrow> ('d, unit) action" where
  "listToken R V =
     bindA (liftA (loadPoolConfig (ConfigNames_value ConfigPalmy))) (\<lambda>poolConfig.
     bindA (paramA R (ReserveAssets poolConfig)) (\<lambda>reserveAssets.
     bindA (requireA ''Reserve assets is undefined. Check ReserveAssets configuration at config directory''
       reserveAssets) (\<lambda>assets.
     bindA (requireA ''Cannot read properties of undefined'' (map_of (ReservesConfig poolConfig) ''MCHC''))
      (\<lambda>mchc. launchReserves R V poolConfig assets [(''MCHC'', mchc)]))))"

definition reservesConfigAtLaunch :: "PoolConfiguration \<Rightarrow> IReserveParams obj" where
  "reservesConfigAtLaunch poolConfig = omit (ReservesConfig poolConfig) [''USDC'', ''USDT'']"

definition initializeMisc :: "'d runtime \<Rightarrow> views \<Rightarrow> ('d, unit) action" where
  "initializeMisc R V =
     bindA (liftA (loadPoolConfig (ConfigNames_value ConfigPalmy))) (\<lambda>poolConfig.
     bindA (paramA R (ReserveAssets poolConfig)) (\<lambda>reserveAssets.
     bindA (requireA ''Reserve assets is undefined. Check ReserveAssets configuration at config directory''
       reserveAssets) (\<lambda>assets.
     thenA (launchReserves R V poolConfig assets (reservesConfigAtLaunch poolConfig))
     (bindA (getLendingPoolCollateralManager R None) (\<lambda>collateralManager.
      bindA (getLendingPoolAddressesProvider R None) (\<lambda>addressProvider.
      thenA (callFrom R addressProvider ''setLendingPoolCollateralManager'' [AAddress collateralManager])
      (bindA (getPalmyProtocolDataProvider R None) (\<lambda>dataProvider.
       thenA (callFrom R addressProvider ''setAddress''
         [AString ''0x0100000000000000000000000000000000000000000000000000000000000000'', AAddress dataProvider])
       (bindA (getWETHGateway R None) (\<lambda>gateway.
        bindA (readA (\<lambda>w. vwLendingPool V (sent w) addressProvider)) (\<lambda>lendingPool.
        thenA (authorizeWETHGateway R gateway lendingPool)
        (bindA (getStakeUIHelper R None) (\<lambda>stakeUIHelper.
         bindA (getPalmyOracle R None) (\<lambda>palmyOracle.
         bindA (getWrappedNativeTokenAddress R poolConfig) (\<lambda>wOAS.
         bindA (paramA R (StakedOas poolConfig)) (\<lambda>stakedOas.
         thenA (callFrom R stakeUIHelper ''initialize''
           [AAddress palmyOracle, AAddress wOAS, address_arg stakedOas,
            AAddress (UsdAddress (ProtocolGlobalParams poolConfig))])
         (bindA (getContractAddressWithJsonFallback R ''UiPoolDataProviderV2'' ''Palmy'') (\<lambda>uiPoolDataProvider.
          bindA (getPriceAggregator R None) (\<lambda>aggregator.
          callFrom R uiPoolDataProvider ''initialize''
            [AAddress aggregator, AAddress (UsdAddress (ProtocolGlobalParams poolConfig))])))))))))))))))))))"

subsection \<open>All of it\<close>

definition oasysInitialization :: "'d runtime \<Rightarrow> views \<Rightarrow> ('d, unit) action" where
  "oasysInitialization R V =
     thenA (initializeAddressProvider R)
    (thenA (initializeLendingPool R V)
    (thenA (initializeOracle R)
    (thenA (initializeDataProvider R)
    (thenA (initializeWethGateway R)
           (initializeMisc R V)))))"

end
