(* ===== verification/HelperClaims.thy ===== *)
theory HelperClaims
  imports ReserveInit
begin

text \<open>
  Properties of the shared helpers: chunking, linking, the deployment database and its readers, the
  market parameters of the networks, and the verification retries.
\<close>

subsection \<open>Chunks\<close>

text \<open>Chunking loses nothing.  For a positive size the chunks are non-empty, at most that long, as
  few as possible, and concatenate to the list; and lists built side by side are chunked side by
  side, which the batched transactions rely on.\<close>

theorem chunk_partition:
  assumes "0 < n"
  shows "concat (chunk xs n) = xs \<and> list_all (\<lambda>c. c \<noteq> [] \<and> length c \<le> n) (chunk xs n) \<and>
    length (chunk xs n) = (length xs + n - 1) div n \<and>
    chunk (map f xs) n = map (map f) (chunk xs n)"
  using assms
  by (simp add: chunk_chunks_of concat_chunks_of length_chunks_of map_chunks_of list_all_iff
      chunks_of_nonempty)

theorem chunk_partition_witness:
  "concat (chunk [1::nat, 2, 3, 4, 5, 6, 7] 3) = [1, 2, 3, 4, 5, 6, 7] \<and>
   length (chunk [1::nat, 2, 3, 4, 5, 6, 7] 3) = 3"
  using chunk_partition [of 3 "[1::nat, 2, 3, 4, 5, 6, 7]" id] by simp

subsection \<open>Linking\<close>

text \<open>The placeholders to fill, in the order of the loops, each with the address that fills it.\<close>

fun file_patches :: "string obj \<Rightarrow> fixup list obj \<Rightarrow> (string \<times> fixup) list" where
  "file_patches libraries [] = []"
| "file_patches libraries ((libName, fixups) # rest) =
     (case map_of libraries libName of None \<Rightarrow> [] | Some addr \<Rightarrow> map (Pair addr) fixups) @
     file_patches libraries rest"

definition patches :: "artifact \<Rightarrow> string obj \<Rightarrow> (string \<times> fixup) list" where
  "patches a libraries = concat (map (\<lambda>(fileName, refs). file_patches libraries refs) (linkReferences a))"

definition site :: "fixup \<Rightarrow> nat set" where
  "site f = {2 + 2 * fixStart f ..< 2 + 2 * (fixStart f + fixLength f)}"

definition fits :: "string \<Rightarrow> string \<times> fixup \<Rightarrow> bool" where
  "fits code p \<longleftrightarrow>
     2 + 2 * (fixStart (snd p) + fixLength (snd p)) \<le> length code \<and>
     length (fst p) = 2 + 2 * fixLength (snd p)"

definition patch_all :: "string \<Rightarrow> (string \<times> fixup) list \<Rightarrow> string" where
  "patch_all = foldl (\<lambda>code (addr, f). apply_fixup addr code f)"

lemma patch_all_simps [simp]:
  "patch_all code [] = code"
  "patch_all code (p # ps) = patch_all (apply_fixup (fst p) code (snd p)) ps"
  "patch_all code (ps @ qs) = patch_all (patch_all code ps) qs"
  "patch_all code (map (Pair addr) fs) = foldl (apply_fixup addr) code fs"
  by (simp_all add: patch_all_def case_prod_beta foldl_map)

lemma file_patches_foldl:
  "foldl (\<lambda>code (libName, fixups). case map_of libraries libName of None \<Rightarrow> code
     | Some addr \<Rightarrow> foldl (apply_fixup addr) code fixups) code refs =
   patch_all code (file_patches libraries refs)"
  by (induction refs arbitrary: code rule: file_patches.induct) (simp_all split: option.split)

lemma linkBytecode_patches: "linkBytecode a libraries = patch_all (bytecode a) (patches a libraries)"
proof -
  have "foldl (\<lambda>code (fileName, refs). patch_all code (file_patches libraries refs)) code fs =
      patch_all code (concat (map (\<lambda>(fileName, refs). file_patches libraries refs) fs))" for code fs
    by (induction fs arbitrary: code) auto
  then show ?thesis by (simp add: linkBytecode_def patches_def file_patches_foldl)
qed

lemma length_apply_fixup: "fits code (addr, f) \<Longrightarrow> length (apply_fixup addr code f) = length code"
  by (auto simp: fits_def apply_fixup_def)

lemma nth_apply_fixup:
  assumes "fits code (addr, f)" "i < length code"
  shows "apply_fixup addr code f ! i = (if i \<in> site f then addr ! (i - 2 * fixStart f) else code ! i)"
  using assms by (auto simp: fits_def apply_fixup_def site_def nth_append not_less min_def
      intro!: arg_cong [where f = "(!) code"] arg_cong [where f = "(!) addr"])

lemma fits_apply: "fits code (addr, f) \<Longrightarrow> fits code p \<Longrightarrow> fits (apply_fixup addr code f) p"
  by (simp add: fits_def [of _ p] length_apply_fixup)

lemma fits_tail:
  "\<forall>q\<in>set (p # ps). fits code q \<Longrightarrow> \<forall>q\<in>set ps. fits (apply_fixup (fst p) code (snd p)) q"
  by (auto intro: fits_apply)

lemma length_patch_all: "\<forall>p\<in>set ps. fits code p \<Longrightarrow> length (patch_all code ps) = length code"
proof (induction ps arbitrary: code)
  case (Cons p ps)
  from Cons.IH [OF fits_tail [OF Cons.prems]] Cons.prems show ?case by (simp add: length_apply_fixup)
qed simp

lemma patch_all_outside:
  "\<forall>p\<in>set ps. fits code p \<Longrightarrow> i < length code \<Longrightarrow> \<forall>p\<in>set ps. i \<notin> site (snd p) \<Longrightarrow>
   patch_all code ps ! i = code ! i"
proof (induction ps arbitrary: code)
  case (Cons p ps)
  from Cons.IH [OF fits_tail [OF Cons.prems(1)]] Cons.prems show ?case
    by (simp add: length_apply_fixup nth_apply_fixup)
qed simp

lemma patch_all_site:
  assumes "\<forall>p\<in>set ps. fits code p" "distinct ps"
    "\<forall>p\<in>set ps. \<forall>q\<in>set ps. p \<noteq> q \<longrightarrow> site (snd p) \<inter> site (snd q) = {}"
    "(addr, f) \<in> set ps" "i \<in> site f"
  shows "patch_all code ps ! i = addr ! (i - 2 * fixStart f)"
  using assms
proof (induction ps arbitrary: code)
  case (Cons p ps)
  let ?code = "apply_fixup (fst p) code (snd p)"
  have fits: "\<forall>q\<in>set ps. fits ?code q" using Cons.prems(1) by (auto intro: fits_apply)
  show ?case
  proof (cases "(addr, f) \<in> set ps")
    case True
    with Cons.IH [OF fits] Cons.prems show ?thesis by auto
  next
    case False
    then have p: "p = (addr, f)" using Cons.prems(4) by auto
    have i: "i < length code" using Cons.prems(1,5) p by (auto simp: fits_def site_def)
    have "\<forall>q\<in>set ps. i \<notin> site (snd q)"
      using Cons.prems(2,3,5) p by (fastforce simp: disjoint_iff)
    with patch_all_outside [OF fits] i Cons.prems(1,5) p show ?thesis
      by (simp add: length_apply_fixup nth_apply_fixup)
  qed
qed simp

text \<open>Linking fills exactly the placeholders.  When every placeholder of a given library lies in
  the bytecode and has the length of its address, and no two overlap, linking keeps the length of
  the bytecode, leaves every character outside the placeholders, and writes at each placeholder
  the address without its \<open>0x\<close>.\<close>

theorem linking_fills_placeholders:
  assumes "\<forall>p\<in>set (patches a libs). fits (bytecode a) p" "distinct (patches a libs)"
    "\<forall>p\<in>set (patches a libs). \<forall>q\<in>set (patches a libs). p \<noteq> q \<longrightarrow> site (snd p) \<inter> site (snd q) = {}"
  shows "length (linkBytecode a libs) = length (bytecode a) \<and>
    (\<forall>i < length (bytecode a). (\<forall>p\<in>set (patches a libs). i \<notin> site (snd p)) \<longrightarrow>
      linkBytecode a libs ! i = bytecode a ! i) \<and>
    (\<forall>(addr, f)\<in>set (patches a libs).
      take (2 * fixLength f) (drop (2 + 2 * fixStart f) (linkBytecode a libs)) = drop 2 addr)"
proof -
  note len = length_patch_all [OF assms(1)]
  have "take (2 * fixLength f) (drop (2 + 2 * fixStart f) (patch_all (bytecode a) (patches a libs))) =
      drop 2 addr" if p: "(addr, f) \<in> set (patches a libs)" for addr f
  proof (rule nth_equalityI)
    have fit: "fits (bytecode a) (addr, f)" using assms(1) p by blast
    then show "length (take (2 * fixLength f) (drop (2 + 2 * fixStart f)
        (patch_all (bytecode a) (patches a libs)))) = length (drop 2 addr)"
      using len by (auto simp: fits_def)
    fix i assume "i < length (take (2 * fixLength f) (drop (2 + 2 * fixStart f)
        (patch_all (bytecode a) (patches a libs))))"
    then have i: "i < 2 * fixLength f" by simp
    then have "2 + 2 * fixStart f + i \<in> site f" by (simp add: site_def)
    from patch_all_site [OF assms p this] i fit len
    show "take (2 * fixLength f) (drop (2 + 2 * fixStart f)
        (patch_all (bytecode a) (patches a libs))) ! i = drop 2 addr ! i"
      by (simp add: fits_def)
  qed
  with len patch_all_outside [OF assms(1)] show ?thesis by (auto simp: linkBytecode_patches)
qed

theorem linking_fills_placeholders_witness:
  "linkBytecode \<lparr>bytecode = ''0x60__aabb__00'', linkReferences = [(''L.sol'', [(''L'', [\<lparr>fixStart = 1, fixLength = 4\<rparr>])])]\<rparr>
     [(''L'', ''0x12345678'')] = ''0x601234567800''"
proof -
  define a where "a = \<lparr>bytecode = ''0x60__aabb__00'', linkReferences =
    [(''L.sol'', [(''L'', [\<lparr>fixStart = 1, fixLength = 4\<rparr>])])]\<rparr>"
  have p: "patches a [(''L'', ''0x12345678'')] = [(''0x12345678'', \<lparr>fixStart = 1, fixLength = 4\<rparr>)]"
    by (simp add: patches_def a_def)
  have "fits (bytecode a) (''0x12345678'', \<lparr>fixStart = 1, fixLength = 4\<rparr>)"
    by (simp add: fits_def a_def)
  then have "length (linkBytecode a [(''L'', ''0x12345678'')]) = length (bytecode a)"
    using linking_fills_placeholders [of a "[(''L'', ''0x12345678'')]"] by (simp add: p)
  then show ?thesis by (simp add: a_def linkBytecode_def apply_fixup_def numeral_eq_Suc)
qed

subsection \<open>The deployment database\<close>

text \<open>A runtime whose store satisfies the lowdb laws and whose network is a plain key.\<close>

definition stored :: "'d runtime \<Rightarrow> bool" where
  "stored R \<longleftrightarrow> lowdb (rtStore R) \<and> plain_key (thisNetwork R)"

lemma readDb_writeDb:
  assumes "stored R" "plain_key i" "plain_key j"
  shows "readDb R j (snd (writeDb R i e w)) = (if i = j then Some e else readDb R j w)"
  using assms lowdb.get_set_iff [of "rtStore R" i "thisNetwork R" j "thisNetwork R"]
  by (simp add: stored_def readDb_def writeDb_def)

lemma writeDb_sent [simp]:
  "sent (snd (writeDb R i e w)) = sent w" "fst (writeDb R i e w) = Inr ()"
  "files (snd (writeDb R i e w)) = files w"
  by (simp_all add: writeDb_def)

lemmas registrations =
  registerContractAddressInJsonDb_def registerContractAddressAndSaltInJsonDb_def
  registerContractInJsonDb_def insertContractAddressInDb_def rawInsertContractAddressInDb_def

text \<open>\<open>ZERO_ADDRESS\<close> counts as missing.\<close>

definition zero_is_zero :: "'d runtime \<Rightarrow> bool" where
  "zero_is_zero R \<longleftrightarrow> isZeroAddress (rtAddresses R) ZERO_ADDRESS"

lemma ZERO_ADDRESS_invalid: "zero_is_zero R \<Longrightarrow> \<not> notFalsyOrZeroAddress (rtAddresses R) (Some ZERO_ADDRESS)"
  by (simp add: zero_is_zero_def notFalsyOrZeroAddress_def)

lemma fallback_to_database:
  assumes "zero_is_zero R" "loadPoolConfig pool = Inr cfg" "config_entry cfg i = None"
    "readDb R i w = Some e" "entryAddress e \<noteq> []"
  shows "getContractAddressWithJsonFallback R i pool w = (Inr (entryAddress e), w)"
  using assms ZERO_ADDRESS_invalid [OF assms(1)]
  by (simp add: getContractAddressWithJsonFallback_def getOptionalParamAddressPerNetwork_def)

text \<open>What is registered is found.  After an address is registered under a contract id, by any of
  the five registration functions, every reader returns it: the JSON fallback of a contract the
  market does not configure, the getters called without an address, and \<open>getAddressById\<close>; and
  the entries of all other contracts are as before.\<close>

theorem register_then_find:
  assumes R: "stored R" "zero_is_zero R" and cfg: "loadPoolConfig pool = Inr cfg" "config_entry cfg i = None"
    and keys: "plain_key i" "plain_key j" "j \<noteq> i" and addr: "a \<noteq> []"
    and reg: "reg \<in> {registerContractAddressInJsonDb R i a d, registerContractInJsonDb R i a d,
      registerContractAddressAndSaltInJsonDb R i a d s, insertContractAddressInDb R i a,
      rawInsertContractAddressInDb R i a}"
  shows "\<exists>w'. reg w = (Inr (), w') \<and> sent w' = sent w \<and>
    getContractAddressWithJsonFallback R i pool w' = (Inr a, w') \<and>
    connectedAddress R i None w' = (Inr a, w') \<and> getAddressById R i w' = Some a \<and>
    readDb R j w' = readDb R j w"
proof -
  obtain e where e: "reg = writeDb R i e" "entryAddress e = a"
    using reg by (auto simp: registrations)
  define w' where "w' = snd (writeDb R i e w)"
  have db: "readDb R i w' = Some e" "readDb R j w' = readDb R j w"
    using readDb_writeDb [OF R(1) keys(1)] keys by (simp_all add: w'_def)
  have "reg w = (Inr (), w')" by (simp add: e w'_def writeDb_def)
  moreover have "sent w' = sent w" by (simp add: w'_def)
  moreover note fallback_to_database [OF R(2) cfg db(1)]
  ultimately show ?thesis
    using db e(2) addr
    by (simp add: connectedAddress_def databaseAddress_def getAddressById_def truthy_def)
qed

text \<open>A runtime over the JSON file, with address predicates that recognise hexadecimal addresses by
  their length, for the witnesses.\<close>

definition sample_runtime :: "json_db runtime" where
  "sample_runtime =
   \<lparr>rtChain = \<lparr>reverts = \<lambda>_ _. None, created = \<lambda>ts t. ''0xC'' @ replicate (length ts) CHR ''1''\<rparr>,
    rtStore = json_file,
    rtEnv = \<lparr>networkName = ''oasys'', envFORK = None, envMAINNET_FORK = None,
      envETHERSCAN_KEY = None, envTENDERLY = None\<rparr>,
    rtSigners = [''0xAdmin''],
    rtAddresses = \<lparr>isAddress = \<lambda>a. take 2 a = ''0x'', isZeroAddress = \<lambda>a. a = ZERO_ADDRESS\<rparr>,
    rtSalt = \<lambda>s. s, rtArtifact = \<lambda>i. Inr \<lparr>bytecode = ''0x'' @ i, linkReferences = []\<rparr>,
    rtCallData = \<lambda>name args. name, rtDeploymentAddress = \<lambda>ts callData salt. ''0xD'' @ salt\<rparr>"

definition empty_world :: "json_db world" where
  "empty_world = \<lparr>sent = [], db = [], files = []\<rparr>"

lemma sample_runtime_ok: "stored sample_runtime" "zero_is_zero sample_runtime"
  by (simp_all add: stored_def zero_is_zero_def sample_runtime_def json_file_laws plain_key_def)

theorem register_then_find_witness:
  "\<exists>w'. registerContractInJsonDb sample_runtime ''ReserveLogic'' ''0xlib'' ''0xAdmin'' empty_world =
      (Inr (), w') \<and>
    getContractAddressWithJsonFallback sample_runtime ''ReserveLogic'' ''Palmy'' w' = (Inr ''0xlib'', w')"
  using register_then_find [OF sample_runtime_ok, of "''Palmy''" PalmyConfig "''ReserveLogic''"
      "''LendingPool''" "''0xlib''"
      "registerContractInJsonDb sample_runtime ''ReserveLogic'' ''0xlib'' ''0xAdmin''" "''0xAdmin''" "''''"
      empty_world]
  by (auto simp: loadPoolConfig_def config_entry_def plain_key_def)

text \<open>The market's address wins over the database, and the Hardhat network reads the entry of
  \<open>buidlerevm\<close>.  For a contract the market configures, without a fork, a valid address under the
  network's entry is returned whatever the database holds; when that entry is not a valid
  address the database decides, and without an entry there the call throws.\<close>

theorem market_address_first:
  assumes "loadPoolConfig pool = Inr cfg" "config_entry cfg i = Some p" "\<not> truthy (envFORK (rtEnv R))"
    "thisNetwork R \<in> {''coverage'', ''buidlerevm'', ''tenderly'', ''testnet'', ''oasys'', ''hardhat''}"
    "key = (if thisNetwork R = ''hardhat'' then ''buidlerevm'' else thisNetwork R)"
  shows "getContractAddressWithJsonFallback R i pool w =
    (if notFalsyOrZeroAddress (rtAddresses R) (map_of p key) then Inr (the (map_of p key))
     else case getAddressById R i w of
       Some a \<Rightarrow> Inr a
     | None \<Rightarrow> Inl (''Missing contract address '' @ i @ '' at Market config and JSON local db''), w)"
proof -
  have "getParamPerNetwork (rtEnv R) (Some p) (thisNetwork R) = Inr (map_of p key)"
    using assms(3-5) by (auto simp: getParamPerNetwork_def)
  with assms(1,2) show ?thesis
    by (auto simp: getContractAddressWithJsonFallback_def getOptionalParamAddressPerNetwork_def
        getAddressById_def split: option.split)
qed

lemma oasys_configurator:
  "map_of (LendingPoolConfigurator PalmyConfig) ''oasys'' =
     Some ''0xBA55b646837190e293989643197D3ce3dDFe1Ab4''"
  by (simp add: PalmyConfig_def CommonsConfig_def)

theorem market_address_first_witness:
  "getContractAddressWithJsonFallback sample_runtime ''LendingPoolConfigurator'' ''Palmy'' empty_world =
     (Inr ''0xBA55b646837190e293989643197D3ce3dDFe1Ab4'', empty_world)"
proof -
  have r: "\<not> truthy (envFORK (rtEnv sample_runtime))" "thisNetwork sample_runtime = ''oasys''"
    by (simp_all add: sample_runtime_def truthy_def)
  have v: "notFalsyOrZeroAddress (rtAddresses sample_runtime)
      (Some ''0xBA55b646837190e293989643197D3ce3dDFe1Ab4'')"
    by (simp add: sample_runtime_def notFalsyOrZeroAddress_def ZERO_ADDRESS_def)
  have c: "loadPoolConfig ''Palmy'' = Inr PalmyConfig"
    "config_entry PalmyConfig ''LendingPoolConfigurator'' = Some (LendingPoolConfigurator PalmyConfig)"
    by (simp_all add: loadPoolConfig_def config_entry_def)
  show ?thesis
    using market_address_first [OF c r(1), of "''oasys''" empty_world]
    unfolding r(2) oasys_configurator using v by simp
qed

subsection \<open>Verification retries\<close>

definition final_error :: "string \<Rightarrow> bool" where
  "final_error message \<longleftrightarrow>
     list_ex (includes_string message) okErrors \<or> list_ex (includes_string message) fatalErrors"

text \<open>What a call appends to the log: attempts that all fail with a retryable message, except that the
  last one may succeed or fail for good; \<open>relatedSources\<close> is never set again once dropped.\<close>

lemma runTaskWithRetry_log:
  "\<exists>ts c. runTaskWithRetry run related retries log =
      \<lparr>attempts = attempts log @ ts, cleanups = cleanups log + c\<rparr> \<and>
    length ts \<le> retries \<and> c \<le> 1 \<and>
    (\<forall>i < length ts. ts ! i \<longrightarrow> related \<and> (\<forall>j < i. ts ! j)) \<and>
    (\<forall>i. Suc i < length ts \<longrightarrow> (\<exists>m. run (attempts log @ take i ts) (ts ! i) = Some m \<and> \<not> final_error m)) \<and>
    (length ts = retries \<and> 0 < retries \<longrightarrow> \<not> last ts) \<and>
    (c = 0 \<longrightarrow> ts \<noteq> [] \<and> (\<exists>m. run (attempts log @ butlast ts) (last ts) = Some m \<and> final_error m)) \<and>
    (c = 1 \<and> length ts < retries \<longrightarrow> ts \<noteq> [] \<and> run (attempts log @ butlast ts) (last ts) = None)"
proof (induction retries arbitrary: related log)
  case 0
  show ?case by (rule exI [of _ "[]"], rule exI [of _ 1]) simp
next
  case (Suc n)
  define r where "r = (if n = 0 then False else related)"
  define log' where "log' = log\<lparr>attempts := attempts log @ [r]\<rparr>"
  show ?case
  proof (cases "run (attempts log) r")
    case None
    then show ?thesis
      by (intro exI [of _ "[r]"] exI [of _ 1]) (auto simp: Let_def r_def)
  next
    case (Some m)
    show ?thesis
    proof (cases "final_error m")
      case True
      with Some show ?thesis
        by (intro exI [of _ "[r]"] exI [of _ 0]) (auto simp: Let_def r_def final_error_def)
    next
      case False
      define r' where "r' = (if includes_string m unableVerifyError then False else r)"
      have step: "runTaskWithRetry run related (Suc n) log = runTaskWithRetry run r' n log'"
        using Some False by (simp add: Let_def r_def r'_def log'_def final_error_def del: includes_string.simps)
      from Suc.IH [of r' log'] obtain ts c where ts: "runTaskWithRetry run r' n log' =
          \<lparr>attempts = attempts log' @ ts, cleanups = cleanups log' + c\<rparr>"
        "length ts \<le> n" "c \<le> 1" "\<forall>i < length ts. ts ! i \<longrightarrow> r' \<and> (\<forall>j < i. ts ! j)"
        "\<forall>i. Suc i < length ts \<longrightarrow> (\<exists>m. run (attempts log' @ take i ts) (ts ! i) = Some m \<and> \<not> final_error m)"
        "length ts = n \<and> 0 < n \<longrightarrow> \<not> last ts"
        "c = 0 \<longrightarrow> ts \<noteq> [] \<and> (\<exists>m. run (attempts log' @ butlast ts) (last ts) = Some m \<and> final_error m)"
        "c = 1 \<and> length ts < n \<longrightarrow> ts \<noteq> [] \<and> run (attempts log' @ butlast ts) (last ts) = None"
        by blast
      have mono: "ts ! i \<Longrightarrow> i < length ts \<Longrightarrow> r \<and> related" for i
        using ts(4) by (auto simp: r'_def r_def split: if_splits)
      show ?thesis
      proof (intro exI [of _ "r # ts"] exI [of _ c] conjI)
        show "runTaskWithRetry run related (Suc n) log =
            \<lparr>attempts = attempts log @ r # ts, cleanups = cleanups log + c\<rparr>"
          unfolding step ts(1) by (simp add: log'_def)
        show "\<forall>i<length (r # ts). (r # ts) ! i \<longrightarrow> related \<and> (\<forall>j<i. (r # ts) ! j)"
        proof (intro allI impI)
          fix i assume i: "i < length (r # ts)" "(r # ts) ! i"
          show "related \<and> (\<forall>j<i. (r # ts) ! j)"
          proof (cases i)
            case 0
            with i show ?thesis by (simp add: r_def split: if_splits)
          next
            case (Suc k)
            with i mono [of k] ts(4) show ?thesis by (auto simp: nth_Cons split: nat.splits)
          qed
        qed
        show "\<forall>i. Suc i < length (r # ts) \<longrightarrow>
            (\<exists>m. run (attempts log @ take i (r # ts)) ((r # ts) ! i) = Some m \<and> \<not> final_error m)"
          using ts(5) Some False by (auto simp: nth_Cons take_Cons log'_def split: nat.splits)
        show "length (r # ts) = Suc n \<and> 0 < Suc n \<longrightarrow> \<not> last (r # ts)"
          using ts(6) by (auto simp: r_def)
      qed (use ts(2,3,7,8) in \<open>auto simp: log'_def\<close>)
    qed
  qed
qed



subsection \<open>Market parameters\<close>

text \<open>The parameters the deployment tasks read per network, all as optional addresses.\<close>

definition defined_everywhere :: "'v obj \<Rightarrow> bool" where
  "defined_everywhere p =
     list_all (\<lambda>n. map_of p n \<noteq> None)
       [''coverage'', ''buidlerevm'', ''hardhat'', ''tenderly'', ''testnet'', ''oasys'']"

lemma defined_everywhere_Some:
  assumes "defined_everywhere p" "\<not> truthy (envFORK e)"
    "n \<in> {''coverage'', ''buidlerevm'', ''hardhat'', ''tenderly'', ''testnet'', ''oasys''}"
  shows "\<exists>v. getParamPerNetwork e (Some p) n = Inr (Some v)"
  using assms by (auto simp: getParamPerNetwork_def defined_everywhere_def)

lemma palmy_defined:
  "defined_everywhere (PoolAdmin PalmyConfig)" "defined_everywhere (EmergencyAdmin PalmyConfig)"
  "defined_everywhere (ReserveFactorTreasuryAddress PalmyConfig)"
  "defined_everywhere (LTokenDomainSeparator PalmyConfig)" "defined_everywhere (WETH PalmyConfig)"
  "defined_everywhere (WrappedNativeToken PalmyConfig)" "defined_everywhere (ReserveAssets PalmyConfig)"
  by (simp_all add: PalmyConfig_def CommonsConfig_def defined_everywhere_def)

text \<open>Every parameter of the Palmy market is defined on every network.  Without a fork, and with
  at least two signers, the administrators, the treasury and the domain separator are never
  \<open>undefined\<close> on the six networks, and the initial borrow rates are those of the network's assets.\<close>

theorem market_parameters_defined:
  assumes "thisNetwork R \<in> {''coverage'', ''buidlerevm'', ''hardhat'', ''tenderly'', ''testnet'', ''oasys''}"
    "\<not> truthy (envFORK (rtEnv R))" "2 \<le> length (rtSigners R)"
  shows "(\<exists>a. getGenesisPoolAdmin R PalmyConfig = Inr (Some a)) \<and>
    (\<exists>a. getEmergencyAdmin R PalmyConfig = Inr (Some a)) \<and>
    (\<exists>a. getTreasuryAddress R PalmyConfig = Inr (Some a)) \<and>
    (\<exists>s. getLTokenDomainSeparatorPerNetwork R (thisNetwork R) PalmyConfig = Inr (Some s)) \<and>
    (\<exists>assets rates. map_of (ReserveAssets PalmyConfig) (thisNetwork R) = Some assets \<and>
      getLendingRateOracles R PalmyConfig = Inr rates \<and>
      map_of rates = map_of (LendingRateOracleRatesCommon PalmyConfig) |` set (obj_keys assets))"
proof -
  have n: "forkOrNetwork (rtEnv R) = thisNetwork R" using assms(2) by (simp add: forkOrNetwork_def)
  note found = defined_everywhere_Some [OF _ assms(2,1)]
  have i: "PoolAdminIndex PalmyConfig = 0" "EmergencyAdminIndex PalmyConfig = 1"
    by (simp_all add: PalmyConfig_def CommonsConfig_def)
  obtain v u where v: "getParamPerNetwork (rtEnv R) (Some (PoolAdmin PalmyConfig)) (thisNetwork R) = Inr (Some v)"
    "getParamPerNetwork (rtEnv R) (Some (EmergencyAdmin PalmyConfig)) (thisNetwork R) = Inr (Some u)"
    using found [OF palmy_defined(1)] found [OF palmy_defined(2)] by blast
  have pick: "\<exists>a. (if truthy t then Inr t else Inr (at_index xs k)) = (Inr (Some a) :: string + string option)"
    if "k < length xs" for t k and xs :: "string list"
    using that by (auto simp: at_index_def truthy_def split: option.splits)
  have len: "0 < length (rtSigners R)" "1 < length (rtSigners R)" using assms(3) by linarith+
  have admin: "\<exists>a. getGenesisPoolAdmin R PalmyConfig = Inr (Some a)"
    "\<exists>a. getEmergencyAdmin R PalmyConfig = Inr (Some a)"
    unfolding getGenesisPoolAdmin_def getEmergencyAdmin_def n v andThen_run getEthersSignersAddresses_def i
    by (rule pick [OF len(1)], rule pick [OF len(2)])
  obtain assets where a: "map_of (ReserveAssets PalmyConfig) (thisNetwork R) = Some assets"
    using palmy_defined(7) assms(1) by (auto simp: defined_everywhere_def)
  have "getLendingRateOracles R PalmyConfig =
      Inr (filterMapBy (LendingRateOracleRatesCommon PalmyConfig) (\<lambda>k. k \<in> set (obj_keys assets)))"
    by (simp add: getLendingRateOracles_def n a)
  moreover have "map_of (filterMapBy m (\<lambda>k. k \<in> S)) = map_of m |` S" for m :: "IMarketRates obj" and S
    by (auto simp: filterMapBy_lookup restrict_map_def fun_eq_iff)
  ultimately show ?thesis
    using admin found [OF palmy_defined(3)] found [OF palmy_defined(4)] a n
    by (auto simp: getTreasuryAddress_def getLTokenDomainSeparatorPerNetwork_def)
qed

theorem market_parameters_defined_witness:
  "\<exists>a. getEmergencyAdmin (sample_runtime\<lparr>rtSigners := [''0xA'', ''0xB'']\<rparr>) PalmyConfig = Inr (Some a)"
  using market_parameters_defined [of "sample_runtime\<lparr>rtSigners := [''0xA'', ''0xB'']\<rparr>"]
  by (simp add: sample_runtime_def truthy_def)

end
