(* ===== verification/DeployClaims.thy ===== *)
theory DeployClaims
  imports HelperClaims
begin

text \<open>
  Properties of the deployments: what a successful run sends and registers (\<open>deployment_rules\<close>,
  \<open>effect\<close>), that the getters of \<open>contracts-getters.ts\<close> find what \<open>contracts-deployments.ts\<close>
  deployed, and the order and linking of the lending pool and its libraries.
\<close>

subsection \<open>What a deployment does\<close>

definition verifiable :: "'d runtime \<Rightarrow> bool" where
  "verifiable R \<longleftrightarrow> truthy (envETHERSCAN_KEY (rtEnv R)) \<and> thisNetwork R \<in> set SUPPORTED_ETHERSCAN_NETWORKS"

text \<open>The world after an address is registered under a contract id by the first signer.\<close>

definition registered :: "'d runtime \<Rightarrow> string \<Rightarrow> string \<Rightarrow> string option \<Rightarrow> 'd world \<Rightarrow> 'd world" where
  "registered R i a d w =
     snd (writeDb R i \<lparr>entryAddress = a, entryDeployer = d, entrySalt = None\<rparr> w)"

lemma sent_registered [simp]: "sent (registered R i a d w) = sent w"
  by (simp add: registered_def)

lemma readDb_sent [simp]: "readDb R i (w\<lparr>sent := ts\<rparr>) = readDb R i w"
  by (simp add: readDb_def)

lemma readDb_registered:
  assumes "stored R" "plain_key i" "plain_key j"
  shows "readDb R j (registered R i a d w) =
    (if i = j then Some \<lparr>entryAddress = a, entryDeployer = d, entrySalt = None\<rparr> else readDb R j w)"
  unfolding registered_def by (rule readDb_writeDb [OF assms])

lemma insert_Inr:
  "insertContractAddressInDb R i a w = (Inr u, w') \<longleftrightarrow> w' = registered R i a None w"
  "rawInsertContractAddressInDb R i a w = (Inr u, w') \<longleftrightarrow> w' = registered R i a None w"
  "registerContractInJsonDb R i a d w = (Inr u, w') \<longleftrightarrow> w' = registered R i a (Some d) w"
  by (auto simp: insertContractAddressInDb_def rawInsertContractAddressInDb_def
      registerContractInJsonDb_def registered_def writeDb_def)

lemma deployFrom_Inr:
  "deployFrom R c args w = (Inr a, w') \<longleftrightarrow>
    (\<exists>s. getFirstSigner R = Some s \<and> reverts (rtChain R) (sent w) (deployTx c args s) = None \<and>
      a = created (rtChain R) (sent w) (deployTx c args s) \<and>
      w' = w\<lparr>sent := sent w @ [deployTx c args s]\<rparr>)"
  by (auto simp: deployFrom_def deployA_def run_Inr)

lemma callFrom_Inr:
  "callFrom R target method args w = (Inr u, w') \<longleftrightarrow>
    (\<exists>s. getFirstSigner R = Some s \<and> reverts (rtChain R) (sent w) (callTx target method args s) = None \<and>
      w' = w\<lparr>sent := sent w @ [callTx target method args s]\<rparr>)"
  by (auto simp: callFrom_def run_Inr)

lemma withSaveAndVerify_Inr:
  "withSaveAndVerify R inst i args verify w = (Inr a, w') \<longleftrightarrow>
    a = inst \<and> w' = registered R i inst (Some (the (getFirstSigner R))) w \<and> (verify \<longrightarrow> verifiable R)"
  by (auto simp: withSaveAndVerify_def verifyContract_def verifyEtherscanContract_def verifiable_def
      run_Inr insert_Inr)

lemmas deployment_rules = bindA_Inr thenA_Inr deployFrom_Inr callFrom_Inr withSaveAndVerify_Inr insert_Inr

lemma connectedAddress_registered:
  assumes "readDb R i w = Some e"
  shows "connectedAddress R i None w = (Inr (entryAddress e), w)"
    "databaseAddress R i w = (Inr (entryAddress e), w)"
  using assms by (simp_all add: connectedAddress_def databaseAddress_def truthy_def)

subsection \<open>Deployed contracts are found\<close>

text \<open>Each deployment with the getter of its contract.\<close>

definition deployments_and_getters ::
  "'d runtime \<Rightarrow> bool \<Rightarrow> (('d, string) action \<times> ('d, string) action) list" where
  "deployments_and_getters R verify =
     [(deployLendingPoolConfigurator R verify, getLendingPoolConfiguratorProxy R None),
      (deployLendingPoolConfigurator R verify, getLendingPoolConfiguratorImpl R None),
      (deployReserveLogicLibrary R verify, getReserveLogic R None),
      (deployPriceOracle R verify, getPriceOracle R None),
      (deployLendingPoolCollateralManager R verify, getLendingPoolCollateralManager R None),
      (deployLendingPoolCollateralManager R verify, getLendingPoolCollateralManagerImpl R None),
      (deployWalletBalancerProvider R verify, getWalletProvider R None),
      (deployPalmyProtocolDataProvider R verify, getPalmyProtocolDataProvider R None),
      (deployGenericStableDebtToken R verify, getStableDebtToken R None),
      (deployGenericVariableDebtToken R verify, getVariableDebtToken R None),
      (deployGenericLTokenImpl R verify, getLToken R None),
      (deployWETHMocked R verify, getWETHMocked R None),
      (deploySelfdestructTransferMock R verify, getSelfdestructTransferMock R None),
      (deployStakeUIHelper R verify, getStakeUIHelper R None)]"

definition owned_deployments_and_getters ::
  "'d runtime \<Rightarrow> string \<Rightarrow> bool \<Rightarrow> (('d, string) action \<times> ('d, string) action) list" where
  "owned_deployments_and_getters R owner verify =
     [(deployLendingPoolAddressesProviderRegistry R owner verify, getLendingPoolAddressesProviderRegistry R None),
      (deployPalmyFallbackOracle R owner verify, getPalmyFallbackOracle R None),
      (deployLendingRateOracle R owner verify, getLendingRateOracle R None),
      (deployMockFlashLoanReceiver R owner verify, getMockFlashLoanReceiver R None),
      (deployStableAndVariableTokensHelper R owner verify, getStableAndVariableTokensHelper R None),
      (deployLTokensAndRatesHelper R owner verify, getLTokensAndRatesHelper R None),
      (deployPriceAggregatorChainsightImpl R owner verify, getPriceAggregator R None)]"

lemmas getter_defs =
  getLendingPoolAddressesProvider_def getLendingPoolConfiguratorProxy_def getLendingPool_def
  getPriceOracle_def getPalmyFallbackOracle_def getLToken_def getStableDebtToken_def
  getVariableDebtToken_def getMintableERC20_def getIErc20Detailed_def
  getPalmyProtocolDataProvider_def getInterestRateStrategy_def getMockFlashLoanReceiver_def
  getLendingRateOracle_def getReserveLogic_def getGenericLogic_def
  getStableAndVariableTokensHelper_def getLTokensAndRatesHelper_def getWETHGateway_def
  getWETHMocked_def getMockLToken_def getMockVariableDebtToken_def getMockStableDebtToken_def
  getSelfdestructTransferMock_def getLendingPoolImpl_def getLendingPoolTmpImpl_def
  getLendingPoolV4Impl_def getLendingPoolConfiguratorImpl_def
  getLendingPoolCollateralManagerImpl_def getWalletProvider_def getLendingPoolCollateralManager_def
  getStakeUIHelper_def getPalmyOracle_def getPriceAggregator_def
  getLendingPoolAddressesProviderRegistry_def getChainsightOracle_def

lemmas deployment_defs =
  deployLendingPoolConfigurator_def deployReserveLogicLibrary_def deployPriceOracle_def
  deployLendingPoolCollateralManager_def deployWalletBalancerProvider_def
  deployPalmyProtocolDataProvider_def deployGenericStableDebtToken_def
  deployGenericVariableDebtToken_def deployGenericLTokenImpl_def deployWETHMocked_def
  deploySelfdestructTransferMock_def deployStakeUIHelper_def
  deployLendingPoolAddressesProviderRegistry_def deployPalmyFallbackOracle_def
  deployLendingRateOracle_def deployMockFlashLoanReceiver_def
  deployStableAndVariableTokensHelper_def deployLTokensAndRatesHelper_def
  deployPriceAggregatorChainsightImpl_def

lemma deploy_simple_found:
  assumes "stored R" "plain_key i"
    "bindA (deployFrom R c args) (\<lambda>inst. withSaveAndVerify R inst i vargs verify) w = (Inr a, w')"
  shows "connectedAddress R i None w' = (Inr a, w') \<and> databaseAddress R i w' = (Inr a, w')"
  using assms by (auto simp: deployment_rules readDb_registered connectedAddress_registered)

lemma deploy_impl_found:
  assumes "stored R" "plain_key i" "plain_key j"
    "bindA (deployFrom R c args) (\<lambda>impl. thenA (insertContractAddressInDb R j impl)
      (withSaveAndVerify R impl i vargs verify)) w = (Inr a, w')"
  shows "connectedAddress R i None w' = (Inr a, w') \<and> connectedAddress R j None w' = (Inr a, w')"
proof -
  from assms(4) obtain w1 where
    "w' = registered R i a (Some (the (getFirstSigner R))) (registered R j a None w1)"
    by (auto simp: deployment_rules)
  with assms(1-3) have "\<exists>e. readDb R i w' = Some e \<and> entryAddress e = a"
    "\<exists>e. readDb R j w' = Some e \<and> entryAddress e = a"
    by (auto simp: readDb_registered)
  then show ?thesis using connectedAddress_registered(1) by metis
qed

text \<open>C37: A deployed contract is the one its getter finds.  When a deployment succeeds, the getter of
  that contract, called without an address, returns the deployed instance; where the deployment
  also records an implementation, so does the getter of the implementation.\<close>

theorem deployed_contracts_found:
  assumes "stored R"
    "(dep, get) \<in> set (deployments_and_getters R verify) \<union> set (owned_deployments_and_getters R owner verify)"
    "dep w = (Inr a, w')"
  shows "get w' = (Inr a, w')"
proof -
  have simple: "connectedAddress R i None w' = (Inr a, w') \<and> databaseAddress R i w' = (Inr a, w')"
    if "bindA (deployFrom R c args) (\<lambda>inst. withSaveAndVerify R inst i vargs verify) w = (Inr a, w')"
      "plain_key i" for i c args vargs
    using deploy_simple_found [OF assms(1) that(2,1)] .
  have impl: "connectedAddress R i None w' = (Inr a, w') \<and> connectedAddress R j None w' = (Inr a, w')"
    if "bindA (deployFrom R c args) (\<lambda>impl. thenA (insertContractAddressInDb R j impl)
      (withSaveAndVerify R impl i vargs verify)) w = (Inr a, w')" "plain_key i" "plain_key j"
    for i j c args vargs
    using deploy_impl_found [OF assms(1) that(2,3,1)] .
  have "list_all (\<lambda>(dep, get). dep w = (Inr a, w') \<longrightarrow> get w' = (Inr a, w')) (deployments_and_getters R verify)"
    by (auto simp: deployments_and_getters_def deployment_defs getter_defs plain_key_def
        dest!: simple impl)
  moreover have "list_all (\<lambda>(dep, get). dep w = (Inr a, w') \<longrightarrow> get w' = (Inr a, w'))
      (owned_deployments_and_getters R owner verify)"
    by (auto simp: owned_deployments_and_getters_def deployment_defs getter_defs plain_key_def
        notFalsyOrZeroAddress_def dest!: simple)
  ultimately show ?thesis using assms(2,3) by (auto simp: list_all_iff)
qed

theorem deployed_contracts_found_witness:
  "\<exists>w'. deployPriceOracle sample_runtime False empty_world = (Inr ''0xC'', w') \<and>
     getPriceOracle sample_runtime None w' = (Inr ''0xC'', w')"
proof -
  obtain w' where d: "deployPriceOracle sample_runtime False empty_world = (Inr ''0xC'', w')"
    by (simp add: deployPriceOracle_def sample_runtime_def deployment_rules empty_world_def
        getFirstSigner_def at_index_def)
  moreover have "(deployPriceOracle sample_runtime False, getPriceOracle sample_runtime None) \<in>
      set (deployments_and_getters sample_runtime False) \<union>
      set (owned_deployments_and_getters sample_runtime ''0xO'' False)"
    by (simp add: deployments_and_getters_def)
  ultimately show ?thesis
    using deployed_contracts_found [where dep = "deployPriceOracle sample_runtime False" and
        get = "getPriceOracle sample_runtime None", OF sample_runtime_ok(1) _ d] by blast
qed

subsection \<open>Effects of a run\<close>

text \<open>A run sent these transactions and made these entries, later ones overriding earlier ones.\<close>

definition effect ::
  "'d runtime \<Rightarrow> tx list \<Rightarrow> (string \<times> db_entry) list \<Rightarrow> 'd world \<Rightarrow> 'd world \<Rightarrow> bool" where
  "effect R txs entries w w' \<longleftrightarrow>
     sent w' = sent w @ txs \<and>
     (\<forall>j. plain_key j \<longrightarrow> readDb R j w' =
       (case map_of (rev entries) j of Some e \<Rightarrow> Some e | None \<Rightarrow> readDb R j w))"

lemma effect_trans:
  "effect R ts es w w1 \<Longrightarrow> effect R ts' es' w1 w2 \<Longrightarrow> effect R (ts @ ts') (es @ es') w w2"
  by (auto simp: effect_def map_add_def split: option.splits)

lemma effect_none: "effect R [] [] w w"
  by (simp add: effect_def)

abbreviation by_signer :: "string \<Rightarrow> string \<Rightarrow> db_entry" where
  "by_signer a s \<equiv> \<lparr>entryAddress = a, entryDeployer = Some s, entrySalt = None\<rparr>"

abbreviation address_only :: "string \<Rightarrow> db_entry" where
  "address_only a \<equiv> \<lparr>entryAddress = a, entryDeployer = None, entrySalt = None\<rparr>"

lemma effect_registered:
  "stored R \<Longrightarrow> plain_key i \<Longrightarrow>
   effect R [] [(i, \<lparr>entryAddress = a, entryDeployer = d, entrySalt = None\<rparr>)] w (registered R i a d w)"
  by (auto simp: effect_def readDb_registered)

lemma effect_sent: "effect R ts [] w (w\<lparr>sent := sent w @ ts\<rparr>)"
  by (simp add: effect_def)

lemma effect_callFrom:
  assumes "callFrom R target method args w = (Inr u, w')" "getFirstSigner R = Some s"
  shows "effect R [callTx target method args s] [] w w'"
  using assms by (auto simp: callFrom_Inr effect_sent)

lemma effect_deployFrom:
  assumes "deployFrom R c args w = (Inr a, w')"
  obtains s where "getFirstSigner R = Some s" "effect R [deployTx c args s] [] w w'"
  using assms by (auto simp: deployFrom_Inr effect_sent)

lemma effect_deploy:
  assumes "stored R" "plain_key i" "getFirstSigner R = Some s"
    "bindA (deployFrom R c args) (\<lambda>inst. withSaveAndVerify R inst i vargs verify) w = (Inr a, w')"
  shows "effect R [deployTx c args s] [(i, by_signer a s)] w w'"
  using assms(3,4) effect_trans [OF effect_sent [of R "[deployTx c args s]" w]
      effect_registered [OF assms(1,2), of a "Some s"]]
  by (auto simp: deployment_rules)

lemma effect_deploy_impl:
  assumes "stored R" "plain_key i" "plain_key j" "getFirstSigner R = Some s"
    "bindA (deployFrom R c args) (\<lambda>impl. thenA (insertContractAddressInDb R j impl)
      (withSaveAndVerify R impl i vargs verify)) w = (Inr a, w')"
  shows "effect R [deployTx c args s] [(j, address_only a), (i, by_signer a s)] w w'"
  using assms(4,5)
    effect_trans [OF effect_trans [OF effect_sent [of R "[deployTx c args s]" w]
        effect_registered [OF assms(1,3), of a None]] effect_registered [OF assms(1,2), of a "Some s"]]
  by (auto simp: deployment_rules)

lemma effect_readDb:
  "effect R ts es w w' \<Longrightarrow> plain_key j \<Longrightarrow> map_of (rev es) j = Some e \<Longrightarrow> readDb R j w' = Some e"
  by (simp add: effect_def)

subsection \<open>The lending pool\<close>

lemma signer_of_deploy:
  "bindA (deployFrom R c args) k w = (Inr a, w') \<Longrightarrow> \<exists>s. getFirstSigner R = Some s"
  by (auto simp: deployment_rules)

lemma effect_libraries:
  assumes R: "stored R" and run: "deployPalmyLibraries R verify w = (Inr libs, w')"
  shows "\<exists>s rl gl vl gcode vcode. getFirstSigner R = Some s \<and> libs = toPalmyLibs vl rl \<and>
    getGenericLogicContractFactory R rl = Inr gcode \<and>
    getValidationLogicContractFactory R rl gl = Inr vcode \<and>
    effect R [deployTx ''ReserveLogic'' [] s, deployTx ''GenericLogic'' [AString gcode] s,
        deployTx ''ValidationLogic'' [AString vcode] s]
      [(''ReserveLogic'', by_signer rl s), (''GenericLogic'', by_signer gl s),
       (''ValidationLogic'', by_signer vl s)] w w'"
proof -
  from run obtain rl w1 gl w2 vl where
    r: "deployReserveLogicLibrary R verify w = (Inr rl, w1)" and
    g: "deployGenericLogic R rl verify w1 = (Inr gl, w2)" and
    v: "deployValidationLogic R rl gl verify w2 = (Inr vl, w')" and libs: "libs = toPalmyLibs vl rl"
    unfolding deployPalmyLibraries_def bindA_Inr returnA_run by auto
  from g obtain gcode where gc: "getGenericLogicContractFactory R rl = Inr gcode" and
    g': "bindA (deployFrom R ''GenericLogic'' [AString gcode])
      (\<lambda>genericLogic. withSaveAndVerify R genericLogic ''GenericLogic'' [] verify) w1 = (Inr gl, w2)"
    unfolding deployGenericLogic_def bindA_Inr [of "liftA _"] by auto
  from v obtain vcode where vc: "getValidationLogicContractFactory R rl gl = Inr vcode" and
    v': "bindA (deployFrom R ''ValidationLogic'' [AString vcode])
      (\<lambda>validationLogic. withSaveAndVerify R validationLogic ''ValidationLogic'' [] verify) w2 = (Inr vl, w')"
    unfolding deployValidationLogic_def bindA_Inr [of "liftA _"] by auto
  obtain s where s: "getFirstSigner R = Some s" using signer_of_deploy [OF g'] by blast
  have keys: "plain_key ''ReserveLogic''" "plain_key ''GenericLogic''" "plain_key ''ValidationLogic''"
    by (simp_all add: plain_key_def)
  note e1 = effect_deploy [OF R keys(1) s r [unfolded deployReserveLogicLibrary_def]]
  note e2 = effect_deploy [OF R keys(2) s g'] and e3 = effect_deploy [OF R keys(3) s v']
  from effect_trans [OF effect_trans [OF e1 e2] e3] show ?thesis
    by (rule_tac x = s in exI, rule_tac x = rl in exI, rule_tac x = gl in exI, rule_tac x = vl in exI,
        rule_tac x = gcode in exI, rule_tac x = vcode in exI)
      (simp add: s libs gc vc)
qed

text \<open>Deploying the lending pool.  A successful deployment sends four creations, in this order:
  the reserve logic; the generic logic linked with it; the validation logic linked with both; and
  the pool, linked with the reserve and validation logic under the placeholders of the factory.
  Afterwards the database holds the libraries, and the pool both as the pool and as its
  implementation, and the getters find them.\<close>

theorem lending_pool_deployment:
  assumes R: "stored R" and run: "deployLendingPool R verify w = (Inr pool, w')"
  shows "\<exists>s rl gl vl gcode vcode.
    getGenericLogicContractFactory R rl = Inr gcode \<and>
    getValidationLogicContractFactory R rl gl = Inr vcode \<and>
    sent w' = sent w @ [deployTx ''ReserveLogic'' [] s, deployTx ''GenericLogic'' [AString gcode] s,
      deployTx ''ValidationLogic'' [AString vcode] s,
      deployTx ''LendingPool'' [linked (toPalmyLibs vl rl)] s] \<and>
    getReserveLogic R None w' = (Inr rl, w') \<and> getGenericLogic R None w' = (Inr gl, w') \<and>
    databaseAddress R ''ValidationLogic'' w' = (Inr vl, w') \<and>
    getLendingPool R None w' = (Inr pool, w') \<and> getLendingPoolImpl R None w' = (Inr pool, w')"
proof -
  from run obtain libs w1 where
    l: "deployPalmyLibraries R verify w = (Inr libs, w1)" and
    p: "bindA (deployFrom R ''LendingPool'' [linked libs]) (\<lambda>lendingPoolImpl.
      thenA (insertContractAddressInDb R ''LendingPoolImpl'' lendingPoolImpl)
        (withSaveAndVerify R lendingPoolImpl ''LendingPool'' [] verify)) w1 = (Inr pool, w')"
    unfolding deployLendingPool_def bindA_Inr [of "deployPalmyLibraries _ _"] by auto
  from effect_libraries [OF R l] obtain s rl gl vl gcode vcode where
    s: "getFirstSigner R = Some s" and libs: "libs = toPalmyLibs vl rl" and
    codes: "getGenericLogicContractFactory R rl = Inr gcode"
      "getValidationLogicContractFactory R rl gl = Inr vcode" and
    e: "effect R [deployTx ''ReserveLogic'' [] s, deployTx ''GenericLogic'' [AString gcode] s,
        deployTx ''ValidationLogic'' [AString vcode] s]
      [(''ReserveLogic'', by_signer rl s), (''GenericLogic'', by_signer gl s),
       (''ValidationLogic'', by_signer vl s)] w w1"
    by blast
  have keys: "plain_key ''LendingPool''" "plain_key ''LendingPoolImpl''" "plain_key ''ReserveLogic''"
    "plain_key ''GenericLogic''" "plain_key ''ValidationLogic''"
    by (simp_all add: plain_key_def)
  note all = effect_trans [OF e effect_deploy_impl [OF R keys(1,2) s p]]
  note read = effect_readDb [OF all]
  have found: "readDb R ''ReserveLogic'' w' = Some (by_signer rl s)"
    "readDb R ''GenericLogic'' w' = Some (by_signer gl s)"
    "readDb R ''ValidationLogic'' w' = Some (by_signer vl s)"
    "readDb R ''LendingPool'' w' = Some (by_signer pool s)"
    "readDb R ''LendingPoolImpl'' w' = Some (address_only pool)"
    by (rule read, simp add: plain_key_def, simp)+
  have "sent w' = sent w @ [deployTx ''ReserveLogic'' [] s, deployTx ''GenericLogic'' [AString gcode] s,
      deployTx ''ValidationLogic'' [AString vcode] s, deployTx ''LendingPool'' [linked libs] s]"
    using all by (simp add: effect_def)
  with codes libs show ?thesis
    using found [THEN connectedAddress_registered(1)] found [THEN connectedAddress_registered(2)]
    by (rule_tac x = s in exI, rule_tac x = rl in exI, rule_tac x = gl in exI, rule_tac x = vl in exI,
        rule_tac x = gcode in exI, rule_tac x = vcode in exI)
      (simp add: getReserveLogic_def getGenericLogic_def getLendingPool_def getLendingPoolImpl_def)
qed

theorem lending_pool_deployment_witness:
  "\<exists>pool w'. deployLendingPool sample_runtime False empty_world = (Inr pool, w') \<and>
     length (sent w') = 4 \<and> getLendingPool sample_runtime None w' = (Inr pool, w')"
proof -
  have "\<exists>pool w'. deployLendingPool sample_runtime False empty_world = (Inr pool, w')"
    by (simp add: deployLendingPool_def deployPalmyLibraries_def deployReserveLogicLibrary_def
        deployGenericLogic_def deployValidationLogic_def getGenericLogicContractFactory_def
        getValidationLogicContractFactory_def linkedFactory_def deployment_rules
        getFirstSigner_def at_index_def) (simp add: sample_runtime_def)
  then obtain pool w' where run: "deployLendingPool sample_runtime False empty_world = (Inr pool, w')" by blast
  from lending_pool_deployment [OF sample_runtime_ok(1) run] run show ?thesis
    by (auto simp: empty_world_def)
qed

end
