(* ===== verification/InitClaims.thy ===== *)
theory InitClaims
  imports DeployClaims
begin

text \<open>
  Properties of \<open>initReservesByHelper\<close>: the strategies it deploys, the inputs it builds for the
  listed reserves and the batches it sends.
\<close>

subsection \<open>Batches\<close>

lemma sent_forA_calls:
  "forA xs (\<lambda>x. callFrom R target m (args x)) w = (Inr u, w') \<Longrightarrow> getFirstSigner R = Some s \<Longrightarrow>
   w' = w\<lparr>sent := sent w @ map (\<lambda>x. callTx target m (args x) s) xs\<rparr>"
proof (induction xs arbitrary: w)
  case (Cons x xs)
  from Cons.prems obtain w1 where w1: "callFrom R target m (args x) w = (Inr (), w1)"
    "forA xs (\<lambda>x. callFrom R target m (args x)) w1 = (Inr u, w')"
    by (auto simp: thenA_Inr)
  from w1(1) Cons.prems(2) have "w1 = w\<lparr>sent := sent w @ [callTx target m (args x) s]\<rparr>"
    by (auto simp: callFrom_Inr)
  with Cons.IH [OF w1(2) Cons.prems(2)] show ?case by simp
qed simp

lemma chunk_nth_map: "map (\<lambda>i. f (chunk xs n ! i)) [0..<length (chunk xs n)] = map f (chunk xs n)"
  using map_nth [of "chunk xs n"] by (metis (no_types, lifting) List.map.compositionality comp_def map_eq_conv)

lemma chunk_twenty: "concat (chunk xs 20) = xs" "list_all (\<lambda>c. length c \<le> 20) (chunk xs 20)"
  by (simp_all add: chunk_chunks_of concat_chunks_of list_all_iff chunks_of_nonempty)

lemma chunk_singletons: "chunk xs (Suc 0) = map (\<lambda>x. [x]) xs"
  by (induction xs) (simp_all add: chunk_chunks_of)

subsection \<open>Initialising reserves\<close>

definition listed :: "string obj \<Rightarrow> IReserveParams obj \<Rightarrow> IReserveParams obj" where
  "listed tokenAddresses reserves = filter (\<lambda>(sy, p). truthy (map_of tokenAddresses sy)) reserves"

definition strategy_name_of :: "string \<times> IReserveParams \<Rightarrow> string" where
  "strategy_name_of e = strategyName (strategy (snd e))"

definition strategy_tx :: "string \<Rightarrow> string \<Rightarrow> IInterestRateStrategyParams \<Rightarrow> tx" where
  "strategy_tx provider signer st =
     deployTx ''DefaultReserveInterestRateStrategy''
       [AAddress provider, AString (optimalUtilizationRate st), AString (baseVariableBorrowRate st),
        AString (variableRateSlope1 st), AString (variableRateSlope2 st), AString (stableRateSlope1 st),
        AString (stableRateSlope2 st)] signer"

text \<open>The input made for one listed reserve, given where each strategy is deployed.\<close>

definition input_for ::
  "'d runtime \<Rightarrow> market_names \<Rightarrow> string obj \<Rightarrow> (string \<Rightarrow> string option) \<Rightarrow> string \<times> IReserveParams \<Rightarrow>
   init_input \<Rightarrow> bool" where
  "input_for R M tokenAddresses at e i \<longleftrightarrow>
     inUnderlyingAssetName i = fst e \<and> map_of tokenAddresses (fst e) = Some (inUnderlyingAsset i) \<and>
     at (strategy_name_of e) = Some (inInterestRateStrategyAddress i) \<and>
     inUnderlyingAssetDecimals i = reserveDecimals (snd e) \<and> inTreasury i = treasuryAddress M \<and>
     inLTokenSymbol i = ''l'' @ symbolPrefix M @ fst e \<and>
     inVariableDebtTokenSymbol i = ''vd'' @ symbolPrefix M @ fst e \<and>
     inStableDebtTokenSymbol i = ''sd'' @ symbolPrefix M @ fst e \<and>
     (\<forall>a \<in> {inUnderlyingAsset i, inInterestRateStrategyAddress i, inLTokenImpl i,
        inStableDebtTokenImpl i, inVariableDebtTokenImpl i, inTreasury i}.
        notFalsyOrZeroAddress (rtAddresses R) (Some a))"

lemma guardA_Inr: "guardA c m w = (Inr u, w') \<longleftrightarrow> c \<and> w' = w"
  by (auto simp: guardA_def)

lemma fallback_Inr: "getContractAddressWithJsonFallback R i p w = (Inr a, w') \<Longrightarrow> w' = w"
  by (simp add: getContractAddressWithJsonFallback_def)

lemma initInput_Inr:
  assumes "initInput R M tokens strategies sy p w = (Inr i, w')"
  shows "w' = w \<and> input_for R M tokens (map_of strategies) (sy, p) i"
proof -
  from assms show ?thesis
    unfolding initInput_def Let_def thenA_Inr bindA_Inr guardA_Inr
    by (auto simp: input_for_def strategy_name_of_def notFalsyOrZeroAddress_Some dest!: fallback_Inr)
qed

lemma ensureStrategy_Inr:
  assumes "ensureStrategy R provider verify st strategies w = (Inr strategies', w')"
    "getFirstSigner R = Some s"
  shows "(if truthy (map_of strategies (strategyName st))
     then strategies' = strategies \<and> w' = w
     else sent w' = sent w @ [strategy_tx provider s st] \<and>
       (\<exists>a. strategies' = obj_set strategies (strategyName st) a))"
  using assms
  by (auto simp: ensureStrategy_def deployRateStrategy_def deployDefaultReserveInterestRateStrategy_def
      deployment_rules strategy_tx_def)

text \<open>What the loop over the reserves deploys and collects.\<close>

definition initialised ::
  "'d runtime \<Rightarrow> market_names \<Rightarrow> string obj \<Rightarrow> string \<Rightarrow> string \<Rightarrow> (string \<Rightarrow> string option) \<Rightarrow>
   IReserveParams obj \<Rightarrow> init_input list \<Rightarrow> tx list \<Rightarrow> bool" where
  "initialised R M tokens provider signer known reserves inputs creations \<longleftrightarrow>
     (\<exists>strategies at. creations = map (strategy_tx provider signer) strategies \<and>
       distinct (map strategyName strategies) \<and>
       set (map strategyName strategies) = {n \<in> strategy_name_of ` set reserves. \<not> truthy (known n)} \<and>
       set strategies \<subseteq> (\<lambda>e. strategy (snd e)) ` set reserves \<and>
       (\<forall>n. truthy (known n) \<longrightarrow> at n = known n) \<and>
       list_all2 (input_for R M tokens at) reserves inputs)"

lemma input_for_cong:
  "input_for R M tokens f e i \<Longrightarrow> f (strategy_name_of e) = g (strategy_name_of e) \<Longrightarrow>
   input_for R M tokens g e i"
  unfolding input_for_def by auto

lemma initInputs_Inr:
  assumes "initInputs R provider verify M tokens strategies reserves w = (Inr inputs, w')"
    "getFirstSigner R = Some s"
  shows "\<exists>creations. sent w' = sent w @ creations \<and>
    initialised R M tokens provider s (map_of strategies) (listed tokens reserves) inputs creations"
  using assms(1)
proof (induction reserves arbitrary: strategies inputs w)
  case Nil
  then show ?case by (auto simp: listed_def initialised_def intro: exI [of _ "map_of strategies"])
next
  case (Cons e reserves)
  obtain sy p where e: "e = (sy, p)" by (cases e)
  show ?case
  proof (cases "truthy (map_of tokens sy)")
    case False
    with Cons e show ?thesis by (simp add: listed_def)
  next
    case True
    then have l: "listed tokens (e # reserves) = e # listed tokens reserves" by (simp add: listed_def e)
    from Cons.prems True obtain strategies' w1 i w2 inputs' where
      st: "ensureStrategy R provider verify (strategy p) strategies w = (Inr strategies', w1)" and
      i: "initInput R M tokens strategies' sy p w1 = (Inr i, w2)" and
      rest: "initInputs R provider verify M tokens strategies' reserves w2 = (Inr inputs', w')" and
      inputs: "inputs = i # inputs'"
      by (auto simp: e bindA_Inr)
    from initInput_Inr [OF i] have w2: "w2 = w1" and for_e: "input_for R M tokens (map_of strategies') e i"
      by (simp_all add: e)
    from Cons.IH [OF rest] obtain creations sts at where
      sent: "sent w' = sent w2 @ creations" "creations = map (strategy_tx provider s) sts" and
      dist: "distinct (map strategyName sts)" and
      names: "set (map strategyName sts) =
        {n \<in> strategy_name_of ` set (listed tokens reserves). \<not> truthy (map_of strategies' n)}" and
      sub: "set sts \<subseteq> (\<lambda>e. strategy (snd e)) ` set (listed tokens reserves)" and
      at: "\<forall>n. truthy (map_of strategies' n) \<longrightarrow> at n = map_of strategies' n" and
      inps: "list_all2 (input_for R M tokens at) (listed tokens reserves) inputs'"
      by (auto simp: initialised_def)
    let ?n = "strategy_name_of e"
    have n: "truthy (map_of strategies' ?n)"
      using for_e by (auto simp: input_for_def notFalsyOrZeroAddress_Some truthy_def)
    have for_at: "input_for R M tokens at e i" using for_e at n by (auto intro: input_for_cong)
    show ?thesis
    proof (cases "truthy (map_of strategies ?n)")
      case known: True
      with ensureStrategy_Inr [OF st assms(2)] have "strategies' = strategies" "w1 = w"
        by (auto simp: strategy_name_of_def e)
      with sent dist names sub at inps for_at known w2 show ?thesis
        unfolding initialised_def l inputs
        by (intro exI [of _ creations] conjI exI [of _ sts] exI [of _ at]) auto
    next
      case new: False
      with ensureStrategy_Inr [OF st assms(2)] obtain a where
        w1: "sent w1 = sent w @ [strategy_tx provider s (strategy p)]" and
        s': "map_of strategies' = (map_of strategies)(?n \<mapsto> a)"
        by (auto simp: strategy_name_of_def e map_of_obj_set)
      have "?n \<notin> set (map strategyName sts)" using n names by auto
      moreover have "truthy (map_of strategies' m) \<longleftrightarrow> m = ?n \<or> truthy (map_of strategies m)" for m
        using n by (auto simp: s')
      ultimately show ?thesis
        unfolding initialised_def l inputs
        using sent dist names sub at inps for_at w1 w2 new s'
        apply (intro exI [of _ "strategy_tx provider s (strategy p) # creations"] conjI
            exI [of _ "strategy p # sts"] exI [of _ at])
               apply (auto simp: strategy_name_of_def e)
        done
    qed
  qed
qed

text \<open>C13: Initialising the reserves of a market.  A successful run sends, after the strategies it
  deploys, one \<open>batchInitReserve\<close> per listed reserve, in order, each with that single reserve.
  Every strategy name that was not given an address is deployed exactly once, however many
  reserves share it, and every input carries its own token, its strategy's address and
  implementation, token and treasury addresses that are valid.\<close>

theorem reserves_initialised:
  assumes run: "initReservesByHelper R reserves tokens M verify providerAddress configuratorAddress
      strategyAddresses w = (Inr u, w')"
    and s: "getFirstSigner R = Some s"
  shows "\<exists>provider configurator inputs creations.
    sent w' = sent w @ creations @
      map (\<lambda>i. callTx configurator ''batchInitReserve'' [AList [init_arg i]] s) inputs \<and>
    getLendingPoolAddressesProvider R providerAddress w = (Inr provider, w) \<and>
    initialised R M tokens provider s
      (map_of (case strategyAddresses of None \<Rightarrow> [] | Some given \<Rightarrow> given)) (listed tokens reserves)
      inputs creations"
proof -
  have pure: "connectedAddress R i a w1 = (Inr b, w2) \<Longrightarrow> w2 = w1" for i a b w1 w2
    by (auto simp: connectedAddress_def databaseAddress_def split: if_splits)
  from run obtain provider w0 inputs w1 configurator w2 where
    p: "getLendingPoolAddressesProvider R providerAddress w = (Inr provider, w0)" and
    i: "initInputs R provider verify M tokens
      (case strategyAddresses of None \<Rightarrow> [] | Some given \<Rightarrow> given) reserves w0 = (Inr inputs, w1)" and
    c: "getLendingPoolConfiguratorProxy R configuratorAddress w1 = (Inr configurator, w2)" and
    f: "forA [0..<length (chunk inputs 1)] (\<lambda>chunkIndex. callFrom R configurator ''batchInitReserve''
      [AList (map init_arg (chunk inputs 1 ! chunkIndex))]) w2 = (Inr u, w')"
    unfolding initReservesByHelper_def Let_def bindA_Inr by blast
  have w: "w0 = w" "w2 = w1"
    using p c by (auto simp: getLendingPoolAddressesProvider_def getLendingPoolConfiguratorProxy_def dest: pure)
  from sent_forA_calls [OF f s] have "sent w' = sent w1 @ map (\<lambda>c. callTx configurator ''batchInitReserve''
      [AList (map init_arg c)] s) (chunk inputs 1)"
    by (simp add: w(2) chunk_nth_map [of "\<lambda>c. callTx configurator ''batchInitReserve'' [AList (map init_arg c)] s"])
  then have "sent w' = sent w1 @ map (\<lambda>i. callTx configurator ''batchInitReserve'' [AList [init_arg i]] s) inputs"
    by (simp add: chunk_singletons o_def)
  with initInputs_Inr [OF i s] p w show ?thesis by fastforce
qed

text \<open>Two reserves that share a strategy, and one without a token.\<close>

definition sample_reserves :: "IReserveParams obj" where
  "sample_reserves =
     (let st = \<lparr>strategyName = ''rateStrategy'', optimalUtilizationRate = ''8'',
            baseVariableBorrowRate = ''0'', variableRateSlope1 = ''4'', variableRateSlope2 = ''75'',
            stableRateSlope1 = ''2'', stableRateSlope2 = ''75''\<rparr>;
          p = \<lparr>strategy = st, baseLTVAsCollateral = ''7500'', liquidationThreshold = ''8000'',
            liquidationBonus = ''10500'', borrowingEnabled = True, stableBorrowRateEnabled = True,
            reserveDecimals = ''18'', lTokenImpl = ''LToken'', reserveFactor = ''1000''\<rparr>
      in [(''DAI'', p), (''USDC'', p), (''MCHC'', p)])"

definition sample_tokens :: "string obj" where
  "sample_tokens = [(''DAI'', ''0xDA1''), (''USDC'', ''0x05DC'')]"

definition sample_names :: market_names where
  "sample_names =
   \<lparr>lTokenNamePrefix = ''L'', stableDebtTokenNamePrefix = ''S'', variableDebtTokenNamePrefix = ''V'',
    symbolPrefix = [], treasuryAddress = ''0x7EA5'', incentivesController = ZERO_ADDRESS,
    poolName = ''Palmy''\<rparr>"

definition sample_deployed :: "json_db world" where
  "sample_deployed =
     (let put = (\<lambda>i a d. json_set d (entry_path i ''oasys'') (address_only a))
      in \<lparr>sent = [],
          db = put ''LToken'' ''0x17'' (put ''StableDebtToken'' ''0x5D'' (put ''VariableDebtToken'' ''0x0D'' [])),
          files = []\<rparr>)"

lemma sample_signer: "getFirstSigner sample_runtime = Some ''0xAdmin''"
  by (simp add: getFirstSigner_def sample_runtime_def at_index_def)

abbreviation sample_valid :: "string option \<Rightarrow> bool" where
  "sample_valid \<equiv> notFalsyOrZeroAddress (rtAddresses sample_runtime)"

definition sample_ready :: "json_db world \<Rightarrow> bool" where
  "sample_ready w \<longleftrightarrow>
     (\<forall>i \<in> {''LToken'', ''StableDebtToken'', ''VariableDebtToken''}.
        \<exists>a. readDb sample_runtime i w = Some (address_only a) \<and> sample_valid (Some a))"

lemma sample_deployed_ready: "sample_ready sample_deployed"
  by (simp add: sample_ready_def sample_deployed_def readDb_def sample_runtime_def json_file_def
      json_get_def json_set_def entry_path_def Let_def notFalsyOrZeroAddress_def ZERO_ADDRESS_def)

lemma sample_ready_sent [simp]: "sample_ready (w\<lparr>sent := ts\<rparr>) = sample_ready w"
  by (simp add: sample_ready_def)

lemma sample_ready_registered:
  assumes "sample_ready w" "plain_key i" "i \<notin> {''LToken'', ''StableDebtToken'', ''VariableDebtToken''}"
  shows "sample_ready (registered sample_runtime i a d w)"
proof -
  have "plain_key ''LToken''" "plain_key ''StableDebtToken''" "plain_key ''VariableDebtToken''"
    by (simp_all add: plain_key_def)
  with assms show ?thesis
    by (auto simp: sample_ready_def readDb_registered [OF sample_runtime_ok(1) assms(2)])
qed

lemma sample_fallback:
  assumes "sample_ready w" "i \<in> {''LToken'', ''StableDebtToken'', ''VariableDebtToken''}"
  shows "\<exists>a. getContractAddressWithJsonFallback sample_runtime i ''Palmy'' w = (Inr a, w) \<and> sample_valid (Some a)"
proof -
  from assms obtain a where a: "readDb sample_runtime i w = Some (address_only a)" "sample_valid (Some a)"
    by (auto simp: sample_ready_def)
  have p: "loadPoolConfig ''Palmy'' = Inr PalmyConfig" by (simp add: loadPoolConfig_def)
  have c: "config_entry PalmyConfig i = None"
    using assms(2) by (elim insertE emptyE) (simp_all add: config_entry_def)
  from fallback_to_database [OF sample_runtime_ok(2) p c a(1)] a(2) show ?thesis
    by (simp add: notFalsyOrZeroAddress_Some)
qed

lemma sample_input:
  assumes "sample_ready w" "sample_valid (map_of tokens sy)"
    "sample_valid (map_of strategies (strategyName (strategy p)))" "lTokenImpl p = ''LToken''"
  shows "\<exists>i. initInput sample_runtime sample_names tokens strategies sy p w = (Inr i, w)"
proof -
  from sample_fallback [OF assms(1)] obtain l s v where
    "getContractAddressWithJsonFallback sample_runtime ''LToken'' ''Palmy'' w = (Inr l, w)"
    "getContractAddressWithJsonFallback sample_runtime ''StableDebtToken'' ''Palmy'' w = (Inr s, w)"
    "getContractAddressWithJsonFallback sample_runtime ''VariableDebtToken'' ''Palmy'' w = (Inr v, w)"
    "sample_valid (Some l)" "sample_valid (Some s)" "sample_valid (Some v)"
    by (metis insertCI)
  moreover have "sample_valid (Some ''0x7EA5'')"
    by (simp add: sample_runtime_def notFalsyOrZeroAddress_def ZERO_ADDRESS_def)
  ultimately show ?thesis
    using assms(2-4) by (simp add: initInput_def Let_def thenA_def bindA_def guardA_def sample_names_def)
qed

lemma sample_strategy_runs:
  assumes "sample_ready w" "plain_key (strategyName st)"
    "strategyName st \<notin> {''LToken'', ''StableDebtToken'', ''VariableDebtToken''}"
    "\<forall>n. truthy (map_of strategies n) \<longrightarrow> sample_valid (map_of strategies n)"
  shows "\<exists>strategies' w'. ensureStrategy sample_runtime provider False st strategies w = (Inr strategies', w') \<and>
    sample_ready w' \<and> sample_valid (map_of strategies' (strategyName st)) \<and>
    (\<forall>n. truthy (map_of strategies' n) \<longrightarrow> sample_valid (map_of strategies' n))"
proof (cases "truthy (map_of strategies (strategyName st))")
  case True
  with assms show ?thesis by (simp add: ensureStrategy_def)
next
  case False
  define a where "a = ''0xC'' @ replicate (length (sent w)) CHR ''1''"
  define w' where "w' = registered sample_runtime (strategyName st) a None
    (registered sample_runtime ''DefaultReserveInterestRateStrategy'' a (Some ''0xAdmin'')
      (w\<lparr>sent := sent w @ [strategy_tx provider ''0xAdmin'' st]\<rparr>))"
  have ok: "rtChain sample_runtime = \<lparr>reverts = \<lambda>_ _. None, created = \<lambda>ts t. ''0xC'' @ replicate (length ts) CHR ''1''\<rparr>"
    by (simp add: sample_runtime_def)
  have "ensureStrategy sample_runtime provider False st strategies w =
      (Inr (obj_set strategies (strategyName st) a), w')"
    using False
    by (simp add: ensureStrategy_def deployRateStrategy_def deployDefaultReserveInterestRateStrategy_def
        deployment_rules sample_signer ok a_def w'_def strategy_tx_def)
  moreover have "sample_ready w'"
    using assms(1-3) unfolding w'_def by (intro sample_ready_registered) (simp_all add: plain_key_def)
  moreover have "sample_valid (Some a)"
    by (simp add: a_def sample_runtime_def notFalsyOrZeroAddress_def ZERO_ADDRESS_def)
  ultimately show ?thesis using assms(4) by (auto simp: map_of_obj_set)
qed

lemma sample_init_runs:
  "\<exists>w'. initReservesByHelper sample_runtime sample_reserves sample_tokens sample_names False
      (Some ''0xA1'') (Some ''0xCF'') None sample_deployed = (Inr (), w')"
proof -
  define p where "p = snd (hd sample_reserves)"
  have r: "sample_reserves = [(''DAI'', p), (''USDC'', p), (''MCHC'', p)]" "lTokenImpl p = ''LToken''"
    "strategyName (strategy p) = ''rateStrategy''"
    by (simp_all add: p_def sample_reserves_def Let_def)
  have t: "sample_valid (map_of sample_tokens ''DAI'')" "sample_valid (map_of sample_tokens ''USDC'')"
    by (simp_all add: sample_tokens_def sample_runtime_def notFalsyOrZeroAddress_def ZERO_ADDRESS_def)
  have k: "plain_key (strategyName (strategy p))"
    "strategyName (strategy p) \<notin> {''LToken'', ''StableDebtToken'', ''VariableDebtToken''}"
    by (simp_all add: r(3) plain_key_def)
  from sample_strategy_runs [OF sample_deployed_ready k, of "[]" "''0xA1''"] obtain s1 w1 where
    1: "ensureStrategy sample_runtime ''0xA1'' False (strategy p) [] sample_deployed = (Inr s1, w1)"
      "sample_ready w1" "sample_valid (map_of s1 (strategyName (strategy p)))"
      "\<forall>n. truthy (map_of s1 n) \<longrightarrow> sample_valid (map_of s1 n)"
    by (auto simp: truthy_def)
  from sample_strategy_runs [OF 1(2) k 1(4), of "''0xA1''"] obtain s2 w2 where
    2: "ensureStrategy sample_runtime ''0xA1'' False (strategy p) s1 w1 = (Inr s2, w2)"
      "sample_ready w2" "sample_valid (map_of s2 (strategyName (strategy p)))"
    by blast
  from sample_input [OF 1(2) t(1) 1(3) r(2)] sample_input [OF 2(2) t(2) 2(3) r(2)] obtain i j where
    ij: "initInput sample_runtime sample_names sample_tokens s1 ''DAI'' p w1 = (Inr i, w1)"
      "initInput sample_runtime sample_names sample_tokens s2 ''USDC'' p w2 = (Inr j, w2)"
    by blast
  have "initInputs sample_runtime ''0xA1'' False sample_names sample_tokens [] sample_reserves sample_deployed =
      (Inr [i, j], w2)"
    by (simp add: r(1) bindA_def 1(1) 2(1) ij) (simp add: sample_tokens_def truthy_def)
  moreover have "rtChain sample_runtime = \<lparr>reverts = \<lambda>_ _. None, created = \<lambda>ts t. ''0xC'' @ replicate (length ts) CHR ''1''\<rparr>"
    by (simp add: sample_runtime_def)
  ultimately show ?thesis
    by (simp add: initReservesByHelper_def getLendingPoolAddressesProvider_def
        getLendingPoolConfiguratorProxy_def connectedAddress_def truthy_def Let_def chunk_singletons
        bindA_Inr thenA_Inr callFrom_Inr sample_signer)
qed

theorem reserves_initialised_witness:
  "\<exists>provider inputs creations.
    initialised sample_runtime sample_names sample_tokens provider ''0xAdmin'' Map.empty
      (listed sample_tokens sample_reserves) inputs creations \<and> length inputs = 2"
proof -
  obtain w' where run: "initReservesByHelper sample_runtime sample_reserves sample_tokens sample_names
      False (Some ''0xA1'') (Some ''0xCF'') None sample_deployed = (Inr (), w')"
    using sample_init_runs by blast
  from reserves_initialised [OF run sample_signer] obtain provider inputs creations where
    "initialised sample_runtime sample_names sample_tokens provider ''0xAdmin'' Map.empty
      (listed sample_tokens sample_reserves) inputs creations" by auto
  moreover from this have "length inputs = length (listed sample_tokens sample_reserves)"
    by (auto simp: initialised_def dest: list_all2_lengthD)
  moreover have "length (listed sample_tokens sample_reserves) = 2"
    by (simp add: listed_def sample_tokens_def sample_reserves_def Let_def truthy_def)
  ultimately show ?thesis by metis
qed

end
