(* ===== verification/HandoverClaims.thy ===== *)
theory HandoverClaims
  imports InitClaims
begin

text \<open>
  Properties of the two procedures that lend a right to a helper contract: configuring reserves, which
  lends the pool administration, and setting the initial borrow rates, which lends the rate oracle.
  \<open>pool_admin\<close> and \<open>oracle_owner\<close> read who holds the right off the transactions sent.
\<close>

subsection \<open>Who holds the rights\<close>

text \<open>The pool administrator of a provider and the owner of a rate oracle, as the transactions sent so
  far leave them: the last transfer decides, and \<open>setOracleOwnership\<close> is a transfer that the
  helper contract makes when it is the owner.\<close>

definition pool_admin :: "string \<Rightarrow> tx list \<Rightarrow> string option" where
  "pool_admin provider ts =
     foldl (\<lambda>admin t.
         if txTo t = Some provider \<and> txMethod t = ''setPoolAdmin''
         then (case txArgs t of [AAddress a] \<Rightarrow> Some a | _ \<Rightarrow> admin) else admin)
       None ts"

definition oracle_owner :: "string \<Rightarrow> tx list \<Rightarrow> string option" where
  "oracle_owner oracle ts =
     foldl (\<lambda>owner t.
         if txTo t = Some oracle \<and> txMethod t = ''transferOwnership''
         then (case txArgs t of [AAddress a] \<Rightarrow> Some a | _ \<Rightarrow> owner)
         else if txMethod t = ''setOracleOwnership'' \<and> txTo t = owner
         then (case txArgs t of [AAddress o', AAddress a] \<Rightarrow> if o' = oracle then Some a else owner
               | _ \<Rightarrow> owner)
         else owner)
       None ts"

lemma pool_admin_append:
  "pool_admin p (ts @ [callTx p ''setPoolAdmin'' [AAddress a] s]) = Some a"
  by (simp add: pool_admin_def callTx_def)

lemma pool_admin_skip:
  "list_all (\<lambda>t. txMethod t \<noteq> ''setPoolAdmin'') us \<Longrightarrow> pool_admin p (ts @ us) = pool_admin p ts"
proof (induction us rule: rev_induct)
  case (snoc u us)
  then show ?case by (simp add: pool_admin_def)
qed simp

lemma oracle_owner_append:
  "oracle_owner p (ts @ [callTx p ''transferOwnership'' [AAddress a] s]) = Some a"
  "oracle_owner p ts = Some h \<Longrightarrow>
   oracle_owner p (ts @ [callTx h ''setOracleOwnership'' [AAddress p, AAddress a] s]) = Some a"
  by (simp_all add: oracle_owner_def callTx_def)

lemma oracle_owner_skip:
  "list_all (\<lambda>t. txMethod t \<noteq> ''transferOwnership'' \<and> txMethod t \<noteq> ''setOracleOwnership'') us \<Longrightarrow>
   oracle_owner p (ts @ us) = oracle_owner p ts"
proof (induction us rule: rev_induct)
  case (snoc u us)
  then show ?case by (simp add: oracle_owner_def)
qed simp

text \<open>Whether it fails or not, a loop of calls has sent the first of them.\<close>

lemma forA_calls_prefix:
  assumes "getFirstSigner R = Some s"
  shows "\<exists>k. snd (forA xs (\<lambda>x. callFrom R target m (args x)) w) =
    w\<lparr>sent := sent w @ map (\<lambda>x. callTx target m (args x) s) (take k xs)\<rparr>"
proof (induction xs arbitrary: w)
  case (Cons x xs)
  show ?case
  proof (cases "reverts (rtChain R) (sent w) (callTx target m (args x) s)")
    case None
    then have "callFrom R target m (args x) w = (Inr (), w\<lparr>sent := sent w @ [callTx target m (args x) s]\<rparr>)"
      using assms by (simp add: callFrom_Inr)
    with Cons.IH [of "w\<lparr>sent := sent w @ [callTx target m (args x) s]\<rparr>"] show ?thesis
      by (auto simp: thenA_def bindA_def intro: exI [of _ "Suc k" for k])
  next
    case (Some e)
    then show ?thesis
      using assms
      by (intro exI [of _ 0]) (simp add: thenA_def bindA_def callFrom_def sendA_def requireA_def)
  qed
qed (auto intro: exI [of _ 0])

subsection \<open>Configuring reserves\<close>

lemma getters_pure:
  "connectedAddress R i a w = (v, w') \<Longrightarrow> w' = w"
  by (auto simp: connectedAddress_def databaseAddress_def split: if_splits)

definition config_batch :: "string \<Rightarrow> string \<Rightarrow> config_input list \<Rightarrow> tx" where
  "config_batch helper signer c = callTx helper ''configureReserves'' [AList (map config_arg c)] signer"

lemma config_batches_skip:
  "list_all (\<lambda>t. txMethod t \<noteq> ''setPoolAdmin'') (map (config_batch h s) cs)"
  by (simp add: list_all_iff config_batch_def callTx_def)

text \<open>C9: Configuring reserves hands the administration over and back.  A successful run that has
  something to configure first makes the helper contract the pool administrator, then sends the
  inputs in order in batches of at most twenty, every batch while the helper is the
  administrator, and ends with the given administrator; with nothing to configure it sends
  nothing.\<close>

theorem configuration_hands_admin_back:
  assumes run: "configureReservesByHelper R enabled reserves tokens admin providerAddress helperAddress w =
      (Inr u, w')"
    and s: "getFirstSigner R = Some s"
  shows "\<exists>provider helper inputs.
    configInputs (rtAddresses R) (enabled (sent w)) tokens reserves = Inr inputs \<and>
    (if inputs = [] then w' = w
     else sent w' = sent w @ callTx provider ''setPoolAdmin'' [AAddress helper] s #
         map (config_batch helper s) (chunk inputs 20) @
         [callTx provider ''setPoolAdmin'' [AAddress admin] s] \<and>
       concat (chunk inputs 20) = inputs \<and> list_all (\<lambda>c. length c \<le> 20) (chunk inputs 20) \<and>
       list_all (\<lambda>k. pool_admin provider (sent w @ callTx provider ''setPoolAdmin'' [AAddress helper] s #
           map (config_batch helper s) (take k (chunk inputs 20))) = Some helper)
         [0..<length (chunk inputs 20)] \<and>
       pool_admin provider (sent w') = Some admin)"
proof -
  from run obtain provider w0 helper w1 inputs where
    p: "getLendingPoolAddressesProvider R providerAddress w = (Inr provider, w0)" and
    h: "getLTokensAndRatesHelper R helperAddress w0 = (Inr helper, w1)" and
    c: "configInputs (rtAddresses R) (enabled (sent w1)) tokens reserves = Inr inputs" and
    k: "whenA (inputs \<noteq> []) (thenA (callFrom R provider ''setPoolAdmin'' [AAddress helper])
       (thenA (forA [0..<length (chunk inputs 20)] (\<lambda>chunkIndex.
          callFrom R helper ''configureReserves'' [AList (map config_arg (chunk inputs 20 ! chunkIndex))]))
        (callFrom R provider ''setPoolAdmin'' [AAddress admin]))) w1 = (Inr u, w')"
    unfolding configureReservesByHelper_def Let_def bindA_Inr by auto
  have w: "w0 = w" "w1 = w"
    using p h by (auto simp: getLendingPoolAddressesProvider_def getLTokensAndRatesHelper_def dest: getters_pure)
  show ?thesis
  proof (cases "inputs = []")
    case True
    with c k w show ?thesis by (auto simp: whenA_def)
  next
    case False
    define w2 where "w2 = w\<lparr>sent := sent w @ [callTx provider ''setPoolAdmin'' [AAddress helper] s]\<rparr>"
    from k False w s obtain w3 where
      l: "forA [0..<length (chunk inputs 20)] (\<lambda>chunkIndex. callFrom R helper ''configureReserves''
        [AList (map config_arg (chunk inputs 20 ! chunkIndex))]) w2 = (Inr (), w3)" and
      e: "w' = w3\<lparr>sent := sent w3 @ [callTx provider ''setPoolAdmin'' [AAddress admin] s]\<rparr>"
      by (auto simp: whenA_def thenA_Inr callFrom_Inr w2_def)
    from sent_forA_calls [OF l s] have "sent w3 = sent w2 @ map (config_batch helper s) (chunk inputs 20)"
      using chunk_nth_map [of "config_batch helper s" inputs 20] by (simp add: config_batch_def)
    then have sent: "sent w' = sent w @ callTx provider ''setPoolAdmin'' [AAddress helper] s #
         map (config_batch helper s) (chunk inputs 20) @ [callTx provider ''setPoolAdmin'' [AAddress admin] s]"
      by (simp add: e w2_def)
    have during: "pool_admin provider (sent w @ callTx provider ''setPoolAdmin'' [AAddress helper] s #
        map (config_batch helper s) cs) = Some helper" for cs
      using pool_admin_skip [OF config_batches_skip, of provider
          "sent w @ [callTx provider ''setPoolAdmin'' [AAddress helper] s]"]
      by (simp add: pool_admin_append)
    have "pool_admin provider (sent w') = Some admin"
      using pool_admin_append [of provider "sent w @ callTx provider ''setPoolAdmin'' [AAddress helper] s #
         map (config_batch helper s) (chunk inputs 20)"] sent by simp
    with c w sent during chunk_twenty [of inputs] False show ?thesis
      by (auto simp: list_all_iff)
  qed
qed


lemma callFrom_run:
  "getFirstSigner R = Some s \<Longrightarrow> callFrom R target m args w =
     (case reverts (rtChain R) (sent w) (callTx target m args s) of
        Some e \<Rightarrow> (Inl e, w) | None \<Rightarrow> (Inr (), w\<lparr>sent := sent w @ [callTx target m args s]\<rparr>))"
  by (simp add: callFrom_def bindA_def requireA_def sendA_def)

lemma thenA_call:
  assumes "getFirstSigner R = Some s"
  shows "thenA (callFrom R target m args) k w = (v, w') \<Longrightarrow>
    w' = w \<or> k (w\<lparr>sent := sent w @ [callTx target m args s]\<rparr>) = (v, w')"
  using assms by (auto simp: thenA_def bindA_def callFrom_run split: option.splits)

text \<open>C26: A configuration that fails leaves either nothing done or the helper in charge.  When
  configuring reserves throws, either no transaction was sent, or the helper contract was made
  administrator and some of the batches went through: then the given administrator has not
  been put back, and the helper contract still administers the pool.\<close>

theorem failed_configuration_keeps_helper:
  assumes run: "configureReservesByHelper R enabled reserves tokens admin providerAddress helperAddress w =
      (Inl e, w')"
    and s: "getFirstSigner R = Some s"
  shows "w' = w \<or> (\<exists>provider helper inputs k.
    configInputs (rtAddresses R) (enabled (sent w)) tokens reserves = Inr inputs \<and> inputs \<noteq> [] \<and>
    w' = w\<lparr>sent := sent w @ callTx provider ''setPoolAdmin'' [AAddress helper] s #
      map (config_batch helper s) (take k (chunk inputs 20))\<rparr> \<and>
    pool_admin provider (sent w') = Some helper)"
proof (cases "w' = w")
  case changed: False
  obtain p w0 where p: "getLendingPoolAddressesProvider R providerAddress w = (p, w0)" by fastforce
  obtain h w1 where h: "getLTokensAndRatesHelper R helperAddress w0 = (h, w1)" by fastforce
  have w: "w0 = w" "w1 = w"
    using p h by (auto simp: getLendingPoolAddressesProvider_def getLTokensAndRatesHelper_def dest: getters_pure)
  from run changed p h w obtain provider helper inputs where
    c: "configInputs (rtAddresses R) (enabled (sent w)) tokens reserves = Inr inputs" and
    k: "whenA (inputs \<noteq> []) (thenA (callFrom R provider ''setPoolAdmin'' [AAddress helper])
       (thenA (forA [0..<length (chunk inputs 20)] (\<lambda>chunkIndex.
          callFrom R helper ''configureReserves'' [AList (map config_arg (chunk inputs 20 ! chunkIndex))]))
        (callFrom R provider ''setPoolAdmin'' [AAddress admin]))) w = (Inl e, w')"
    unfolding configureReservesByHelper_def Let_def by (auto simp: bindA_def split: sum.splits)
  from k have ne: "inputs \<noteq> []" by (auto simp: whenA_def)
  define w2 where "w2 = w\<lparr>sent := sent w @ [callTx provider ''setPoolAdmin'' [AAddress helper] s]\<rparr>"
  from k ne changed have k2: "thenA (forA [0..<length (chunk inputs 20)] (\<lambda>chunkIndex.
      callFrom R helper ''configureReserves'' [AList (map config_arg (chunk inputs 20 ! chunkIndex))]))
      (callFrom R provider ''setPoolAdmin'' [AAddress admin]) w2 = (Inl e, w')"
    unfolding w2_def by (auto simp: whenA_def dest: thenA_call [OF s])
  from forA_calls_prefix [OF s, of "[0..<length (chunk inputs 20)]" helper "''configureReserves''"
      "\<lambda>i. [AList (map config_arg (chunk inputs 20 ! i))]" w2]
  obtain n where n: "snd (forA [0..<length (chunk inputs 20)] (\<lambda>chunkIndex.
      callFrom R helper ''configureReserves'' [AList (map config_arg (chunk inputs 20 ! chunkIndex))]) w2) =
      w2\<lparr>sent := sent w2 @ take n (map (config_batch helper s) (chunk inputs 20))\<rparr>"
    using chunk_nth_map [of "config_batch helper s" inputs 20]
    by (auto simp: config_batch_def take_map [symmetric])
  have "w' = w2\<lparr>sent := sent w2 @ take n (map (config_batch helper s) (chunk inputs 20))\<rparr>"
    using k2 n by (auto simp: thenA_def bindA_def callFrom_run [OF s] split: sum.splits prod.splits option.splits)
  then have e: "w' = w\<lparr>sent := sent w @ callTx provider ''setPoolAdmin'' [AAddress helper] s #
      map (config_batch helper s) (take n (chunk inputs 20))\<rparr>"
    by (simp add: w2_def take_map)
  have "pool_admin provider (sent w') = Some helper"
    using pool_admin_skip [OF config_batches_skip, of provider
        "sent w @ [callTx provider ''setPoolAdmin'' [AAddress helper] s]"]
    by (simp add: e pool_admin_append)
  with c ne e show ?thesis by blast
qed simp


lemma sample_configInputs:
  "\<exists>i j. configInputs (rtAddresses sample_runtime) (\<lambda>_. False) sample_tokens sample_reserves = Inr [i, j]"
  by (simp add: sample_reserves_def sample_tokens_def Let_def addressOf_def find_entry_map_of truthy_def
      sample_runtime_def notFalsyOrZeroAddress_def ZERO_ADDRESS_def)

definition sample_configuration :: "json_db runtime \<Rightarrow> (json_db, unit) action" where
  "sample_configuration R = configureReservesByHelper R (\<lambda>_ _. False) sample_reserves sample_tokens ''0xAdmin''
     (Some ''0xA1'') (Some ''0x4E1'')"

text \<open>A chain on which the helper contract does not work.\<close>

definition broken_runtime :: "json_db runtime" where
  "broken_runtime = sample_runtime\<lparr>rtChain := (rtChain sample_runtime)
     \<lparr>reverts := \<lambda>_ t. if txMethod t = ''configureReserves'' then Some ''reverted'' else None\<rparr>\<rparr>"

lemma broken_runtime_simps:
  "getFirstSigner broken_runtime = Some ''0xAdmin''" "rtAddresses broken_runtime = rtAddresses sample_runtime"
  "reverts (rtChain sample_runtime) ts t = None"
  "reverts (rtChain broken_runtime) ts t = (if txMethod t = ''configureReserves'' then Some ''reverted'' else None)"
  by (simp_all add: getFirstSigner_def broken_runtime_def sample_runtime_def at_index_def)

lemma sample_configuration_runs:
  "\<exists>w'. sample_configuration sample_runtime empty_world = (Inr (), w')"
  "\<exists>w'. sample_configuration broken_runtime empty_world = (Inl ''reverted'', w') \<and> w' \<noteq> empty_world"
proof -
  obtain i j where c: "configInputs (rtAddresses sample_runtime) (\<lambda>_. False) sample_tokens sample_reserves = Inr [i, j]"
    using sample_configInputs by blast
  have n: "chunk [i, j] 20 = [[i, j]]" by (simp add: chunk_chunks_of numeral_eq_Suc)
  show "\<exists>w'. sample_configuration sample_runtime empty_world = (Inr (), w')"
    by (simp add: sample_configuration_def configureReservesByHelper_def getLendingPoolAddressesProvider_def
        getLTokensAndRatesHelper_def connectedAddress_def truthy_def Let_def c bindA_Inr thenA_Inr whenA_def
        callFrom_Inr sample_signer broken_runtime_simps n)
  show "\<exists>w'. sample_configuration broken_runtime empty_world = (Inl ''reverted'', w') \<and> w' \<noteq> empty_world"
    by (simp add: sample_configuration_def configureReservesByHelper_def getLendingPoolAddressesProvider_def
        getLTokensAndRatesHelper_def connectedAddress_def truthy_def Let_def c bindA_def thenA_def whenA_def
        callFrom_run broken_runtime_simps n callTx_def empty_world_def)
qed

theorem configuration_hands_admin_back_witness:
  "\<exists>provider w'. sample_configuration sample_runtime empty_world = (Inr (), w') \<and>
     pool_admin provider (sent w') = Some ''0xAdmin''"
proof -
  obtain w' where run: "sample_configuration sample_runtime empty_world = (Inr (), w')"
    using sample_configuration_runs by blast
  obtain i j where c: "configInputs (rtAddresses sample_runtime) (\<lambda>_. False) sample_tokens sample_reserves = Inr [i, j]"
    using sample_configInputs by blast
  from configuration_hands_admin_back [OF run [unfolded sample_configuration_def] sample_signer] c run
  show ?thesis by auto
qed

theorem failed_configuration_keeps_helper_witness:
  "\<exists>provider helper w'. sample_configuration broken_runtime empty_world = (Inl ''reverted'', w') \<and>
     pool_admin provider (sent w') = Some helper"
proof -
  obtain w' where run: "sample_configuration broken_runtime empty_world = (Inl ''reverted'', w')"
    and changed: "w' \<noteq> empty_world"
    using sample_configuration_runs by blast
  from failed_configuration_keeps_helper [OF run [unfolded sample_configuration_def] broken_runtime_simps(1)]
    changed run show ?thesis by auto
qed


subsection \<open>Initial borrow rates\<close>

lemma mapR_map: "mapR f xs = Inr ys \<Longrightarrow> list_all2 (\<lambda>x y. f x = Inr y) xs ys"
proof (induction xs arbitrary: ys)
  case (Cons x xs)
  then show ?case by (auto simp: andThen_Inr)
qed simp

lemma mapR_Inl: "mapR f xs = Inl e \<Longrightarrow> \<exists>x \<in> set xs. f x = Inl e"
  by (induction xs) (auto simp: andThen_def split: sum.splits)

definition rates_batch :: "string \<Rightarrow> string \<Rightarrow> string \<Rightarrow> (string \<times> string) list \<Rightarrow> tx" where
  "rates_batch helper oracle signer c =
     callTx helper ''setOracleBorrowRates''
       [AList (map (AAddress \<circ> fst) c), AList (map (AString \<circ> snd) c), AAddress oracle] signer"

lemma rates_batches_skip:
  "list_all (\<lambda>t. txMethod t \<noteq> ''transferOwnership'' \<and> txMethod t \<noteq> ''setOracleOwnership'')
    (map (rates_batch h r s) cs)"
  by (simp add: list_all_iff rates_batch_def callTx_def)

definition rate_row :: "string obj \<Rightarrow> string \<times> IMarketRates \<Rightarrow> string + (string \<times> string)" where
  "rate_row addresses = (\<lambda>(assetSymbol, rates). andThen (addressOf addresses assetSymbol)
     (\<lambda>assetAddress. Inr (assetAddress, borrowRate rates)))"

lemma borrow_rates_sent:
  assumes s: "getFirstSigner R = Some s"
    and h: "getStableAndVariableTokensHelper R None w = (Inr helper, w)"
    and run: "setInitialMarketRatesInRatesOracleByHelper R rates addresses oracle admin w = (Inr (), w')"
    and Inr: "mapR (rate_row addresses) rates = Inr rows"
  shows "sent w' = sent w @ callTx oracle ''transferOwnership'' [AAddress helper] s #
      map (rates_batch helper oracle s) (chunk rows 20) @
      [callTx helper ''setOracleOwnership'' [AAddress oracle, AAddress admin] s] \<and>
    list_all (\<lambda>k. oracle_owner oracle (sent w @ callTx oracle ''transferOwnership'' [AAddress helper] s #
        map (rates_batch helper oracle s) (take k (chunk rows 20))) = Some helper)
      [0..<length (chunk rows 20)] \<and>
    oracle_owner oracle (sent w') = Some admin"
proof -
  define w2 where "w2 = w\<lparr>sent := sent w @ [callTx oracle ''transferOwnership'' [AAddress helper] s]\<rparr>"
  have c: "chunk (map fst rows) 20 = map (map fst) (chunk rows 20)"
    "chunk (map snd rows) 20 = map (map snd) (chunk rows 20)"
    by (simp_all add: chunk_chunks_of map_chunks_of)
  from run Inr s obtain w3 where
    l: "forA [0..<length (chunk rows 20)] (\<lambda>chunkIndex. callFrom R helper ''setOracleBorrowRates''
        [AList (map AAddress (chunk (map fst rows) 20 ! chunkIndex)),
         AList (map AString (chunk (map snd rows) 20 ! chunkIndex)), AAddress oracle]) w2 = (Inr (), w3)" and
    e: "w' = w3\<lparr>sent := sent w3 @ [callTx helper ''setOracleOwnership'' [AAddress oracle, AAddress admin] s]\<rparr>"
    by (auto simp: setInitialMarketRatesInRatesOracleByHelper_def rate_row_def [symmetric] Let_def bindA_Inr thenA_Inr
        h callFrom_Inr w2_def c)
  have "map (\<lambda>i. callTx helper ''setOracleBorrowRates''
        [AList (map AAddress (chunk (map fst rows) 20 ! i)),
         AList (map AString (chunk (map snd rows) 20 ! i)), AAddress oracle] s) [0..<length (chunk rows 20)] =
      map (\<lambda>i. rates_batch helper oracle s (chunk rows 20 ! i)) [0..<length (chunk rows 20)]"
    by (rule map_cong) (simp_all add: c rates_batch_def)
  with sent_forA_calls [OF l s] have "sent w3 = sent w2 @ map (rates_batch helper oracle s) (chunk rows 20)"
    by (simp add: chunk_nth_map)
  then have sent: "sent w' = sent w @ callTx oracle ''transferOwnership'' [AAddress helper] s #
      map (rates_batch helper oracle s) (chunk rows 20) @
      [callTx helper ''setOracleOwnership'' [AAddress oracle, AAddress admin] s]"
    by (simp add: e w2_def)
  have during: "oracle_owner oracle (sent w @ callTx oracle ''transferOwnership'' [AAddress helper] s #
      map (rates_batch helper oracle s) cs) = Some helper" for cs
    using oracle_owner_skip [OF rates_batches_skip, of "oracle"
        "sent w @ [callTx oracle ''transferOwnership'' [AAddress helper] s]"]
    by (simp add: oracle_owner_append)
  have "oracle_owner oracle (sent w') = Some admin"
    using oracle_owner_append(2) [OF during] sent by simp
  with sent during show ?thesis by (auto simp: list_all_iff)
qed

text \<open>Initial borrow rates.  A successful run transfers the rate oracle to the helper contract,
  sends the configured rates in order in batches of at most twenty, each address beside the rate
  of its own symbol, while the helper owns the oracle, and has the helper transfer it to the
  given administrator.  If some configured symbol has no address nothing is sent.\<close>

theorem borrow_rates_handover:
  assumes s: "getFirstSigner R = Some s"
    and h: "getStableAndVariableTokensHelper R None w = (Inr helper, w)"
    and run: "setInitialMarketRatesInRatesOracleByHelper R rates addresses oracle admin w = (v, w')"
  shows "if \<exists>sy \<in> fst ` set rates. find_entry addresses sy = None then (\<exists>e. v = Inl e) \<and> w' = w
    else v = Inr () \<longrightarrow> (\<exists>rows.
      list_all2 (\<lambda>(sy, r) (a, b). find_entry addresses sy = Some (sy, a) \<and> b = borrowRate r) rates rows \<and>
      sent w' = sent w @ callTx oracle ''transferOwnership'' [AAddress helper] s #
        map (rates_batch helper oracle s) (chunk rows 20) @
        [callTx helper ''setOracleOwnership'' [AAddress oracle, AAddress admin] s] \<and>
      concat (chunk rows 20) = rows \<and> list_all (\<lambda>c. length c \<le> 20) (chunk rows 20) \<and>
      list_all (\<lambda>k. oracle_owner oracle (sent w @ callTx oracle ''transferOwnership'' [AAddress helper] s #
          map (rates_batch helper oracle s) (take k (chunk rows 20))) = Some helper)
        [0..<length (chunk rows 20)] \<and>
      oracle_owner oracle (sent w') = Some admin)"
proof -
  show ?thesis
  proof (cases "mapR (rate_row addresses) rates")
    case (Inl e)
    then obtain sy r where "(sy, r) \<in> set rates" "rate_row addresses (sy, r) = Inl e" by (auto dest: mapR_Inl)
    then have "\<exists>sy \<in> fst ` set rates. find_entry addresses sy = None"
      by (force simp: rate_row_def addressOf_def split: option.splits)
    moreover from run Inl have "v = Inl e \<and> w' = w"
      by (simp add: setInitialMarketRatesInRatesOracleByHelper_def rate_row_def bindA_def h)
    ultimately show ?thesis by simp
  next
    case (Inr rows)
    have each: "list_all2 (\<lambda>(sy, r) (a, b). find_entry addresses sy = Some (sy, a) \<and> b = borrowRate r) rates rows"
      using mapR_map [OF Inr]
      by (rule list_all2_mono) (auto simp: rate_row_def addressOf_def find_entry_map_of andThen_Inr split: option.splits)
    then have some: "\<not> (\<exists>sy \<in> fst ` set rates. find_entry addresses sy = None)"
      by (fastforce simp: list_all2_conv_all_nth in_set_conv_nth)
    have handed: "\<exists>rows. list_all2 (\<lambda>(sy, r) (a, b). find_entry addresses sy = Some (sy, a) \<and> b = borrowRate r) rates rows \<and>
      sent w' = sent w @ callTx oracle ''transferOwnership'' [AAddress helper] s #
        map (rates_batch helper oracle s) (chunk rows 20) @
        [callTx helper ''setOracleOwnership'' [AAddress oracle, AAddress admin] s] \<and>
      concat (chunk rows 20) = rows \<and> list_all (\<lambda>c. length c \<le> 20) (chunk rows 20) \<and>
      list_all (\<lambda>k. oracle_owner oracle (sent w @ callTx oracle ''transferOwnership'' [AAddress helper] s #
          map (rates_batch helper oracle s) (take k (chunk rows 20))) = Some helper)
        [0..<length (chunk rows 20)] \<and>
      oracle_owner oracle (sent w') = Some admin" if ok: "v = Inr ()"
      using borrow_rates_sent [OF s h run [unfolded ok] Inr] each chunk_twenty [of rows]
      by (intro exI [of _ rows]) blast
    show ?thesis
      unfolding if_not_P [OF some] by (rule impI) (rule handed)
  qed
qed

theorem borrow_rates_handover_witness:
  "\<exists>w'. setInitialMarketRatesInRatesOracleByHelper sample_runtime
       [(''DAI'', \<lparr>borrowRate = ''39''\<rparr>), (''USDC'', \<lparr>borrowRate = ''27''\<rparr>)] sample_tokens ''0x0AC1E'' ''0xAdmin''
       (registered sample_runtime ''StableAndVariableTokensHelper'' ''0x4E1'' None empty_world) = (Inr (), w') \<and>
     oracle_owner ''0x0AC1E'' (sent w') = Some ''0xAdmin''"
proof -
  define w0 where "w0 = registered sample_runtime ''StableAndVariableTokensHelper'' ''0x4E1'' None empty_world"
  have h: "getStableAndVariableTokensHelper sample_runtime None w0 = (Inr ''0x4E1'', w0)"
    using connectedAddress_registered(1) [of sample_runtime "''StableAndVariableTokensHelper''" w0]
    by (simp add: getStableAndVariableTokensHelper_def w0_def readDb_registered [OF sample_runtime_ok(1)] plain_key_def)
  obtain w' where run: "setInitialMarketRatesInRatesOracleByHelper sample_runtime
       [(''DAI'', \<lparr>borrowRate = ''39''\<rparr>), (''USDC'', \<lparr>borrowRate = ''27''\<rparr>)] sample_tokens ''0x0AC1E'' ''0xAdmin''
       w0 = (Inr (), w')"
    by (simp add: setInitialMarketRatesInRatesOracleByHelper_def h sample_tokens_def addressOf_def Let_def
        bindA_Inr thenA_Inr callFrom_Inr sample_signer broken_runtime_simps chunk_chunks_of numeral_eq_Suc)
  from borrow_rates_handover [OF sample_signer h run] run show ?thesis
    by (auto simp: sample_tokens_def w0_def)
qed

end
