(* ===== verification/MarketClaims.thy ===== *)
theory MarketClaims
  imports SolidityRates Markets
begin

text \<open>
  The parameters of the Palmy market against the checks of the contracts that receive them.
\<close>

subsection \<open>Validation of collateral parameters\<close>

text \<open>\<open>LendingPoolConfigurator.configureReserveAsCollateral\<close> and the setters of
  \<open>ReserveConfiguration.sol\<close> it calls, up to the check that a reserve disabled as collateral holds no
  liquidity (\<open>noLiquidity\<close>); the result is the configuration written.\<close>

record collateral_config =
  ccLtv :: uint256
  ccLiquidationThreshold :: uint256
  ccLiquidationBonus :: uint256

definition sol_configureReserveAsCollateral ::
  "uint256 \<Rightarrow> uint256 \<Rightarrow> uint256 \<Rightarrow> bool \<Rightarrow> string + collateral_config" where
  "sol_configureReserveAsCollateral ltv liqThreshold liqBonus noLiquidity =
     (if \<not> ltv \<le> liqThreshold then Inl ''75''
      else andThen
        (if liqThreshold \<noteq> 0
         then if \<not> liqBonus > 10000 then Inl ''75''
              else andThen (sol_percentMul liqThreshold liqBonus) (\<lambda>m.
                if \<not> m \<le> 10000 then Inl ''75'' else Inr ())
         else if liqBonus \<noteq> 0 then Inl ''75''
              else if noLiquidity then Inr () else Inl ''34'')
        (\<lambda>_.
          if \<not> ltv \<le> 65535 then Inl ''67''
          else if \<not> liqThreshold \<le> 65535 then Inl ''68''
          else if \<not> liqBonus \<le> 65535 then Inl ''69''
          else Inr \<lparr>ccLtv = ltv, ccLiquidationThreshold = liqThreshold, ccLiquidationBonus = liqBonus\<rparr>))"

subsection \<open>The parameters of the market\<close>

lemma literals:
  "canonical ''8000''" "num ''8000'' = 8000"
  "canonical ''8500''" "num ''8500'' = 8500"
  "canonical ''10500''" "num ''10500'' = 10500"
  "canonical ''1000''" "num ''1000'' = 1000"
  "canonical ''6''" "num ''6'' = 6"
  "canonical ''18''" "num ''18'' = 18"
  "canonical ''7000''" "num ''7000'' = 7000"
  "canonical ''7500''" "num ''7500'' = 7500"
  "canonical ''11000''" "num ''11000'' = 11000"
  "canonical ''2000''" "num ''2000'' = 2000"
  "canonical ''0''" "num ''0'' = 0"
  "canonical ''5500''" "num ''5500'' = 5500"
  "canonical ''11500''" "num ''11500'' = 11500"
  by code_simp+

lemma ray_times_literal:
  "canonical (ray_times d p)" "num (ray_times d p) = 10 ^ 27 * d div 10 ^ p"
  by (simp_all add: ray_times_def multiplied_def oneRay_def)

text \<open>The parameters pass the checks of the contracts and are written unchanged.\<close>

definition accepted_collateral :: "IReserveParams \<Rightarrow> bool" where
  "accepted_collateral p \<longleftrightarrow>
     (case sol_configureReserveAsCollateral (word_of_int (num (baseLTVAsCollateral p)))
        (word_of_int (num (liquidationThreshold p))) (word_of_int (num (liquidationBonus p))) True of
        Inl e \<Rightarrow> False
      | Inr c \<Rightarrow> uint (ccLtv c) = num (baseLTVAsCollateral p) \<and>
          uint (ccLiquidationThreshold c) = num (liquidationThreshold p) \<and>
          uint (ccLiquidationBonus c) = num (liquidationBonus p))"

definition valid_reserve :: "IReserveParams \<Rightarrow> bool" where
  "valid_reserve p \<longleftrightarrow> sane_params p \<and> small_params p \<and> accepted_collateral p \<and>
     canonical (baseLTVAsCollateral p) \<and> canonical (liquidationThreshold p) \<and>
     canonical (liquidationBonus p) \<and> canonical (reserveDecimals p) \<and>
     0 \<le> num (reserveDecimals p) \<and> num (reserveDecimals p) \<le> 255"

lemmas market_defs =
  strategyUSDC_def strategyUSDT_def strategyWBTC_def strategyDAIForTest_def strategyWETH_def
  strategyWOAS_def strategyMCHC_def rateStrategyStable_def rateStrategyWBTC_def rateStrategyWETH_def
  rateStrategyWOAS_def rateStrategyStableTwo_def rateStrategyMCHC_def

lemma sol_percentMul_small:
  assumes "0 \<le> a" "a \<le> 65535" "0 \<le> b" "b \<le> 65535"
  shows "\<exists>m. sol_percentMul (word_of_int a) (word_of_int b) = Inr m"
proof (cases "b = 0")
  case False
  have c: "uint (max_uint - sol_HALF_PERCENT) = 2 ^ 256 - 5001"
    using uint_sub_exact [of sol_HALF_PERCENT max_uint] uint_lt [of sol_HALF_PERCENT]
    by (simp add: word_le_def uint_max)
  have "65535 * b \<le> 2 ^ 256 - 5001" using assms by simp
  then have "65535 \<le> (2 ^ 256 - 5001) div b"
    using assms False zdiv_mono1 [of "65535 * b" "2 ^ 256 - 5001" b] by simp
  then have "(word_of_int a :: uint256) \<le> (max_uint - sol_HALF_PERCENT) div word_of_int b"
    using assms by (simp add: word_le_def uint_div_distrib c uint_of_small ray_unit_def)
  then show ?thesis by (cases "(word_of_int a :: uint256) = 0 \<or> (word_of_int b :: uint256) = 0") (auto simp only: sol_percentMul_def if_True if_False require_def simp_thms)
qed (auto simp: sol_percentMul_def simp del: word_uint_eq_iff intro: exI [of _ 0])

lemma accepted_collateralI:
  assumes "num (baseLTVAsCollateral p) = l" "num (liquidationThreshold p) = t" "num (liquidationBonus p) = b"
    "0 \<le> l" "l \<le> t" "t \<le> 65535" "0 \<le> b" "b \<le> 65535" "t = 0 \<Longrightarrow> b = 0"
    "t \<noteq> 0 \<Longrightarrow> 10000 < b \<and> percent_mul t b \<le> 10000"
  shows "accepted_collateral p"
proof -
  have u: "uint (word_of_int l :: uint256) = l" "uint (word_of_int t :: uint256) = t"
    "uint (word_of_int b :: uint256) = b"
    using assms by (simp_all add: uint_of_small ray_unit_def)
  from sol_percentMul_small [of t b] assms obtain m where
    m: "sol_percentMul (word_of_int t) (word_of_int b) = Inr m" by auto
  from sol_percentMul_exact [OF m] have "uint m = percent_mul t b" by (simp add: u)
  then show ?thesis
    using assms m
    by (auto simp: accepted_collateral_def sol_configureReserveAsCollateral_def word_le_def word_less_def u
        word_uint_eq_iff split: sum.splits)
qed

lemma accepted_collaterals:
  "accepted_collateral strategyWETH" "accepted_collateral strategyWOAS" "accepted_collateral strategyUSDC"
  "accepted_collateral strategyUSDT" "accepted_collateral strategyWBTC" "accepted_collateral strategyMCHC"
  "accepted_collateral strategyDAIForTest"
  subgoal by (rule accepted_collateralI [of _ 8000 8500 10500])
      (simp_all add: market_defs literals percent_mul_def fixed_mul_def)
  subgoal by (rule accepted_collateralI [of _ 0 5500 11500])
      (simp_all add: market_defs literals percent_mul_def fixed_mul_def)
  subgoal by (rule accepted_collateralI [of _ 8000 8500 10500])
      (simp_all add: market_defs literals percent_mul_def fixed_mul_def)
  subgoal by (rule accepted_collateralI [of _ 8000 8500 10500])
      (simp_all add: market_defs literals percent_mul_def fixed_mul_def)
  subgoal by (rule accepted_collateralI [of _ 7000 7500 11000])
      (simp_all add: market_defs literals percent_mul_def fixed_mul_def)
  subgoal by (rule accepted_collateralI [of _ 0 0 0])
      (simp_all add: market_defs literals)
  subgoal by (rule accepted_collateralI [of _ 7500 8000 10500])
      (simp_all add: market_defs literals percent_mul_def fixed_mul_def)
  done

lemma sane_markets:
  "sane_params strategyWETH" "sane_params strategyWOAS" "sane_params strategyUSDC"
  "sane_params strategyUSDT" "sane_params strategyWBTC" "sane_params strategyMCHC"
  "sane_params strategyDAIForTest"
  by (simp_all add: sane_params_def market_defs literals ray_times_literal ray_unit_def)

lemma small_markets:
  "small_params strategyWETH" "small_params strategyWOAS" "small_params strategyUSDC"
  "small_params strategyUSDT" "small_params strategyWBTC" "small_params strategyMCHC"
  "small_params strategyDAIForTest"
  by (simp_all add: small_params_def market_defs literals ray_times_literal ray_unit_def)

lemma valid_reserves:
  "valid_reserve strategyWETH" "valid_reserve strategyWOAS" "valid_reserve strategyUSDC"
  "valid_reserve strategyUSDT" "valid_reserve strategyWBTC" "valid_reserve strategyMCHC"
  "valid_reserve strategyDAIForTest"
  by (simp_all add: valid_reserve_def sane_markets small_markets accepted_collaterals)
    (simp_all add: market_defs literals)

text \<open>C38: The market's parameters are valid.  For every reserve of the Palmy market and the DAI reserve
  of the tests, the literals are decimal numbers, the interest strategy has its kink strictly
  between 0 and 1 and non-negative slopes small enough for the contract comparison, the contracts
  accept the collateral parameters and store them unchanged, and the reserve factor and decimals
  fit their fields; and reserves that share a strategy name share the strategy, so that deploying
  one contract per name is right.\<close>

theorem market_parameters_valid:
  "list_all (valid_reserve \<circ> snd) ((''DAI'', strategyDAIForTest) # ReservesConfig PalmyConfig) \<and>
   (let strategies = map (strategy \<circ> snd) (ReservesConfig PalmyConfig)
    in length (remdups (map strategyName strategies)) = length (remdups strategies)) \<and>
   list_all (configured (ReservesConfig PalmyConfig)) (map fst (ReservesConfig PalmyConfig))"
proof -
  have r: "ReservesConfig PalmyConfig =
     [(''WETH'', strategyWETH), (''WOAS'', strategyWOAS), (''USDC'', strategyUSDC),
      (''USDT'', strategyUSDT), (''WBTC'', strategyWBTC), (''MCHC'', strategyMCHC)]"
    by (simp add: PalmyConfig_def)
  have st: "strategy strategyWETH = rateStrategyWETH" "strategy strategyWOAS = rateStrategyWOAS"
    "strategy strategyUSDC = rateStrategyStable" "strategy strategyUSDT = rateStrategyStable"
    "strategy strategyWBTC = rateStrategyWBTC" "strategy strategyMCHC = rateStrategyMCHC"
    by (simp_all add: strategyWETH_def strategyWOAS_def strategyUSDC_def strategyUSDT_def strategyWBTC_def
        strategyMCHC_def)
  have d: "distinct (map strategyName
      [rateStrategyWETH, rateStrategyWOAS, rateStrategyStable, rateStrategyWBTC, rateStrategyMCHC])"
    by (simp add: market_defs)
  then have "distinct [rateStrategyWETH, rateStrategyWOAS, rateStrategyStable, rateStrategyWBTC, rateStrategyMCHC]"
    unfolding distinct_map by (rule conjunct1)
  with d have "let strategies = map (strategy \<circ> snd) (ReservesConfig PalmyConfig)
    in length (remdups (map strategyName strategies)) = length (remdups strategies)"
    by (simp add: r st)
  moreover have "list_all (valid_reserve \<circ> snd) ((''DAI'', strategyDAIForTest) # ReservesConfig PalmyConfig)"
    by (simp add: r valid_reserves)
  moreover have "list_all (configured (ReservesConfig PalmyConfig)) (map fst (ReservesConfig PalmyConfig))"
    by (simp add: r configured_def strategy_of_def sane_markets)
  ultimately show ?thesis by blast
qed

end
