(* ===== verification/TaskClaims.thy ===== *)
theory TaskClaims
  imports Tasks HandoverClaims MarketClaims
begin

text \<open>
  Properties of the initialisation tasks: the proxies they register, the rates they set and the
  inputs they launch reserves with.
\<close>

subsection \<open>The lending pool\<close>

lemma connected_pure: "connectedAddress R i None w = (Inr a, w') \<longleftrightarrow> w' = w \<and> (\<exists>e. readDb R i w = Some e \<and> a = entryAddress e)"
  by (auto simp: connectedAddress_def databaseAddress_def truthy_def split: option.splits)

text \<open>C14: Initialising the lending pool registers the proxies.  A successful run sets the pool
  implementation and then the configurator implementation at the addresses provider, reads each
  proxy right after its implementation was set, initialises the two helpers with exactly these
  proxies, and leaves the database such that the getters of pool and configurator return the
  proxies while the getter of the pool implementation still returns the implementation.\<close>

theorem lending_pool_proxies_registered:
  assumes R: "stored R" and s: "getFirstSigner R = Some s"
    and run: "initializeLendingPool R V w = (Inr u, w')"
  shows "\<exists>impl provider configuratorImpl helper ratesHelper pool configurator.
    getLendingPoolImpl R None w = (Inr impl, w) \<and>
    getLendingPoolAddressesProvider R None w = (Inr provider, w) \<and>
    getLendingPoolConfiguratorImpl R None w = (Inr configuratorImpl, w) \<and>
    pool = vwLendingPool V (sent w @ [callTx provider ''setLendingPoolImpl'' [AAddress impl] s]) provider \<and>
    configurator = vwLendingPoolConfigurator V
      (sent w @ [callTx provider ''setLendingPoolImpl'' [AAddress impl] s,
        callTx provider ''setLendingPoolConfiguratorImpl'' [AAddress configuratorImpl] s]) provider \<and>
    sent w' = sent w @
      [callTx provider ''setLendingPoolImpl'' [AAddress impl] s,
       callTx provider ''setLendingPoolConfiguratorImpl'' [AAddress configuratorImpl] s,
       callTx helper ''initialize'' [AAddress pool, AAddress provider] s,
       callTx ratesHelper ''initialize'' [AAddress pool, AAddress provider, AAddress configurator] s] \<and>
    getLendingPool R None w' = (Inr pool, w') \<and>
    getLendingPoolConfiguratorProxy R None w' = (Inr configurator, w') \<and>
    getLendingPoolImpl R None w' = (Inr impl, w')"
proof -
  have keys: "plain_key ''LendingPool''" "plain_key ''LendingPoolConfigurator''" "plain_key ''LendingPoolImpl''"
    "plain_key ''LendingPoolConfiguratorImpl''"
    by (simp_all add: plain_key_def)
  note registered = readDb_registered [OF R keys(1)] readDb_registered [OF R keys(2)]
  show ?thesis
    using run
    by (auto simp: initializeLendingPool_def deployment_rules guardA_Inr getter_defs connected_pure keys registered s)
qed

subsection \<open>Oracles\<close>

lemma reserve_assets_networks:
  "obj_keys (ReserveAssets PalmyConfig) = [''buidlerevm'', ''hardhat'', ''coverage'', ''tenderly'', ''testnet'', ''oasys'']"
  "map_of (ReserveAssets PalmyConfig) ''hardhat'' = Some []"
  by (simp_all add: PalmyConfig_def obj_keys_def)

lemma rate_symbols:
  "map fst (LendingRateOracleRatesCommon PalmyConfig) = [''WETH'', ''WOAS'', ''USDT'', ''USDC'', ''WBTC'']"
  by (simp add: PalmyConfig_def CommonsConfig_def)

text \<open>Every initial borrow rate has an address.  On every network of the market, the rates that the
  oracle initialisation takes are rates of symbols with an address among the tokens it passes on,
  so that setting them never stops at a missing address, although the market configures rates for
  symbols that are not listed on every network.\<close>

theorem oracle_rates_have_addresses:
  assumes "\<not> truthy (envFORK (rtEnv R))" "thisNetwork R \<in> set (obj_keys (ReserveAssets PalmyConfig))"
    "getLendingRateOracles R PalmyConfig = Inr rates"
    "getParamPerNetwork (rtEnv R) (Some (ReserveAssets PalmyConfig)) (thisNetwork R) = Inr (Some assets)"
  shows "\<forall>sy \<in> fst ` set rates. find_entry (omit (obj_set assets ''USD'' usd) [''USD'']) sy \<noteq> None"
proof
  fix sy assume sy: "sy \<in> fst ` set rates"
  from assms(2) obtain listed where l: "map_of (ReserveAssets PalmyConfig) (thisNetwork R) = Some listed"
    by (metis keys_present option.exhaust)
  with assms(1,3) have rates: "rates = filterMapBy (LendingRateOracleRatesCommon PalmyConfig)
      (\<lambda>key. key \<in> set (obj_keys listed))"
    by (simp add: getLendingRateOracles_def forkOrNetwork_def)
  from sy have "map_of rates sy \<noteq> None" by (simp add: map_of_eq_None_iff)
  then have k: "sy \<in> set (obj_keys listed)" "sy \<in> set (map fst (LendingRateOracleRatesCommon PalmyConfig))"
    unfolding rates by (auto simp: filterMapBy_lookup dest: map_of_SomeD intro: rev_image_eqI split: if_splits)
  then have "thisNetwork R \<noteq> ''hardhat''" using l reserve_assets_networks(2) by (auto simp: obj_keys_def)
  then have "listed = assets"
    using assms(1,2,4) l unfolding reserve_assets_networks
    by (auto simp: getParamPerNetwork_def)
  with k(1) have "map_of assets sy \<noteq> None" by (simp add: keys_present)
  moreover have "sy \<noteq> ''USD''" using k(2) unfolding rate_symbols by auto
  ultimately show "find_entry (omit (obj_set assets ''USD'' usd) [''USD'']) sy \<noteq> None"
    by (simp add: find_entry_map_of omit_lookup map_of_obj_set)
qed

subsection \<open>Launching reserves\<close>

text \<open>What \<open>batchInitReserve\<close> is given at launch.  For events that come one per reserve in the order
  of the request, there is one input per event; the input at each position names the reserve at
  that position, its underlying asset and the strategy the event reports, but carries the decimals
  of the first reserve: the lookup by symbol compares the symbol with itself.  For the reserves the
  market launches all decimals agree, so that there the input is the intended one.\<close>

definition input_decimals :: "arg \<Rightarrow> arg" where
  "input_decimals i = (case i of AList xs \<Rightarrow> xs ! 3 | a \<Rightarrow> a)"

definition launch_row :: "string obj \<Rightarrow> string \<Rightarrow> string \<times> string \<Rightarrow> arg \<Rightarrow> bool" where
  "launch_row assets sy ev i \<longleftrightarrow>
     (\<exists>xs. i = AList xs \<and> length xs = 16 \<and> xs ! 4 = AAddress (snd ev) \<and>
       xs ! 5 = address_arg (map_of assets sy) \<and> xs ! 8 = AString sy)"

theorem launch_inputs:
  assumes "reservesConfig \<noteq> []" "length events = length reservesConfig"
  shows "\<exists>inputs. mapR (launchInput cfg assets reservesConfig impl treasury incentives)
      (lTokensAndStrategies events reservesConfig) = Inr inputs \<and>
    length inputs = length events \<and>
    list_all (\<lambda>i. launch_row assets (fst (reservesConfig ! i)) (events ! i) (inputs ! i))
      [0..<length events] \<and>
    list_all (\<lambda>i. input_decimals i = AString (reserveDecimals (snd (hd reservesConfig)))) inputs \<and>
    list_all (\<lambda>(sy, p). reserveDecimals p = ''18'') (reservesConfigAtLaunch PalmyConfig)"
proof -
  have "distinct (map fst (ReservesConfig PalmyConfig))" by (simp add: PalmyConfig_def)
  then have "list_all (\<lambda>(sy, p). reserveDecimals p = ''18'') (reservesConfigAtLaunch PalmyConfig)"
    unfolding reservesConfigAtLaunch_def by (simp only: omit_entries)
      (simp add: PalmyConfig_def market_defs)
  note launched = this
  obtain k p rest where c: "reservesConfig = (k, p) # rest" using assms(1) by (cases reservesConfig) auto
  define f where "f = launchInput cfg assets reservesConfig impl treasury incentives"
  define rows where "rows = lTokensAndStrategies events reservesConfig"
  have f: "\<exists>i. f (Some sy, l, st) = Inr i \<and> launch_row assets sy (l, st) i \<and>
      input_decimals i = AString (reserveDecimals p)" for sy l st
    by (simp add: f_def launchInput_def c Let_def launch_row_def input_decimals_def)
  then obtain g where g: "\<And>sy l st. f (Some sy, l, st) = Inr (g sy l st) \<and>
      launch_row assets sy (l, st) (g sy l st) \<and> input_decimals (g sy l st) = AString (reserveDecimals p)"
    by metis
  have rows: "rows = map (\<lambda>i. (Some (fst (reservesConfig ! i)), fst (events ! i), snd (events ! i))) [0..<length events]"
    using assms(2) by (auto simp: rows_def lTokensAndStrategies_def at_index_def obj_keys_def)
  have m: "mapR f (map (\<lambda>i. (Some (a i), b i, d i)) is) = Inr (map (\<lambda>i. g (a i) (b i) (d i)) is)"
    for a b d and "is" :: "nat list"
    using g by (induction "is") simp_all
  have "mapR f rows = Inr (map (\<lambda>i. g (fst (reservesConfig ! i)) (fst (events ! i)) (snd (events ! i))) [0..<length events])"
    unfolding rows by (rule m)
  moreover have "launch_row assets sy ev (g sy (fst ev) (snd ev))" for sy ev
    using g [of sy "fst ev" "snd ev"] by simp
  ultimately show ?thesis
    using g launched unfolding f_def rows_def by (auto simp: list_all_iff c)
qed

theorem launch_inputs_witness:
  "\<exists>inputs. mapR (launchInput PalmyConfig [] [(''WETH'', strategyWETH), (''USDC'', strategyUSDC)]
        \<lparr>implLToken = ''0x1'', implStable = ''0x2'', implVariable = ''0x3''\<rparr> None None)
      (lTokensAndStrategies [(''0xL1'', ''0x51''), (''0xL2'', ''0x52'')]
        [(''WETH'', strategyWETH), (''USDC'', strategyUSDC)]) = Inr inputs \<and>
    map input_decimals inputs = [AString ''18'', AString ''18''] \<and> reserveDecimals strategyUSDC = ''6''"
proof -
  let ?c = "[(''WETH'', strategyWETH), (''USDC'', strategyUSDC)]"
  from launch_inputs [of ?c "[(''0xL1'', ''0x51''), (''0xL2'', ''0x52'')]" PalmyConfig "[]"
      "\<lparr>implLToken = ''0x1'', implStable = ''0x2'', implVariable = ''0x3''\<rparr>" None None]
  obtain inputs where i: "mapR (launchInput PalmyConfig [] ?c
        \<lparr>implLToken = ''0x1'', implStable = ''0x2'', implVariable = ''0x3''\<rparr> None None)
      (lTokensAndStrategies [(''0xL1'', ''0x51''), (''0xL2'', ''0x52'')] ?c) = Inr inputs"
    "length inputs = 2" "list_all (\<lambda>i. input_decimals i = AString (reserveDecimals strategyWETH)) inputs"
    by auto
  from i(2) obtain a b where "inputs = [a, b]" by (auto simp: numeral_2_eq_2 length_Suc_conv)
  with i show ?thesis by (simp add: strategyWETH_def strategyUSDC_def)
qed

theorem oracle_rates_have_addresses_witness:
  "\<exists>rates. getLendingRateOracles sample_runtime PalmyConfig = Inr rates \<and>
    (\<forall>sy \<in> fst ` set rates. find_entry (omit (obj_set
       (the (map_of (ReserveAssets PalmyConfig) ''oasys'')) ''USD'' ''0xUSD'') [''USD'']) sy \<noteq> None)"
proof -
  have n: "thisNetwork sample_runtime = ''oasys''" "\<not> truthy (envFORK (rtEnv sample_runtime))"
    by (simp_all add: sample_runtime_def truthy_def)
  obtain assets where a: "map_of (ReserveAssets PalmyConfig) ''oasys'' = Some assets"
    using reserve_assets_networks(1) keys_present [of "''oasys''" "ReserveAssets PalmyConfig"] by auto
  then obtain rates where r: "getLendingRateOracles sample_runtime PalmyConfig = Inr rates"
    by (simp add: getLendingRateOracles_def forkOrNetwork_def n)
  have p: "getParamPerNetwork (rtEnv sample_runtime) (Some (ReserveAssets PalmyConfig))
      (thisNetwork sample_runtime) = Inr (Some assets)"
    using n a by (simp add: getParamPerNetwork_def)
  have k: "thisNetwork sample_runtime \<in> set (obj_keys (ReserveAssets PalmyConfig))"
    by (simp add: n reserve_assets_networks)
  from oracle_rates_have_addresses [OF n(2) k r p] r a show ?thesis by auto
qed

definition sample_deployment :: "json_db world" where
  "sample_deployment =
   \<lparr>sent = [],
    db = map (\<lambda>i. (i, [(''oasys'', address_only (''0x'' @ i))]))
      [''LendingPoolImpl'', ''LendingPoolAddressesProvider'', ''LendingPoolConfiguratorImpl'',
       ''StableAndVariableTokensHelper'', ''LTokensAndRatesHelper''],
    files = []\<rparr>"

definition sample_views :: views where
  "sample_views =
   \<lparr>vwLendingPool = \<lambda>ts a. ''0x9001'', vwLendingPoolConfigurator = \<lambda>ts a. ''0xCF'',
    vwInitEvents = \<lambda>ts. [], vwCollateralEnabled = \<lambda>ts a. False\<rparr>"

lemma sample_deployment_entries:
  "readDb sample_runtime ''LendingPoolImpl'' sample_deployment = Some (address_only ''0xLendingPoolImpl'')"
  "readDb sample_runtime ''LendingPoolAddressesProvider'' sample_deployment =
     Some (address_only ''0xLendingPoolAddressesProvider'')"
  "readDb sample_runtime ''LendingPoolConfiguratorImpl'' sample_deployment =
     Some (address_only ''0xLendingPoolConfiguratorImpl'')"
  "readDb sample_runtime ''StableAndVariableTokensHelper'' sample_deployment =
     Some (address_only ''0xStableAndVariableTokensHelper'')"
  "readDb sample_runtime ''LTokensAndRatesHelper'' sample_deployment =
     Some (address_only ''0xLTokensAndRatesHelper'')"
  by (simp_all add: readDb_def sample_runtime_def sample_deployment_def json_file_def json_get_def
      entry_path_def)

theorem lending_pool_proxies_registered_witness:
  "\<exists>w'. initializeLendingPool sample_runtime sample_views sample_deployment = (Inr (), w') \<and>
     getLendingPool sample_runtime None w' = (Inr ''0x9001'', w')"
proof -
  have keys: "plain_key ''LendingPool''" "plain_key ''LendingPoolConfigurator''" "plain_key ''LendingPoolImpl''"
    "plain_key ''LendingPoolConfiguratorImpl''" "plain_key ''StableAndVariableTokensHelper''"
    "plain_key ''LTokensAndRatesHelper''"
    by (simp_all add: plain_key_def)
  have valid: "sample_valid (Some ''0xStableAndVariableTokensHelper'')" "sample_valid (Some ''0xLTokensAndRatesHelper'')"
    by (simp_all add: sample_runtime_def notFalsyOrZeroAddress_def ZERO_ADDRESS_def)
  obtain w' where run: "initializeLendingPool sample_runtime sample_views sample_deployment = (Inr (), w')"
    by (simp add: initializeLendingPool_def deployment_rules guardA_Inr getter_defs connected_pure
        sample_deployment_entries readDb_registered [OF sample_runtime_ok(1)] keys valid sample_signer
        broken_runtime_simps sample_views_def)
  from lending_pool_proxies_registered [OF sample_runtime_ok(1) sample_signer run] run
  show ?thesis by (auto simp: sample_views_def)
qed

end
