(* ===== verification/Migrations.thy ===== *)
theory Migrations
  imports Tasks
begin

text \<open>
  The tasks that export and deploy the contracts of the market, \<open>tasks/deployments/\<close> and
  \<open>tasks/migrations/\<close>, and the ones that operate it afterwards, \<open>tasks/operations/\<close>,
  \<open>tasks/helpers/\<close> and \<open>tasks/misc/update_oracle.ts\<close>.  The chain id of the network configuration,
  which some tasks check, is an argument.
\<close>

subsection \<open>Exporting call data\<close>

text \<open>\<open>await saveDeploymentCallData(id, await exportDeploymentCallData(contract))\<close>\<close>

definition exportTo :: "'d runtime \<Rightarrow> string \<Rightarrow> string \<Rightarrow> ('d, unit) action" where
  "exportTo R contractId contract =
     bindA (exportDeploymentCallData R contract) (\<lambda>callData. saveDeploymentCallData R contractId callData)"

definition exportReserveLogic :: "'d runtime \<Rightarrow> ('d, unit) action" where
  "exportReserveLogic R = exportTo R ''ReserveLogic'' ''ReserveLogic''"

definition exportGenericLogic :: "'d runtime \<Rightarrow> ('d, unit) action" where
  "exportGenericLogic R =
     bindA (getContractAddressWithJsonFallback R ''ReserveLogic'' ''Palmy'') (\<lambda>reserveLogicAddress.
     bindA (exportGenericLogicDeploymentCallData R reserveLogicAddress) (\<lambda>callData.
     saveDeploymentCallData R ''GenericLogic'' callData))"

definition exportValidationLogic :: "'d runtime \<Rightarrow> ('d, unit) action" where
  "exportValidationLogic R =
     bindA (getContractAddressWithJsonFallback R ''ReserveLogic'' ''Palmy'') (\<lambda>reserveLogicAddress.
     bindA (getContractAddressWithJsonFallback R ''GenericLogic'' ''Palmy'') (\<lambda>genericLogicAddress.
     bindA (exportValidationLogicDeploymentCallData R reserveLogicAddress genericLogicAddress) (\<lambda>callData.
     saveDeploymentCallData R ''ValidationLogic'' callData)))"

definition exportLendingPoolAddressesProviderRegistry :: "'d runtime \<Rightarrow> ('d, unit) action" where
  "exportLendingPoolAddressesProviderRegistry R =
     exportTo R ''LendingPoolAddressesProviderRegistry'' ''LendingPoolAddressesProviderRegistry''"

definition exportLendingPoolAddressesProvider :: "'d runtime \<Rightarrow> ('d, unit) action" where
  "exportLendingPoolAddressesProvider R =
     exportTo R ''LendingPoolAddressesProvider'' ''LendingPoolAddressesProvider''"

definition exportLendingPool :: "'d runtime \<Rightarrow> ('d, unit) action" where
  "exportLendingPool R =
     thenA (bindA (exportLendingPoolCallData R) (\<lambda>callData.
       saveDeploymentCallData R ''LendingPoolImpl'' callData))
    (thenA (exportTo R ''LendingPoolConfiguratorImpl'' ''LendingPoolConfigurator'')
    (thenA (exportTo R ''StableAndVariableTokensHelper'' ''StableAndVariableTokensHelper'')
    (thenA (exportTo R ''LTokensAndRatesHelper'' ''LTokensAndRatesHelper'')
    (thenA (exportTo R ''LToken'' ''LToken'')
    (thenA (exportTo R ''StableDebtToken'' ''StableDebtToken'')
           (exportTo R ''VariableDebtToken'' ''VariableDebtToken''))))))"

text \<open>\<open>export-deploy-calldata-RateStrategies\<close> exports the lending pool, not rate strategies.\<close>

definition exportRateStrategies :: "'d runtime \<Rightarrow> ('d, unit) action" where
  "exportRateStrategies R =
     thenA (bindA (exportLendingPoolCallData R) (\<lambda>callData.
       saveDeploymentCallData R ''LendingPoolImpl'' callData))
    (thenA (exportTo R ''LendingPoolConfiguratorImpl'' ''LendingPoolConfigurator'')
    (thenA (exportTo R ''StableAndVariableTokensHelper'' ''StableAndVariableTokensHelper'')
    (thenA (exportTo R ''LTokensAndRatesHelper'' ''LTokensAndRatesHelper'')
    (thenA (exportTo R ''LToken'' ''LToken'')
    (thenA (exportTo R ''StableDebtToken'' ''StableDebtToken'')
           (exportTo R ''VariableDebtToken'' ''VariableDebtToken''))))))"

definition exportOracles :: "'d runtime \<Rightarrow> ('d, unit) action" where
  "exportOracles R =
     thenA (exportTo R ''LendingRateOracle'' ''LendingRateOracle'')
    (thenA (exportTo R ''PriceAggregatorAdapterChainsightImpl'' ''PriceAggregatorAdapterChainsightImpl'')
    (thenA (exportTo R ''PalmyFallbackOracle'' ''PalmyFallbackOracle'')
    (thenA (exportTo R ''PalmyOracle'' ''PalmyOracle'')
           (exportTo R ''ChainsightOracle'' ''ChainsightOracle''))))"

definition exportPalmyProtocolDataProvider :: "'d runtime \<Rightarrow> ('d, unit) action" where
  "exportPalmyProtocolDataProvider R = exportTo R ''PalmyProtocolDataProvider'' ''PalmyProtocolDataProvider''"

definition exportWETHGateway :: "'d runtime \<Rightarrow> ('d, unit) action" where
  "exportWETHGateway R = exportTo R ''WETHGateway'' ''WETHGateway''"

definition exportUIHelpers :: "'d runtime \<Rightarrow> ('d, unit) action" where
  "exportUIHelpers R =
     thenA (exportTo R ''LendingPoolCollateralManager'' ''LendingPoolCollateralManager'')
    (thenA (exportTo R ''UiPoolDataProviderV2'' ''UiPoolDataProviderV2'')
    (thenA (exportTo R ''WalletBalanceProvider'' ''WalletBalanceProvider'')
    (thenA (exportTo R ''UiIncentiveDataProviderV2'' ''UiIncentiveDataProviderV2'')
           (exportTo R ''StakeUIHelper'' ''StakeUIHelper''))))"

definition exportLendingPoolTmpAndV4 :: "'d runtime \<Rightarrow> ('d, unit) action" where
  "exportLendingPoolTmpAndV4 R =
     bindA (exportLendingPoolTmpAndV4CallData R) (\<lambda>(lendingPoolTmpData, lendingPoolV4Data).
     thenA (saveDeploymentCallData R ''LendingPoolTmpImpl'' lendingPoolTmpData)
           (saveDeploymentCallData R ''LendingPoolV4Impl'' lendingPoolV4Data))"

subsection \<open>Deploying exported call data\<close>

text \<open>A creation from raw call data.  The file is the one of \<open>testnet\<close> on every network.\<close>

definition creation :: "string \<Rightarrow> string \<Rightarrow> tx" where
  "creation signer calldata = deployTx ''data'' [AString calldata] signer"

definition deployToOasysTestnet :: "'d runtime \<Rightarrow> string \<Rightarrow> ('d, string) action" where
  "deployToOasysTestnet R contractId =
     (let file = callDataFile ''testnet'' contractId in
      bindA (readA (\<lambda>w. map_of (files w) file)) (\<lambda>content.
      bindA (requireA (''File '' @ file @ '' not found'') content) (\<lambda>calldata.
      bindA (requireA ''Cannot read properties of undefined'' (at_index (rtSigners R) 0)) (\<lambda>signer.
      bindA (readA (\<lambda>w. created (rtChain R) (sent w) (creation signer calldata))) (\<lambda>contractAddress.
      thenA (sendA (rtChain R) (creation signer calldata))
      (thenA (registerContractAddressInJsonDb R contractId contractAddress signer)
       (returnA contractAddress)))))))"

definition deployAndInsert :: "'d runtime \<Rightarrow> string list \<Rightarrow> ('d, unit) action" where
  "deployAndInsert R contracts =
     forA contracts (\<lambda>contract.
       bindA (deployToOasysTestnet R contract) (\<lambda>contractAddress.
       insertContractAddressInDb R contract contractAddress))"

definition DEPLOYMENT_CONTRACTS :: "string list" where
  "DEPLOYMENT_CONTRACTS =
    [''LendingPoolAddressesProviderRegistry'', ''LendingPoolAddressesProvider'', ''LendingPoolImpl'',
     ''LendingPoolConfiguratorImpl'', ''LendingRateOracle'', ''LToken'', ''PalmyFallbackOracle'',
     ''PalmyOracle'', ''PalmyProtocolDataProvider'', ''PriceAggregatorAdapterChainsightImpl'',
     ''ChainsightOracle'', ''StableAndVariableTokensHelper'', ''StakeUIHelper'',
     ''LTokensAndRatesHelper'', ''StableDebtToken'', ''VariableDebtToken'', ''WETHGateway'',
     ''LendingPoolCollateralManager'', ''UiPoolDataProviderV2'', ''UiIncentiveDataProviderV2'',
     ''WalletBalanceProvider'']"

definition oasysDeploymentLibraries :: "'d runtime \<Rightarrow> ('d, unit) action" where
  "oasysDeploymentLibraries R =
     (let deployed = (\<lambda>contract. whenA (thisNetwork R \<noteq> eOasysNetwork_value Oasys)
            (bindA (deployToOasysTestnet R contract) (\<lambda>_. returnA ())))
      in thenA (exportReserveLogic R) (thenA (deployed ''ReserveLogic'')
        (thenA (exportGenericLogic R) (thenA (deployed ''GenericLogic'')
        (thenA (exportValidationLogic R) (deployed ''ValidationLogic''))))))"

definition oasysDeployment :: "'d runtime \<Rightarrow> ('d, unit) action" where
  "oasysDeployment R =
     thenA (exportLendingPoolAddressesProviderRegistry R)
    (thenA (exportLendingPoolAddressesProvider R)
    (thenA (exportLendingPool R)
    (thenA (exportOracles R)
    (thenA (exportPalmyProtocolDataProvider R)
    (thenA (exportWETHGateway R)
    (thenA (exportUIHelpers R)
      (whenA (thisNetwork R \<noteq> eOasysNetwork_value Oasys) (deployAndInsert R DEPLOYMENT_CONTRACTS))))))))"

definition oasysDeploymentNewLendingPool :: "'d runtime \<Rightarrow> ('d, unit) action" where
  "oasysDeploymentNewLendingPool R =
     thenA (exportLendingPoolTmpAndV4 R)
      (whenA (thisNetwork R \<noteq> eOasysNetwork_value Oasys)
        (deployAndInsert R [''LendingPoolTmpImpl'', ''LendingPoolV4Impl'']))"

subsection \<open>Upgrading and verifying\<close>

definition requireChainId :: "nat option \<Rightarrow> ('d, unit) action" where
  "requireChainId chainId = guardA (chainId \<noteq> None \<and> chainId \<noteq> Some 0) ''INVALID_CHAIN_ID''"

definition upgradePoolV2ToV3 :: "'d runtime \<Rightarrow> nat option \<Rightarrow> ('d, unit) action" where
  "upgradePoolV2ToV3 R chainId =
     thenA (requireChainId chainId)
     (bindA (getLendingPoolAddressesProvider R None) (\<lambda>addressProvider.
      bindA (getLendingPoolTmpImpl R None) (\<lambda>impl.
      callFrom R addressProvider ''setLendingPoolImpl'' [AAddress impl])))"

definition upgradePoolV3ToV4 :: "'d runtime \<Rightarrow> nat option \<Rightarrow> ('d, unit) action" where
  "upgradePoolV3ToV4 R chainId =
     thenA (requireChainId chainId)
     (bindA (getLendingPoolAddressesProvider R None) (\<lambda>addressProvider.
      bindA (getLendingPoolV4Impl R None) (\<lambda>impl.
      callFrom R addressProvider ''setLendingPoolImpl'' [AAddress impl])))"

definition verification :: "'d runtime \<Rightarrow> nat option \<Rightarrow> ('d, unit) action" where
  "verification R chainId =
     thenA (requireChainId chainId)
     (forA ([''ReserveLogic'', ''GenericLogic'', ''ValidationLogic''] @ DEPLOYMENT_CONTRACTS) (\<lambda>contract.
        bindA (getContractAddressWithJsonFallback R contract ''Palmy'') (\<lambda>addr.
        bindA (getDeployArgs R contract) (\<lambda>args.
        verifyContract R contract addr args))))"

subsection \<open>Operating the market\<close>

definition updateOracle :: "'d runtime \<Rightarrow> ('d, unit) action" where
  "updateOracle R =
     bindA (liftA (loadPoolConfig (ConfigNames_value ConfigPalmy))) (\<lambda>poolConfig.
     bindA (paramA R (DIAAggregator poolConfig)) (\<lambda>feeds.
     bindA (getChainsightOracle R '''' None) (\<lambda>chainsightOracle.
     bindA (paramA R (OracleSenderAddress poolConfig)) (\<lambda>oracleSenderAddress.
     bindA (paramA R (OraclePriceKey poolConfig)) (\<lambda>oraclePriceKey.
     bindA (getPriceAggregator R None) (\<lambda>aggregator.
     bindA (liftA (entriesOf feeds)) (\<lambda>feedTokens.
     bindA (liftA (priceKeys oraclePriceKey (obj_keys feedTokens))) (\<lambda>keys.
     callFrom R aggregator ''setAssetSources''
       [AList (map (AAddress \<circ> snd) feedTokens),
        AList (map (\<lambda>_. AAddress chainsightOracle) feedTokens),
        AList (map (\<lambda>_. address_arg oracleSenderAddress) feedTokens), AList keys]))))))))"

definition WOAS_ADDRESS :: string where "WOAS_ADDRESS = ''0x5200000000000000000000000000000000000001''"
definition LTV :: int where "LTV = 3000"
definition LIQUIDATION_THRESHOLD :: int where "LIQUIDATION_THRESHOLD = LTV + 500"
definition LIQUIDATION_BONUS :: int where "LIQUIDATION_BONUS = 11500"

definition updateOasReserveParam :: "'d runtime \<Rightarrow> string \<Rightarrow> ('d, unit) action" where
  "updateOasReserveParam R pool =
     bindA (liftA (loadPoolConfig pool)) (\<lambda>poolConfig.
     bindA (paramA R (LendingPoolConfigurator poolConfig)) (\<lambda>configurator.
     bindA (getLendingPoolConfiguratorProxy R configurator) (\<lambda>configuratorInstance.
     callFrom R configuratorInstance ''configureReserveAsCollateral''
       [AAddress WOAS_ADDRESS, AInt LTV, AInt LIQUIDATION_THRESHOLD, AInt LIQUIDATION_BONUS])))"

text \<open>The market configures a configurator but no \<open>LendingPool\<close>; reading the parameter of a missing
  entry throws.\<close>

definition pauseLendingPool :: "'d runtime \<Rightarrow> string \<Rightarrow> bool \<Rightarrow> ('d, unit) action" where
  "pauseLendingPool R pool stop =
     bindA (liftA (loadPoolConfig pool)) (\<lambda>poolConfig.
     bindA (liftA (getParamPerNetwork (rtEnv R) (config_entry poolConfig ''LendingPool'') (thisNetwork R)))
      (\<lambda>lendingPool.
     bindA (paramA R (LendingPoolConfigurator poolConfig)) (\<lambda>configurator.
     bindA (requireA ''Cannot read properties of undefined'' (at_index (rtSigners R) 1)) (\<lambda>emergencyAdmin.
     bindA (getLendingPoolConfiguratorProxy R configurator) (\<lambda>configuratorInstance.
     thenA (sendA (rtChain R) (callTx configuratorInstance ''setPoolPause'' [ABool stop] emergencyAdmin))
     (bindA (getLendingPool R lendingPool) (\<lambda>_. returnA ())))))))"

text \<open>\<open>Object.fromEntries(Object.values(TokenContractId).map((symbol) => [symbol, '']))\<close> with the USD
  address, then every reserve asset on top.\<close>

definition reserveAssetsAddress :: "string obj \<Rightarrow> string \<Rightarrow> string obj" where
  "reserveAssetsAddress reserveAssets usdAddress =
     (let allReserveAssets = obj_set reserveAssets ''USD'' usdAddress;
          defaultTokenList = obj_set (map (\<lambda>s. (s, '''')) TokenContractId) ''USD'' usdAddress
      in foldl (\<lambda>prev (curr, addr). obj_set prev curr addr) defaultTokenList allReserveAssets)"

definition setPriceInFallbackOracle :: "'d runtime \<Rightarrow> ('d, unit) action" where
  "setPriceInFallbackOracle R =
     bindA (liftA (loadPoolConfig (ConfigNames_value ConfigPalmy))) (\<lambda>poolConfig.
     bindA (paramA R (ReserveAssets poolConfig)) (\<lambda>reserveAssets.
     bindA (liftA (getParamPerNetwork (rtEnv R) (config_entry poolConfig ''FallbackOracle'') (thisNetwork R)))
      (\<lambda>fallbackOracleAddress.
     thenA (guardA (notFalsyOrZeroAddress (rtAddresses R) fallbackOracleAddress)
       ''Fallback Oracle Address is undefined. Check configuration at config directory'')
     (bindA (getPalmyFallbackOracle R fallbackOracleAddress) (\<lambda>fallbackOracle.
      setAssetPricesInFallbackOracle R INITIAL_PRICES
        (reserveAssetsAddress (case reserveAssets of None \<Rightarrow> [] | Some o' \<Rightarrow> o')
          (UsdAddress (ProtocolGlobalParams poolConfig)))
        fallbackOracle)))))"

definition setMockPrice :: "'d runtime \<Rightarrow> views \<Rightarrow> ('d, unit) action" where
  "setMockPrice R V =
     bindA (liftA (loadPoolConfig (ConfigNames_value ConfigPalmy))) (\<lambda>poolConfig.
     bindA (getLendingPoolAddressesProvider R None) (\<lambda>addressProvider.
     bindA (getWETHGateway R None) (\<lambda>gateway.
     bindA (readA (\<lambda>w. vwLendingPool V (sent w) addressProvider)) (\<lambda>lendPool.
     thenA (authorizeWETHGateway R gateway lendPool)
     (bindA (paramA R (ReserveAssets poolConfig)) (\<lambda>reserveAssets.
      bindA (getPalmyFallbackOracle R None) (\<lambda>fallBackOracle.
      forA INITIAL_PRICES (\<lambda>(tokenSymbol, price).
        if tokenSymbol = ''USD''
        then callFrom R fallBackOracle ''submitPrices''
          [AList [AAddress (UsdAddress (ProtocolGlobalParams poolConfig))], AList [AString price]]
        else bindA (requireA ''Cannot read properties of undefined'' reserveAssets) (\<lambda>assets.
          callFrom R fallBackOracle ''submitPrices''
            [AList [address_arg (map_of assets tokenSymbol)], AList [AString price]])))))))))"

definition deployMockTokenAndRecordJson ::
  "'d runtime \<Rightarrow> string \<Rightarrow> string \<Rightarrow> string \<Rightarrow> string \<Rightarrow> ('d, unit) action" where
  "deployMockTokenAndRecordJson R key tokenName tokenSymbol tokenDecimals =
     bindA (deployMintableERC20 R (tokenName, tokenSymbol, tokenDecimals) False) (\<lambda>inst.
     registerContractInJsonDb R (upper key) inst (the (getFirstSigner R)))"

subsection \<open>Deploying the user interface helpers\<close>

definition deployUiIncentiveTask :: "'d runtime \<Rightarrow> nat option \<Rightarrow> bool \<Rightarrow> ('d, unit) action" where
  "deployUiIncentiveTask R chainId verify =
     thenA (requireChainId chainId)
     (bindA (deployUiIncentiveDataProviderV2 R verify) (\<lambda>_. returnA ()))"

text \<open>The price aggregator lands in the parameter \<open>verify\<close>: the task verifies on the networks that have
  one, whatever its own flag says.\<close>

definition deployUiPoolTask :: "'d runtime \<Rightarrow> nat option \<Rightarrow> bool \<Rightarrow> ('d, unit) action" where
  "deployUiPoolTask R chainId verify =
     thenA (requireChainId chainId)
     (bindA (signerA R) (\<lambda>_.
      bindA (deployUiPoolDataProviderV2 R (truthy (map_of aggregatorProxy (thisNetwork R)))) (\<lambda>_.
      returnA ())))"

end
