(* ===== verification/MigrationClaims.thy ===== *)
theory MigrationClaims
  imports TaskClaims Migrations
begin

text \<open>
  Properties of the deployment of the market on Oasys: the libraries and their linking, the call data
  that is exported, and what is registered for the initialisation to find.
\<close>
subsection \<open>What an export reads\<close>

text \<open>The two networks the market is deployed to, without a fork.\<close>

definition oasys_network :: "'d runtime \<Rightarrow> bool" where
  "oasys_network R \<longleftrightarrow> thisNetwork R \<in> {''testnet'', ''oasys''} \<and> \<not> truthy (envFORK (rtEnv R)) \<and>
     envMAINNET_FORK (rtEnv R) \<noteq> Some ''true''"

text \<open>The call data exported under a contract id.\<close>

definition exportOf :: "'d runtime \<Rightarrow> string \<Rightarrow> ('d, string) action" where
  "exportOf R i =
     (if i = ''LendingPoolImpl'' then exportLendingPoolCallData R
      else if i = ''LendingPoolConfiguratorImpl'' then exportDeploymentCallData R ''LendingPoolConfigurator''
      else exportDeploymentCallData R i)"

text \<open>An action that changes nothing and depends on the world only through the linked libraries.\<close>

definition library_reader :: "'d runtime \<Rightarrow> ('d, 'a) action \<Rightarrow> bool" where
  "library_reader R m \<longleftrightarrow>
     (\<exists>f. \<forall>w. m w = (f (readDb R ''ReserveLogic'' w) (readDb R ''ValidationLogic'' w), w))"

lemma library_reader_pure [intro, simp]:
  "library_reader R (returnA x)" "library_reader R (throwA e)" "library_reader R (liftA v)"
  "library_reader R (Pair v)"
  by (auto simp: library_reader_def)

lemma library_reader_bind [intro]:
  assumes m: "library_reader R m" and f: "\<And>x. library_reader R (f x)"
  shows "library_reader R (bindA m f)"
proof -
  from m obtain g where g: "\<And>w. m w = (g (readDb R ''ReserveLogic'' w) (readDb R ''ValidationLogic'' w), w)"
    by (auto simp: library_reader_def)
  from f obtain h where h: "\<And>x w. f x w = (h x (readDb R ''ReserveLogic'' w) (readDb R ''ValidationLogic'' w), w)"
    unfolding library_reader_def by metis
  have "bindA m f w =
      ((\<lambda>a b. case g a b of Inl e \<Rightarrow> Inl e | Inr x \<Rightarrow> h x a b)
        (readDb R ''ReserveLogic'' w) (readDb R ''ValidationLogic'' w), w)" for w
    by (simp add: bindA_def g h split: sum.split)
  then show ?thesis
    unfolding library_reader_def
    by (intro exI [of _ "\<lambda>a b. case g a b of Inl e \<Rightarrow> Inl e | Inr x \<Rightarrow> h x a b"]) simp
qed

lemma library_reader_fallback:
  assumes "i \<in> {''ReserveLogic'', ''ValidationLogic''}"
  shows "library_reader R (getContractAddressWithJsonFallback R i p)"
proof -
  define g :: "db_entry option \<Rightarrow> string + string" where "g e =
     andThen (loadPoolConfig p) (\<lambda>cfg.
     andThen (getOptionalParamAddressPerNetwork (rtEnv R) (config_entry cfg i) (thisNetwork R)) (\<lambda>a.
     if notFalsyOrZeroAddress (rtAddresses R) a then Inr (the a)
     else (case e of
          Some e' \<Rightarrow> if entryAddress e' \<noteq> [] then Inr (entryAddress e')
            else Inl (''Missing contract address '' @ i @ '' at Market config and JSON local db'')
        | None \<Rightarrow> Inl (''Missing contract address '' @ i @ '' at Market config and JSON local db''))))" for e
  have "getContractAddressWithJsonFallback R i p w = (g (readDb R i w), w)" for w
    by (simp add: getContractAddressWithJsonFallback_def g_def)
  with assms show ?thesis
    unfolding library_reader_def
    by (auto intro: exI [of _ "\<lambda>a b. g a"] exI [of _ "\<lambda>a b. g b"])
qed

lemma wrapped_token_known:
  assumes "oasys_network R"
  shows "getWrappedNativeTokenAddress R PalmyConfig = returnA ''0x5200000000000000000000000000000000000001''"
  using assms
  by (auto simp: getWrappedNativeTokenAddress_def oasys_network_def getParamPerNetwork_def PalmyConfig_def
      CommonsConfig_def truthy_def liftA_def returnA_def bindA_def fun_eq_iff)

lemma palmy_quote_currency: "OracleQuoteCurrency PalmyConfig = ''USD''"
  by (simp add: PalmyConfig_def CommonsConfig_def)

lemma liftA_Inr_returnA: "liftA (Inr x) = returnA x"
  by (simp add: liftA_def returnA_def)

lemma getDeployArgs_cases:
  assumes "oasys_network R"
  shows "getDeployArgs R i = bindA (liftA (getGenesisPoolAdmin R PalmyConfig)) (\<lambda>admin. returnA
    (if i = ''LendingPoolAddressesProvider'' then [AString (MarketId PalmyConfig), address_arg admin]
     else if i \<in> {''LendingPoolAddressesProviderRegistry'', ''StableAndVariableTokensHelper'',
       ''LTokensAndRatesHelper'', ''PriceAggregatorAdapterChainsightImpl'', ''LendingRateOracle'',
       ''PalmyFallbackOracle''} then [address_arg admin]
     else if i = ''PalmyOracle'' then [AAddress (UsdAddress (ProtocolGlobalParams PalmyConfig)),
       AString (OracleQuoteUnit PalmyConfig), address_arg admin]
     else if i = ''WETHGateway'' then
       [AAddress ''0x5200000000000000000000000000000000000001'', address_arg admin]
     else []))"
proof -
  have "loadPoolConfig (ConfigNames_value ConfigPalmy) = Inr PalmyConfig" by (simp add: loadPoolConfig_def)
  moreover have "getQuoteCurrency R PalmyConfig = returnA (UsdAddress (ProtocolGlobalParams PalmyConfig))"
    by (simp add: getQuoteCurrency_def palmy_quote_currency)
  ultimately show ?thesis
    unfolding getDeployArgs_def by (simp only: liftA_Inr_returnA bindA_returnA wrapped_token_known [OF assms] if_distrib [of returnA])
qed

lemma library_reader_args: "oasys_network R \<Longrightarrow> library_reader R (getDeployArgs R i)"
  unfolding getDeployArgs_cases by (rule library_reader_bind) (rule library_reader_pure)+

lemma library_reader_exportOf:
  assumes "oasys_network R"
  shows "library_reader R (exportOf R i)"
  using library_reader_args [OF assms] library_reader_fallback [of _ R]
  by (auto simp: exportOf_def exportLendingPoolCallData_def poolLibraries_def exportDeploymentCallData_def
      getDeploymentCallData_def intro!: library_reader_bind)

subsection \<open>Exporting in a row\<close>

definition predicted :: "'d runtime \<Rightarrow> tx list \<Rightarrow> string \<Rightarrow> string \<Rightarrow> db_entry" where
  "predicted R ts i callData =
     \<lparr>entryAddress = rtDeploymentAddress R ts callData (toSalt R i), entryDeployer = Some '''',
      entrySalt = Some (toSalt R i)\<rparr>"

text \<open>The world after an export.\<close>

definition saved :: "'d runtime \<Rightarrow> string \<Rightarrow> string \<Rightarrow> 'd world \<Rightarrow> 'd world" where
  "saved R i callData w = snd (saveDeploymentCallData R i callData w)"

lemma saveDeploymentCallData_saved: "saveDeploymentCallData R i d w = (Inr (), saved R i d w)"
  by (simp add: saved_def saveDeploymentCallData_def thenA_def bindA_def whenA_def
      getOasysDeploymentAddress_def registerContractAddressAndSaltInJsonDb_def writeDb_def readA_def
      returnA_def)

lemma callDataFile_inject: "callDataFile n i = callDataFile n j \<longleftrightarrow> i = j"
  by (simp add: callDataFile_def)

lemma saved_sent [simp]: "sent (saved R i d w) = sent w"
  by (simp add: saved_def saveDeploymentCallData_def thenA_def bindA_def whenA_def
      getOasysDeploymentAddress_def registerContractAddressAndSaltInJsonDb_def writeDb_def readA_def
      returnA_def)

lemma saved_file:
  "map_of (files (saved R i d w)) (callDataFile (thisNetwork R) j) =
    (if i = j then Some d else map_of (files w) (callDataFile (thisNetwork R) j))"
  by (simp add: saved_def saveDeploymentCallData_def thenA_def bindA_def whenA_def map_of_obj_set
      getOasysDeploymentAddress_def registerContractAddressAndSaltInJsonDb_def writeDb_def readA_def
      returnA_def callDataFile_inject)

lemma saved_readDb:
  assumes "stored R" "plain_key i" "plain_key j"
  shows "readDb R j (saved R i d w) =
    (if i = j \<and> thisNetwork R = ''oasys'' then Some (predicted R (sent w) i d) else readDb R j w)"
proof -
  let ?f = "w\<lparr>files := obj_set (files w) (callDataFile (thisNetwork R) i) d\<rparr>"
  have "saved R i d w = (if thisNetwork R = ''oasys'' then snd (writeDb R i (predicted R (sent w) i d) ?f) else ?f)"
    by (simp add: saved_def saveDeploymentCallData_def thenA_def bindA_def whenA_def predicted_def
        getOasysDeploymentAddress_def registerContractAddressAndSaltInJsonDb_def writeDb_def readA_def
        returnA_def)
  moreover have "readDb R j ?f = readDb R j w" by (simp add: readDb_def)
  moreover have "readDb R j (snd (writeDb R i e ?f)) = (if i = j then Some e else readDb R j ?f)" for e
    by (rule readDb_writeDb [OF assms])
  ultimately show ?thesis by (simp only: if_distrib [of "readDb R j"] if_bool_eq_conj) (auto split: if_splits)
qed

lemma exportOf_saved:
  assumes "oasys_network R" "stored R" "plain_key i" "i \<notin> {''ReserveLogic'', ''ValidationLogic''}"
  shows "exportOf R j (saved R i d w) = (fst (exportOf R j w), saved R i d w)"
proof -
  have "plain_key ''ReserveLogic''" "plain_key ''ValidationLogic''" by (simp_all add: plain_key_def)
  with assms have "readDb R ''ReserveLogic'' (saved R i d w) = readDb R ''ReserveLogic'' w"
    "readDb R ''ValidationLogic'' (saved R i d w) = readDb R ''ValidationLogic'' w"
    by (auto simp: saved_readDb)
  with library_reader_exportOf [OF assms(1), of j] show ?thesis by (auto simp: library_reader_def)
qed

text \<open>Exports of a list of contracts: the code's sequences are instances.\<close>

definition exportAll :: "'d runtime \<Rightarrow> string list \<Rightarrow> ('d, unit) action" where
  "exportAll R is = forA is (\<lambda>i. bindA (exportOf R i) (saveDeploymentCallData R i))"

lemma exportAll_sent:
  assumes R: "oasys_network R" "stored R"
    and keys: "\<And>i. i \<in> set is \<Longrightarrow> plain_key i \<and> i \<notin> {''ReserveLogic'', ''ValidationLogic''}" "distinct is"
    and run: "exportAll R is w = (Inr u, w')"
  shows "sent w' = sent w \<and>
    (\<forall>i \<in> set is. \<exists>d. exportOf R i w = (Inr d, w) \<and>
       map_of (files w') (callDataFile (thisNetwork R) i) = Some d \<and>
       (thisNetwork R = ''oasys'' \<longrightarrow> readDb R i w' = Some (predicted R (sent w) i d))) \<and>
    (\<forall>j. j \<notin> set is \<longrightarrow> map_of (files w') (callDataFile (thisNetwork R) j) =
       map_of (files w) (callDataFile (thisNetwork R) j)) \<and>
    (\<forall>j. plain_key j \<longrightarrow> j \<notin> set is \<longrightarrow> readDb R j w' = readDb R j w)"
  using keys run
proof (induction "is" arbitrary: w)
  case Nil
  then show ?case by (simp add: exportAll_def)
next
  case (Cons i "is")
  obtain f where f: "\<And>j w. exportOf R j w =
      (f j (readDb R ''ReserveLogic'' w) (readDb R ''ValidationLogic'' w), w)"
    using library_reader_exportOf [OF R(1)] unfolding library_reader_def by metis
  from Cons.prems(3) obtain d where d: "exportOf R i w = (Inr d, w)"
    and rest: "exportAll R is (saved R i d w) = (Inr u, w')"
    by (auto simp: exportAll_def thenA_Inr bindA_Inr saveDeploymentCallData_saved f)
  have keys: "plain_key i" "i \<notin> {''ReserveLogic'', ''ValidationLogic''}" "i \<notin> set is" "distinct is"
    "plain_key ''ReserveLogic''" "plain_key ''ValidationLogic''"
    using Cons.prems by (auto simp: plain_key_def)
  have libs: "readDb R ''ReserveLogic'' (saved R i d w) = readDb R ''ReserveLogic'' w"
    "readDb R ''ValidationLogic'' (saved R i d w) = readDb R ''ValidationLogic'' w"
    using keys by (auto simp: saved_readDb [OF R(2)])
  note IH = Cons.IH [OF _ keys(4) rest, unfolded f libs saved_sent]
  have step: "sent w' = sent w"
    "\<And>j. j \<in> set is \<Longrightarrow> \<exists>d. f j (readDb R ''ReserveLogic'' w) (readDb R ''ValidationLogic'' w) = Inr d \<and>
       map_of (files w') (callDataFile (thisNetwork R) j) = Some d \<and>
       (thisNetwork R = ''oasys'' \<longrightarrow> readDb R j w' = Some (predicted R (sent w) j d))"
    "\<And>j. j \<notin> set is \<Longrightarrow> map_of (files w') (callDataFile (thisNetwork R) j) =
       (if i = j then Some d else map_of (files w) (callDataFile (thisNetwork R) j))"
    "\<And>j. plain_key j \<Longrightarrow> j \<notin> set is \<Longrightarrow> readDb R j w' =
       (if i = j \<and> thisNetwork R = ''oasys'' then Some (predicted R (sent w) i d) else readDb R j w)"
    using IH Cons.prems(1) by (auto simp: saved_file saved_readDb [OF R(2) keys(1)])
  have d': "f i (readDb R ''ReserveLogic'' w) (readDb R ''ValidationLogic'' w) = Inr d"
    using d by (simp add: f)
  show ?case
    unfolding f
    using step d' keys(1,3) by (auto split: if_splits)
qed

lemma thenA_assoc: "thenA (thenA a b) c = thenA a (thenA b c)"
  by (simp add: thenA_def bindA_assoc)

lemma thenA_returnA: "thenA (returnA x) m = m"
  by (simp add: thenA_def)

lemma exportTo_exportOf:
  "i \<notin> {''LendingPoolImpl'', ''LendingPoolConfiguratorImpl''} \<Longrightarrow>
     exportTo R i i = bindA (exportOf R i) (saveDeploymentCallData R i)"
  "exportTo R ''LendingPoolConfiguratorImpl'' ''LendingPoolConfigurator'' =
     bindA (exportOf R ''LendingPoolConfiguratorImpl'') (saveDeploymentCallData R ''LendingPoolConfiguratorImpl'')"
  by (simp_all add: exportTo_def exportOf_def)

definition export_order :: "string list" where
  "export_order =
     [''LendingPoolAddressesProviderRegistry'', ''LendingPoolAddressesProvider'', ''LendingPoolImpl'',
      ''LendingPoolConfiguratorImpl'', ''StableAndVariableTokensHelper'', ''LTokensAndRatesHelper'',
      ''LToken'', ''StableDebtToken'', ''VariableDebtToken'', ''LendingRateOracle'',
      ''PriceAggregatorAdapterChainsightImpl'', ''PalmyFallbackOracle'', ''PalmyOracle'',
      ''ChainsightOracle'', ''PalmyProtocolDataProvider'', ''WETHGateway'',
      ''LendingPoolCollateralManager'', ''UiPoolDataProviderV2'', ''WalletBalanceProvider'',
      ''UiIncentiveDataProviderV2'', ''StakeUIHelper'']"

lemma deployment_contracts:
  "set export_order = set DEPLOYMENT_CONTRACTS" "distinct export_order" "distinct DEPLOYMENT_CONTRACTS"
  "i \<in> set DEPLOYMENT_CONTRACTS \<Longrightarrow> plain_key i \<and> i \<notin> {''ReserveLogic'', ''ValidationLogic''}"
  "i \<in> set export_order \<Longrightarrow> plain_key i \<and> i \<notin> {''ReserveLogic'', ''ValidationLogic''}"
  by (auto simp: export_order_def DEPLOYMENT_CONTRACTS_def plain_key_def)

lemma oasysDeployment_exportAll:
  "oasysDeployment R = thenA (exportAll R export_order)
     (whenA (thisNetwork R \<noteq> ''oasys'') (deployAndInsert R DEPLOYMENT_CONTRACTS))"
proof -
  have impl: "bindA (exportLendingPoolCallData R) (\<lambda>d. saveDeploymentCallData R ''LendingPoolImpl'' d) =
      bindA (exportOf R ''LendingPoolImpl'') (saveDeploymentCallData R ''LendingPoolImpl'')"
    by (simp add: exportOf_def)
  show ?thesis
    unfolding oasysDeployment_def exportLendingPoolAddressesProviderRegistry_def
      exportLendingPoolAddressesProvider_def exportLendingPool_def exportOracles_def
      exportPalmyProtocolDataProvider_def exportWETHGateway_def exportUIHelpers_def impl
      exportAll_def export_order_def forA.simps thenA_assoc thenA_returnA
    by (simp add: exportTo_exportOf)
qed

subsection \<open>Deploying in a row\<close>

lemma deployToOasysTestnet_Inr:
  "deployToOasysTestnet R i w = (Inr a, w') \<longleftrightarrow>
    (\<exists>c s. map_of (files w) (callDataFile ''testnet'' i) = Some c \<and> getFirstSigner R = Some s \<and>
      reverts (rtChain R) (sent w) (creation s c) = None \<and>
      a = created (rtChain R) (sent w) (creation s c) \<and>
      w' = registered R i a (Some s) (w\<lparr>sent := sent w @ [creation s c]\<rparr>))"
  unfolding deployToOasysTestnet_def Let_def
  by (auto simp: run_Inr getFirstSigner_def registerContractAddressInJsonDb_def registered_def writeDb_def)

definition creations :: "string \<Rightarrow> (string \<Rightarrow> string) \<Rightarrow> string list \<Rightarrow> tx list" where
  "creations s data is = map (\<lambda>i. creation s (data i)) is"

lemma deployAndInsert_Inr:
  assumes R: "stored R" and s: "getFirstSigner R = Some s"
    and keys: "\<forall>i \<in> set is. plain_key i" "distinct is"
    and data: "\<forall>i \<in> set is. map_of (files w) (callDataFile ''testnet'' i) = Some (data i)"
    and run: "deployAndInsert R is w = (Inr u, w')"
  shows "sent w' = sent w @ creations s data is \<and> files w' = files w \<and>
    (\<forall>k < length is. readDb R (is ! k) w' = Some (address_only
       (created (rtChain R) (sent w @ creations s data (take k is)) (creation s (data (is ! k)))))) \<and>
    (\<forall>j. plain_key j \<longrightarrow> j \<notin> set is \<longrightarrow> readDb R j w' = readDb R j w)"
  using keys data run
proof (induction "is" arbitrary: w)
  case Nil
  then show ?case by (simp add: deployAndInsert_def creations_def)
next
  case (Cons i "is")
  define t where "t = creation s (data i)"
  define a where "a = created (rtChain R) (sent w) t"
  define w1 where "w1 = registered R i a None (registered R i a (Some s) (w\<lparr>sent := sent w @ [t]\<rparr>))"
  have content: "map_of (files w) (callDataFile ''testnet'' i) = Some (data i)" using Cons.prems by simp
  have step: "sent w1 = sent w @ [t]" "files w1 = files w"
    by (simp_all add: w1_def registered_def)
  have db: "readDb R j w1 = (if i = j then Some (address_only a) else readDb R j w)" if "plain_key j" for j
    using Cons.prems(1) that by (simp add: w1_def readDb_registered [OF R])
  from Cons.prems(4) s content have rest: "deployAndInsert R is w1 = (Inr u, w')"
    by (auto simp: deployAndInsert_def thenA_Inr bindA_Inr insert_Inr deployToOasysTestnet_Inr
        w1_def a_def t_def)
  have IH: "sent w' = sent w1 @ creations s data is \<and> files w' = files w1 \<and>
    (\<forall>k < length is. readDb R (is ! k) w' = Some (address_only
       (created (rtChain R) (sent w1 @ creations s data (take k is)) (creation s (data (is ! k)))))) \<and>
    (\<forall>j. plain_key j \<longrightarrow> j \<notin> set is \<longrightarrow> readDb R j w' = readDb R j w1)"
    using Cons.IH [OF _ _ _ rest] Cons.prems(1-3) by (simp add: step)
  have head: "readDb R i w' = Some (address_only a)"
    using IH Cons.prems(1,2) db by simp
  have "readDb R ((i # is) ! k) w' = Some (address_only (created (rtChain R)
      (sent w @ creations s data (take k (i # is))) (creation s (data ((i # is) ! k)))))"
    if "k < length (i # is)" for k
    using that head IH by (cases k) (simp_all add: step creations_def a_def t_def)
  then show ?case
    using IH db by (simp add: step creations_def t_def)
qed

subsection \<open>Deploying the market\<close>

lemma oasysDeployment_effect:
  assumes R: "stored R" "oasys_network R" and s: "getFirstSigner R = Some s"
    and run: "oasysDeployment R w = (Inr u, w')"
  shows "\<exists>data.
    (\<forall>i \<in> set DEPLOYMENT_CONTRACTS. exportOf R i w = (Inr (data i), w) \<and>
       map_of (files w') (callDataFile (thisNetwork R) i) = Some (data i)) \<and>
    (if thisNetwork R = ''oasys''
     then sent w' = sent w \<and>
       (\<forall>i \<in> set DEPLOYMENT_CONTRACTS. readDb R i w' = Some (predicted R (sent w) i (data i)))
     else sent w' = sent w @ creations s data DEPLOYMENT_CONTRACTS \<and>
       (\<forall>k < length DEPLOYMENT_CONTRACTS. connectedAddress R (DEPLOYMENT_CONTRACTS ! k) None w' =
          (Inr (created (rtChain R) (sent w @ creations s data (take k DEPLOYMENT_CONTRACTS))
             (creation s (data (DEPLOYMENT_CONTRACTS ! k)))), w')))"
proof -
  from run obtain w1 where e: "exportAll R export_order w = (Inr (), w1)"
    and d: "whenA (thisNetwork R \<noteq> ''oasys'') (deployAndInsert R DEPLOYMENT_CONTRACTS) w1 = (Inr u, w')"
    by (auto simp: oasysDeployment_exportAll thenA_Inr)
  note E = exportAll_sent [OF R(2,1) deployment_contracts(5,2) e, unfolded deployment_contracts(1)]
  from E obtain data where data: "\<forall>i \<in> set DEPLOYMENT_CONTRACTS. exportOf R i w = (Inr (data i), w) \<and>
      map_of (files w1) (callDataFile (thisNetwork R) i) = Some (data i) \<and>
      (thisNetwork R = ''oasys'' \<longrightarrow> readDb R i w1 = Some (predicted R (sent w) i (data i)))"
    by (metis (no_types, lifting))
  show ?thesis
  proof (cases "thisNetwork R = ''oasys''")
    case True
    then have "w' = w1" using d by (simp add: whenA_Inr)
    with True E data show ?thesis by auto
  next
    case False
    then have n: "thisNetwork R = ''testnet''" using R(2) by (simp add: oasys_network_def)
    have D: "deployAndInsert R DEPLOYMENT_CONTRACTS w1 = (Inr u, w')" using d n by (simp add: whenA_Inr)
    have "\<forall>i \<in> set DEPLOYMENT_CONTRACTS. map_of (files w1) (callDataFile ''testnet'' i) = Some (data i)"
      using data n by simp
    from deployAndInsert_Inr [OF R(1) s _ deployment_contracts(3) this D] deployment_contracts(4)
    have "sent w' = sent w1 @ creations s data DEPLOYMENT_CONTRACTS \<and> files w' = files w1 \<and>
      (\<forall>k < length DEPLOYMENT_CONTRACTS. readDb R (DEPLOYMENT_CONTRACTS ! k) w' = Some (address_only
        (created (rtChain R) (sent w1 @ creations s data (take k DEPLOYMENT_CONTRACTS))
          (creation s (data (DEPLOYMENT_CONTRACTS ! k))))))" by blast
    with E data n show ?thesis
      by (intro exI [of _ data]) (simp add: connectedAddress_registered)
  qed
qed

text \<open>C18: Deploying the market on Oasys.  A successful run exports the call data of each of the 21
  contracts, computed from the libraries registered before, into the file of its contract id.  On
  \<open>oasys\<close> it sends nothing and registers, for every contract, the address the factory will give it
  and its salt; on \<open>testnet\<close> it creates the contracts in order from exactly this call data, and
  afterwards the getter of every contract returns the address its creation got.\<close>

theorem oasys_deployment_registers:
  assumes R: "stored R" "oasys_network R" and s: "getFirstSigner R = Some s"
    and run: "oasysDeployment R w = (Inr u, w')"
  shows "\<exists>data.
    (\<forall>i \<in> set DEPLOYMENT_CONTRACTS. exportOf R i w = (Inr (data i), w) \<and>
       map_of (files w') (callDataFile (thisNetwork R) i) = Some (data i)) \<and>
    (if thisNetwork R = ''oasys''
     then sent w' = sent w \<and>
       (\<forall>i \<in> set DEPLOYMENT_CONTRACTS. readDb R i w' = Some (predicted R (sent w) i (data i)))
     else sent w' = sent w @ creations s data DEPLOYMENT_CONTRACTS \<and>
       (\<forall>k < length DEPLOYMENT_CONTRACTS. connectedAddress R (DEPLOYMENT_CONTRACTS ! k) None w' =
          (Inr (created (rtChain R) (sent w @ creations s data (take k DEPLOYMENT_CONTRACTS))
             (creation s (data (DEPLOYMENT_CONTRACTS ! k)))), w')))"
  by (rule oasysDeployment_effect [OF R s run])

subsection \<open>A run on the test network\<close>

lemma exportAll_runs:
  assumes R: "oasys_network R" "stored R"
    and keys: "\<And>i. i \<in> set is \<Longrightarrow> plain_key i \<and> i \<notin> {''ReserveLogic'', ''ValidationLogic''}"
    and ok: "\<And>i. i \<in> set is \<Longrightarrow> \<exists>d. fst (exportOf R i w) = Inr d"
  shows "\<exists>w'. exportAll R is w = (Inr (), w')"
  using keys ok
proof (induction "is" arbitrary: w)
  case Nil
  then show ?case by (simp add: exportAll_def)
next
  case (Cons i "is")
  obtain d where d: "exportOf R i w = (Inr d, w)"
    using Cons.prems(2) [of i] library_reader_exportOf [OF R(1), of i]
    by (auto simp: library_reader_def)
  have same: "fst (exportOf R j (saved R i d w)) = fst (exportOf R j w)" for j
    using exportOf_saved [OF R] Cons.prems(1) by simp
  obtain w' where "exportAll R is (saved R i d w) = (Inr (), w')"
    using Cons.IH [of "saved R i d w"] Cons.prems by (auto simp: same)
  then show ?case
    by (simp add: exportAll_def thenA_def bindA_def d saveDeploymentCallData_saved)
qed

lemma genesis_admin_known: "\<exists>a. getGenesisPoolAdmin R config = Inr a"
  by (simp add: getGenesisPoolAdmin_def getParamPerNetwork_def)

lemma exportOf_known:
  assumes R: "oasys_network R" "zero_is_zero R"
    and libs: "readDb R ''ReserveLogic'' w = Some e" "entryAddress e \<noteq> []"
      "readDb R ''ValidationLogic'' w = Some e'" "entryAddress e' \<noteq> []"
  shows "\<exists>d. fst (exportOf R i w) = Inr d"
proof -
  have args: "\<exists>as. getDeployArgs R j w = (Inr as, w)" for j
    using genesis_admin_known [of R PalmyConfig] by (auto simp: getDeployArgs_cases [OF R(1)] bindA_def)
  have cfg: "loadPoolConfig (ConfigNames_value ConfigPalmy) = Inr PalmyConfig"
    "config_entry PalmyConfig ''ReserveLogic'' = None" "config_entry PalmyConfig ''ValidationLogic'' = None"
    by (simp_all add: loadPoolConfig_def config_entry_def)
  note fallback_to_database [OF R(2) cfg(1,2) libs(1,2)] fallback_to_database [OF R(2) cfg(1,3) libs(3,4)]
  then have "\<exists>d. exportLendingPoolCallData R w = (Inr d, w)"
    by (simp add: exportLendingPoolCallData_def poolLibraries_def bindA_def)
  moreover have "\<exists>d. exportDeploymentCallData R j w = (Inr d, w)" for j
    using args [of j] by (auto simp: exportDeploymentCallData_def getDeploymentCallData_def bindA_def)
  ultimately show ?thesis by (auto simp: exportOf_def) (metis fst_conv)+
qed

lemma deployAndInsert_runs:
  assumes R: "stored R" "getFirstSigner R = Some s" "\<And>ts t. reverts (rtChain R) ts t = None"
    and data: "\<forall>i \<in> set is. map_of (files w) (callDataFile ''testnet'' i) \<noteq> None"
  shows "\<exists>w'. deployAndInsert R is w = (Inr (), w')"
  using data
proof (induction "is" arbitrary: w)
  case Nil
  then show ?case by (simp add: deployAndInsert_def)
next
  case (Cons i "is")
  then obtain c where c: "map_of (files w) (callDataFile ''testnet'' i) = Some c" by auto
  then obtain a w1 where w1: "deployToOasysTestnet R i w = (Inr a, w1)" "files w1 = files w"
    using R by (auto simp: deployToOasysTestnet_Inr registered_def)
  define w2 where "w2 = registered R i a None w1"
  have "files w2 = files w" using w1 by (simp add: w2_def registered_def)
  then obtain w' where "deployAndInsert R is w2 = (Inr (), w')" using Cons by force
  moreover have "insertContractAddressInDb R i a w1 = (Inr (), w2)" by (simp add: insert_Inr w2_def)
  ultimately show ?case using w1 by (auto simp: deployAndInsert_def thenA_def bindA_def)
qed

definition testnet_runtime :: "json_db runtime" where
  "testnet_runtime = sample_runtime\<lparr>rtEnv := (rtEnv sample_runtime)\<lparr>networkName := ''testnet''\<rparr>\<rparr>"

lemma testnet_runtime_ok:
  "stored testnet_runtime" "zero_is_zero testnet_runtime" "oasys_network testnet_runtime"
  "getFirstSigner testnet_runtime = Some ''0xAdmin''" "reverts (rtChain testnet_runtime) ts t = None"
  "thisNetwork testnet_runtime = ''testnet''"
  by (simp_all add: testnet_runtime_def stored_def zero_is_zero_def sample_runtime_def json_file_laws
      plain_key_def oasys_network_def truthy_def getFirstSigner_def at_index_def)

definition linked_world :: "json_db world" where
  "linked_world = registered testnet_runtime ''ValidationLogic'' ''0x1b2'' None
     (registered testnet_runtime ''ReserveLogic'' ''0x1b1'' None empty_world)"

lemma linked_world_libraries:
  "readDb testnet_runtime ''ReserveLogic'' linked_world = Some (address_only ''0x1b1'')"
  "readDb testnet_runtime ''ValidationLogic'' linked_world = Some (address_only ''0x1b2'')"
  by (simp_all add: linked_world_def readDb_registered [OF testnet_runtime_ok(1)] plain_key_def)

lemma sample_deployment_runs: "\<exists>w'. oasysDeployment testnet_runtime linked_world = (Inr (), w')"
proof -
  let ?R = testnet_runtime
  have known: "\<exists>d. fst (exportOf ?R i linked_world) = Inr d" for i
    by (rule exportOf_known [OF testnet_runtime_ok(3,2) linked_world_libraries(1) _ linked_world_libraries(2)])
      simp_all
  obtain w1 where w1: "exportAll ?R export_order linked_world = (Inr (), w1)"
    using exportAll_runs [OF testnet_runtime_ok(3,1) deployment_contracts(5) known] by auto
  have "\<forall>i \<in> set DEPLOYMENT_CONTRACTS. map_of (files w1) (callDataFile ''testnet'' i) \<noteq> None"
    using exportAll_sent [OF testnet_runtime_ok(3,1) deployment_contracts(5,2) w1]
    by (force simp: deployment_contracts(1) testnet_runtime_ok(6))
  then obtain w' where d: "deployAndInsert ?R DEPLOYMENT_CONTRACTS w1 = (Inr (), w')"
    using deployAndInsert_runs [OF testnet_runtime_ok(1,4,5)] by blast
  have run: "oasysDeployment ?R linked_world = (Inr (), w')"
    using w1 d by (simp add: oasysDeployment_exportAll thenA_def bindA_def whenA_def testnet_runtime_ok(6))
  then show ?thesis by blast
qed

theorem oasys_deployment_registers_witness:
  "\<exists>w'. oasysDeployment testnet_runtime linked_world = (Inr (), w') \<and> length (sent w') = 21 \<and>
     (\<exists>a. getLendingPoolImpl testnet_runtime None w' = (Inr a, w'))"
proof -
  obtain w' where run: "oasysDeployment testnet_runtime linked_world = (Inr (), w')"
    using sample_deployment_runs by blast
  have "length DEPLOYMENT_CONTRACTS = 21" "DEPLOYMENT_CONTRACTS ! 2 = ''LendingPoolImpl''"
    by (simp_all add: DEPLOYMENT_CONTRACTS_def)
  with oasys_deployment_registers [OF testnet_runtime_ok(1,3,4) run] run show ?thesis
    by (auto simp: testnet_runtime_ok(6) creations_def linked_world_def empty_world_def getLendingPoolImpl_def
        dest: spec [of _ 2])
qed

subsection \<open>Deploying the libraries\<close>

lemma library_address_Inr:
  assumes "zero_is_zero R" "i \<in> {''ReserveLogic'', ''GenericLogic'', ''ValidationLogic''}"
  shows "getContractAddressWithJsonFallback R i ''Palmy'' w = (Inr a, w') \<longleftrightarrow>
    w' = w \<and> a \<noteq> [] \<and> (\<exists>e. readDb R i w = Some e \<and> a = entryAddress e)"
proof -
  have cfg: "loadPoolConfig ''Palmy'' = Inr PalmyConfig" by (simp add: loadPoolConfig_def)
  have none: "config_entry PalmyConfig i = None" using assms(2) by (elim insertE) (simp_all add: config_entry_def)
  have "getContractAddressWithJsonFallback R i ''Palmy'' w =
     (case readDb R i w of
        Some e \<Rightarrow> if entryAddress e \<noteq> [] then Inr (entryAddress e)
          else Inl (''Missing contract address '' @ i @ '' at Market config and JSON local db'')
      | None \<Rightarrow> Inl (''Missing contract address '' @ i @ '' at Market config and JSON local db''), w)"
    unfolding getContractAddressWithJsonFallback_def getOptionalParamAddressPerNetwork_def checkA_run cfg
      andThen_run none option.case
    using ZERO_ADDRESS_invalid [OF assms(1)] by simp
  then show ?thesis by (cases "readDb R i w") auto
qed

text \<open>Saving call data on the test network and creating the contract from it.\<close>

lemma save_and_create:
  assumes R: "stored R" "thisNetwork R = ''testnet''" "getFirstSigner R = Some s" "plain_key i"
    and run: "deployToOasysTestnet R i (saved R i d w) = (Inr a, w')"
  shows "a = created (rtChain R) (sent w) (creation s d) \<and> sent w' = sent w @ [creation s d] \<and>
    (\<forall>j. plain_key j \<longrightarrow> readDb R j w' = (if i = j then Some (by_signer a s) else readDb R j w))"
proof -
  have "map_of (files (saved R i d w)) (callDataFile ''testnet'' i) = Some d"
    using saved_file [of R i d w i] by (simp add: R(2))
  with run R(3) have "a = created (rtChain R) (sent w) (creation s d)"
    and w': "w' = registered R i a (Some s) ((saved R i d w)\<lparr>sent := sent w @ [creation s d]\<rparr>)"
    by (simp_all add: deployToOasysTestnet_Inr)
  moreover have "readDb R j (saved R i d w) = readDb R j w" if "plain_key j" for j
    by (simp add: saved_readDb [OF R(1,4) that] R(2))
  ultimately show ?thesis by (simp add: readDb_registered [OF R(1,4)])
qed

lemma exportReserveLogic_Inr:
  "exportReserveLogic R w = (Inr u, w') \<Longrightarrow> w' = saved R ''ReserveLogic'' (rtCallData R ''ReserveLogic'' []) w"
  by (auto simp: exportReserveLogic_def exportTo_def exportDeploymentCallData_def getDeploymentCallData_def
      getDeployArgs_def bindA_Inr saveDeploymentCallData_saved)

lemma exportGenericLogic_Inr:
  assumes "zero_is_zero R"
  shows "exportGenericLogic R w = (Inr u, w') \<longleftrightarrow>
    (\<exists>e d. readDb R ''ReserveLogic'' w = Some e \<and> entryAddress e \<noteq> [] \<and>
       getGenericLogicContractFactory R (entryAddress e) = Inr d \<and> w' = saved R ''GenericLogic'' d w)"
  unfolding exportGenericLogic_def bindA_Inr library_address_Inr [OF assms insertI1]
  by (auto simp: exportGenericLogicDeploymentCallData_def saveDeploymentCallData_saved)

lemma exportValidationLogic_Inr:
  assumes "zero_is_zero R"
  shows "exportValidationLogic R w = (Inr u, w') \<longleftrightarrow>
    (\<exists>e e' d. readDb R ''ReserveLogic'' w = Some e \<and> entryAddress e \<noteq> [] \<and>
       readDb R ''GenericLogic'' w = Some e' \<and> entryAddress e' \<noteq> [] \<and>
       getValidationLogicContractFactory R (entryAddress e) (entryAddress e') = Inr d \<and>
       w' = saved R ''ValidationLogic'' d w)"
  unfolding exportValidationLogic_def bindA_Inr
  by (auto simp: library_address_Inr [OF assms] exportValidationLogicDeploymentCallData_def
      saveDeploymentCallData_saved)

text \<open>C19: Deploying the libraries links each with the ones before it.  On the test network a successful
  run creates the reserve logic, the generic logic linked with the address the first creation got,
  and the validation logic linked with both, in this order; afterwards the database holds the three
  addresses, and the lending pool that is exported next is linked with the deployed reserve and
  validation logic.\<close>

theorem oasys_libraries_linked:
  assumes R: "stored R" "zero_is_zero R" "thisNetwork R = ''testnet''" and s: "getFirstSigner R = Some s"
    and run: "oasysDeploymentLibraries R w = (Inr u, w')"
  shows "\<exists>reserveLogic genericLogic validationLogic genericCode validationCode.
    let create = (\<lambda>ts code. created (rtChain R) (sent w @ ts) (creation s code));
        reserveTx = creation s (rtCallData R ''ReserveLogic'' []) in
    getGenericLogicContractFactory R reserveLogic = Inr genericCode \<and>
    getValidationLogicContractFactory R reserveLogic genericLogic = Inr validationCode \<and>
    sent w' = sent w @ [reserveTx, creation s genericCode, creation s validationCode] \<and>
    reserveLogic = create [] (rtCallData R ''ReserveLogic'' []) \<and>
    genericLogic = create [reserveTx] genericCode \<and>
    validationLogic = create [reserveTx, creation s genericCode] validationCode \<and>
    readDb R ''ReserveLogic'' w' = Some (by_signer reserveLogic s) \<and>
    readDb R ''GenericLogic'' w' = Some (by_signer genericLogic s) \<and>
    readDb R ''ValidationLogic'' w' = Some (by_signer validationLogic s) \<and>
    (validationLogic \<noteq> [] \<longrightarrow> poolLibraries R w' = (Inr (toPalmyLibs validationLogic reserveLogic), w'))"
proof -
  have keys: "plain_key ''ReserveLogic''" "plain_key ''GenericLogic''" "plain_key ''ValidationLogic''"
    by (simp_all add: plain_key_def)
  from run R(3) obtain x1 a1 w1 x2 a2 w2 x3 a3 where
      e1: "exportReserveLogic R w = (Inr (), x1)" and 1: "deployToOasysTestnet R ''ReserveLogic'' x1 = (Inr a1, w1)" and
      e2: "exportGenericLogic R w1 = (Inr (), x2)" and 2: "deployToOasysTestnet R ''GenericLogic'' x2 = (Inr a2, w2)" and
      e3: "exportValidationLogic R w2 = (Inr (), x3)" and 3: "deployToOasysTestnet R ''ValidationLogic'' x3 = (Inr a3, w')"
    unfolding oasysDeploymentLibraries_def Let_def whenA_def by (auto simp: thenA_Inr bindA_Inr)
  note s1 = save_and_create [OF R(1,3) s keys(1) 1 [unfolded exportReserveLogic_Inr [OF e1]]]
  from e2 s1 keys obtain d2 where d2: "getGenericLogicContractFactory R a1 = Inr d2" "a1 \<noteq> []"
    "x2 = saved R ''GenericLogic'' d2 w1"
    by (auto simp: exportGenericLogic_Inr [OF R(2)])
  note s2 = save_and_create [OF R(1,3) s keys(2) 2 [unfolded d2(3)]]
  have "readDb R ''ReserveLogic'' w2 = Some (by_signer a1 s)" "readDb R ''GenericLogic'' w2 = Some (by_signer a2 s)"
    using s1 s2 keys by simp_all
  with e3 obtain d3 where d3: "getValidationLogicContractFactory R a1 a2 = Inr d3" "x3 = saved R ''ValidationLogic'' d3 w2"
    by (auto simp: exportValidationLogic_Inr [OF R(2)])
  note s3 = save_and_create [OF R(1,3) s keys(3) 3 [unfolded d3(2)]]
  have db: "readDb R ''ReserveLogic'' w' = Some (by_signer a1 s)" "readDb R ''GenericLogic'' w' = Some (by_signer a2 s)"
    "readDb R ''ValidationLogic'' w' = Some (by_signer a3 s)"
    using s1 s2 s3 keys by simp_all
  have "poolLibraries R w' = (Inr (toPalmyLibs a3 a1), w')" if "a3 \<noteq> []"
  proof -
    have "getContractAddressWithJsonFallback R ''ReserveLogic'' ''Palmy'' w' = (Inr a1, w')"
      "getContractAddressWithJsonFallback R ''ValidationLogic'' ''Palmy'' w' = (Inr a3, w')"
      using that d2(2) db by (simp_all add: library_address_Inr [OF R(2)])
    then show ?thesis by (simp add: poolLibraries_def bindA_def)
  qed
  then show ?thesis
    unfolding Let_def
    using d2(1) d3(1) s1 s2 s3 db by (intro exI [of _ a1] exI [of _ a2] exI [of _ a3] exI [of _ d2] exI [of _ d3]) simp
qed

lemma save_and_create_runs:
  assumes "thisNetwork R = ''testnet''" "getFirstSigner R = Some s" "\<And>ts t. reverts (rtChain R) ts t = None"
  shows "\<exists>w'. deployToOasysTestnet R i (saved R i d w) = (Inr (created (rtChain R) (sent w) (creation s d)), w')"
  using assms saved_file [of R i d w i] by (auto simp: deployToOasysTestnet_Inr)

lemma factories_known:
  "\<exists>d. getGenericLogicContractFactory testnet_runtime a = Inr d"
  "\<exists>d. getValidationLogicContractFactory testnet_runtime a b = Inr d"
  by (simp_all add: getGenericLogicContractFactory_def getValidationLogicContractFactory_def
      testnet_runtime_def sample_runtime_def linkedFactory_def)

theorem oasys_libraries_linked_witness:
  "\<exists>w'. oasysDeploymentLibraries testnet_runtime empty_world = (Inr (), w') \<and> length (sent w') = 3 \<and>
     (\<exists>libs. poolLibraries testnet_runtime w' = (Inr libs, w'))"
proof -
  let ?R = testnet_runtime
  note ok = testnet_runtime_ok
  note runs = save_and_create_runs [OF ok(6,4,5)]
  have created: "created (rtChain ?R) ts t \<noteq> []" for ts t by (simp add: testnet_runtime_def sample_runtime_def)
  have keys: "plain_key ''ReserveLogic''" "plain_key ''GenericLogic''" "plain_key ''ValidationLogic''"
    by (simp_all add: plain_key_def)
  let ?d1 = "rtCallData ?R ''ReserveLogic'' []"
  have e1: "exportReserveLogic ?R empty_world = (Inr (), saved ?R ''ReserveLogic'' ?d1 empty_world)"
    using genesis_admin_known [of ?R PalmyConfig]
    by (auto simp: exportReserveLogic_def exportTo_def exportDeploymentCallData_def getDeploymentCallData_def
        getDeployArgs_cases [OF ok(3)] bindA_def saveDeploymentCallData_saved)
  obtain w1 a1 where 1: "deployToOasysTestnet ?R ''ReserveLogic'' (saved ?R ''ReserveLogic'' ?d1 empty_world) = (Inr a1, w1)" "a1 \<noteq> []"
    using runs created by metis
  note s1 = save_and_create [OF ok(1,6,4) keys(1) 1(1)]
  obtain d2 where d2: "getGenericLogicContractFactory ?R a1 = Inr d2" using factories_known(1) by blast
  have e2: "exportGenericLogic ?R w1 = (Inr (), saved ?R ''GenericLogic'' d2 w1)"
    using s1 keys 1(2) d2 by (auto simp: exportGenericLogic_Inr [OF ok(2)])
  obtain w2 a2 where 2: "deployToOasysTestnet ?R ''GenericLogic'' (saved ?R ''GenericLogic'' d2 w1) = (Inr a2, w2)" "a2 \<noteq> []"
    using runs created by metis
  note s2 = save_and_create [OF ok(1,6,4) keys(2) 2(1)]
  obtain d3 where d3: "getValidationLogicContractFactory ?R a1 a2 = Inr d3" using factories_known(2) by blast
  have e3: "exportValidationLogic ?R w2 = (Inr (), saved ?R ''ValidationLogic'' d3 w2)"
    using s1 s2 keys 1(2) 2(2) d3 by (auto simp: exportValidationLogic_Inr [OF ok(2)])
  obtain w3 a3 where 3: "deployToOasysTestnet ?R ''ValidationLogic'' (saved ?R ''ValidationLogic'' d3 w2) = (Inr a3, w3)"
    using runs by metis
  have run: "oasysDeploymentLibraries ?R empty_world = (Inr (), w3)"
    by (simp add: oasysDeploymentLibraries_def thenA_def bindA_def whenA_def ok(6) e1 1 e2 2 e3 3)
  from oasys_libraries_linked [OF ok(1,2,6,4) run]
  have "length (sent w3) = 3 \<and> (\<exists>libs. poolLibraries ?R w3 = (Inr libs, w3))"
    unfolding Let_def by (auto simp: empty_world_def created)
  with run show ?thesis by blast
qed

subsection \<open>Two tasks without their configuration\<close>

text \<open>The market configures no pool and no fallback oracle, so that two of the operating tasks throw
  before they do anything.\<close>

lemma pausing_throws: "\<exists>e. pauseLendingPool R pool stop w = (Inl e, w)"
  by (auto simp: pauseLendingPool_def bindA_def loadPoolConfig_def config_entry_def getParamPerNetwork_def)

lemma fallback_prices_throw: "\<exists>e. setPriceInFallbackOracle R w = (Inl e, w)"
  by (auto simp: setPriceInFallbackOracle_def bindA_def loadPoolConfig_def config_entry_def paramA_def
      getParamPerNetwork_def)


subsection \<open>Initialising what was deployed\<close>

text \<open>Every contract of the market is in the database under a valid address.\<close>

definition deployedAddress :: "'d runtime \<Rightarrow> 'd world \<Rightarrow> string \<Rightarrow> string" where
  "deployedAddress R w i = entryAddress (the (readDb R i w))"

definition all_deployed :: "'d runtime \<Rightarrow> 'd world \<Rightarrow> bool" where
  "all_deployed R w \<longleftrightarrow> (\<forall>i \<in> set DEPLOYMENT_CONTRACTS.
     readDb R i w \<noteq> None \<and> notFalsyOrZeroAddress (rtAddresses R) (Some (deployedAddress R w i)))"

lemma all_deployed_sent [simp]: "all_deployed R (w\<lparr>sent := ts\<rparr>) = all_deployed R w"
  by (simp add: all_deployed_def deployedAddress_def)

lemma all_deployed_registered:
  assumes "stored R" "plain_key i" "i \<notin> set DEPLOYMENT_CONTRACTS" "all_deployed R w"
  shows "all_deployed R (registered R i a d w)"
proof -
  have "readDb R j (registered R i a d w) = readDb R j w" if "j \<in> set DEPLOYMENT_CONTRACTS" for j
    using assms(3) that deployment_contracts(4) [OF that] by (auto simp: readDb_registered [OF assms(1,2)])
  with assms(4) show ?thesis by (simp add: all_deployed_def deployedAddress_def)
qed

lemma deployed_entry:
  assumes "all_deployed R w" "i \<in> set DEPLOYMENT_CONTRACTS"
  obtains e where "readDb R i w = Some e" "notFalsyOrZeroAddress (rtAddresses R) (Some (entryAddress e))"
  using assms by (auto simp: all_deployed_def deployedAddress_def)

lemma deployment_deploys_all:
  assumes "stored R" "oasys_network R" "thisNetwork R = ''testnet''" "getFirstSigner R = Some s"
    and run: "oasysDeployment R w = (Inr u, w')"
    and valid: "\<And>ts t. notFalsyOrZeroAddress (rtAddresses R) (Some (created (rtChain R) ts t))"
  shows "all_deployed R w'"
proof -
  obtain data where found: "\<forall>k < length DEPLOYMENT_CONTRACTS. connectedAddress R (DEPLOYMENT_CONTRACTS ! k) None w' =
      (Inr (created (rtChain R) (sent w @ creations s data (take k DEPLOYMENT_CONTRACTS))
         (creation s (data (DEPLOYMENT_CONTRACTS ! k)))), w')"
    using oasysDeployment_effect [OF assms(1,2,4) run] assms(3) by auto
  have "readDb R i w' \<noteq> None \<and> notFalsyOrZeroAddress (rtAddresses R) (Some (deployedAddress R w' i))"
    if "i \<in> set DEPLOYMENT_CONTRACTS" for i
  proof -
    from that obtain k where k: "k < length DEPLOYMENT_CONTRACTS" "DEPLOYMENT_CONTRACTS ! k = i"
      by (metis in_set_conv_nth)
    from found k(1) obtain ts t where "connectedAddress R i None w' = (Inr (created (rtChain R) ts t), w')"
      unfolding k(2) [symmetric] by blast
    then obtain e where "readDb R i w' = Some e" "entryAddress e = created (rtChain R) ts t"
      unfolding connected_pure by auto
    with valid show ?thesis by (simp add: deployedAddress_def)
  qed
  then show ?thesis by (simp add: all_deployed_def)
qed

lemma deployment_ids:
  "''LendingPoolAddressesProviderRegistry'' \<in> set DEPLOYMENT_CONTRACTS"
  "''LendingPoolAddressesProvider'' \<in> set DEPLOYMENT_CONTRACTS"
  "''LendingPoolImpl'' \<in> set DEPLOYMENT_CONTRACTS"
  "''LendingPoolConfiguratorImpl'' \<in> set DEPLOYMENT_CONTRACTS"
  "''StableAndVariableTokensHelper'' \<in> set DEPLOYMENT_CONTRACTS"
  "''LTokensAndRatesHelper'' \<in> set DEPLOYMENT_CONTRACTS"
  "''PalmyProtocolDataProvider'' \<in> set DEPLOYMENT_CONTRACTS"
  "''LendingPool'' \<notin> set DEPLOYMENT_CONTRACTS" "''LendingPoolConfigurator'' \<notin> set DEPLOYMENT_CONTRACTS"
  by (simp_all add: DEPLOYMENT_CONTRACTS_def)

lemma connected_eval:
  "connectedAddress R i None w = (case readDb R i w of
     None \<Rightarrow> (Inl ''Cannot read properties of undefined (reading address)'', w)
   | Some e \<Rightarrow> (Inr (entryAddress e), w))"
  by (simp add: connectedAddress_def databaseAddress_def truthy_def split: option.split)

lemma insert_eval: "insertContractAddressInDb R i a w = (Inr (), registered R i a None w)"
  by (simp add: insert_Inr)

lemma callFrom_runs:
  assumes "getFirstSigner R = Some s" "\<And>ts t. reverts (rtChain R) ts t = None"
  shows "callFrom R target method args w = (Inr (), w\<lparr>sent := sent w @ [callTx target method args s]\<rparr>)"
  using assms by (simp add: callFrom_Inr)

lemma emergency_admin_known: "\<exists>a. getEmergencyAdmin R config = Inr a"
  by (simp add: getEmergencyAdmin_def getParamPerNetwork_def)

text \<open>Evaluating an initialisation step by step.\<close>

lemmas step_eval = bindA_def thenA_def guardA_def getter_defs connected_eval insert_eval

lemma initializeAddressProvider_runs:
  assumes ok: "all_deployed R w" and s: "getFirstSigner R = Some s"
    and runs: "\<And>ts t. reverts (rtChain R) ts t = None"
  shows "\<exists>w'. initializeAddressProvider R w = (Inr (), w') \<and> all_deployed R w'"
proof -
  from ok deployment_ids(1) obtain a where a: "readDb R ''LendingPoolAddressesProviderRegistry'' w = Some a"
    "notFalsyOrZeroAddress (rtAddresses R) (Some (entryAddress a))" by (rule deployed_entry)
  from ok deployment_ids(2) obtain b where b: "readDb R ''LendingPoolAddressesProvider'' w = Some b"
    by (rule deployed_entry)
  obtain x y where admins: "getGenesisPoolAdmin R PalmyConfig = Inr x" "getEmergencyAdmin R PalmyConfig = Inr y"
    using genesis_admin_known emergency_admin_known by blast
  have missing: "\<not> notFalsyOrZeroAddress (rtAddresses R) None" by (simp add: notFalsyOrZeroAddress_def)
  have cfg: "loadPoolConfig ''Palmy'' = Inr PalmyConfig" by (simp add: loadPoolConfig_def)
  show ?thesis
    using ok by (simp add: initializeAddressProvider_def step_eval a b missing databaseAddress_def cfg admins
        callFrom_runs [OF s runs])
qed

lemma initializeLendingPool_runs:
  assumes R: "stored R" and ok: "all_deployed R w" and s: "getFirstSigner R = Some s"
    and runs: "\<And>ts t. reverts (rtChain R) ts t = None"
  shows "\<exists>w' pool configurator. initializeLendingPool R V w = (Inr (), w') \<and> all_deployed R w' \<and>
    getLendingPool R None w' = (Inr pool, w') \<and>
    getLendingPoolConfiguratorProxy R None w' = (Inr configurator, w')"
proof -
  have keys: "plain_key ''LendingPool''" "plain_key ''LendingPoolConfigurator''"
    "plain_key ''LendingPoolConfiguratorImpl''" "plain_key ''StableAndVariableTokensHelper''"
    "plain_key ''LTokensAndRatesHelper''" "plain_key ''LendingPoolAddressesProvider''"
    by (simp_all add: plain_key_def)
  from ok deployment_ids(3) obtain a where a: "readDb R ''LendingPoolImpl'' w = Some a" by (rule deployed_entry)
  from ok deployment_ids(2) obtain b where b: "readDb R ''LendingPoolAddressesProvider'' w = Some b"
    by (rule deployed_entry)
  from ok deployment_ids(4) obtain c where c: "readDb R ''LendingPoolConfiguratorImpl'' w = Some c"
    by (rule deployed_entry)
  from ok deployment_ids(5) obtain d where d: "readDb R ''StableAndVariableTokensHelper'' w = Some d"
    "notFalsyOrZeroAddress (rtAddresses R) (Some (entryAddress d))" by (rule deployed_entry)
  from ok deployment_ids(6) obtain e where e: "readDb R ''LTokensAndRatesHelper'' w = Some e"
    "notFalsyOrZeroAddress (rtAddresses R) (Some (entryAddress e))" by (rule deployed_entry)
  show ?thesis
    using ok by (simp add: initializeLendingPool_def step_eval a b c d e callFrom_runs [OF s runs]
        readDb_registered [OF R] keys all_deployed_registered [OF R keys(1) deployment_ids(8)]
        all_deployed_registered [OF R keys(2) deployment_ids(9)])
qed

lemma initializeDataProvider_runs:
  assumes ok: "all_deployed R w" and s: "getFirstSigner R = Some s"
    and runs: "\<And>ts t. reverts (rtChain R) ts t = None"
  shows "\<exists>ts. initializeDataProvider R w = (Inr (), w\<lparr>sent := ts\<rparr>)"
proof -
  from ok deployment_ids(7) obtain a where a: "readDb R ''PalmyProtocolDataProvider'' w = Some a"
    by (rule deployed_entry)
  from ok deployment_ids(2) obtain b where b: "readDb R ''LendingPoolAddressesProvider'' w = Some b"
    by (rule deployed_entry)
  show ?thesis
    by (auto simp: initializeDataProvider_def step_eval a b callFrom_runs [OF s runs])
qed



end
