(* ===== verification/TestEnvironment.thy ===== *)
theory TestEnvironment
  imports Getters ScenarioEngine
begin

text \<open>
  The test environment \<open>test-suites/test-palmy/helpers/make-suite.ts\<close>: connecting the deployed
  contracts, and suites that put the chain back where they found it, with the suite of a scenario
  from \<open>scenario.spec.ts\<close>.  The node that keeps snapshots and the runner that executes suites are
  packages and parameters.
\<close>

subsection \<open>Connecting the contracts\<close>

text \<open>Instances and signers are their addresses.\<close>

record TestEnv =
  teDeployer :: string
  teUsers :: "string list"
  tePool :: string
  teConfigurator :: string
  teOracle :: string
  teHelpersContract :: string
  teWeth :: string
  teLWETH :: string
  teDai :: string
  teUsdc :: string
  teUsdt :: string
  teWbtc :: string
  teLDai :: string
  teAddressesProvider :: string
  teRegistry :: string
  teWethGateway :: string

definition emptyTestEnv :: TestEnv where
  "emptyTestEnv =
   \<lparr>teDeployer = '''', teUsers = [], tePool = '''', teConfigurator = '''', teOracle = '''',
    teHelpersContract = '''', teWeth = '''', teLWETH = '''', teDai = '''', teUsdc = '''', teUsdt = '''',
    teWbtc = '''', teLDai = '''', teAddressesProvider = '''', teRegistry = '''', teWethGateway = ''''\<rparr>"

text \<open>What the data provider lists, symbols with addresses.\<close>

record token_views =
  tvLTokens :: "tx list \<Rightarrow> string \<Rightarrow> string obj"
  tvReserves :: "tx list \<Rightarrow> string \<Rightarrow> string obj"

definition guardExit :: "bool \<Rightarrow> ('d, unit) action" where
  "guardExit c = (if c then returnA () else throwA ''process.exit(1)'')"

definition connectRegistry :: "'d runtime \<Rightarrow> TestEnv \<Rightarrow> ('d, TestEnv) action" where
  "connectRegistry R env =
     (if truthy (envFORK (rtEnv R)) then
        bindA (liftA (getParamPerNetwork (rtEnv R) (config_entry PalmyConfig ''ProviderRegistry'')
          (the (envFORK (rtEnv R))))) (\<lambda>addr.
        bindA (getLendingPoolAddressesProviderRegistry R addr) (\<lambda>registry.
        returnA (env\<lparr>teRegistry := registry\<rparr>)))
      else
        bindA (getLendingPoolAddressesProviderRegistry R None) (\<lambda>registry.
        bindA (getPriceOracle R None) (\<lambda>priceOracle.
        returnA (env\<lparr>teRegistry := registry, teOracle := priceOracle\<rparr>))))"

definition initializeMakeSuite :: "'d runtime \<Rightarrow> token_views \<Rightarrow> TestEnv \<Rightarrow> ('d, TestEnv) action" where
  "initializeMakeSuite R V testEnv =
     bindA (requireA ''Cannot read properties of undefined'' (at_index (rtSigners R) 0)) (\<lambda>deployer.
     bindA (getLendingPool R None) (\<lambda>pool.
     bindA (getLendingPoolConfiguratorProxy R None) (\<lambda>configurator.
     bindA (getLendingPoolAddressesProvider R None) (\<lambda>provider.
     bindA (connectRegistry R (testEnv\<lparr>teUsers := teUsers testEnv @ drop 1 (rtSigners R),
         teDeployer := deployer, tePool := pool, teConfigurator := configurator,
         teAddressesProvider := provider\<rparr>)) (\<lambda>env.
     bindA (getPalmyProtocolDataProvider R None) (\<lambda>helpersContract.
     bindA (readA (\<lambda>w. tvLTokens V (sent w) helpersContract)) (\<lambda>allTokens.
     bindA (readA (\<lambda>w. tvReserves V (sent w) helpersContract)) (\<lambda>reservesTokens.
     thenA (guardExit (list_all (\<lambda>s. truthy (map_of allTokens s))
       [''lDAI'', ''lWETH'', ''lUSDC'', ''lUSDT'', ''lWBTC'']))
    (thenA (guardExit (list_all (\<lambda>s. truthy (map_of reservesTokens s))
       [''DAI'', ''WETH'', ''USDC'', ''USDT'', ''WBTC'']))
    (bindA (getLToken R (map_of allTokens ''lDAI'')) (\<lambda>lDai.
     bindA (getLToken R (map_of allTokens ''lWETH'')) (\<lambda>lWETH.
     bindA (getMintableERC20 R (map_of reservesTokens ''DAI'')) (\<lambda>dai.
     bindA (getWETHMocked R (map_of reservesTokens ''WETH'')) (\<lambda>weth.
     bindA (getMintableERC20 R (map_of reservesTokens ''USDC'')) (\<lambda>usdc.
     bindA (getMintableERC20 R (map_of reservesTokens ''USDT'')) (\<lambda>usdt.
     bindA (getMintableERC20 R (map_of reservesTokens ''WBTC'')) (\<lambda>wbtc.
     bindA (getWETHGateway R None) (\<lambda>wethGateway.
     returnA (env\<lparr>teHelpersContract := helpersContract, teLDai := lDai, teLWETH := lWETH, teDai := dai,
       teWeth := weth, teUsdc := usdc, teUsdt := usdt, teWbtc := wbtc,
       teWethGateway := wethGateway\<rparr>)))))))))))))))))))"

subsection \<open>Snapshots\<close>

text \<open>\<open>DRE && (network.name.includes('tenderly') || process.env.TENDERLY === 'true')\<close>\<close>

definition usingTenderly :: "environment \<Rightarrow> bool" where
  "usingTenderly e \<longleftrightarrow> includes_string (networkName e) ''tenderly'' \<or> envTENDERLY e = Some ''true''"

text \<open>The node: \<open>evm_snapshot\<close> and \<open>evm_revert\<close> of Hardhat, \<open>getHead\<close> and \<open>setHead\<close> of a Tenderly
  fork.  Its own bookkeeping has type \<open>'n\<close>; the state of the chain is given by the transactions.\<close>

record 'n node_api =
  evmSnapshot :: "'n \<Rightarrow> tx list \<Rightarrow> string \<times> 'n"
  evmRevert :: "'n \<Rightarrow> string \<Rightarrow> tx list \<Rightarrow> tx list \<times> 'n"
  getHead :: "'n \<Rightarrow> tx list \<Rightarrow> string option \<times> 'n"
  setHead :: "'n \<Rightarrow> string \<Rightarrow> tx list \<Rightarrow> tx list \<times> 'n"

record ('d, 'n) tested =
  tdWorld :: "'d world"
  tdNode :: 'n
  buidlerevmSnapshotId :: string

definition initialSnapshotId :: string where "initialSnapshotId = ''0x1''"

definition setSnapshot :: "environment \<Rightarrow> 'n node_api \<Rightarrow> ('d, 'n) tested \<Rightarrow> ('d, 'n) tested" where
  "setSnapshot e N t =
     (if usingTenderly e then
        (case getHead N (tdNode t) (sent (tdWorld t)) of (head, n) \<Rightarrow>
          t\<lparr>tdNode := n, buidlerevmSnapshotId := (if truthy head then the head else ''0x1'')\<rparr>)
      else
        (case evmSnapshot N (tdNode t) (sent (tdWorld t)) of (snapshotId, n) \<Rightarrow>
          t\<lparr>tdNode := n, buidlerevmSnapshotId := snapshotId\<rparr>))"

definition revertHead :: "environment \<Rightarrow> 'n node_api \<Rightarrow> ('d, 'n) tested \<Rightarrow> ('d, 'n) tested" where
  "revertHead e N t =
     (case (if usingTenderly e
            then setHead N (tdNode t) (buidlerevmSnapshotId t) (sent (tdWorld t))
            else evmRevert N (tdNode t) (buidlerevmSnapshotId t) (sent (tdWorld t))) of (ts, n) \<Rightarrow>
        t\<lparr>tdWorld := (tdWorld t)\<lparr>sent := ts\<rparr>, tdNode := n\<rparr>)"

text \<open>A suite registers its hooks and tests with \<open>describe\<close>, the runner.\<close>

definition makeSuite ::
  "((('d, 'n) tested \<Rightarrow> ('d, 'n) tested) \<Rightarrow> 'tests \<Rightarrow> (('d, 'n) tested \<Rightarrow> ('d, 'n) tested) \<Rightarrow>
     ('d, 'n) tested \<Rightarrow> ('d, 'n) tested) \<Rightarrow>
   environment \<Rightarrow> 'n node_api \<Rightarrow> 'tests \<Rightarrow> ('d, 'n) tested \<Rightarrow> ('d, 'n) tested" where
  "makeSuite describe e N tests = describe (setSnapshot e N) tests (revertHead e N)"

subsection \<open>The suite of a scenario\<close>

text \<open>A story is one test, retried up to four times when it fails; a test that fails does not stop the
  next.\<close>

fun retryTest :: "nat \<Rightarrow> ('d, unit) action \<Rightarrow> 'd world \<Rightarrow> 'd world" where
  "retryTest 0 m w = snd (m w)"
| "retryTest (Suc k) m w = (case m w of (Inr u, w') \<Rightarrow> w' | (Inl e, w') \<Rightarrow> retryTest k m w')"

text \<open>The hook \<open>Initializing configuration\<close> enables stable rates; when it fails no test runs.\<close>

definition enableStableRates :: "'d runtime \<Rightarrow> TestEnv \<Rightarrow> ('d, unit) action" where
  "enableStableRates R env =
     thenA (callFrom R (teConfigurator env) ''enableReserveStableRate'' [AAddress (teWeth env)])
           (callFrom R (teConfigurator env) ''enableReserveStableRate'' [AAddress (teUsdc env)])"

definition scenarioTests ::
  "'d runtime \<Rightarrow> TestEnv \<Rightarrow> ('b, 'd) suite \<Rightarrow> scenario \<Rightarrow> ('d, 'n) tested \<Rightarrow> ('d, 'n) tested" where
  "scenarioTests R env S sc t =
     t\<lparr>tdWorld :=
       (case enableStableRates R env (tdWorld t) of
          (Inl e, w) \<Rightarrow> w
        | (Inr u, w) \<Rightarrow> fold (\<lambda>st. retryTest 4 (executeStory S (teUsers env) st)) (scenarioStories sc) w)\<rparr>"

end
