(* ===== verification/SuiteClaims.thy ===== *)
theory SuiteClaims
  imports ScenarioClaims DeployClaims TestEnvironment
begin

text \<open>
  Suites leave the chain as they found it: what they need of a node, the node of Hardhat, and the
  suites of the scenarios.
\<close>

subsection \<open>Nodes with snapshots\<close>

text \<open>What suites rely on: a node that is \<open>good\<close> can take a snapshot, which it \<open>holds\<close> until it is
  reverted to or an older one is; reverting to a held snapshot restores the chain.\<close>

locale evm_node =
  fixes N :: "'n node_api"
    and good :: "'n \<Rightarrow> bool"
    and holds :: "'n \<Rightarrow> string \<Rightarrow> tx list \<Rightarrow> bool"
    and newer :: "'n \<Rightarrow> string \<Rightarrow> string \<Rightarrow> bool"
  assumes snapshot: "good n \<Longrightarrow> evmSnapshot N n ts = (i, n') \<Longrightarrow> good n' \<and> holds n' i ts"
    and snapshot_keeps: "good n \<Longrightarrow> evmSnapshot N n ts = (i, n') \<Longrightarrow> holds n j us \<Longrightarrow> holds n' j us"
    and revert_restores: "good n \<Longrightarrow> holds n i ts \<Longrightarrow> evmRevert N n i us = (vs, n') \<Longrightarrow> vs = ts \<and> good n'"
    and revert_keeps: "good n \<Longrightarrow> holds n i ts \<Longrightarrow> newer n j i \<Longrightarrow> evmRevert N n j us = (vs, n') \<Longrightarrow>
      good n' \<and> holds n' i ts"
begin

text \<open>What the tests of a suite may do while the suite's snapshot is \<open>i\<close>: anything to the chain, the
  database and the files; take snapshots of their own; and revert to newer ones.\<close>

inductive test_run :: "string \<Rightarrow> ('d, 'n) tested \<Rightarrow> ('d, 'n) tested \<Rightarrow> bool" for i t where
  start: "test_run i t t"
| act: "test_run i t t' \<Longrightarrow> test_run i t (t'\<lparr>tdWorld := w\<rparr>)"
| snap: "test_run i t t' \<Longrightarrow> evmSnapshot N (tdNode t') (sent (tdWorld t')) = (j, n) \<Longrightarrow>
    test_run i t (t'\<lparr>tdNode := n\<rparr>)"
| rewind: "test_run i t t' \<Longrightarrow> newer (tdNode t') j i \<Longrightarrow>
    evmRevert N (tdNode t') j (sent (tdWorld t')) = (ts, n) \<Longrightarrow>
    test_run i t (t'\<lparr>tdWorld := (tdWorld t')\<lparr>sent := ts\<rparr>, tdNode := n\<rparr>)"

lemma test_run_holds:
  assumes "test_run i t t'" "good (tdNode t)" "holds (tdNode t) i ts"
  shows "good (tdNode t') \<and> holds (tdNode t') i ts \<and> buidlerevmSnapshotId t' = buidlerevmSnapshotId t"
  using assms
  by (induction rule: test_run.induct) (auto dest: snapshot snapshot_keeps revert_keeps)

lemma suite_restores:
  assumes "\<not> usingTenderly e" "good (tdNode t)"
    and run: "test_run (buidlerevmSnapshotId (setSnapshot e N t)) (setSnapshot e N t) t'"
  shows "sent (tdWorld (revertHead e N t')) = sent (tdWorld t) \<and> good (tdNode (revertHead e N t'))"
proof -
  obtain i n where s: "evmSnapshot N (tdNode t) (sent (tdWorld t)) = (i, n)" by fastforce
  then have set: "setSnapshot e N t = t\<lparr>tdNode := n, buidlerevmSnapshotId := i\<rparr>"
    using assms(1) by (simp add: setSnapshot_def)
  from snapshot [OF assms(2) s] test_run_holds [OF run, of "sent (tdWorld t)"]
  have h: "good (tdNode t')" "holds (tdNode t') i (sent (tdWorld t))" "buidlerevmSnapshotId t' = i"
    by (simp_all add: set)
  then show ?thesis
    using assms(1) revert_restores [OF h(1,2)]
    by (auto simp: revertHead_def split: prod.split)
qed

end

subsection \<open>The node of Hardhat\<close>

text \<open>Snapshots are numbered; reverting drops the snapshot and all newer ones, and an unknown number
  changes nothing.\<close>

record hardhat =
  hhNext :: nat
  hhSnapshots :: "tx list obj"     \<comment> \<open>newest first\<close>

definition snapshot_id :: "nat \<Rightarrow> string" where "snapshot_id k = ''0x'' @ hex_string (int k)"

definition older :: "hardhat \<Rightarrow> string \<Rightarrow> tx list obj" where
  "older n i = tl (dropWhile (\<lambda>s. fst s \<noteq> i) (hhSnapshots n))"

definition hardhat_node :: "hardhat node_api" where
  "hardhat_node =
   \<lparr>evmSnapshot = \<lambda>n ts. (snapshot_id (hhNext n),
      n\<lparr>hhNext := hhNext n + 1, hhSnapshots := (snapshot_id (hhNext n), ts) # hhSnapshots n\<rparr>),
    evmRevert = \<lambda>n i ts. (case map_of (hhSnapshots n) i of None \<Rightarrow> (ts, n)
      | Some us \<Rightarrow> (us, n\<lparr>hhSnapshots := older n i\<rparr>)),
    getHead = \<lambda>n ts. (None, n), setHead = \<lambda>n i ts. (ts, n)\<rparr>"

definition hardhat_good :: "hardhat \<Rightarrow> bool" where
  "hardhat_good n \<longleftrightarrow> distinct (map fst (hhSnapshots n)) \<and>
     fst ` set (hhSnapshots n) \<subseteq> snapshot_id ` {..<hhNext n}"

definition hardhat_holds :: "hardhat \<Rightarrow> string \<Rightarrow> tx list \<Rightarrow> bool" where
  "hardhat_holds n i ts \<longleftrightarrow> map_of (hhSnapshots n) i = Some ts"

definition hardhat_newer :: "hardhat \<Rightarrow> string \<Rightarrow> string \<Rightarrow> bool" where
  "hardhat_newer n j i \<longleftrightarrow> i \<in> fst ` set (older n j)"

lemma snapshot_id_inject: "snapshot_id j = snapshot_id k \<longleftrightarrow> j = k"
proof
  assume "snapshot_id j = snapshot_id k"
  then have "read_int (snapshot_id j) = read_int (snapshot_id k)" by simp
  then show "j = k"
    by (simp only: snapshot_id_def read_int_hex_string of_nat_0_le_iff option.inject of_nat_eq_iff)
qed simp

lemma hardhat_fresh: "hardhat_good n \<Longrightarrow> snapshot_id (hhNext n) \<notin> fst ` set (hhSnapshots n)"
  unfolding hardhat_good_def by (auto simp: snapshot_id_inject)

lemma older_drop: "\<exists>k. older n i = drop k (hhSnapshots n)"
  by (metis older_def dropWhile_eq_drop drop_Suc tl_drop)

lemma good_older:
  assumes "hardhat_good n"
  shows "hardhat_good (n\<lparr>hhSnapshots := older n i\<rparr>)" "set (older n i) \<subseteq> set (hhSnapshots n)"
proof -
  obtain k where "older n i = drop k (hhSnapshots n)" using older_drop by blast
  with assms show "hardhat_good (n\<lparr>hhSnapshots := older n i\<rparr>)" "set (older n i) \<subseteq> set (hhSnapshots n)"
    by (auto simp: hardhat_good_def drop_map [symmetric] dest: set_mp [OF set_drop_subset])
qed

interpretation hh: evm_node hardhat_node hardhat_good hardhat_holds hardhat_newer
proof unfold_locales
  fix n n' ts i
  assume g: "hardhat_good n" and s: "evmSnapshot hardhat_node n ts = (i, n')"
  have "snapshot_id ` {..<hhNext n} \<subseteq> snapshot_id ` {..<Suc (hhNext n)}" by (intro image_mono) auto
  with g have "fst ` set (hhSnapshots n) \<subseteq> snapshot_id ` {..<Suc (hhNext n)}"
    unfolding hardhat_good_def by blast
  moreover have "snapshot_id (hhNext n) \<in> snapshot_id ` {..<Suc (hhNext n)}" by simp
  moreover have "i = snapshot_id (hhNext n)"
    "n' = n\<lparr>hhNext := Suc (hhNext n), hhSnapshots := (snapshot_id (hhNext n), ts) # hhSnapshots n\<rparr>"
    using s by (auto simp: hardhat_node_def)
  ultimately show "hardhat_good n' \<and> hardhat_holds n' i ts"
    using hardhat_fresh [OF g] g by (simp add: hardhat_good_def hardhat_holds_def)
next
  fix n n' ts i j us
  assume g: "hardhat_good n" and s: "evmSnapshot hardhat_node n ts = (i, n')" and h: "hardhat_holds n j us"
  have "j \<in> fst ` set (hhSnapshots n)"
    using h by (simp add: hardhat_holds_def weak_map_of_SomeI map_of_eq_Some_iff image_iff) (metis fst_conv map_of_SomeD)
  then have "j \<noteq> snapshot_id (hhNext n)" using hardhat_fresh [OF g] by blast
  then show "hardhat_holds n' j us" using s h by (auto simp: hardhat_node_def hardhat_holds_def)
next
  fix n i ts us vs n'
  assume g: "hardhat_good n" and "hardhat_holds n i ts" "evmRevert hardhat_node n i us = (vs, n')"
  then show "vs = ts \<and> hardhat_good n'"
    using good_older(1) [OF g] by (auto simp: hardhat_node_def hardhat_holds_def)
next
  fix n i ts j us vs n'
  assume g: "hardhat_good n" and h: "hardhat_holds n i ts" and nw: "hardhat_newer n j i"
    and r: "evmRevert hardhat_node n j us = (vs, n')"
  have d: "distinct (map fst (hhSnapshots n))" using g by (simp add: hardhat_good_def)
  from nw obtain xs where "(i, xs) \<in> set (older n j)" by (auto simp: hardhat_newer_def)
  moreover have "(i, ts) \<in> set (hhSnapshots n)" using h by (simp add: hardhat_holds_def map_of_SomeD)
  moreover have "distinct (map fst (older n j))" using good_older(1) [OF g, of j] by (simp add: hardhat_good_def)
  ultimately have "map_of (older n j) i = Some ts"
    using good_older(2) [OF g, of j] eq_key_imp_eq_value [OF d, of i xs ts] by auto
  then show "hardhat_good n' \<and> hardhat_holds n' i ts"
    using r g h good_older(1) [OF g, of j]
    by (auto simp: hardhat_node_def hardhat_holds_def split: option.splits)
qed

subsection \<open>Scenario suites\<close>

text \<open>C17: Suites do not disturb each other.  When the runner runs the first hook, the tests and the last
  hook in order, the node keeps snapshots as Hardhat does, and tests revert only to snapshots they took
  themselves, the chain after a suite is the chain before it, whatever its tests did; hence in a sequence
  of suites every one starts from the chain the first one found.\<close>

theorem suites_are_isolated:
  assumes N: "evm_node N good holds newer" and e: "\<not> usingTenderly e" and t: "good (tdNode t)"
    and describe: "\<And>b T a t. describe b T a t = a (T (b t))"
    and tests: "\<And>T t. T \<in> set suites \<Longrightarrow>
      evm_node.test_run N newer (buidlerevmSnapshotId t) t (T t)"
  shows "sent (tdWorld (fold (makeSuite describe e N) (take k suites) t)) = sent (tdWorld t)"
proof -
  have step: "sent (tdWorld (makeSuite describe e N T u)) = sent (tdWorld u) \<and>
      good (tdNode (makeSuite describe e N T u))" if "T \<in> set suites" "good (tdNode u)" for T u
    using evm_node.suite_restores [OF N e that(2) tests [OF that(1)]]
    by (simp add: makeSuite_def describe)
  have "sent (tdWorld (fold (makeSuite describe e N) Ts u)) = sent (tdWorld u)"
    if "set Ts \<subseteq> set suites" "good (tdNode u)" for Ts u
    using that by (induction Ts arbitrary: u) (auto simp: step)
  from this [OF set_take_subset t] show ?thesis .
qed

subsection \<open>Scenario suites on the node of Hardhat\<close>

text \<open>The tests of a scenario act on the world only.\<close>

lemma scenario_is_a_test_run:
  "evm_node.test_run hardhat_node hardhat_newer i t (scenarioTests R env S sc t)"
  unfolding scenarioTests_def by (intro hh.test_run.act hh.test_run.start)

definition fresh_node :: "(json_db, hardhat) tested" where
  "fresh_node = \<lparr>tdWorld = sample_world, tdNode = \<lparr>hhNext = 1, hhSnapshots = []\<rparr>,
     buidlerevmSnapshotId = initialSnapshotId\<rparr>"

definition sample_scenario :: "string \<Rightarrow> scenario" where
  "sample_scenario name = \<lparr>scenarioTitle = name, scenarioDescription = '''',
     scenarioStories = [sample_story [sample_action name ''success'']]\<rparr>"

definition sample_suites :: "((json_db, hardhat) tested \<Rightarrow> (json_db, hardhat) tested) list" where
  "sample_suites = map (\<lambda>name. scenarioTests sample_runtime (emptyTestEnv\<lparr>teUsers := [''0xA11CE'']\<rparr>)
     sample_suite (sample_scenario name)) [''deposit'', ''withdraw'']"

theorem suites_are_isolated_witness:
  "sent (tdWorld (fold (makeSuite (\<lambda>b T a t. a (T (b t))) (rtEnv sample_runtime) hardhat_node)
      (take 2 sample_suites) fresh_node)) = sent sample_world"
proof -
  have e: "\<not> usingTenderly (rtEnv sample_runtime)"
    by (simp add: usingTenderly_def sample_runtime_def includes_string.simps)
  have g: "hardhat_good (tdNode fresh_node)" by (simp add: hardhat_good_def fresh_node_def)
  have r: "evm_node.test_run hardhat_node hardhat_newer (buidlerevmSnapshotId t) t (T t)"
    if "T \<in> set sample_suites" for T t
    using that scenario_is_a_test_run by (auto simp: sample_suites_def)
  have "sent (tdWorld (fold (makeSuite (\<lambda>b T a t. a (T (b t))) (rtEnv sample_runtime) hardhat_node)
      (take 2 sample_suites) fresh_node)) = sent (tdWorld fresh_node)"
    by (rule suites_are_isolated [where N = hardhat_node and good = hardhat_good and holds = hardhat_holds
        and newer = hardhat_newer]) (rule hh.evm_node_axioms e g refl r | assumption)+
  then show ?thesis by (simp add: fresh_node_def)
qed

text \<open>On a fork the market has no registry to connect to, and the environment is never initialised.\<close>

lemma fork_environment_throws:
  assumes "truthy (envFORK (rtEnv R))"
  shows "\<exists>e. initializeMakeSuite R V env w = (Inl e, w)"
proof -
  have "config_entry PalmyConfig ''ProviderRegistry'' = None" by (simp add: config_entry_def)
  with assms have "connectRegistry R env' w = (Inl ''Cannot destructure property of undefined'', w)" for env'
    by (simp add: connectRegistry_def bindA_def getParamPerNetwork_def)
  then show ?thesis
    by (auto simp: initializeMakeSuite_def bindA_def requireA_def getter_defs connectedAddress_def
        databaseAddress_def truthy_def split: option.split sum.split)
qed

end
