(* ===== verification/PermitClaims.thy ===== *)
theory PermitClaims
  imports Permits
begin

text \<open>
  Properties of permits: what a wallet signs is what the token checks, and a signature
  authorises nothing else.
\<close>

subsection \<open>Encodings\<close>

lemma word_of_string_decimal [simp]: "word_of_string (decimal (uint (w :: 'w::len word))) = Some w"
  by (simp add: word_of_string_def decimal_def read_unsigned_digits_of)

lemma permit_types_encoded:
  "encodeType ''EIP712Domain''
     [(''name'', ''string''), (''version'', ''string''), (''chainId'', ''uint256''),
      (''verifyingContract'', ''address'')] =
   ''EIP712Domain(string name,string version,uint256 chainId,address verifyingContract)''"
  "encodeType ''Permit''
     [(''owner'', ''address''), (''spender'', ''address''), (''value'', ''uint256''),
      (''nonce'', ''uint256''), (''deadline'', ''uint256'')] =
   ''Permit(address owner,address spender,uint256 value,uint256 nonce,uint256 deadline)''"
  by (simp_all add: encodeType_def)

lemma sol_add_one:
  assumes "n \<noteq> - 1"
  shows "sol_add n 1 = Inr (n + 1)"
proof -
  have "uint n \<noteq> uint (- 1 :: uint256)"
    using assms by (simp only: word_uint_eq_iff) simp
  moreover have "uint (- 1 :: uint256) = 2 ^ 256 - 1"
    by (simp add: unsigned_minus_1_eq_mask mask_eq_exp_minus_1)
  ultimately have "uint n < 2 ^ 256 - 1"
    using uint_bounded [of n] by simp
  then show ?thesis
    by (simp add: sol_add_def require_def word_le_def uint_plus_if')
qed

lemma permit_iff:
  "sol_permit E t owner spender v d sg = Inr t' \<longleftrightarrow>
   owner \<noteq> 0 \<and> evmTimestamp E \<le> d \<and>
   evmRecover E (sol_permit_digest E t owner spender v (ltNonces t owner) d) sg = owner \<and>
   ltNonces t owner \<noteq> - 1 \<and> spender \<noteq> 0 \<and>
   t' = t\<lparr>ltNonces := (ltNonces t)(owner := ltNonces t owner + 1),
          ltAllowances := (ltAllowances t)(owner := (ltAllowances t owner)(spender := v))\<rparr>"
  by (cases "ltNonces t owner = - 1")
    (auto simp: sol_permit_def require_def Let_def sol_approve_def sol_add_one, simp add: sol_add_def require_def)

subsection \<open>Encodings are injective\<close>

lemma bytes32_bit:
  assumes "n < 256"
  shows "bit (bytes32 w ! (31 - n div 8)) (n mod 8) = bit w n"
proof -
  have "n div 8 < 32" using assms by (simp add: less_mult_imp_div_less)
  then have "31 - n div 8 < 32" "31 - (31 - n div 8) = n div 8" by simp_all
  then have "bytes32 w ! (31 - n div 8) = ucast (drop_bit (8 * (n div 8)) w)"
    by (simp add: bytes32_def nth_upt)
  moreover have "8 * (n div 8) + n mod 8 = n" by presburger
  ultimately show ?thesis
    by (simp add: bit_ucast_iff bit_drop_bit_eq)
qed

lemma bytes32_inject [simp]: "bytes32 a = bytes32 b \<longleftrightarrow> a = b"
proof
  assume eq: "bytes32 a = bytes32 b"
  show "a = b"
  proof (rule bit_word_eqI)
    fix n assume "n < LENGTH(256)"
    then show "bit a n \<longleftrightarrow> bit b n"
      using bytes32_bit [of n a] bytes32_bit [of n b] eq by simp
  qed
qed simp

lemma length_bytes32 [simp]: "length (bytes32 w) = 32"
  by (simp add: bytes32_def)

lemma abi_encode_inject: "length xs = length ys \<Longrightarrow> abi_encode xs = abi_encode ys \<longleftrightarrow> xs = ys"
  by (induction xs ys rule: list_induct2) (simp_all add: abi_encode_def)

lemma length_abi_encode [simp]: "length (abi_encode ws) = 32 * length ws"
  by (induction ws) (simp_all add: abi_encode_def)

lemma signed_bytes_inject [simp]:
  "signed_bytes ds sh = signed_bytes ds' sh' \<longleftrightarrow> ds = ds' \<and> sh = sh'"
  by (simp add: signed_bytes_def)

lemma string_bytes_inject [simp]: "string_bytes s = string_bytes s' \<longleftrightarrow> s = s'"
proof -
  have "inj (\<lambda>c. word_of_nat (of_char c) :: byte)"
  proof (rule injI)
    fix c c' :: char
    assume "(word_of_nat (of_char c) :: byte) = word_of_nat (of_char c')"
    then have "unat (word_of_nat (of_char c) :: byte) = unat (word_of_nat (of_char c') :: byte)" by simp
    then have "(of_char c :: nat) = of_char c'"
      by (simp add: unat_of_nat)
    then show "c = c'" by simp
  qed
  then show ?thesis by (simp add: string_bytes_def inj_map_eq_map)
qed

lemma ucast_address_inject [simp]: "(ucast (a :: address) :: uint256) = ucast b \<longleftrightarrow> a = b"
proof
  assume "(ucast a :: uint256) = ucast b"
  then have "uint (ucast a :: uint256) = uint (ucast b :: uint256)" by simp
  moreover have "take_bit 256 (uint w) = uint w" for w :: address
    using uint_lt2p [of w] by (intro take_bit_int_eq_self) simp_all
  ultimately show "a = b" by (simp add: unsigned_ucast_eq word_uint_eq_iff)
qed simp

subsection \<open>The fields of a permit\<close>

text \<open>The digest over the fields of a permit, and the byte strings it hashes.\<close>

record permit_fields =
  pfName :: string
  pfRevision :: string
  pfChain :: uint256
  pfToken :: address
  pfOwner :: address
  pfSpender :: address
  pfValue :: uint256
  pfNonce :: uint256
  pfDeadline :: uint256

definition domain_bytes :: "evm \<Rightarrow> permit_fields \<Rightarrow> byte list" where
  "domain_bytes E p = abi_encode
     [sol_EIP712_DOMAIN E, evmKeccak E (string_bytes (pfName p)), evmKeccak E (string_bytes (pfRevision p)),
      pfChain p, ucast (pfToken p)]"

definition message_bytes :: "evm \<Rightarrow> permit_fields \<Rightarrow> byte list" where
  "message_bytes E p = abi_encode
     [sol_PERMIT_TYPEHASH E, ucast (pfOwner p), ucast (pfSpender p), pfValue p, pfNonce p, pfDeadline p]"

definition digest_bytes :: "evm \<Rightarrow> permit_fields \<Rightarrow> byte list" where
  "digest_bytes E p = signed_bytes (evmKeccak E (domain_bytes E p)) (evmKeccak E (message_bytes E p))"

definition hashed_bytes :: "evm \<Rightarrow> permit_fields \<Rightarrow> byte list set" where
  "hashed_bytes E p =
     {string_bytes (pfName p), string_bytes (pfRevision p), domain_bytes E p, message_bytes E p, digest_bytes E p}"

lemma digest_determines_fields:
  assumes inj: "inj_on (evmKeccak E) (hashed_bytes E p \<union> hashed_bytes E q)"
    and eq: "evmKeccak E (digest_bytes E p) = evmKeccak E (digest_bytes E q)"
  shows "p = q"
proof -
  note eqI = inj_onD [OF inj]
  have "digest_bytes E p = digest_bytes E q"
    by (rule eqI [OF eq]) (simp_all add: hashed_bytes_def)
  then have 1: "evmKeccak E (domain_bytes E p) = evmKeccak E (domain_bytes E q)"
    and 2: "evmKeccak E (message_bytes E p) = evmKeccak E (message_bytes E q)"
    by (simp_all add: digest_bytes_def)
  have "domain_bytes E p = domain_bytes E q"
    by (rule eqI [OF 1]) (simp_all add: hashed_bytes_def)
  then have d: "evmKeccak E (string_bytes (pfName p)) = evmKeccak E (string_bytes (pfName q))"
      "evmKeccak E (string_bytes (pfRevision p)) = evmKeccak E (string_bytes (pfRevision q))"
      "pfChain p = pfChain q" "pfToken p = pfToken q"
    by (simp_all add: domain_bytes_def abi_encode_inject)
  have n: "string_bytes (pfName p) = string_bytes (pfName q)"
    by (rule eqI [OF d(1)]) (simp_all add: hashed_bytes_def)
  have r: "string_bytes (pfRevision p) = string_bytes (pfRevision q)"
    by (rule eqI [OF d(2)]) (simp_all add: hashed_bytes_def)
  have "message_bytes E p = message_bytes E q"
    by (rule eqI [OF 2]) (simp_all add: hashed_bytes_def)
  with d n r show ?thesis
    by (simp add: message_bytes_def abi_encode_inject)
qed

text \<open>The fields a permit is checked against, and the fields that are signed.\<close>

definition checked_fields :: "evm \<Rightarrow> ltoken \<Rightarrow> address \<Rightarrow> address \<Rightarrow> uint256 \<Rightarrow> uint256 \<Rightarrow> permit_fields" where
  "checked_fields E t owner spender v d =
     \<lparr>pfName = ltName t, pfRevision = sol_EIP712_REVISION, pfChain = evmChainId E, pfToken = ltAddress t,
      pfOwner = owner, pfSpender = spender, pfValue = v, pfNonce = ltNonces t owner, pfDeadline = d\<rparr>"

definition signed_fields :: "typed_data \<Rightarrow> permit_fields \<Rightarrow> bool" where
  "signed_fields td p \<longleftrightarrow> (\<exists>token owner spender.
     word_of_string token = Some (pfToken p) \<and> word_of_string owner = Some (pfOwner p) \<and>
     word_of_string spender = Some (pfSpender p) \<and>
     td = buildPermitParams (uint (pfChain p)) token (pfRevision p) (pfName p) owner spender
       (uint (pfNonce p)) (decimal (uint (pfDeadline p))) (decimal (uint (pfValue p))))"

lemma checked_digest:
  "sol_permit_digest E t owner spender v (ltNonces t owner) d =
   evmKeccak E (digest_bytes E (checked_fields E t owner spender v d))"
  by (simp add: sol_permit_digest_def digest_bytes_def domain_bytes_def message_bytes_def checked_fields_def)

lemma signed_digest:
  assumes "signed_fields td p"
  shows "typed_data_digest (evmKeccak E) td = Some (evmKeccak E (digest_bytes E p))"
proof -
  obtain token owner spender where s: "word_of_string token = Some (pfToken p)"
    "word_of_string owner = Some (pfOwner p)" "word_of_string spender = Some (pfSpender p)"
    "td = buildPermitParams (uint (pfChain p)) token (pfRevision p) (pfName p) owner spender
       (uint (pfNonce p)) (decimal (uint (pfDeadline p))) (decimal (uint (pfValue p)))"
    using assms by (auto simp: signed_fields_def)
  show ?thesis
    using uint_bounded [of "pfNonce p"] uint_bounded [of "pfChain p"] s(1-3)
    by (simp add: s(4) typed_data_digest_def buildPermitParams_def hashStruct_def encodeValue_def
      permit_types_encoded digest_bytes_def domain_bytes_def message_bytes_def sol_EIP712_DOMAIN_def
      sol_PERMIT_TYPEHASH_def)
qed

subsection \<open>A token and a wallet\<close>

text \<open>The first two accounts of the test wallets, a token they use, and a signer that packs the
  digest into the signature.\<close>

definition sample_owner :: string where "sample_owner = ''0xc783df8a850f42e7F7e57013759C285caa701eB6''"
definition sample_spender :: string where "sample_spender = ''0xeAD9C93b79Ae7C1591b1FB5323BD777E86e150d4''"
definition sample_token :: string where "sample_token = ''0x7c2C195CD6D34B8F845992d380aADB2730bB9C6F''"

definition sample_ltoken :: ltoken where
  "sample_ltoken =
     \<lparr>ltAddress = 0x7c2C195CD6D34B8F845992d380aADB2730bB9C6F, ltName = ''Palmy interest bearing DAI'',
      ltNonces = (\<lambda>_. 0), ltAllowances = (\<lambda>_ _. 0)\<rparr>"

definition sample_keccak :: "byte list \<Rightarrow> uint256" where
  "sample_keccak bs = word_of_nat (length bs)"

definition sample_account :: "string \<Rightarrow> address" where
  "sample_account key = 0xc783df8a850f42e7F7e57013759C285caa701eB6"

definition sample_evm :: evm where
  "sample_evm =
     \<lparr>evmKeccak = sample_keccak,
      evmRecover = (\<lambda>digest sg. if sigR sg = digest then sample_account [] else 0),
      evmChainId = 31337, evmTimestamp = 1600000000\<rparr>"

definition sample_signer :: signer_api where
  "sample_signer =
     \<lparr>signTypedData_v4 = (\<lambda>key td. case typed_data_digest sample_keccak td of
        None \<Rightarrow> [] | Some digest \<Rightarrow> decimal (uint digest)),
      fromRpcSig = (\<lambda>s. \<lparr>sigV = 27, sigR = (case word_of_string s of None \<Rightarrow> 0 | Some w \<Rightarrow> w), sigS = 0\<rparr>)\<rparr>"

lemma sample_addresses:
  "word_of_string sample_owner = Some (sample_account key)"
  "word_of_string sample_spender = Some (0xeAD9C93b79Ae7C1591b1FB5323BD777E86e150d4 :: address)"
  "word_of_string sample_token = Some (ltAddress sample_ltoken)"
  by (simp_all add: sample_owner_def sample_account_def sample_spender_def sample_token_def sample_ltoken_def
      word_of_string_def read_unsigned_def digit_value_def)

lemma sample_recovers:
  "typed_data_digest (evmKeccak sample_evm) td = Some digest \<Longrightarrow>
   evmRecover sample_evm digest (getSignatureFromTypedData sample_signer key td) = sample_account key"
  by (simp add: sample_evm_def sample_signer_def getSignatureFromTypedData_def sample_account_def)


subsection \<open>Signed permits\<close>

lemma permit_digest_agrees:
  assumes "word_of_string token = Some (ltAddress t)" "word_of_string owner = Some ow"
    "word_of_string spender = Some sp"
  shows "typed_data_digest (evmKeccak E)
      (buildPermitParams (uint (evmChainId E)) token ''1'' (ltName t) owner spender (uint (ltNonces t ow))
        (decimal (uint d)) (decimal (uint v))) =
    Some (sol_permit_digest E t ow sp v (ltNonces t ow) d)"
  unfolding checked_digest
  by (rule signed_digest) (use assms in \<open>auto simp: signed_fields_def checked_fields_def sol_EIP712_REVISION_def\<close>)

text \<open>C21: A signed permit is accepted.  The digest of the typed data that \<open>buildPermitParams\<close> builds
  for a token, with revision 1, the name and chain of the token and the current nonce of the owner, is
  the digest \<open>LToken.permit\<close> checks.  So the signature of the owner's key over it is accepted until the
  deadline: the allowance becomes the signed amount, the nonce of the owner grows by one and
  nothing else changes.\<close>

theorem permit_accepted:
  assumes recovers: "\<And>td digest. typed_data_digest (evmKeccak E) td = Some digest \<Longrightarrow>
      evmRecover E digest (getSignatureFromTypedData S key td) = accountOf key"
    and token: "word_of_string token = Some (ltAddress t)"
    and parties: "word_of_string owner = Some (accountOf key)" "word_of_string spender = Some sp"
      "accountOf key \<noteq> 0" "sp \<noteq> 0"
    and block: "evmTimestamp E \<le> d" and nonce: "ltNonces t (accountOf key) \<noteq> - 1"
  shows "let td = buildPermitParams (uint (evmChainId E)) token ''1'' (ltName t) owner spender
             (uint (ltNonces t (accountOf key))) (decimal (uint d)) (decimal (uint v));
           t' = t\<lparr>ltNonces := (ltNonces t)(accountOf key := ltNonces t (accountOf key) + 1),
                  ltAllowances := (ltAllowances t)(accountOf key := (ltAllowances t (accountOf key))(sp := v))\<rparr>
         in sol_permit E t (accountOf key) sp v d (getSignatureFromTypedData S key td) = Inr t'"
  using permit_digest_agrees [OF token parties(1,2), THEN recovers] block nonce parties
  by (simp add: Let_def permit_iff)

theorem permit_accepted_witness:
  "let td = buildPermitParams 31337 sample_token ''1'' ''Palmy interest bearing DAI'' sample_owner sample_spender 0
      (decimal (uint (max_uint))) (decimal (uint (2000000000000000000 :: uint256)))
   in \<exists>t'. sol_permit sample_evm sample_ltoken (sample_account []) 0xeAD9C93b79Ae7C1591b1FB5323BD777E86e150d4
        2000000000000000000 max_uint (getSignatureFromTypedData sample_signer [] td) = Inr t'"
  using permit_accepted [where E = sample_evm and S = sample_signer and accountOf = sample_account and key = "[]"
      and d = max_uint and v = 2000000000000000000, OF sample_recovers sample_addresses(3,1,2)]
  by (simp add: Let_def sample_ltoken_def sample_evm_def sample_account_def max_uint_def)

text \<open>The permit of the sample, as its signer signs it.\<close>

definition sample_fields :: permit_fields where
  "sample_fields = checked_fields sample_evm sample_ltoken (sample_account [])
     0xeAD9C93b79Ae7C1591b1FB5323BD777E86e150d4 2000000000000000000 max_uint"

definition sample_typed_data :: typed_data where
  "sample_typed_data = buildPermitParams 31337 sample_token ''1'' ''Palmy interest bearing DAI'' sample_owner
     sample_spender 0 (decimal (uint max_uint)) (decimal (uint (2000000000000000000 :: uint256)))"

lemma sample_signed: "signed_fields sample_typed_data sample_fields"
  unfolding signed_fields_def
  by (intro exI [of _ sample_token] exI [of _ sample_owner] exI [of _ sample_spender] conjI)
    (simp_all add: sample_addresses sample_typed_data_def sample_fields_def checked_fields_def sample_evm_def
      sample_ltoken_def sol_EIP712_REVISION_def)

lemma sample_collision_free: "inj_on sample_keccak (hashed_bytes sample_evm sample_fields)"
proof -
  have "length (digest_bytes E p) = 66" "length (domain_bytes E p) = 160" "length (message_bytes E p) = 192" for E p
    by (simp_all add: digest_bytes_def domain_bytes_def message_bytes_def signed_bytes_def)
  moreover have "length (string_bytes (pfName sample_fields)) = 26" "length (string_bytes (pfRevision sample_fields)) = 1"
    by (simp_all add: string_bytes_def sample_fields_def checked_fields_def sample_ltoken_def sol_EIP712_REVISION_def)
  ultimately show ?thesis
    by (simp add: hashed_bytes_def sample_keccak_def inj_on_def)
qed

lemma hashed_time [simp]:
  "hashed_bytes (E\<lparr>evmTimestamp := time\<rparr>) p = hashed_bytes E p"
  "checked_fields (E\<lparr>evmTimestamp := time\<rparr>) = checked_fields E"
  by (simp_all add: hashed_bytes_def domain_bytes_def message_bytes_def digest_bytes_def checked_fields_def
      sol_EIP712_DOMAIN_def sol_PERMIT_TYPEHASH_def fun_eq_iff)

lemma accepted_fields:
  assumes td: "signed_fields td p"
    and unforgeable: "\<And>digest. evmRecover E digest sg = owner \<Longrightarrow> typed_data_digest (evmKeccak E) td = Some digest"
    and collision_free: "inj_on (evmKeccak E) (hashed_bytes E p \<union> hashed_bytes E (checked_fields E t owner spender v d))"
    and accepted: "sol_permit E t owner spender v d sg = Inr t'"
  shows "p = checked_fields E t owner spender v d"
proof (rule digest_determines_fields [OF collision_free])
  have "evmRecover E (sol_permit_digest E t owner spender v (ltNonces t owner) d) sg = owner"
    using accepted by (simp add: permit_iff)
  from unforgeable [OF this] signed_digest [OF td]
  show "evmKeccak E (digest_bytes E p) = evmKeccak E (digest_bytes E (checked_fields E t owner spender v d))"
    by (simp add: checked_digest)
qed

text \<open>C22: A signature authorises nothing but the permit it was made for.  If a permit in the name of
  the key's account is accepted with a signature over typed data of \<open>buildPermitParams\<close>, then the typed
  data named exactly this owner, spender, amount and deadline, the current nonce of the owner, the name and the
  address of this token, its revision and this chain; and at any later time no permit is
  accepted with the same signature again.  The signature of the key is taken to recover its account
  for the signed digest only, and the hash to have no collision among the byte strings hashed here.\<close>

theorem permit_only_as_signed:
  assumes td: "signed_fields td p"
    and unforgeable: "\<And>digest. evmRecover E digest (getSignatureFromTypedData S key td) = accountOf key \<Longrightarrow>
      typed_data_digest (evmKeccak E) td = Some digest"
    and collision_free: "inj_on (evmKeccak E)
      (hashed_bytes E p \<union> hashed_bytes E (checked_fields E t (accountOf key) spender v d))"
    and accepted: "sol_permit E t (accountOf key) spender v d (getSignatureFromTypedData S key td) = Inr t'"
  shows "accountOf key = pfOwner p \<and> spender = pfSpender p \<and> v = pfValue p \<and> d = pfDeadline p \<and>
    ltNonces t (accountOf key) = pfNonce p \<and> ltName t = pfName p \<and> ''1'' = pfRevision p \<and>
    evmChainId E = pfChain p \<and> ltAddress t = pfToken p \<and>
    (\<forall>time spender' v' d'.
       inj_on (evmKeccak E) (hashed_bytes E p \<union> hashed_bytes E (checked_fields E t' (accountOf key) spender' v' d')) \<longrightarrow>
       (\<exists>e. sol_permit (E\<lparr>evmTimestamp := time\<rparr>) t' (accountOf key) spender' v' d'
          (getSignatureFromTypedData S key td) = Inl e))"
proof -
  let ?sg = "getSignatureFromTypedData S key td"
  note p = accepted_fields [OF td unforgeable collision_free accepted]
  have replay: "\<exists>e. sol_permit (E\<lparr>evmTimestamp := time\<rparr>) t' (accountOf key) s' v' d' ?sg = Inl e"
    if "inj_on (evmKeccak E) (hashed_bytes E p \<union> hashed_bytes E (checked_fields E t' (accountOf key) s' v' d'))"
    for time s' v' d'
  proof (rule ccontr)
    assume "\<nexists>e. sol_permit (E\<lparr>evmTimestamp := time\<rparr>) t' (accountOf key) s' v' d' ?sg = Inl e"
    then obtain t'' where "sol_permit (E\<lparr>evmTimestamp := time\<rparr>) t' (accountOf key) s' v' d' ?sg = Inr t''"
      by (metis sum.exhaust)
    from accepted_fields [OF td _ _ this] unforgeable that
    have "p = checked_fields E t' (accountOf key) s' v' d'"
      by simp
    with p have "ltNonces t' (accountOf key) = ltNonces t (accountOf key)" by (simp add: checked_fields_def)
    with accepted show False by (simp add: permit_iff)
  qed
  show ?thesis
    using replay by (simp add: p checked_fields_def sol_EIP712_REVISION_def)
qed

theorem permit_only_as_signed_witness:
  "\<exists>t'. sol_permit sample_evm sample_ltoken (sample_account []) 0xeAD9C93b79Ae7C1591b1FB5323BD777E86e150d4
      2000000000000000000 max_uint (getSignatureFromTypedData sample_signer [] sample_typed_data) = Inr t' \<and>
    ltNonces sample_ltoken (sample_account []) = pfNonce sample_fields"
proof -
  let ?sg = "getSignatureFromTypedData sample_signer [] sample_typed_data"
  have digest: "typed_data_digest sample_keccak sample_typed_data = Some (sample_keccak (digest_bytes sample_evm sample_fields))"
    using signed_digest [OF sample_signed, of sample_evm] by (simp add: sample_evm_def)
  have unforgeable: "typed_data_digest (evmKeccak sample_evm) sample_typed_data = Some d"
    if "evmRecover sample_evm d ?sg = sample_account []" for d
    using that digest by (simp add: sample_evm_def sample_signer_def getSignatureFromTypedData_def sample_account_def split: if_splits)
  obtain t' where t': "sol_permit sample_evm sample_ltoken (sample_account []) 0xeAD9C93b79Ae7C1591b1FB5323BD777E86e150d4
      2000000000000000000 max_uint ?sg = Inr t'"
    using digest
    by (auto simp: permit_iff checked_digest sample_fields_def [symmetric])
       (simp add: sample_evm_def sample_signer_def getSignatureFromTypedData_def sample_account_def max_uint_def sample_ltoken_def)
  have "inj_on (evmKeccak sample_evm) (hashed_bytes sample_evm sample_fields \<union> hashed_bytes sample_evm
      (checked_fields sample_evm sample_ltoken (sample_account []) 0xeAD9C93b79Ae7C1591b1FB5323BD777E86e150d4
        2000000000000000000 max_uint))"
    using sample_collision_free by (simp add: sample_fields_def [symmetric]) (simp add: sample_evm_def)
  from permit_only_as_signed [where accountOf = sample_account and key = "[]" and S = sample_signer,
      OF sample_signed unforgeable this t'] t'
  show ?thesis by blast
qed

end
