(* ===== verification/FullTasks.thy ===== *)
theory FullTasks
  imports Migrations
begin

text \<open>
  The older deployment chains: \<open>tasks/full/\<close>, \<open>tasks/dev/\<close>, \<open>add-market-to-registry.ts\<close>,
  \<open>deploy-StakeUIHelper.ts\<close> and \<open>deploy-new-asset.ts\<close>.  They read market entries by name, whether or not
  the market has them, and call some deployment functions with the arguments of another version; both are kept.
\<close>

subsection \<open>Shared steps\<close>

text \<open>\<open>getParamPerNetwork(poolConfig[name], network)\<close> for an address entry of the market.\<close>

definition marketAddress :: "'d runtime \<Rightarrow> PoolConfiguration \<Rightarrow> string \<Rightarrow> ('d, string option) action" where
  "marketAddress R poolConfig name =
     liftA (getParamPerNetwork (rtEnv R) (config_entry poolConfig name) (thisNetwork R))"

text \<open>Passing a flag, a list or \<open>undefined\<close> where the constructor takes an address: ethers refuses
  to encode it, and nothing is sent.\<close>

definition notAnAddress :: "('d, 'a) action" where
  "notAnAddress = throwA ''invalid address''"

text \<open>\<open>try { ... } catch (err) { console.error(err); exit(1); }\<close>\<close>

definition exitOnError :: "('d, 'a) action \<Rightarrow> ('d, 'a) action" where
  "exitOnError m = (\<lambda>w. case m w of (Inl e, w') \<Rightarrow> (Inl ''exit 1'', w') | (Inr x, w') \<Rightarrow> (Inr x, w'))"

text \<open>What the addresses provider answers, beside the pool and the configurator.\<close>

record provider_views =
  pvPoolAdmin :: "tx list \<Rightarrow> string \<Rightarrow> string"

definition ignoreA :: "('d, 'a) action \<Rightarrow> ('d, unit) action" where
  "ignoreA m = bindA m (\<lambda>_. returnA ())"

subsection \<open>Registry and provider\<close>

text \<open>\<open>deployLendingPoolAddressesProviderRegistry(verify)\<close> passes the flag for the owner.\<close>

definition fullAddressProviderRegistry :: "'d runtime \<Rightarrow> string \<Rightarrow> ('d, unit) action" where
  "fullAddressProviderRegistry R pool =
     bindA (liftA (loadPoolConfig pool)) (\<lambda>poolConfig.
     bindA (signerA R) (\<lambda>_.
     bindA (marketAddress R poolConfig ''ProviderRegistry'') (\<lambda>providerRegistryAddress.
     if notFalsyOrZeroAddress (rtAddresses R) providerRegistryAddress then returnA ()
     else notAnAddress)))"

text \<open>The signer of the registry is its owner.  With a fork the owner is impersonated and given ten ether
  (a call without a method); otherwise another signer than the owner ends the process.\<close>

definition lowercase :: "string \<Rightarrow> string" where
  "lowercase s = map (\<lambda>c. let n = of_char c :: nat in if 65 \<le> n \<and> n \<le> 90 then char_of (n + 32) else c) s"

definition addMarketToRegistry :: "'d runtime \<Rightarrow> string \<Rightarrow> string option \<Rightarrow> bool \<Rightarrow> ('d, unit) action" where
  "addMarketToRegistry R pool addressesProvider deployRegistry =
     bindA (liftA (loadPoolConfig pool)) (\<lambda>poolConfig.
     bindA (marketAddress R poolConfig ''ProviderRegistry'') (\<lambda>configuredRegistry.
     bindA (marketAddress R poolConfig ''ProviderRegistryOwner'') (\<lambda>configuredOwner.
     bindA (signerA R) (\<lambda>currentSigner.
     let valid = notFalsyOrZeroAddress (rtAddresses R);
         deployed = deployRegistry \<or> \<not> valid configuredRegistry
     in bindA (if deployed
           then thenA (fullAddressProviderRegistry R pool)
             (bindA (getLendingPoolAddressesProviderRegistry R None) (\<lambda>registry.
              returnA (Some registry, Some currentSigner)))
           else returnA (configuredRegistry, configuredOwner)) (\<lambda>(registryAddress, registryOwner).
        thenA (guardA (valid registryOwner) ''config.ProviderRegistryOwner is missing or is not an address.'')
       (thenA
         (if truthy (envFORK (rtEnv R))
          then sendA (rtChain R) (callTx (the registryOwner) '''' [AString (decimal (10 * 10 ^ 18))] currentSigner)
          else guardA (deployed \<or> lowercase (the registryOwner) = lowercase currentSigner) ''exit 2'')
        (bindA (getLendingPoolAddressesProviderRegistry R registryAddress) (\<lambda>registry.
         bindA (getLendingPoolAddressesProvider R addressesProvider) (\<lambda>addressesProviderInstance.
         sendA (rtChain R) (callTx registry ''registerAddressesProvider''
           [AAddress addressesProviderInstance, AInt (int (ProviderId poolConfig))]
           (the registryOwner)))))))))))"

text \<open>\<open>deployLendingPoolAddressesProvider(MarketId, verify)\<close> passes the flag for the owner, in both chains.\<close>

definition fullAddressProvider :: "'d runtime \<Rightarrow> string \<Rightarrow> bool \<Rightarrow> ('d, unit) action" where
  "fullAddressProvider R pool skipRegistry =
     bindA (liftA (loadPoolConfig pool)) (\<lambda>poolConfig.
     bindA notAnAddress (\<lambda>addressesProvider.
     thenA (whenA (\<not> skipRegistry)
       (bindA (marketAddress R poolConfig ''ProviderRegistry'') (\<lambda>providerRegistryAddress.
        addMarketToRegistry R pool (Some addressesProvider)
          (\<not> notFalsyOrZeroAddress (rtAddresses R) providerRegistryAddress))))
     (bindA (liftA (getGenesisPoolAdmin R poolConfig)) (\<lambda>admin.
      thenA (callFrom R addressesProvider ''setPoolAdmin'' [address_arg admin])
      (bindA (liftA (getEmergencyAdmin R poolConfig)) (\<lambda>emergencyAdmin.
       callFrom R addressesProvider ''setEmergencyAdmin'' [address_arg emergencyAdmin]))))))"

definition devAddressProvider :: "'d runtime \<Rightarrow> ('d, unit) action" where
  "devAddressProvider R =
     bindA (signerA R) (\<lambda>admin.
     bindA notAnAddress (\<lambda>addressesProvider.
     thenA (callFrom R addressesProvider ''setPoolAdmin'' [AAddress admin])
     (thenA (callFrom R addressesProvider ''setEmergencyAdmin'' [AAddress admin])
      (bindA notAnAddress (\<lambda>registry.
       callFrom R registry ''registerAddressesProvider'' [AAddress addressesProvider, AInt 1])))))"

subsection \<open>Lending pool\<close>

text \<open>The proxies behind the provider are recorded, then the helper contracts are deployed with a list in the
  place of the owner.\<close>

definition recordPoolProxy :: "'d runtime \<Rightarrow> views \<Rightarrow> string \<Rightarrow> ('d, string) action" where
  "recordPoolProxy R V addressesProvider =
     bindA (readA (\<lambda>w. vwLendingPool V (sent w) addressesProvider)) (\<lambda>address.
     bindA (getLendingPool R (Some address)) (\<lambda>lendingPoolProxy.
     thenA (insertContractAddressInDb R ''LendingPool'' lendingPoolProxy) (returnA lendingPoolProxy)))"

definition recordConfiguratorProxy :: "'d runtime \<Rightarrow> views \<Rightarrow> string \<Rightarrow> ('d, string) action" where
  "recordConfiguratorProxy R V addressesProvider =
     bindA (readA (\<lambda>w. vwLendingPoolConfigurator V (sent w) addressesProvider)) (\<lambda>address.
     bindA (getLendingPoolConfiguratorProxy R (Some address)) (\<lambda>configuratorProxy.
     thenA (insertContractAddressInDb R ''LendingPoolConfigurator'' configuratorProxy) (returnA configuratorProxy)))"

definition deployPoolHelpers :: "'d runtime \<Rightarrow> string \<Rightarrow> PoolConfiguration \<Rightarrow> bool \<Rightarrow> ('d, unit) action" where
  "deployPoolHelpers R pool poolConfig verify =
     thenA (ignoreA (notAnAddress :: ('d, string) action))
    (thenA (ignoreA (notAnAddress :: ('d, string) action))
      (deployLTokenImplementations R pool (ReservesConfig poolConfig) verify))"

definition fullLendingPool :: "'d runtime \<Rightarrow> views \<Rightarrow> string \<Rightarrow> bool \<Rightarrow> ('d, unit) action" where
  "fullLendingPool R V pool verify =
     bindA (liftA (loadPoolConfig pool)) (\<lambda>poolConfig.
     bindA (getLendingPoolAddressesProvider R None) (\<lambda>addressesProvider.
     bindA (marketAddress R poolConfig ''LendingPool'') (\<lambda>configuredPool.
     bindA (if notFalsyOrZeroAddress (rtAddresses R) configuredPool then returnA (the configuredPool)
        else bindA (deployLendingPool R verify) (\<lambda>lendingPoolImpl.
          thenA (callFrom R lendingPoolImpl ''initialize'' [AAddress addressesProvider])
            (returnA lendingPoolImpl))) (\<lambda>lendingPoolImplAddress.
     thenA (callFrom R addressesProvider ''setLendingPoolImpl'' [AAddress lendingPoolImplAddress])
     (bindA (recordPoolProxy R V addressesProvider) (\<lambda>lendingPoolProxy.
      bindA (marketAddress R poolConfig ''LendingPoolConfigurator'') (\<lambda>configuredConfigurator.
      bindA (if notFalsyOrZeroAddress (rtAddresses R) configuredConfigurator then returnA (the configuredConfigurator)
         else deployLendingPoolConfigurator R verify) (\<lambda>configuratorImplAddress.
      thenA (guardA (notFalsyOrZeroAddress (rtAddresses R) (Some lendingPoolProxy)) ''missing lendingPoolProxy'')
      (thenA (callFrom R addressesProvider ''setLendingPoolConfiguratorImpl'' [AAddress configuratorImplAddress])
       (bindA (recordConfiguratorProxy R V addressesProvider) (\<lambda>_.
        deployPoolHelpers R pool poolConfig verify)))))))))))"

definition devLendingPool :: "'d runtime \<Rightarrow> views \<Rightarrow> string \<Rightarrow> bool \<Rightarrow> ('d, unit) action" where
  "devLendingPool R V pool verify =
     bindA (getLendingPoolAddressesProvider R None) (\<lambda>addressesProvider.
     bindA (liftA (loadPoolConfig pool)) (\<lambda>poolConfig.
     bindA (deployLendingPool R verify) (\<lambda>lendingPoolImpl.
     thenA (callFrom R addressesProvider ''setLendingPoolImpl'' [AAddress lendingPoolImpl])
     (bindA (recordPoolProxy R V addressesProvider) (\<lambda>_.
      bindA (deployLendingPoolConfigurator R verify) (\<lambda>lendingPoolConfiguratorImpl.
      thenA (callFrom R addressesProvider ''setLendingPoolConfiguratorImpl'' [AAddress lendingPoolConfiguratorImpl])
      (bindA (recordConfiguratorProxy R V addressesProvider) (\<lambda>_.
       deployPoolHelpers R pool poolConfig verify))))))))"

subsection \<open>Oracles\<close>

text \<open>The aggregator, the fallback oracle and the rate oracle are deployed with a list or a flag for the
  owner.\<close>

definition fullOracles :: "'d runtime \<Rightarrow> string \<Rightarrow> bool \<Rightarrow> ('d, unit) action" where
  "fullOracles R pool verify =
     bindA (liftA (loadPoolConfig pool)) (\<lambda>poolConfig.
     bindA (liftA (getLendingRateOracles R poolConfig)) (\<lambda>lendingRateOracles.
     bindA (getLendingPoolAddressesProvider R None) (\<lambda>addressesProvider.
     bindA (liftA (getGenesisPoolAdmin R poolConfig)) (\<lambda>admin.
     bindA (marketAddress R poolConfig ''PalmyOracle'') (\<lambda>palmyOracleAddress.
     bindA (marketAddress R poolConfig ''PriceAggregator'') (\<lambda>priceAggregatorAddress.
     bindA (marketAddress R poolConfig ''LendingRateOracle'') (\<lambda>lendingRateOracleAddress.
     bindA (marketAddress R poolConfig ''FallbackOracle'') (\<lambda>fallbackOracleAddress.
     bindA (paramA R (ReserveAssets poolConfig)) (\<lambda>reserveAssets.
     bindA (paramA R (DIAAggregator poolConfig)) (\<lambda>feeds.
     bindA (marketAddress R poolConfig ''DIAAggregatorAddress'') (\<lambda>_.
     let valid = notFalsyOrZeroAddress (rtAddresses R);
         tokensToWatch = obj_set (case reserveAssets of None \<Rightarrow> [] | Some o' \<Rightarrow> o') ''USD''
           (UsdAddress (ProtocolGlobalParams poolConfig))
     in bindA (if valid priceAggregatorAddress then getPriceAggregator R priceAggregatorAddress
          else notAnAddress) (\<lambda>priceAggregatorAdapter.
        bindA (liftA (entriesOf feeds)) (\<lambda>feedTokens.
        thenA (callFrom R priceAggregatorAdapter ''setAssetSources''
          [AList (map (AAddress \<circ> snd) feedTokens), AList (map (AString \<circ> fst) feedTokens)])
       (bindA (if valid fallbackOracleAddress then getPalmyFallbackOracle R fallbackOracleAddress
          else bindA notAnAddress (\<lambda>fallbackOracle.
            bindA (signerA R) (\<lambda>signer.
            thenA (callFrom R fallbackOracle ''authorizeSybil'' [AAddress (lowercase signer)])
              (returnA fallbackOracle)))) (\<lambda>fallbackOracle.
        bindA (if valid palmyOracleAddress
          then bindA (getPalmyOracle R palmyOracleAddress) (\<lambda>palmyOracle.
            thenA (callFrom R palmyOracle ''setPriceAggregator'' [AAddress priceAggregatorAdapter])
              (returnA palmyOracle))
          else bindA (getQuoteCurrency R poolConfig) (\<lambda>quoteCurrency.
            deployPalmyOracle R (priceAggregatorAdapter, fallbackOracle, quoteCurrency) verify)) (\<lambda>palmyOracle.
        bindA (if valid lendingRateOracleAddress then getLendingRateOracle R lendingRateOracleAddress
          else bindA notAnAddress (\<lambda>lendingRateOracle.
            thenA (setInitialMarketRatesInRatesOracleByHelper R lendingRateOracles
              (omit tokensToWatch [''USD'']) lendingRateOracle (in_template admin))
              (returnA lendingRateOracle))) (\<lambda>lendingRateOracle.
        thenA (callFrom R addressesProvider ''setPriceOracle'' [AAddress palmyOracle])
          (callFrom R addressesProvider ''setLendingRateOracle'' [AAddress lendingRateOracle]))))))))))))))))))"

text \<open>\<open>deployPalmyOracle\<close> takes three arguments and is given four: the aggregator, the fallback oracle
  and the quote currency land in the places of quote currency, quote unit and owner.\<close>

definition devOracles :: "'d runtime \<Rightarrow> provider_views \<Rightarrow> string \<Rightarrow> bool \<Rightarrow> ('d, unit) action" where
  "devOracles R P pool verify =
     bindA (liftA (loadPoolConfig pool)) (\<lambda>poolConfig.
     let usd = UsdAddress (ProtocolGlobalParams poolConfig);
         defaultTokenList =
           obj_set (foldl (\<lambda>acc tokenSymbol. obj_set acc tokenSymbol []) [] TokenContractId) ''USD'' usd
     in bindA (getAllMockedTokens R) (\<lambda>mockTokens.
        let mockTokensAddress = foldl (\<lambda>prev (curr, token). obj_set prev curr token) defaultTokenList mockTokens
        in bindA (getLendingPoolAddressesProvider R None) (\<lambda>addressesProvider.
           bindA (readA (\<lambda>w. pvPoolAdmin P (sent w) addressesProvider)) (\<lambda>admin.
           bindA (deployPriceOracle R verify) (\<lambda>fallbackOracle.
           thenA (callFrom R fallbackOracle ''setEthUsdPrice''
             [AString (MockUsdPriceInWei (ProtocolGlobalParams poolConfig))])
          (thenA (setInitialAssetPricesInOracle R (AllAssetsInitialPrices poolConfig) mockTokensAddress fallbackOracle)
          (bindA (deployMockAggregators R (AllAssetsInitialPrices poolConfig) mockTokensAddress verify)
            (\<lambda>mockAggregator.
           bindA (getQuoteCurrency R poolConfig) (\<lambda>quoteCurrency.
           bindA (deployPalmyOracle R (mockAggregator, fallbackOracle, quoteCurrency) verify) (\<lambda>_.
           thenA (callFrom R addressesProvider ''setPriceOracle'' [AAddress fallbackOracle])
           (bindA notAnAddress (\<lambda>lendingRateOracle.
            thenA (callFrom R addressesProvider ''setLendingRateOracle'' [AAddress lendingRateOracle])
             (setInitialMarketRatesInRatesOracleByHelper R (LendingRateOracleRatesCommon poolConfig)
               (omit mockTokensAddress [''USD'']) lendingRateOracle admin)))))))))))))"

subsection \<open>Data provider and gateway\<close>

text \<open>The provider's address lands in the parameter \<open>verify\<close>.\<close>

definition fullDataProvider :: "'d runtime \<Rightarrow> ('d, unit) action" where
  "fullDataProvider R =
     exitOnError (bindA (getLendingPoolAddressesProvider R None) (\<lambda>addressesProvider.
       ignoreA (deployPalmyProtocolDataProvider R (addressesProvider \<noteq> []))))"

text \<open>The owner of the gateway is left out.\<close>

definition fullWethGateway :: "'d runtime \<Rightarrow> nat option \<Rightarrow> string \<Rightarrow> ('d, unit) action" where
  "fullWethGateway R chainId pool =
     bindA (liftA (loadPoolConfig pool)) (\<lambda>poolConfig.
     bindA (getWrappedNativeTokenAddress R poolConfig) (\<lambda>_.
     thenA (requireChainId chainId)
     (ignoreA (notAnAddress :: ('d, string) action))))"

subsection \<open>Initialisation\<close>

definition marketNames :: "PoolConfiguration \<Rightarrow> string option \<Rightarrow> string option \<Rightarrow> string \<Rightarrow> market_names" where
  "marketNames poolConfig treasury incentives pool =
     \<lparr>lTokenNamePrefix = LTokenNamePrefix poolConfig,
      stableDebtTokenNamePrefix = StableDebtTokenNamePrefix poolConfig,
      variableDebtTokenNamePrefix = VariableDebtTokenNamePrefix poolConfig,
      symbolPrefix = SymbolPrefix poolConfig,
      treasuryAddress = (case treasury of None \<Rightarrow> [] | Some a \<Rightarrow> a),
      incentivesController = (case incentives of None \<Rightarrow> [] | Some a \<Rightarrow> a), poolName = pool\<rparr>"

definition authorizeMarketGateway ::
  "'d runtime \<Rightarrow> views \<Rightarrow> PoolConfiguration \<Rightarrow> string \<Rightarrow> ('d, unit) action" where
  "authorizeMarketGateway R V poolConfig addressesProvider =
     bindA (readA (\<lambda>w. vwLendingPool V (sent w) addressesProvider)) (\<lambda>lendingPoolAddress.
     bindA (marketAddress R poolConfig ''WethGateway'') (\<lambda>configuredGateway.
     bindA (if notFalsyOrZeroAddress (rtAddresses R) configuredGateway then returnA (the configuredGateway)
        else getWETHGateway R None) (\<lambda>gateway.
     authorizeWETHGateway R gateway lendingPoolAddress)))"

definition fullInitialize :: "'d runtime \<Rightarrow> views \<Rightarrow> provider_views \<Rightarrow> string \<Rightarrow> bool \<Rightarrow> ('d, unit) action" where
  "fullInitialize R V P pool verify =
     exitOnError
     (bindA (liftA (loadPoolConfig pool)) (\<lambda>poolConfig.
      bindA (paramA R (ReserveAssets poolConfig)) (\<lambda>reserveAssets.
      bindA (paramA R (IncentivesController poolConfig)) (\<lambda>incentives.
      bindA (getLendingPoolAddressesProvider R None) (\<lambda>addressesProvider.
      bindA (getPalmyProtocolDataProvider R None) (\<lambda>_.
      bindA (readA (\<lambda>w. pvPoolAdmin P (sent w) addressesProvider)) (\<lambda>admin.
      bindA (requireA ''Reserve assets is undefined. Check ReserveAssets configuration at config directory''
        reserveAssets) (\<lambda>assets.
      bindA (liftA (getTreasuryAddress R poolConfig)) (\<lambda>treasury.
      thenA (initReservesByHelper R (ReservesConfig poolConfig) assets
        (marketNames poolConfig treasury incentives pool) verify None None None)
     (thenA (configureReservesByHelper R (vwCollateralEnabled V) (ReservesConfig poolConfig) assets admin None None)
     (bindA (marketAddress R poolConfig ''LendingPoolCollateralManager'') (\<lambda>configuredManager.
      bindA (if notFalsyOrZeroAddress (rtAddresses R) configuredManager then returnA (the configuredManager)
         else deployLendingPoolCollateralManager R verify) (\<lambda>collateralManagerAddress.
      thenA (callFrom R addressesProvider ''setLendingPoolCollateralManager'' [AAddress collateralManagerAddress])
     (bindA (getPalmyProtocolDataProvider R None) (\<lambda>dataProvider.
      thenA (callFrom R addressesProvider ''setAddress''
        [AString ''0x0100000000000000000000000000000000000000000000000000000000000000'', AAddress dataProvider])
     (bindA (deployWalletBalancerProvider R verify) (\<lambda>_.
      bindA (deployUiPoolDataProviderV2 R (truthy (map_of aggregatorProxy (thisNetwork R)))) (\<lambda>_.
      bindA (deployUiIncentiveDataProviderV2 R False) (\<lambda>_.
      authorizeMarketGateway R V poolConfig addressesProvider)))))))))))))))))))"

text \<open>\<open>filterMapBy(allTokenAddresses, (key) => !key.includes('UNI_'))\<close>; the data provider is deployed with the
  provider's address in the place of the flag.\<close>

definition devInitialize :: "'d runtime \<Rightarrow> views \<Rightarrow> provider_views \<Rightarrow> string \<Rightarrow> bool \<Rightarrow> ('d, unit) action" where
  "devInitialize R V P pool verify =
     bindA (liftA (loadPoolConfig pool)) (\<lambda>poolConfig.
     bindA (getAllMockedTokens R) (\<lambda>mockTokens.
     bindA (getLendingPoolAddressesProvider R None) (\<lambda>addressesProvider.
     let protoPoolReservesAddresses =
           filterMapBy (getAllTokenAddresses mockTokens) (\<lambda>key. \<not> includes_string key ''UNI_'')
     in bindA (deployPalmyProtocolDataProvider R (addressesProvider \<noteq> [])) (\<lambda>testHelpers.
        bindA (readA (\<lambda>w. pvPoolAdmin P (sent w) addressesProvider)) (\<lambda>admin.
        bindA (liftA (getTreasuryAddress R poolConfig)) (\<lambda>treasury.
        thenA (initReservesByHelper R (ReservesConfig poolConfig) protoPoolReservesAddresses
          (marketNames poolConfig treasury (Some ZERO_ADDRESS) pool) verify None None None)
       (thenA (configureReservesByHelper R (vwCollateralEnabled V) (ReservesConfig poolConfig)
          protoPoolReservesAddresses admin None None)
       (bindA (deployLendingPoolCollateralManager R verify) (\<lambda>collateralManager.
        thenA (callFrom R addressesProvider ''setLendingPoolCollateralManager'' [AAddress collateralManager])
       (bindA (deployMockFlashLoanReceiver R addressesProvider verify) (\<lambda>mockFlashLoanReceiver.
        thenA (insertContractAddressInDb R ''MockFlashLoanReceiver'' mockFlashLoanReceiver)
       (bindA (deployWalletBalancerProvider R verify) (\<lambda>_.
        thenA (insertContractAddressInDb R ''PalmyProtocolDataProvider'' testHelpers)
         (authorizeMarketGateway R V poolConfig addressesProvider))))))))))))))"

definition devMockTokens :: "'d runtime \<Rightarrow> bool \<Rightarrow> ('d, unit) action" where
  "devMockTokens R verify = ignoreA (deployAllMockTokens R verify)"

definition devWalletBalanceProvider :: "'d runtime \<Rightarrow> bool \<Rightarrow> ('d, unit) action" where
  "devWalletBalanceProvider R verify = ignoreA (deployWalletBalancerProvider R verify)"

subsection \<open>Single contracts\<close>

text \<open>The constructor arguments are passed in the place of the flag \<open>verify\<close>; a list is truthy.\<close>

definition deployStakeUITask :: "'d runtime \<Rightarrow> nat option \<Rightarrow> string \<Rightarrow> ('d, unit) action" where
  "deployStakeUITask R chainId pool =
     thenA (requireChainId chainId)
    (bindA (liftA (loadPoolConfig pool)) (\<lambda>poolConfig.
     bindA (getPalmyOracle R None) (\<lambda>oracle.
     bindA (paramA R (ReserveAssets poolConfig)) (\<lambda>reserveAssets.
     bindA (requireA ''Cannot read properties of undefined'' reserveAssets) (\<lambda>assets.
     bindA (paramA R (StakedOas poolConfig)) (\<lambda>stkOal.
     let valid = notFalsyOrZeroAddress (rtAddresses R)
     in thenA (guardA (valid (Some oracle)) ''oracle address is not defined'')
       (thenA (guardA (valid (map_of assets ''WOAL'')) ''woas address is not defined'')
       (thenA (guardA (valid stkOal) ''stkOas address is not defined'')
       (thenA (guardA (valid (Some (UsdAddress (ProtocolGlobalParams poolConfig)))) ''UsdAddress address is not defined'')
        (ignoreA (deployStakeUIHelper R True)))))))))))"

end
