(* ===== verification/ReportTasks.thy ===== *)
theory ReportTasks
  imports FullTasks
begin

text \<open>
  Tasks that check and report: the explorer verification of contracts and tokens
  (\<open>tasks/verifications/\<close>, \<open>verify-sc.ts\<close>), the oracle checks (\<open>check-oracles.ts\<close>), the printed deployment
  database (\<open>misc-utils.ts\<close>, \<open>print-address-and-salt.ts\<close>), setting up the runtime (\<open>set-bre.ts\<close>) and
  deploying the contracts of one more asset (\<open>deploy-new-asset.ts\<close>).  A task that prints returns its lines.
\<close>

subsection \<open>Explorer verification\<close>

text \<open>\<open>notFalsyOrZeroAddress(address) ? await getter(address) : await getter()\<close>\<close>

definition configuredOr ::
  "'d runtime \<Rightarrow> ('d runtime \<Rightarrow> string option \<Rightarrow> ('d, string) action) \<Rightarrow> string option \<Rightarrow> ('d, string) action" where
  "configuredOr R getter configured =
     (if notFalsyOrZeroAddress (rtAddresses R) configured then getter R configured else getter R None)"

definition verifyImplementations ::
  "'d runtime \<Rightarrow> PoolConfiguration \<Rightarrow> string \<Rightarrow> string \<Rightarrow> ('d, unit) action" where
  "verifyImplementations R poolConfig addressesProvider addressesProviderRegistry =
     bindA (marketAddress R poolConfig ''LendingPool'') (\<lambda>configuredPool.
     bindA (configuredOr R getLendingPoolImpl configuredPool) (\<lambda>lendingPoolImpl.
     bindA (marketAddress R poolConfig ''LendingPoolConfigurator'') (\<lambda>configuredConfigurator.
     bindA (configuredOr R getLendingPoolConfiguratorImpl configuredConfigurator) (\<lambda>lendingPoolConfiguratorImpl.
     bindA (marketAddress R poolConfig ''LendingPoolCollateralManager'') (\<lambda>configuredManager.
     bindA (configuredOr R getLendingPoolCollateralManagerImpl configuredManager) (\<lambda>collateralManagerImpl.
     bindA (getPalmyProtocolDataProvider R None) (\<lambda>dataProvider.
     bindA (getWalletProvider R None) (\<lambda>walletProvider.
     bindA (marketAddress R poolConfig ''WethGateway'') (\<lambda>configuredGateway.
     bindA (configuredOr R getWETHGateway configuredGateway) (\<lambda>wethGateway.
     thenA (verifyContract R ''LendingPoolAddressesProvider'' addressesProvider [AString (MarketId poolConfig)])
    (thenA (verifyContract R ''LendingPoolAddressesProviderRegistry'' addressesProviderRegistry [])
    (thenA (verifyContract R ''LendingPool'' lendingPoolImpl [])
    (thenA (verifyContract R ''LendingPoolConfigurator'' lendingPoolConfiguratorImpl [])
    (thenA (verifyContract R ''LendingPoolCollateralManager'' collateralManagerImpl [])
    (thenA (verifyContract R ''PalmyProtocolDataProvider'' dataProvider [AAddress addressesProvider])
    (thenA (verifyContract R ''WalletBalanceProvider'' walletProvider [])
    (bindA (getWrappedNativeTokenAddress R poolConfig) (\<lambda>weth.
     verifyContract R ''WETHGateway'' wethGateway [AAddress weth]))))))))))))))))))"

definition verifyGeneral :: "'d runtime \<Rightarrow> views \<Rightarrow> (tx list \<Rightarrow> string \<Rightarrow> string) \<Rightarrow> string \<Rightarrow> bool \<Rightarrow> ('d, unit) action" where
  "verifyGeneral R V collateralManagerOf pool all =
     bindA (liftA (loadPoolConfig pool)) (\<lambda>poolConfig.
     bindA (liftA (getTreasuryAddress R poolConfig)) (\<lambda>_.
     bindA (marketAddress R poolConfig ''ProviderRegistry'') (\<lambda>registryAddress.
     bindA (getLendingPoolAddressesProvider R None) (\<lambda>addressesProvider.
     bindA (configuredOr R getLendingPoolAddressesProviderRegistry registryAddress) (\<lambda>addressesProviderRegistry.
     bindA (readA (\<lambda>w. vwLendingPool V (sent w) addressesProvider)) (\<lambda>lendingPoolAddress.
     bindA (readA (\<lambda>w. vwLendingPoolConfigurator V (sent w) addressesProvider)) (\<lambda>configuratorAddress.
     bindA (readA (\<lambda>w. collateralManagerOf (sent w) addressesProvider)) (\<lambda>collateralManagerAddress.
     bindA (getProxy R lendingPoolAddress) (\<lambda>lendingPoolProxy.
     bindA (getProxy R configuratorAddress) (\<lambda>configuratorProxy.
     bindA (getProxy R collateralManagerAddress) (\<lambda>collateralManagerProxy.
     thenA (whenA all (verifyImplementations R poolConfig addressesProvider addressesProviderRegistry))
    (thenA (verifyContract R ''InitializableAdminUpgradeabilityProxy'' lendingPoolProxy [AAddress addressesProvider])
    (thenA (verifyContract R ''InitializableAdminUpgradeabilityProxy'' configuratorProxy [AAddress addressesProvider])
           (verifyContract R ''InitializableAdminUpgradeabilityProxy'' collateralManagerProxy []))))))))))))))"

text \<open>The addresses \<open>getReserveData\<close> of the pool answers for an asset.\<close>

record reserve_tokens =
  rtkLToken :: string
  rtkStableDebt :: string
  rtkVariableDebt :: string
  rtkStrategy :: string

definition verifyImplementation ::
  "'d runtime \<Rightarrow> ('d runtime \<Rightarrow> string option \<Rightarrow> ('d, string) action) \<Rightarrow> string \<Rightarrow> string \<Rightarrow> arg list \<Rightarrow>
   ('d, unit) action" where
  "verifyImplementation R getter entry contractId args =
     bindA (readA (getAddressById R entry)) (\<lambda>implementation.
     if truthy implementation
     then bindA (getter R implementation) (\<lambda>inst. verifyContract R contractId inst args)
     else returnA ())"

definition verifyProxy :: "'d runtime \<Rightarrow> string \<Rightarrow> string \<Rightarrow> ('d, unit) action" where
  "verifyProxy R address configurator =
     bindA (getProxy R address) (\<lambda>proxy.
     verifyContract R ''InitializableAdminUpgradeabilityProxy'' proxy [AAddress configurator])"

definition verifyReserve ::
  "'d runtime \<Rightarrow> (tx list \<Rightarrow> string \<Rightarrow> string \<Rightarrow> reserve_tokens) \<Rightarrow> PoolConfiguration \<Rightarrow> string option \<Rightarrow> string \<Rightarrow>
   string \<Rightarrow> string \<Rightarrow> string \<times> string \<Rightarrow> ('d, unit) action" where
  "verifyReserve R reserveData poolConfig treasury addressesProvider lendingPool configurator entry =
     (case entry of (token, tokenAddress) \<Rightarrow>
     bindA (readA (\<lambda>w. reserveData (sent w) lendingPool tokenAddress)) (\<lambda>tokens.
     bindA (requireA (''ReservesConfig not found for '' @ token @ '' token'')
       (map_of (ReservesConfig poolConfig) token)) (\<lambda>tokenConfig.
     let st = strategy tokenConfig;
         named = (\<lambda>prefix symbolPrefix. [AString (prefix @ token), AString (symbolPrefix @ token), AAddress ZERO_ADDRESS])
     in thenA (verifyProxy R (rtkStableDebt tokens) configurator)
       (thenA (verifyProxy R (rtkVariableDebt tokens) configurator)
       (thenA (verifyProxy R (rtkLToken tokens) configurator)
       (thenA (bindA (getInterestRateStrategy R (Some (rtkStrategy tokens))) (\<lambda>inst.
          verifyContract R ''DefaultReserveInterestRateStrategy'' inst
            [AAddress addressesProvider, AString (optimalUtilizationRate st), AString (baseVariableBorrowRate st),
             AString (variableRateSlope1 st), AString (variableRateSlope2 st), AString (stableRateSlope1 st),
             AString (stableRateSlope2 st)]))
       (thenA (verifyImplementation R getLToken (''a'' @ token) ''LToken''
          ([AAddress lendingPool, AAddress tokenAddress, address_arg treasury] @
           named ''Palmy interest bearing '' ''l''))
       (thenA (verifyImplementation R getStableDebtToken (''sd'' @ token) ''StableDebtToken''
          ([AAddress lendingPool, AAddress tokenAddress] @ named ''Palmy stable debt bearing '' ''sd''))
        (verifyImplementation R getVariableDebtToken (''vd'' @ token) ''VariableDebtToken''
          ([AAddress lendingPool, AAddress tokenAddress] @ named ''Palmy variable debt bearing '' ''vd''))))))))))"

definition verifyTokens ::
  "'d runtime \<Rightarrow> views \<Rightarrow> (tx list \<Rightarrow> string \<Rightarrow> string \<Rightarrow> reserve_tokens) \<Rightarrow> string \<Rightarrow> ('d, unit) action" where
  "verifyTokens R V reserveData pool =
     bindA (liftA (loadPoolConfig pool)) (\<lambda>poolConfig.
     bindA (liftA (getTreasuryAddress R poolConfig)) (\<lambda>treasury.
     bindA (getLendingPoolAddressesProvider R None) (\<lambda>addressesProvider.
     bindA (readA (\<lambda>w. vwLendingPool V (sent w) addressesProvider)) (\<lambda>lendingPool.
     bindA (readA (\<lambda>w. vwLendingPoolConfigurator V (sent w) addressesProvider)) (\<lambda>configurator.
     bindA (paramA R (ReserveAssets poolConfig)) (\<lambda>reserveAssets.
     bindA (liftA (entriesOf reserveAssets)) (\<lambda>entries.
     forA entries (verifyReserve R reserveData poolConfig treasury addressesProvider lendingPool configurator))))))))"

text \<open>\<open>checkVerification\<close> ends the process on a missing key or an unsupported network.\<close>

definition verifySc :: "'d runtime \<Rightarrow> string \<Rightarrow> arg list \<Rightarrow> ('d, unit) action" where
  "verifySc R address constructorArguments =
     thenA (guardA (checkVerification R = None) ''exit'')
       (verifyEtherscanContract R address constructorArguments)"

subsection \<open>Oracle checks\<close>

record oracle_addresses =
  oaFallback :: string
  oaAggregator :: string
  oaDia :: string

definition SUPPORTED_NETWORK :: "string list" where
  "SUPPORTED_NETWORK = [''oasys'', ''shiden'']"

definition ORACLE_CONSTANTS :: "oracle_addresses obj" where
  "ORACLE_CONSTANTS =
     [(''oasys'',
        \<lparr>oaFallback = ''0x35E6D71FeA378B60b3A5Afc91eA7F520F937833c'',
         oaAggregator = ''0x043C93fF4d52B2F76811852644549553A00309a8'',
         oaDia = ''0x35490A8AC7cD0Df5C4d7Ab4243A6B517133BcDB1''\<rparr>),
      (''shiden'',
        \<lparr>oaFallback = ''0xA42D5A35b6bbC93fe63FE54536f320faC9996f4C'',
         oaAggregator = ''0x8F2fFfF56375CDeD7f53E0D90259711Cd122Da31'',
         oaDia = ''0xCe784F99f87dBa11E0906e2fE954b08a8cc9815d''\<rparr>)]"

text \<open>\<open>formatUnits\<close> belongs to ethers; prices are what the oracle answers for an address or a key.\<close>

record oracle_views =
  ovPrice :: "tx list \<Rightarrow> string \<Rightarrow> string \<Rightarrow> int"
  ovValue :: "tx list \<Rightarrow> string \<Rightarrow> string \<Rightarrow> int \<times> int"
  ovFormatUnits :: "int \<Rightarrow> nat \<Rightarrow> string"

definition oracleAddresses :: "'d runtime \<Rightarrow> ('d, oracle_addresses) action" where
  "oracleAddresses R =
     thenA (guardA (thisNetwork R \<in> set SUPPORTED_NETWORK) ''Support only oasys,shiden ...'')
       (requireA ''Not setting addresses'' (map_of ORACLE_CONSTANTS (thisNetwork R)))"

text \<open>One line per reserve asset of the network, read at the given oracle.\<close>

definition assetPrices :: "'d runtime \<Rightarrow> oracle_views \<Rightarrow> string \<Rightarrow> ('d, string list) action" where
  "assetPrices R Q oracle =
     bindA (liftA (entriesOf (map_of (ReserveAssets PalmyConfig) (thisNetwork R)))) (\<lambda>prices.
     readA (\<lambda>w. map (\<lambda>(key, asset).
       key @ '' ... '' @ ovFormatUnits Q (ovPrice Q (sent w) oracle asset) 8) prices))"

definition checkFallbackOracle :: "'d runtime \<Rightarrow> oracle_views \<Rightarrow> ('d, string list) action" where
  "checkFallbackOracle R Q = bindA (oracleAddresses R) (\<lambda>addrs. assetPrices R Q (oaFallback addrs))"

definition checkPriceAggregator :: "'d runtime \<Rightarrow> oracle_views \<Rightarrow> ('d, string list) action" where
  "checkPriceAggregator R Q = bindA (oracleAddresses R) (\<lambda>addrs. assetPrices R Q (oaAggregator addrs))"

definition DIA_KEYS :: "string list" where
  "DIA_KEYS =
     [''OAS/USD'', ''SDN/USD'', ''ETH/USD'', ''WBTC/USD'', ''USDT/USD'', ''USDC/USD'', ''OAL/USD'', ''BUSD/USD'',
      ''DAI/USD'', ''MATIC/USD'', ''BNB/USD'', ''DOT/USD'']"

definition checkDiaOracle :: "'d runtime \<Rightarrow> oracle_views \<Rightarrow> ('d, string list) action" where
  "checkDiaOracle R Q =
     bindA (oracleAddresses R) (\<lambda>addrs.
     readA (\<lambda>w. concat (map (\<lambda>key. case ovValue Q (sent w) (oaDia addrs) key of (value, timestamp) \<Rightarrow>
       [''> '' @ key, ''value ... '' @ ovFormatUnits Q value 8, ''timestamp ... '' @ decimal timestamp]) DIA_KEYS)))"

subsection \<open>The deployment database, printed\<close>

definition printContracts :: "string \<Rightarrow> json_db \<Rightarrow> string list" where
  "printContracts network state =
     (let entries = filter (\<lambda>(_, value). map_of value network \<noteq> None) state;
          contractsPrint = map (\<lambda>(key, value). key @ '': '' @ entryAddress (the (map_of value network))) entries
      in [''Contracts deployed at '' @ network, ''---------------------------------'',
          ''N# Contracts: '' @ decimal (int (length entries))] @ contractsPrint)"

text \<open>Every contract of \<open>oasys\<close> is printed with its salt, and its address becomes the one of \<open>testnet\<close>;
  a contract without an entry for \<open>testnet\<close> throws, and the file is not written.\<close>

definition copyAddress :: "string \<times> db_entry obj \<Rightarrow> string + (string \<times> db_entry obj)" where
  "copyAddress row =
     (case row of (key, value) \<Rightarrow>
      case map_of value ''oasys'' of
        None \<Rightarrow> Inr (key, value)
      | Some oasys \<Rightarrow>
          (case map_of value ''testnet'' of
             None \<Rightarrow> Inl ''Cannot set properties of undefined (setting address)''
           | Some testnet \<Rightarrow>
               Inr (key, obj_set value ''testnet'' (testnet\<lparr>entryAddress := entryAddress oasys\<rparr>))))"

definition saltLine :: "string \<times> db_entry obj \<Rightarrow> string list" where
  "saltLine row =
     (case row of (key, value) \<Rightarrow>
      case map_of value ''oasys'' of
        None \<Rightarrow> []
      | Some oasys \<Rightarrow> [key @ '','' @ in_template (entrySalt oasys) @ '','' @ entryAddress oasys])"

definition printAddressAndSalt :: "json_db \<Rightarrow> string + (json_db \<times> string list)" where
  "printAddressAndSalt state =
     andThen (mapR copyAddress state) (\<lambda>state'. Inr (state', concat (map saltLine state)))"

subsection \<open>Setting up the runtime\<close>

datatype tenderly_call = SetFork string | SetHead string | InitializeFork

text \<open>The global \<open>DRE\<close> and the calls of the Tenderly network; a runtime that is set stays.\<close>

definition setDre :: "string option \<Rightarrow> string option \<Rightarrow> environment \<Rightarrow> environment option \<Rightarrow> environment option \<times> tenderly_call list" where
  "setDre forkId headId e dre =
     (if dre \<noteq> None then (dre, [])
      else
       (Some e,
        if includes_string (networkName e) ''tenderly'' \<or> envTENDERLY e = Some ''true''
        then (if truthy forkId \<and> truthy headId then [SetFork (the forkId), SetHead (the headId)]
              else [InitializeFork])
        else []))"

subsection \<open>The contracts of one more asset\<close>

definition reserveConfigs :: "IReserveParams obj" where
  "reserveConfigs =
     [(''strategyUSDC'', strategyUSDC), (''strategyUSDT'', strategyUSDT), (''strategyWBTC'', strategyWBTC),
      (''strategyDAIForTest'', strategyDAIForTest), (''strategyWETH'', strategyWETH),
      (''strategyWOAS'', strategyWOAS), (''strategyMCHC'', strategyMCHC)]"

definition LENDING_POOL_ADDRESS_PROVIDER :: "string obj" where
  "LENDING_POOL_ADDRESS_PROVIDER =
     [(''main'', ''0xb53c1a33016b2dc2ff3653530bff1848a515c8c5''),
      (''shiden'', ''0xa70fFbaFE4B048798bBCBDdfB995fcCec2D1f2CA'')]"

definition isSymbolValid :: "string \<Rightarrow> string \<Rightarrow> string + bool" where
  "isSymbolValid sy network =
     (if ''strategy'' @ sy \<notin> set (obj_keys reserveConfigs) then Inr False
      else case map_of (ReserveAssets PalmyConfig) network of
        None \<Rightarrow> Inl ''Cannot read properties of undefined''
      | Some assets \<Rightarrow>
          Inr (truthy (map_of assets sy) \<and>
            map_of (ReservesConfig PalmyConfig) sy = map_of reserveConfigs (''strategy'' @ sy)))"

record new_asset =
  naLToken :: string
  naVariableDebt :: string
  naStableDebt :: string

definition deployNewAsset :: "'d runtime \<Rightarrow> views \<Rightarrow> string \<Rightarrow> string \<Rightarrow> bool \<Rightarrow> ('d, new_asset) action" where
  "deployNewAsset R V sy pool verify =
     bindA (liftA (isSymbolValid sy (thisNetwork R))) (\<lambda>valid.
     thenA (guardA valid ''WRONG RESERVE ASSET SETUP'')
    (bindA (liftA (loadPoolConfig pool)) (\<lambda>poolConfig.
     let params = the (map_of reserveConfigs (''strategy'' @ sy));
         reserveAssetAddress = the (Option.bind (map_of (ReserveAssets PalmyConfig) (thisNetwork R)) (\<lambda>assets. map_of assets sy));
         st = strategy params
     in bindA (liftA (chooseLTokenDeployment R (lTokenImpl params))) (\<lambda>deployCustomLToken.
        bindA (getLendingPoolAddressesProvider R (map_of LENDING_POOL_ADDRESS_PROVIDER (thisNetwork R)))
          (\<lambda>addressProvider.
        bindA (readA (\<lambda>w. vwLendingPool V (sent w) addressProvider)) (\<lambda>poolAddress.
        bindA (deployCustomLToken verify) (\<lambda>lToken.
        bindA (paramA R (IncentivesController poolConfig)) (\<lambda>incentivesController.
        bindA (case incentivesController of
            None \<Rightarrow> thenA (ignoreA (deployGenericStableDebtToken R verify)) notAnAddress
          | Some a \<Rightarrow> deployStableDebtToken R (poolAddress, reserveAssetAddress, a,
          ''Palmy stable debt bearing '' @ sy, ''sd'' @ sy) verify) (\<lambda>stableDebt.
        bindA (deployVariableDebtToken R (poolAddress, reserveAssetAddress, the incentivesController,
          ''Palmy variable debt bearing '' @ sy, ''vd'' @ sy) verify) (\<lambda>variableDebt.
        bindA (deployDefaultReserveInterestRateStrategy R
          [AAddress addressProvider, AString (optimalUtilizationRate st), AString (baseVariableBorrowRate st),
           AString (variableRateSlope1 st), AString (variableRateSlope2 st), AString (stableRateSlope1 st),
           AString (stableRateSlope2 st)] verify) (\<lambda>_.
        returnA \<lparr>naLToken = lToken, naVariableDebt = variableDebt,
                 naStableDebt = stableDebt\<rparr>)))))))))))"

end
