(* ===== verification/NetworkConfig.thy ===== *)
theory NetworkConfig
  imports Runtime
begin

text \<open>
  The networks of \<open>hardhat.config.ts\<close> and \<open>buidler.config.ts\<close>: the entries that the tasks read through
  the runtime (chain ids, gas, accounts, forking).  The mnemonic, the key of the node and the test wallets
  are read from the environment and are parameters; compiler and plugin settings are left out.
\<close>

subsection \<open>Constants\<close>

definition BUIDLEREVM_CHAINID :: nat where "BUIDLEREVM_CHAINID = 31337"
definition COVERAGE_CHAINID :: nat where "COVERAGE_CHAINID = 1337"
definition DEFAULT_BLOCK_GAS_LIMIT :: nat where "DEFAULT_BLOCK_GAS_LIMIT = 8000000"
definition HARDFORK :: string where "HARDFORK = ''istanbul''"
definition MNEMONIC_PATH :: string where
  "MNEMONIC_PATH = [CHR ''m'', CHR ''/'', CHR ''4'', CHR ''4'', CHR 0x27, CHR ''/'', CHR ''6'', CHR ''0'',
     CHR 0x27, CHR ''/'', CHR ''0'', CHR 0x27, CHR ''/'', CHR ''0'']"

subsection \<open>Network entries\<close>

datatype accounts =
    Mnemonic (mnemonicWords: string) (mnemonicPath: string) (initialIndex: nat) (accountCount: nat)
  | Keys "(string \<times> string) list"

text \<open>A network of the configuration; a key that is left out is \<open>None\<close>.\<close>

record network_config =
  ncUrl :: "string option"
  ncHardfork :: "string option"
  ncChainId :: "nat option"
  ncGas :: "nat option"
  ncGasPrice :: "nat option"
  ncBlockGasLimit :: "nat option"
  ncAccounts :: "accounts option"
  ncForking :: "fork_config option"

definition emptyNetwork :: network_config where
  "emptyNetwork =
     \<lparr>ncUrl = None, ncHardfork = None, ncChainId = None, ncGas = None, ncGasPrice = None,
      ncBlockGasLimit = None, ncAccounts = None, ncForking = None\<rparr>"

definition getCommonNetworkConfig :: "string \<Rightarrow> string \<Rightarrow> nat \<Rightarrow> network_config" where
  "getCommonNetworkConfig mnemonic network networkId =
     emptyNetwork
      \<lparr>ncUrl := map_of NETWORKS_RPC_URL network, ncHardfork := Some HARDFORK, ncChainId := Some networkId,
       ncAccounts := Some (Mnemonic mnemonic MNEMONIC_PATH 0 20),
       ncGas := map_of NETWORKS_DEFAULT_GAS network\<rparr>"

definition ganacheNetwork :: network_config where
  "ganacheNetwork =
     emptyNetwork
      \<lparr>ncUrl := Some ''http://ganache:8545'',
       ncAccounts := Some (Mnemonic
         ''fox sight canyon orphan hotel grow hedgehog build bless august weather swarm'' MNEMONIC_PATH 0 20)\<rparr>"

definition hardhatNetworks ::
  "string \<Rightarrow> (string \<times> string) list \<Rightarrow> string \<Rightarrow> nat \<Rightarrow> network_config obj" where
  "hardhatNetworks mnemonic wallets fork forkBlock =
     [(''coverage'',
        emptyNetwork\<lparr>ncUrl := Some ''http://localhost:8555'', ncChainId := Some COVERAGE_CHAINID\<rparr>),
      (''testnet'', getCommonNetworkConfig mnemonic (eOasysNetwork_value Testnet) 9372),
      (''oasys'', getCommonNetworkConfig mnemonic (eOasysNetwork_value Oasys) 248),
      (''hardhat'',
        emptyNetwork
         \<lparr>ncHardfork := Some ''berlin'', ncBlockGasLimit := Some DEFAULT_BLOCK_GAS_LIMIT,
          ncGas := Some DEFAULT_BLOCK_GAS_LIMIT, ncGasPrice := Some 8000000000,
          ncChainId := Some BUIDLEREVM_CHAINID, ncAccounts := Some (Keys wallets),
          ncForking := buildForkConfig fork forkBlock\<rparr>),
      (''buidlerevm_docker'',
        emptyNetwork
         \<lparr>ncHardfork := Some ''berlin'', ncBlockGasLimit := Some 9500000, ncGas := Some 9500000,
          ncGasPrice := Some 8000000000, ncChainId := Some BUIDLEREVM_CHAINID,
          ncUrl := Some ''http://localhost:8545''\<rparr>),
      (''ganache'', ganacheNetwork)]"

text \<open>The explorers of \<open>etherscan.customChains\<close>: chain id, network and the two addresses.\<close>

record custom_chain =
  ccChainId :: nat
  ccNetwork :: string
  ccApiURL :: string
  ccBrowserURL :: string

definition customChains :: "custom_chain list" where
  "customChains =
     [\<lparr>ccChainId = 9372, ccNetwork = ''testnet'', ccApiURL = ''https://explorer.testnet.oasys.games/api'',
       ccBrowserURL = ''https://explorer.testnet.oasys.games''\<rparr>,
      \<lparr>ccChainId = 248, ccNetwork = ''oasys'', ccApiURL = ''https://explorer.oasys.games/api'',
       ccBrowserURL = ''https://explorer.oasys.games''\<rparr>]"

text \<open>The networks of the older Buidler configuration.\<close>

definition buidlerBlockGasLimit :: nat where "buidlerBlockGasLimit = 12450000"

definition buidlerNetworks :: "(string \<times> string) list \<Rightarrow> network_config obj" where
  "buidlerNetworks wallets =
     [(''coverage'',
        emptyNetwork\<lparr>ncUrl := Some ''http://localhost:8555'', ncChainId := Some COVERAGE_CHAINID\<rparr>),
      (''buidlerevm'',
        emptyNetwork
         \<lparr>ncHardfork := Some ''istanbul'', ncBlockGasLimit := Some buidlerBlockGasLimit,
          ncGas := Some buidlerBlockGasLimit, ncGasPrice := Some 8000000000,
          ncChainId := Some BUIDLEREVM_CHAINID, ncAccounts := Some (Keys wallets)\<rparr>),
      (''buidlerevm_docker'',
        emptyNetwork
         \<lparr>ncHardfork := Some ''istanbul'', ncBlockGasLimit := Some 9500000, ncGas := Some 9500000,
          ncGasPrice := Some 8000000000, ncChainId := Some BUIDLEREVM_CHAINID,
          ncUrl := Some ''http://localhost:8545''\<rparr>),
      (''ganache'', ganacheNetwork)]"

end
