(* ===== verification/FullClaims.thy ===== *)
theory FullClaims
  imports ReportTasks MigrationClaims NetworkConfig
begin

text \<open>
  Properties of the older deployment chains and of the tasks that check and report: which of them cannot
  complete, what deploying one more asset sends and registers, the verification of the tokens and the
  copied addresses.
\<close>

subsection \<open>Actions that cannot succeed\<close>

text \<open>An action that throws whatever the world, and one that throws and leaves the world as it was.\<close>

definition never_succeeds :: "('d, 'a) action \<Rightarrow> bool" where
  "never_succeeds m \<longleftrightarrow> (\<forall>w. \<exists>e w'. m w = (Inl e, w'))"

definition refuses :: "('d, 'a) action \<Rightarrow> bool" where
  "refuses m \<longleftrightarrow> (\<forall>w. \<exists>e. m w = (Inl e, w))"

definition reads_only :: "('d, 'a) action \<Rightarrow> bool" where
  "reads_only m \<longleftrightarrow> (\<forall>w. snd (m w) = w)"

lemma refuses_throwA: "refuses (throwA e)"
  by (simp add: refuses_def)

lemma refuses_notAnAddress: "refuses notAnAddress"
  by (simp add: notAnAddress_def refuses_throwA)

lemma bindA_Inl_eq: "m w = (Inl e, w') \<Longrightarrow> bindA m f w = (Inl e, w')"
  by (simp add: bindA_def)

lemma refuses_bindA: "refuses m \<Longrightarrow> refuses (bindA m f)"
  unfolding refuses_def by (blast intro: bindA_Inl_eq)

lemma refuses_after:
  assumes r: "reads_only m" and f: "\<And>x w. m w = (Inr x, w) \<Longrightarrow> refuses (f x)"
  shows "refuses (bindA m f)"
  unfolding refuses_def
proof
  fix w
  obtain v where v: "m w = (v, w)" using r by (metis reads_only_def prod.collapse)
  show "\<exists>e. bindA m f w = (Inl e, w)"
  proof (cases v)
    case (Inl e)
    with v show ?thesis by (simp add: bindA_def)
  next
    case (Inr x)
    with v f [of w x] show ?thesis by (simp add: bindA_def refuses_def)
  qed
qed

lemma refuses_thenA: "refuses m \<Longrightarrow> refuses (thenA m k)" "reads_only m \<Longrightarrow> refuses k \<Longrightarrow> refuses (thenA m k)"
  unfolding thenA_def by (auto intro: refuses_bindA refuses_after)

lemma never_bindA: "never_succeeds m \<Longrightarrow> never_succeeds (bindA m f)"
  unfolding never_succeeds_def by (blast intro: bindA_Inl_eq)

lemma never_after: "(\<And>x. never_succeeds (f x)) \<Longrightarrow> never_succeeds (bindA m f)"
  unfolding never_succeeds_def bindA_def
  by (metis (mono_tags, lifting) case_prod_conv old.sum.simps(5) old.sum.simps(6) prod.exhaust sum.exhaust)

lemma never_thenA: "never_succeeds m \<Longrightarrow> never_succeeds (thenA m k)" "never_succeeds k \<Longrightarrow> never_succeeds (thenA m k)"
  unfolding thenA_def by (auto intro: never_bindA never_after)

lemma refuses_never: "refuses m \<Longrightarrow> never_succeeds m"
  unfolding refuses_def never_succeeds_def by blast

lemma never_exitOnError: "never_succeeds m \<Longrightarrow> never_succeeds (exitOnError m)"
  unfolding never_succeeds_def exitOnError_def by (metis (no_types, lifting) case_prod_conv old.sum.simps(5))

lemma reads_only_basic [simp]:
  "reads_only (returnA x)" "reads_only (throwA e)" "reads_only (readA f)" "reads_only (liftA r)"
  "reads_only (checkA g)" "reads_only (requireA e v)" "reads_only (guardA c e)"
  by (auto simp: reads_only_def requireA_def guardA_def split: option.split)

lemma reads_only_getters [simp]:
  "reads_only (signerA R)" "reads_only (paramA R p)" "reads_only (connectedAddress R i addr)"
  "reads_only (requireChainId chainId)"
  by (auto simp: signerA_def paramA_def connectedAddress_def databaseAddress_def requireChainId_def)

text \<open>Entries the market does not have.\<close>

lemma missing_entries:
  assumes "name \<in> {''ProviderRegistry'', ''LendingPool'', ''PalmyOracle'', ''PriceAggregator'',
    ''LendingRateOracle'', ''FallbackOracle'', ''LendingPoolCollateralManager'', ''WethGateway''}"
  shows "refuses (marketAddress R config name)"
proof -
  have "config_entry config name = None"
    using assms by (elim insertE emptyE) (simp_all add: config_entry_def)
  then show ?thesis by (simp add: refuses_def marketAddress_def getParamPerNetwork_def)
qed

lemma no_WOAL:
  assumes "loadPoolConfig pool = Inr config" "map_of (ReserveAssets config) network = Some assets"
  shows "map_of assets ''WOAL'' = None"
proof -
  have "list_all (\<lambda>(_, assets). map_of assets ''WOAL'' = None) (ReserveAssets PalmyConfig)"
    by (simp add: PalmyConfig_def)
  moreover have "list_all (\<lambda>(_, assets). map_of assets ''WOAL'' = None) (ReserveAssets CommonsConfig)"
    by (simp add: CommonsConfig_def)
  moreover have "config = PalmyConfig \<or> config = CommonsConfig"
    using assms(1) by (simp add: loadPoolConfig_def split: if_splits)
  moreover have "(network, assets) \<in> set (ReserveAssets config)"
    using assms(2) by (rule map_of_SomeD)
  ultimately show ?thesis by (auto simp: list_all_iff)
qed

subsection \<open>The older chains\<close>

lemma loadPoolConfig_Palmy [simp]: "loadPoolConfig ''Palmy'' = Inr PalmyConfig"
  by (simp add: loadPoolConfig_def)

lemma refuses_market:
  "name \<in> {''ProviderRegistry'', ''LendingPool'', ''PalmyOracle'', ''PriceAggregator'', ''LendingRateOracle'',
     ''FallbackOracle'', ''LendingPoolCollateralManager'', ''WethGateway''} \<Longrightarrow>
   refuses (bindA (marketAddress R config name) f)"
  by (rule refuses_bindA [OF missing_entries])

lemma registry_refuses: "refuses (fullAddressProviderRegistry R pool)"
  unfolding fullAddressProviderRegistry_def
  by ((rule refuses_after, (simp; fail))+, rule refuses_market) simp

lemma market_registration_refuses: "refuses (addMarketToRegistry R pool provider deploy)"
  unfolding addMarketToRegistry_def
  by ((rule refuses_after, (simp; fail))+, rule refuses_market) simp

lemma provider_refuses: "refuses (fullAddressProvider R pool skip)"
  unfolding fullAddressProvider_def
  by ((rule refuses_after, (simp; fail))+, rule refuses_bindA, rule refuses_notAnAddress)

lemma dev_provider_refuses: "refuses (devAddressProvider R)"
  unfolding devAddressProvider_def
  by ((rule refuses_after, (simp; fail))+, rule refuses_bindA, rule refuses_notAnAddress)

lemma pool_refuses: "refuses (fullLendingPool R V pool verify)"
  unfolding fullLendingPool_def getLendingPoolAddressesProvider_def
  by ((rule refuses_after, (simp; fail))+, rule refuses_market) simp

lemma oracles_refuse: "refuses (fullOracles R pool verify)"
  unfolding fullOracles_def getLendingPoolAddressesProvider_def
  by ((rule refuses_after, (simp; fail))+, rule refuses_market) simp

lemma verify_refuses: "refuses (verifyGeneral R V manager pool all)"
  unfolding verifyGeneral_def
  by ((rule refuses_after, (simp; fail))+, rule refuses_market) simp

lemma stake_refuses: "refuses (deployStakeUITask R chainId pool)"
proof -
  have "refuses (bindA (paramA R (ReserveAssets config)) (\<lambda>reserveAssets.
      bindA (requireA e reserveAssets) (\<lambda>assets.
      bindA (paramA R p) (\<lambda>stkOal. thenA (guardA (g stkOal) e')
        (thenA (guardA (notFalsyOrZeroAddress (rtAddresses R) (map_of assets ''WOAL'')) e'') (k stkOal))))))"
    if c: "loadPoolConfig pool = Inr config" for config e p g e' e'' k
  proof (rule refuses_after, simp)
    fix reserveAssets w
    assume "paramA R (ReserveAssets config) w = (Inr reserveAssets, w)"
    then have "map_of assets ''WOAL'' = None" if "reserveAssets = Some assets" for assets
      using that no_WOAL [OF c] by (auto simp: paramA_def getParamPerNetwork_def split: if_splits)
    then show "refuses (bindA (requireA e reserveAssets) (\<lambda>assets.
        bindA (paramA R p) (\<lambda>stkOal. thenA (guardA (g stkOal) e')
          (thenA (guardA (notFalsyOrZeroAddress (rtAddresses R) (map_of assets ''WOAL'')) e'') (k stkOal)))))"
      by (intro refuses_after refuses_thenA(2) refuses_thenA(1) reads_only_basic reads_only_getters)
        (auto simp: requireA_def guardA_def notFalsyOrZeroAddress_def truthy_def refuses_throwA split: option.splits)
  qed
  note woas = this
  show ?thesis
    unfolding deployStakeUITask_def getPalmyOracle_def Let_def
    by (rule refuses_thenA(2), simp, rule refuses_after, simp, rule refuses_after, simp, rule woas) simp
qed

lemma never_notAnAddress: "never_succeeds (bindA notAnAddress f)"
  by (rule never_bindA [OF refuses_never [OF refuses_notAnAddress]])

lemma pool_helpers_never: "never_succeeds (deployPoolHelpers R pool config verify)"
  unfolding deployPoolHelpers_def ignoreA_def by (rule never_thenA(1), rule never_notAnAddress)

lemma dev_pool_never: "never_succeeds (devLendingPool R V pool verify)"
  unfolding devLendingPool_def by (intro never_after never_thenA(2) pool_helpers_never)

lemma dev_oracles_never: "never_succeeds (devOracles R P pool verify)"
  unfolding devOracles_def Let_def by (rule never_notAnAddress | rule never_after | rule never_thenA(2))+

lemma gateway_never: "never_succeeds (fullWethGateway R chainId pool)"
  unfolding fullWethGateway_def ignoreA_def by (rule never_notAnAddress | rule never_after | rule never_thenA(2))+

lemma gateway_authorisation_never: "never_succeeds (authorizeMarketGateway R V config provider)"
  unfolding authorizeMarketGateway_def
  by (rule never_after, rule refuses_never, rule refuses_market) simp

lemma initialize_never:
  "never_succeeds (fullInitialize R V P pool verify)" "never_succeeds (devInitialize R V P pool verify)"
  unfolding fullInitialize_def devInitialize_def Let_def
  by ((intro never_exitOnError never_after never_thenA(2) gateway_authorisation_never)[1])+


subsection \<open>One more asset\<close>

lemma reserve_configs_named:
  assumes "map_of reserveConfigs (''strategy'' @ sy) = Some params"
  shows "lTokenImpl params = ''LToken''"
proof -
  have "list_all (\<lambda>(_, params). lTokenImpl params = ''LToken'') reserveConfigs"
    by (simp add: reserveConfigs_def strategyUSDC_def strategyUSDT_def strategyWBTC_def strategyDAIForTest_def
        strategyWETH_def strategyWOAS_def strategyMCHC_def)
  with map_of_SomeD [OF assms] show ?thesis by (auto simp: list_all_iff)
qed

lemma valid_symbol:
  assumes "isSymbolValid sy network = Inr True"
  obtains assets asset params where "map_of (ReserveAssets PalmyConfig) network = Some assets"
    "map_of assets sy = Some asset" "map_of (ReservesConfig PalmyConfig) sy = Some params"
    "map_of reserveConfigs (''strategy'' @ sy) = Some params" "lTokenImpl params = ''LToken''"
proof -
  have k: "''strategy'' @ sy \<in> fst ` set reserveConfigs"
    using assms by (auto simp: isSymbolValid_def obj_keys_def split: if_splits)
  then obtain params where p: "map_of reserveConfigs (''strategy'' @ sy) = Some params"
    by (metis map_of_eq_None_iff not_Some_eq)
  with assms k that reserve_configs_named [OF p] show ?thesis
    by (auto simp: isSymbolValid_def truthy_def split: if_splits option.splits)
qed

definition strategyArgs :: "string \<Rightarrow> IInterestRateStrategyParams \<Rightarrow> arg list" where
  "strategyArgs provider st =
     [AAddress provider, AString (optimalUtilizationRate st), AString (baseVariableBorrowRate st),
      AString (variableRateSlope1 st), AString (variableRateSlope2 st), AString (stableRateSlope1 st),
      AString (stableRateSlope2 st)]"

definition debtTokenArgs :: "string \<Rightarrow> string \<Rightarrow> string \<Rightarrow> string \<Rightarrow> string \<Rightarrow> arg list" where
  "debtTokenArgs lendingPool asset incentives tokenName tokenSymbol =
     [AAddress lendingPool, AAddress asset, AAddress incentives, AString ''18'', AString tokenName,
      AString tokenSymbol, AString ''0x10'']"

text \<open>A deployment that is saved: what it sends, and the one entry that it changes.\<close>

definition saves :: "'d runtime \<Rightarrow> string \<Rightarrow> string \<Rightarrow> 'd world \<Rightarrow> 'd world \<Rightarrow> bool" where
  "saves R i addr w w' \<longleftrightarrow> (\<forall>j. plain_key j \<longrightarrow>
     (i = j \<longrightarrow> (\<exists>e. readDb R j w' = Some e \<and> entryAddress e = addr)) \<and> (i \<noteq> j \<longrightarrow> readDb R j w' = readDb R j w))"

lemma saves_keep: "saves R i a w w' \<Longrightarrow> plain_key j \<Longrightarrow> i \<noteq> j \<Longrightarrow> readDb R j w' = readDb R j w"
  by (simp add: saves_def)

lemma saves_own: "saves R i a w w' \<Longrightarrow> plain_key i \<Longrightarrow> \<exists>e. readDb R i w' = Some e \<and> entryAddress e = a"
  by (simp add: saves_def)

lemma saved_effect:
  assumes "stored R" "plain_key i"
  shows "saves R i addr w (registered R i addr d (w\<lparr>sent := ts\<rparr>))"
  using assms by (auto simp: saves_def readDb_registered)

lemma saves_sent: "saves R i addr w w' \<Longrightarrow> saves R i addr w (w'\<lparr>sent := ts\<rparr>)"
  by (simp add: saves_def)

lemma lToken_effect:
  assumes "stored R" "deployGenericLTokenImpl R verify w = (Inr addr, w')"
  shows "\<exists>s. getFirstSigner R = Some s \<and> sent w' = sent w @ [deployTx ''LToken'' [] s] \<and> saves R ''LToken'' addr w w'"
  using assms by (auto simp: deployGenericLTokenImpl_def deployment_rules plain_key_def intro!: saved_effect)

lemma stableDebt_effect:
  assumes "stored R" "deployStableDebtToken R (p, u, i, n, y) verify w = (Inr addr, w')"
  shows "\<exists>s. getFirstSigner R = Some s \<and> saves R ''StableDebtToken'' addr w w' \<and>
    sent w' = sent w @ [deployTx ''StableDebtToken'' [] s, callTx addr ''initialize'' (debtTokenArgs p u i n y) s]"
  using assms
  by (auto simp: deployStableDebtToken_def deployment_rules debtTokenArgs_def plain_key_def run_Inr
      intro!: saves_sent saved_effect)

lemma variableDebt_effect:
  assumes "stored R" "deployVariableDebtToken R (p, u, i, n, y) verify w = (Inr addr, w')"
  shows "\<exists>s. getFirstSigner R = Some s \<and> saves R ''VariableDebtToken'' addr w w' \<and>
    sent w' = sent w @ [deployTx ''VariableDebtToken'' [] s, callTx addr ''initialize'' (debtTokenArgs p u i n y) s]"
  using assms
  by (auto simp: deployVariableDebtToken_def deployment_rules debtTokenArgs_def plain_key_def run_Inr
      intro!: saves_sent saved_effect)

lemma strategy_effect:
  assumes "stored R" "deployDefaultReserveInterestRateStrategy R args verify w = (Inr addr, w')"
  shows "\<exists>s. getFirstSigner R = Some s \<and> saves R ''DefaultReserveInterestRateStrategy'' addr w w' \<and>
    sent w' = sent w @ [deployTx ''DefaultReserveInterestRateStrategy'' args s]"
  using assms
  by (auto simp: deployDefaultReserveInterestRateStrategy_def deployment_rules plain_key_def intro!: saved_effect)

text \<open>C23: The contracts of one more asset.  A run of \<open>deploy-new-asset\<close> that succeeds was given a symbol that is
  listed on the network with its own strategy, and sent exactly the creations of the liquidity token, of the two debt tokens,
  each initialised for the pool of the provider, the asset and the names of the symbol, and of the rate strategy with
  the parameters of the reserve.  The tokens are registered under the ids of the
  implementations, which now lead to them.\<close>

theorem new_asset_deployed:
  assumes R: "stored R" and run: "deployNewAsset R V sy pool verify w = (Inr a, w')"
  shows "\<exists>s assets asset params provider incentives.
    getFirstSigner R = Some s \<and> map_of (ReserveAssets PalmyConfig) (thisNetwork R) = Some assets \<and>
    map_of assets sy = Some asset \<and> map_of (ReservesConfig PalmyConfig) sy = Some params \<and>
    getLendingPoolAddressesProvider R (map_of LENDING_POOL_ADDRESS_PROVIDER (thisNetwork R)) w = (Inr provider, w) \<and>
    (let lendingPool = vwLendingPool V (sent w) provider
     in sent w' = sent w @
       [deployTx ''LToken'' [] s,
        deployTx ''StableDebtToken'' [] s,
        callTx (naStableDebt a) ''initialize''
          (debtTokenArgs lendingPool asset incentives (''Palmy stable debt bearing '' @ sy) (''sd'' @ sy)) s,
        deployTx ''VariableDebtToken'' [] s,
        callTx (naVariableDebt a) ''initialize''
          (debtTokenArgs lendingPool asset incentives (''Palmy variable debt bearing '' @ sy) (''vd'' @ sy)) s,
        deployTx ''DefaultReserveInterestRateStrategy'' (strategyArgs provider (strategy params)) s]) \<and>
    getLToken R None w' = (Inr (naLToken a), w') \<and>
    getStableDebtToken R None w' = (Inr (naStableDebt a), w') \<and>
    getVariableDebtToken R None w' = (Inr (naVariableDebt a), w')"
proof -
  have v: "isSymbolValid sy (thisNetwork R) = Inr True"
    using run by (auto simp: deployNewAsset_def deployment_rules guardA_def split: if_splits)
  obtain assets asset params where t: "map_of (ReserveAssets PalmyConfig) (thisNetwork R) = Some assets"
    "map_of assets sy = Some asset" "map_of (ReservesConfig PalmyConfig) sy = Some params"
    "map_of reserveConfigs (''strategy'' @ sy) = Some params" "lTokenImpl params = ''LToken''"
    using valid_symbol [OF v] .
  obtain provider w0 incentives lToken w1 stable w2 variable w3 st where
    prov: "getLendingPoolAddressesProvider R (map_of LENDING_POOL_ADDRESS_PROVIDER (thisNetwork R)) w = (Inr provider, w0)" and
    d1: "deployGenericLTokenImpl R verify w0 = (Inr lToken, w1)" and
    d2: "deployStableDebtToken R (vwLendingPool V (sent w0) provider, asset, incentives,
          ''Palmy stable debt bearing '' @ sy, ''sd'' @ sy) verify w1 = (Inr stable, w2)" and
    d3: "deployVariableDebtToken R (vwLendingPool V (sent w0) provider, asset, incentives,
          ''Palmy variable debt bearing '' @ sy, ''vd'' @ sy) verify w2 = (Inr variable, w3)" and
    d4: "deployDefaultReserveInterestRateStrategy R (strategyArgs provider (strategy params)) verify w3 = (Inr st, w')" and
    a: "a = \<lparr>naLToken = lToken, naVariableDebt = variable, naStableDebt = stable\<rparr>"
    using run v t
    by (auto simp: deployNewAsset_def bindA_Inr thenA_Inr guardA_def chooseLTokenDeployment_def Let_def
        strategyArgs_def [symmetric] notAnAddress_def paramA_def split: option.splits)
  have w0: "w0 = w"
    using prov by (auto simp: getLendingPoolAddressesProvider_def connectedAddress_def databaseAddress_def
        split: if_splits option.splits)
  note e = lToken_effect [OF R d1] stableDebt_effect [OF R d2] variableDebt_effect [OF R d3] strategy_effect [OF R d4]
  have sv: "saves R ''LToken'' lToken w0 w1" "saves R ''StableDebtToken'' stable w1 w2"
    "saves R ''VariableDebtToken'' variable w2 w3" "saves R ''DefaultReserveInterestRateStrategy'' st w3 w'"
    using e by blast+
  have keys: "plain_key ''LToken''" "plain_key ''StableDebtToken''" "plain_key ''VariableDebtToken''"
    by (simp_all add: plain_key_def)
  have r: "readDb R ''LToken'' w' = readDb R ''LToken'' w1" "readDb R ''StableDebtToken'' w' = readDb R ''StableDebtToken'' w2"
    "readDb R ''VariableDebtToken'' w' = readDb R ''VariableDebtToken'' w3"
    using saves_keep [OF sv(2) keys(1)] saves_keep [OF sv(3) keys(1)] saves_keep [OF sv(3) keys(2)]
      saves_keep [OF sv(4) keys(1)] saves_keep [OF sv(4) keys(2)] saves_keep [OF sv(4) keys(3)] by simp_all
  have g: "getLToken R None w' = (Inr lToken, w')" "getStableDebtToken R None w' = (Inr stable, w')"
    "getVariableDebtToken R None w' = (Inr variable, w')"
    using saves_own [OF sv(1) keys(1)] saves_own [OF sv(2) keys(2)] saves_own [OF sv(3) keys(3)]
    by (auto simp: getter_defs connectedAddress_registered r)
  obtain s where s: "getFirstSigner R = Some s" using e(1) by blast
  have trace: "sent w' = sent w @
       [deployTx ''LToken'' [] s, deployTx ''StableDebtToken'' [] s,
        callTx stable ''initialize'' (debtTokenArgs (vwLendingPool V (sent w) provider) asset incentives
          (''Palmy stable debt bearing '' @ sy) (''sd'' @ sy)) s,
        deployTx ''VariableDebtToken'' [] s,
        callTx variable ''initialize'' (debtTokenArgs (vwLendingPool V (sent w) provider) asset incentives
          (''Palmy variable debt bearing '' @ sy) (''vd'' @ sy)) s,
        deployTx ''DefaultReserveInterestRateStrategy'' (strategyArgs provider (strategy params)) s]"
    using e s w0 by auto
  show ?thesis
    unfolding a Let_def new_asset.simps
    using s t(1-3) prov [unfolded w0] trace g by blast
qed

lemma no_reverts_rules:
  assumes "getFirstSigner R = Some s" "\<And>ts t. reverts (rtChain R) ts t = None"
  shows "deployFrom R c args w =
      (Inr (created (rtChain R) (sent w) (deployTx c args s)), w\<lparr>sent := sent w @ [deployTx c args s]\<rparr>)"
    "callFrom R target method args' w = (Inr (), w\<lparr>sent := sent w @ [callTx target method args' s]\<rparr>)"
    "withSaveAndVerify R inst i args'' False w = (Inr inst, registered R i inst (Some s) w)"
  using assms by (simp_all add: deployFrom_Inr callFrom_Inr withSaveAndVerify_Inr)

lemma no_reverts_deployments:
  assumes "getFirstSigner R = Some s" "\<And>ts t. reverts (rtChain R) ts t = None"
  shows "\<exists>a w'. deployGenericLTokenImpl R False w = (Inr a, w')"
    "\<exists>a w'. deployStableDebtToken R (p, u, i, n, y) False w = (Inr a, w')"
    "\<exists>a w'. deployVariableDebtToken R (p, u, i, n, y) False w = (Inr a, w')"
    "\<exists>a w'. deployDefaultReserveInterestRateStrategy R args False w = (Inr a, w')"
  by (simp_all add: deployGenericLTokenImpl_def deployStableDebtToken_def deployVariableDebtToken_def
      deployDefaultReserveInterestRateStrategy_def bindA_def thenA_def no_reverts_rules [OF assms])

lemma sample_market_entries:
  "isSymbolValid ''WETH'' ''oasys'' = Inr True"
  "lTokenImpl (the (map_of reserveConfigs ''strategyWETH'')) = ''LToken''"
  "map_of (IncentivesController PalmyConfig) ''oasys'' = Some ''0x29C903EBEdAD12C813D4ce6f0fFfEd540d13Dc38''"
  by (simp_all add: isSymbolValid_def obj_keys_def reserveConfigs_def PalmyConfig_def CommonsConfig_def truthy_def
      strategyWETH_def)

lemma sample_asset_deploys:
  "\<exists>a w'. deployNewAsset sample_runtime sample_views ''WETH'' ''Palmy'' False sample_deployment = (Inr a, w')"
proof -
  let ?R = sample_runtime
  have s: "getFirstSigner ?R = Some ''0xAdmin''" and runs: "\<And>ts t. reverts (rtChain ?R) ts t = None"
    by (simp_all add: sample_runtime_def getFirstSigner_def at_index_def)
  note ex = no_reverts_deployments [OF s runs]
  have n: "thisNetwork ?R = ''oasys''" by (simp add: sample_runtime_def)
  have p: "getLendingPoolAddressesProvider ?R None w = (Inr ''0xLendingPoolAddressesProvider'', w)"
    if "w = sample_deployment" for w
    using that sample_deployment_entries(2)
    by (simp add: getLendingPoolAddressesProvider_def connectedAddress_registered)
  have inc: "paramA ?R (IncentivesController PalmyConfig) w = (Inr (Some ''0x29C903EBEdAD12C813D4ce6f0fFfEd540d13Dc38''), w)" for w
    using sample_market_entries(3)
    by (simp add: paramA_def n) (simp add: getParamPerNetwork_def sample_runtime_def truthy_def)
  obtain a1 w1 where 1: "deployGenericLTokenImpl ?R False sample_deployment = (Inr a1, w1)" using ex(1) by blast
  let ?asset = "the (Option.bind (map_of (ReserveAssets PalmyConfig) ''oasys'') (\<lambda>assets. map_of assets ''WETH''))"
  let ?inc = "''0x29C903EBEdAD12C813D4ce6f0fFfEd540d13Dc38''"
  obtain a2 w2 where 2: "deployStableDebtToken ?R (''0x9001'', ?asset, ?inc, ''Palmy stable debt bearing WETH'', ''sdWETH'')
      False w1 = (Inr a2, w2)" using ex(2) by blast
  obtain a3 w3 where 3: "deployVariableDebtToken ?R (''0x9001'', ?asset, ?inc, ''Palmy variable debt bearing WETH'', ''vdWETH'')
      False w2 = (Inr a3, w3)" using ex(3) by blast
  obtain a4 w4 where 4: "deployDefaultReserveInterestRateStrategy ?R (strategyArgs ''0xLendingPoolAddressesProvider''
      (strategy (the (map_of reserveConfigs ''strategyWETH'')))) False w3 = (Inr a4, w4)"
    using ex(4) by blast
  show ?thesis
    by (simp add: deployNewAsset_def bindA_Inr thenA_Inr n sample_market_entries guardA_def loadPoolConfig_def
        LENDING_POOL_ADDRESS_PROVIDER_def chooseLTokenDeployment_def p inc 1 2 3 4 [unfolded strategyArgs_def] Let_def sample_views_def) blast
qed

theorem new_asset_deployed_witness:
  "\<exists>a w'. deployNewAsset sample_runtime sample_views ''WETH'' ''Palmy'' False sample_deployment = (Inr a, w') \<and>
     getLToken sample_runtime None w' = (Inr (naLToken a), w')"
proof -
  obtain a w' where run: "deployNewAsset sample_runtime sample_views ''WETH'' ''Palmy'' False sample_deployment = (Inr a, w')"
    using sample_asset_deploys by (elim exE)
  have "getLToken sample_runtime None w' = (Inr (naLToken a), w')"
    using new_asset_deployed [OF sample_runtime_ok(1) run] by (elim exE conjE)
  with run show ?thesis by (intro exI conjI)
qed

subsection \<open>Verified tokens\<close>

lemma verifyContract_ok: "verifiable R \<Longrightarrow> verifyContract R i a args w = (Inr (), w)"
  by (simp add: verifyContract_def verifyEtherscanContract_def verifiable_def)

lemma verifyImplementation_ok:
  assumes "verifiable R" "\<And>a. truthy a \<Longrightarrow> getter R a = returnA (the a)"
  shows "verifyImplementation R getter entry i args w = (Inr (), w)"
  using assms by (auto simp: verifyImplementation_def bindA_def verifyContract_ok)

lemma verifyReserve_ok:
  assumes v: "verifiable R" and c: "map_of (ReservesConfig config) token \<noteq> None"
    and st: "rtkStrategy (reserveData (sent w) pool asset) \<noteq> []"
  shows "verifyReserve R reserveData config treasury provider pool configurator (token, asset) w = (Inr (), w)"
proof -
  obtain params where p: "map_of (ReservesConfig config) token = Some params" using c by blast
  have g: "getLToken R a = returnA (the a)" "getStableDebtToken R a = returnA (the a)"
    "getVariableDebtToken R a = returnA (the a)" "getInterestRateStrategy R a = returnA (the a)" if "truthy a" for a
    using that by (simp_all add: getter_defs connectedAddress_def)
  have "truthy (Some (rtkStrategy (reserveData (sent w) pool asset)))" using st by (simp add: truthy_def)
  then show ?thesis
    by (simp add: verifyReserve_def bindA_def thenA_def p requireA_def verifyProxy_def getProxy_def Let_def
        verifyContract_ok [OF v] verifyImplementation_ok [OF v] g)
qed

lemma forA_ok: "(\<And>x. x \<in> set xs \<Longrightarrow> f x w = (Inr (), w)) \<Longrightarrow> forA xs f w = (Inr (), w)"
  by (induction xs) (simp_all add: thenA_def bindA_def)

lemma oasys_assets_configured:
  assumes "network \<in> {''testnet'', ''oasys''}"
  shows "\<exists>assets. map_of (ReserveAssets PalmyConfig) network = Some assets \<and>
    (\<forall>(token, asset) \<in> set assets. map_of (ReservesConfig PalmyConfig) token \<noteq> None)"
  using assms by (elim insertE emptyE) (simp_all add: PalmyConfig_def CommonsConfig_def)

text \<open>The tokens of the market can be verified.  On testnet and oasys, with a key for the explorer and
  the addresses provider deployed, every asset of the market has a configuration, so verifying the tokens
  reaches its end whatever implementations the database knows, and changes nothing.\<close>

theorem tokens_verified:
  assumes net: "thisNetwork R \<in> {''testnet'', ''oasys''}" "\<not> truthy (envFORK (rtEnv R))"
    and key: "truthy (envETHERSCAN_KEY (rtEnv R))"
    and provider: "readDb R ''LendingPoolAddressesProvider'' w = Some e"
    and strategies: "\<And>asset. rtkStrategy (reserveData (sent w) (vwLendingPool V (sent w) (entryAddress e)) asset) \<noteq> []"
  shows "verifyTokens R V reserveData ''Palmy'' w = (Inr (), w)"
proof -
  have v: "verifiable R"
    using net(1) key by (auto simp: verifiable_def SUPPORTED_ETHERSCAN_NETWORKS_def)
  obtain assets where a: "map_of (ReserveAssets PalmyConfig) (thisNetwork R) = Some assets"
    "\<forall>(token, asset) \<in> set assets. map_of (ReservesConfig PalmyConfig) token \<noteq> None"
    using oasys_assets_configured [OF net(1)] by blast
  have param: "paramA R (ReserveAssets PalmyConfig) w = (Inr (Some assets), w)"
    using net a(1) by (auto simp: paramA_def getParamPerNetwork_def)
  have treasury: "\<exists>t. getTreasuryAddress R PalmyConfig = Inr t"
    by (simp add: getTreasuryAddress_def getParamPerNetwork_def)
  have each: "verifyReserve R reserveData PalmyConfig t (entryAddress e)
      (vwLendingPool V (sent w) (entryAddress e)) c row w = (Inr (), w)" if "row \<in> set assets" for t c row
    using that a(2) strategies by (cases row) (auto intro!: verifyReserve_ok [OF v])
  show ?thesis
    using treasury
    by (auto simp: verifyTokens_def bindA_def loadPoolConfig_def getLendingPoolAddressesProvider_def
        connectedAddress_registered [OF provider] param entriesOf_def intro!: forA_ok each)
qed

theorem tokens_verified_witness:
  "let R = testnet_runtime\<lparr>rtEnv := (rtEnv testnet_runtime)\<lparr>envETHERSCAN_KEY := Some ''key''\<rparr>\<rparr>;
       w = registered testnet_runtime ''LendingPoolAddressesProvider'' ''0xAP'' None empty_world
   in verifyTokens R sample_views
        (\<lambda>ts pool asset. \<lparr>rtkLToken = ''0x1'', rtkStableDebt = ''0x2'', rtkVariableDebt = ''0x3'', rtkStrategy = ''0x4''\<rparr>)
        ''Palmy'' w = (Inr (), w)"
proof -
  let ?R = "testnet_runtime\<lparr>rtEnv := (rtEnv testnet_runtime)\<lparr>envETHERSCAN_KEY := Some ''key''\<rparr>\<rparr>"
  let ?w = "registered testnet_runtime ''LendingPoolAddressesProvider'' ''0xAP'' None empty_world"
  have "readDb testnet_runtime ''LendingPoolAddressesProvider'' ?w = Some (address_only ''0xAP'')"
    by (simp add: readDb_registered [OF testnet_runtime_ok(1)] plain_key_def)
  then have "readDb ?R ''LendingPoolAddressesProvider'' ?w = Some (address_only ''0xAP'')"
    by (simp add: readDb_def)
  then show ?thesis
    unfolding Let_def
    by (rule tokens_verified [rotated 3]) (simp_all add: testnet_runtime_def sample_runtime_def truthy_def)
qed

subsection \<open>The copied addresses\<close>

definition copiedEntries :: "db_entry obj \<Rightarrow> db_entry obj" where
  "copiedEntries value =
     (case (map_of value ''oasys'', map_of value ''testnet'') of
        (Some oasys, Some testnet) \<Rightarrow> obj_set value ''testnet'' (testnet\<lparr>entryAddress := entryAddress oasys\<rparr>)
      | _ \<Rightarrow> value)"

lemma copyAddress_Inr:
  "copyAddress (k, value) = Inr row \<longleftrightarrow>
   row = (k, copiedEntries value) \<and> (map_of value ''oasys'' \<noteq> None \<longrightarrow> map_of value ''testnet'' \<noteq> None)"
  by (auto simp: copyAddress_def copiedEntries_def split: option.splits)

lemma mapR_copyAddress:
  "mapR copyAddress state = Inr state' \<longleftrightarrow>
   state' = map (\<lambda>(k, value). (k, copiedEntries value)) state \<and>
   (\<forall>(k, value) \<in> set state. map_of value ''oasys'' \<noteq> None \<longrightarrow> map_of value ''testnet'' \<noteq> None)"
proof (induction state arbitrary: state')
  case (Cons row state)
  then show ?case by (cases row) (auto simp: copyAddress_Inr)
qed auto

lemma map_of_copied: "map_of (map (\<lambda>(k, v). (k, f v)) xs) i = map_option f (map_of xs i)"
  by (induction xs) auto

lemma json_get_path:
  "plain_key i \<Longrightarrow> json_get d (entry_path i n) = Option.bind (map_of d i) (\<lambda>entries. map_of entries n)"
  by (auto simp: json_get_def takeWhile_entry_path Let_def split: option.split)

lemma map_of_copiedEntries:
  "map_of (copiedEntries value) n =
     (if n = ''testnet'' then
        (case map_of value ''oasys'' of
           None \<Rightarrow> map_of value n
         | Some oasys \<Rightarrow> map_option (\<lambda>e. e\<lparr>entryAddress := entryAddress oasys\<rparr>) (map_of value n))
      else map_of value n)"
  by (auto simp: copiedEntries_def map_of_obj_set split: option.splits)

text \<open>Addresses are copied between networks.  Printing the addresses and salts of \<open>oasys\<close> succeeds
  exactly if every contract of \<open>oasys\<close> has an entry for \<open>testnet\<close>.  Then that entry takes over the address and
  keeps its deployer and salt, the entries of contracts that are not on \<open>oasys\<close> and of all other networks
  are unchanged, and one line is printed for each contract on \<open>oasys\<close>.\<close>

theorem addresses_copied:
  "((\<exists>r. printAddressAndSalt d = Inr r) \<longleftrightarrow>
      (\<forall>(k, value) \<in> set d. map_of value ''oasys'' \<noteq> None \<longrightarrow> map_of value ''testnet'' \<noteq> None)) \<and>
   (\<forall>d' lines. printAddressAndSalt d = Inr (d', lines) \<longrightarrow>
      length lines = length (filter (\<lambda>(k, value). map_of value ''oasys'' \<noteq> None) d) \<and>
      (\<forall>i n. plain_key i \<longrightarrow> json_get d' (entry_path i n) =
         (case (n = ''testnet'', json_get d (entry_path i ''oasys'')) of
            (True, Some oasys) \<Rightarrow>
              map_option (\<lambda>e. e\<lparr>entryAddress := entryAddress oasys\<rparr>) (json_get d (entry_path i n))
          | _ \<Rightarrow> json_get d (entry_path i n))))"
proof -
  have lines: "length (concat (map saltLine d)) = length (filter (\<lambda>(k, value). map_of value ''oasys'' \<noteq> None) d)"
    by (induction d) (auto simp: saltLine_def split: option.split)
  have get: "json_get (map (\<lambda>(k, value). (k, copiedEntries value)) d) (entry_path i n) =
         (case (n = ''testnet'', json_get d (entry_path i ''oasys'')) of
            (True, Some oasys) \<Rightarrow>
              map_option (\<lambda>e. e\<lparr>entryAddress := entryAddress oasys\<rparr>) (json_get d (entry_path i n))
          | _ \<Rightarrow> json_get d (entry_path i n))" if "plain_key i" for i n
    using that
    by (cases "map_of d i") (auto simp: json_get_path map_of_copied map_of_copiedEntries split: option.split bool.split)
  show ?thesis
    using lines get by (auto simp: printAddressAndSalt_def mapR_copyAddress)
qed

theorem addresses_copied_witness:
  "\<exists>d'. printAddressAndSalt
       [(''LendingPool'',
          [(''testnet'', \<lparr>entryAddress = ''0x1'', entryDeployer = None, entrySalt = None\<rparr>),
           (''oasys'', \<lparr>entryAddress = ''0x2'', entryDeployer = None, entrySalt = Some ''s''\<rparr>)])] =
      Inr (d', [''LendingPool,s,0x2'']) \<and>
     json_get d' (entry_path ''LendingPool'' ''testnet'') =
       Some \<lparr>entryAddress = ''0x2'', entryDeployer = None, entrySalt = None\<rparr>"
  (is "\<exists>d'. printAddressAndSalt ?d = _ \<and> _")
proof -
  obtain d' where run: "printAddressAndSalt ?d = Inr (d', [''LendingPool,s,0x2''])"
    by (simp add: printAddressAndSalt_def copyAddress_def saltLine_def in_template_def)
  have k: "plain_key ''LendingPool''" by (simp add: plain_key_def)
  from addresses_copied [of ?d] run k
  have "json_get d' (entry_path ''LendingPool'' ''testnet'') =
      (case (True, json_get ?d (entry_path ''LendingPool'' ''oasys'')) of
            (True, Some oasys) \<Rightarrow>
              map_option (\<lambda>e. e\<lparr>entryAddress := entryAddress oasys\<rparr>) (json_get ?d (entry_path ''LendingPool'' ''testnet''))
          | _ \<Rightarrow> json_get ?d (entry_path ''LendingPool'' ''testnet''))"
    by simp
  with run show ?thesis by (simp add: json_get_path [OF k])
qed

subsection \<open>Checks and networks\<close>

lemma shiden_checks_throw:
  assumes "thisNetwork R = ''shiden''"
  shows "refuses (checkFallbackOracle R Q)" "refuses (checkPriceAggregator R Q)"
proof -
  have "map_of (ReserveAssets PalmyConfig) ''shiden'' = None" by (simp add: PalmyConfig_def)
  then have "refuses (assetPrices R Q target)" for target
    using assms by (simp add: refuses_def assetPrices_def entriesOf_def bindA_def)
  moreover have "reads_only (oracleAddresses R)"
    by (auto simp: reads_only_def oracleAddresses_def thenA_def bindA_def guardA_def requireA_def split: option.split)
  ultimately show "refuses (checkFallbackOracle R Q)" "refuses (checkPriceAggregator R Q)"
    unfolding checkFallbackOracle_def checkPriceAggregator_def by (auto intro: refuses_after)
qed

text \<open>The explorers belong to configured networks, with the chain id of the network, and are the networks on
  which verification is supported.\<close>

lemma explorer_chains_match:
  "map ccNetwork customChains = SUPPORTED_ETHERSCAN_NETWORKS \<and>
   (\<forall>c \<in> set customChains. map_option ncChainId (map_of (hardhatNetworks mnemonic wallets fork block) (ccNetwork c)) =
      Some (Some (ccChainId c)))"
  by (simp add: customChains_def SUPPORTED_ETHERSCAN_NETWORKS_def hardhatNetworks_def getCommonNetworkConfig_def)

text \<open>The gas of the public networks is a price in wei: it exceeds the block gas limit of the local network.\<close>

lemma network_gas_is_a_price:
  "ncGas (getCommonNetworkConfig mnemonic ''testnet'' 9372) = Some (65 * GWEI)"
  "DEFAULT_BLOCK_GAS_LIMIT < 65 * GWEI"
  by (simp_all add: getCommonNetworkConfig_def NETWORKS_DEFAULT_GAS_def DEFAULT_BLOCK_GAS_LIMIT_def GWEI_def)

text \<open>The runtime is set up once.\<close>

lemma setDre_once: "setDre forkId headId e' (fst (setDre forkId headId e dre)) = (fst (setDre forkId headId e dre), [])"
  by (simp add: setDre_def)

lemma printed_contracts:
  assumes "plain_key i" "map_of d i = Some entries" "map_of entries network = Some e"
  shows "i @ '': '' @ entryAddress e \<in> set (printContracts network d)"
proof -
  have "(i, entries) \<in> set d" using assms(2) by (rule map_of_SomeD)
  with assms(3) have "(i, entries) \<in> set (filter (\<lambda>(_, value). map_of value network \<noteq> None) d)" by simp
  then show ?thesis using assms(3) unfolding printContracts_def Let_def by (force simp: image_iff)
qed

end
