(* ===== verification/Spec2Isabelle.thy ===== *)
theory Spec2Isabelle
  imports PoolClaims PoolSafety ScenarioClaims ContractClaims SolidityErrors MigrationClaims SuiteClaims PermitClaims FullClaims
begin

text \<open>
  Verification development for palmy-protocol, a lending protocol: contracts in Solidity under
  \<open>src/contracts\<close>, and a TypeScript program that deploys, configures and tests them.  The
  development models the TypeScript program, and of the contracts what its scenario tests drive and
  predict: the arithmetic, the pool with the tokens of its reserves, and the permits.

  \<^bold>\<open>The parts of the program.\<close>  The \<^emph>\<open>lending oracle\<close>
  (\<open>test-suites/test-palmy/helpers/utils/calculations.ts\<close>) computes, from the state of a reserve and
  of a user before an action, the state both should have after it.  The \<^emph>\<open>scenario actions\<close>
  (\<open>actions.ts\<close>) read the chain, send one transaction to the lending pool, read again and compare with
  the oracle; the \<^emph>\<open>scenario engine\<close> (\<open>scenario-engine.ts\<close>) interprets stories, lists of actions.
  The \<^emph>\<open>helpers\<close> (\<open>src/helpers\<close>) hold market parameters, the JSON database of deployed contracts,
  linking and deployment of contracts, and the set-up of reserves and oracles; the \<^emph>\<open>tasks\<close>
  (\<open>src/tasks\<close>) run them in order.  They interact through the chain, the database and the files.

  \<^bold>\<open>Theories, from the bottom.\<close>
  \<^item> \<^theory_text>\<open>Prelude\<close>: values that may be \<open>undefined\<close>, JavaScript objects as association lists, decimal
    and hexadecimal numerals.  \<^theory_text>\<open>Types\<close>, \<^theory_text>\<open>Constants\<close>, \<^theory_text>\<open>Markets\<close>: \<open>helpers/types.ts\<close>,
    \<open>helpers/constants.ts\<close>, \<open>markets/palmy\<close>.
  \<^item> \<^theory_text>\<open>BigNumber\<close>: the interface of bignumber.js, a locale \<open>bignumber\<close>, interpreted on integers;
    \<^theory_text>\<open>RayMath\<close>: \<open>utils/math.ts\<close>.
  \<^item> \<^theory_text>\<open>Calculations\<close>, \<^theory_text>\<open>ReserveOracle\<close>, \<^theory_text>\<open>UserOracle\<close>: the oracle, its building blocks, the
    reserve and the user after each action; \<^theory_text>\<open>RateModel\<close>, \<^theory_text>\<open>OracleFacts\<close>, \<^theory_text>\<open>ReserveFacts\<close>,
    \<^theory_text>\<open>UserFacts\<close>: what they compute as functions on integers; \<^theory_text>\<open>OracleClaims\<close>: properties.
  \<^item> \<^theory_text>\<open>Effects\<close>: asynchronous code as functions on a world of transactions, database and files; a
    locale \<open>lowdb\<close> for the database package, interpreted on the JSON file.
  \<^item> \<^theory_text>\<open>Comparison\<close>, \<^theory_text>\<open>Readers\<close>, \<^theory_text>\<open>Actions\<close>, \<^theory_text>\<open>ScenarioEngine\<close>: the scenario tests;
    \<^theory_text>\<open>TestEnvironment\<close>: connecting contracts, suites and snapshots (\<open>make-suite.ts\<close>), with a locale
    \<open>evm_node\<close> for the node, interpreted on the node of Hardhat;
    \<^theory_text>\<open>CheckClaims\<close>, \<^theory_text>\<open>ScenarioFacts\<close>, \<^theory_text>\<open>ScenarioClaims\<close>, \<^theory_text>\<open>SuiteClaims\<close>: properties.
  \<^item> \<^theory_text>\<open>Collections\<close>, \<^theory_text>\<open>Runtime\<close>, \<^theory_text>\<open>Deployments\<close>, \<^theory_text>\<open>Getters\<close>, \<^theory_text>\<open>OracleSetup\<close>,
    \<^theory_text>\<open>ReserveInit\<close>: the helpers, one definition per exported function; \<^theory_text>\<open>HelperClaims\<close>,
    \<^theory_text>\<open>DeployClaims\<close>, \<^theory_text>\<open>InitClaims\<close>, \<^theory_text>\<open>HandoverClaims\<close>, \<^theory_text>\<open>MarketClaims\<close>: properties.
  \<^item> \<^theory_text>\<open>Tasks\<close>, \<^theory_text>\<open>Migrations\<close>: the tasks that deploy, initialise, upgrade and operate the market;
    \<^theory_text>\<open>TaskClaims\<close>, \<^theory_text>\<open>MigrationClaims\<close>: properties.
  \<^item> \<^theory_text>\<open>FullTasks\<close>: the older chains of \<open>tasks/full\<close> and \<open>tasks/dev\<close>; \<^theory_text>\<open>ReportTasks\<close>: explorer
    verification, oracle checks, the printed database, deploying one more asset; \<^theory_text>\<open>NetworkConfig\<close>: the
    networks of \<open>hardhat.config.ts\<close> and \<open>buidler.config.ts\<close>; \<^theory_text>\<open>FullClaims\<close>: properties.
  \<^item> \<^theory_text>\<open>Permits\<close>: the typed data of \<open>contracts-helpers.ts\<close> and \<open>permit\<close> of \<open>LToken.sol\<close>, with the digest of
    the standard EIP-712 between them; \<^theory_text>\<open>PermitClaims\<close>: properties.
  \<^item> \<^theory_text>\<open>SolidityMath\<close>, \<^theory_text>\<open>SolidityRates\<close>, \<^theory_text>\<open>SolidityErrors\<close>, \<^theory_text>\<open>ContractClaims\<close>: the contracts'
    256-bit arithmetic, interest and error codes, and their agreement with the TypeScript side.
  \<^item> \<^theory_text>\<open>PoolContract\<close>: the tokens of a reserve and \<open>ReserveLogic.sol\<close>; \<^theory_text>\<open>PoolActions\<close>: the users'
    operations of \<open>LendingPool.sol\<close> with their validation, and the answers of the data provider;
    \<^theory_text>\<open>PoolFacts\<close>, \<^theory_text>\<open>PoolOperations\<close>: what an operation changes, and that the oracle's expectations
    agree with it; \<^theory_text>\<open>PoolSamples\<close>: runs on concrete pools; \<^theory_text>\<open>PoolClaims\<close>: properties;
    \<^theory_text>\<open>PoolSteps\<close>: the calls of users, the pools reachable by them and the steps of a call, inductive
    relations, with a locale \<open>reserve_invariant\<close> interpreted for supplies and for holdings;
    \<^theory_text>\<open>PoolSafety\<close>: what holds of every reachable pool.

  \<^bold>\<open>Correspondence.\<close>  Definitions have the names of the functions they translate.  A state the code
  keeps in an object is a record with the same fields; a field that may be \<open>undefined\<close> is an option;
  an enum is a datatype with its strings.  Code that may throw returns a sum, the left value being
  the message; an asynchronous function is an \<open>action\<close>, a function from the world to such a sum and
  the new world.  A transaction that reverts leaves the world as it was; one that succeeds is
  appended to the list of transactions.  What the chain answers is a function of the transactions
  sent so far, of which nothing is assumed unless a property says so.  The contracts' words are
  256 bits wide, and an operation that reverts is the left value of a sum.

  \<^bold>\<open>What the lemmas show.\<close>  The oracle conserves tokens, keeps pools balanced and rates settled, undoes
  a borrow by a repayment, and predicts the contracts: rates, indices and interest, and a reserve after
  a deposit or a withdrawal of the pool, agree with the contracts up to the tolerance of the comparison.
  The comparison is exact about that tolerance.  A story that passes has made exactly the calls it announces, and one that fails stops
  at its first failing action; suites leave the chain as they found it.  What is registered is found by every reader; deployments register
  where getters look, and what was deployed can be initialised; the right of administration that configuring lends to a helper contract is
  given back on success and is not on failure.  In every pool reachable by its users' calls supplies are the sums of balances, deposits
  have not shrunk but by withdrawals, and no call takes from others than its caller.  The parameters of
  the market pass the checks of the contracts.  A signed permit is accepted by the token and authorises nothing else.  The older
  deployment chains cannot complete, whatever the network and the database.

  \<^bold>\<open>Bounds and termination.\<close>  No fuel is used: loops of the program run over lists, and the retry
  loop of the verification counts down.  Numerals are read and printed by terminating recursion.
  The agreement with the contracts holds whenever the contract call does not revert.

  \<^bold>\<open>Not modelled.\<close>  Progress output on the console, and the tasks \<open>print-config\<close> and \<open>oasys-check\<close>, which
  only print what contracts answer.  What the block explorer answers, which the code catches.  Compiler
  and plugin settings.  Of the contracts: liquidations, flash loans, transfers of lTokens, the
  incentives controller, the administration of reserves, the oracles and adapters.  The packages (bignumber.js, lowdb, ethers, eth-sig-util, Hardhat) and the hash and signature
  functions are parameters; where a property relies on one, a hypothesis states the documented behaviour.
\<close>

end
